(* ===== verification/Prelude.thy ===== *)
theory Prelude
  imports Complex_Main "HOL-Library.Sublist"
begin

text \<open>
  Shared vocabulary of the FocusTube development. Python strings are
  sequences of Unicode code points, so a \<open>str\<close> of the source is a
  \<open>pystr\<close>, a list of code points (\<open>nat\<close>); an ASCII literal of the source
  is written \<open>py ''...''\<close>. Python's \<open>needle in haystack\<close> on strings is
  \<open>contains\<close>, proved equal to the library's contiguous \<open>sublist\<close>. The
  scores of the classifier (Python floats) are exact rationals \<open>score\<close>;
  timestamps (\<open>datetime.utcnow()\<close>) are integers counting seconds.
  The collections \<open>pystr_defs\<close> (how literals and string helpers unfold)
  and \<open>model_simps\<close> (facts the component proofs share) carry the
  automation of the later theories.
\<close>

named_theorems pystr_defs "unfolding rules for Python string literals and helpers"
named_theorems model_simps "facts about the model shared by the component proofs"

type_synonym pystr = "nat list"
type_synonym score = rat
type_synonym timestamp = int

definition py :: "string \<Rightarrow> pystr" where
  "py s = map of_char s"

declare py_def [pystr_defs]

text \<open>A score of the \<open>VideoClassification\<close> schema lies in \<open>[0, 1]\<close>.\<close>

definition in_unit :: "score \<Rightarrow> bool" where
  "in_unit x \<longleftrightarrow> 0 \<le> x \<and> x \<le> 1"

text \<open>Python exceptions the core can raise, as values.\<close>

datatype py_error = AttributeError | MultipleResultsFound

text \<open>\<open>s.startswith(p)\<close>: \<open>starts_with p s\<close>.\<close>

fun starts_with :: "pystr \<Rightarrow> pystr \<Rightarrow> bool" where
  "starts_with [] _ = True"
| "starts_with (x # xs) [] = False"
| "starts_with (x # xs) (y # ys) = (if x = y then starts_with xs ys else False)"

text \<open>Python's substring test \<open>n in h\<close>: \<open>contains n h\<close>.\<close>

fun contains :: "pystr \<Rightarrow> pystr \<Rightarrow> bool" where
  "contains n [] = (n = [])"
| "contains n (c # cs) = (if starts_with n (c # cs) then True else contains n cs)"

text \<open>
  The scan \<open>for kw in kws: if kw in text: ...; break\<close> of the source fires
  exactly when some keyword of the list occurs: \<open>any_in kws text\<close>. Which
  keyword was first is \<open>find\<close>.
\<close>

fun any_in :: "pystr list \<Rightarrow> pystr \<Rightarrow> bool" where
  "any_in [] t = False"
| "any_in (k # kws) t = (if contains k t then True else any_in kws t)"

text \<open>\<open>sep.join(xs)\<close>.\<close>

fun py_join :: "pystr \<Rightarrow> pystr list \<Rightarrow> pystr" where
  "py_join sep [] = []"
| "py_join sep [x] = x"
| "py_join sep (x # y # zs) = x @ sep @ py_join sep (y # zs)"

lemma py_append [pystr_defs]: "py (a @ b) = py a @ py b"
  by (simp add: py_def)

lemma starts_with_iff_prefix: "starts_with p s \<longleftrightarrow> prefix p s"
  by (induction p s rule: starts_with.induct) auto

text \<open>The executable substring test is the library's contiguous sublist.\<close>

lemma contains_iff_sublist: "contains n h \<longleftrightarrow> sublist n h"
  by (induction h) (auto simp: starts_with_iff_prefix sublist_Cons_right)

lemma contains_Nil [simp]: "contains [] h"
  by (simp add: contains_iff_sublist)

lemma contains_append_mid [model_simps]: "contains n (a @ n @ b)"
  by (simp add: contains_iff_sublist)

lemma contains_set_subset: "contains n h \<Longrightarrow> set n \<subseteq> set h"
  by (simp add: contains_iff_sublist set_mono_sublist)

text \<open>A needle holding a code point the haystack lacks never occurs in it.\<close>

lemma not_contains_missing [model_simps]:
  "x \<in> set n \<Longrightarrow> x \<notin> set h \<Longrightarrow> \<not> contains n h"
  using contains_set_subset by blast

lemma contains_mono [model_simps]:
  "contains n h \<Longrightarrow> contains n (a @ h @ b)"
  by (auto simp: contains_iff_sublist intro: sublist_order.order_trans)

lemma any_in_iff: "any_in kws t \<longleftrightarrow> (\<exists>k \<in> set kws. contains k t)"
  by (induction kws) auto

lemma any_in_find: "any_in kws t \<longleftrightarrow> find (\<lambda>k. contains k t) kws \<noteq> None"
  by (auto simp: any_in_iff find_None_iff)

lemma any_in_append: "any_in (xs @ ys) t \<longleftrightarrow> any_in xs t \<or> any_in ys t"
  by (auto simp: any_in_iff)

lemma any_in_mono_text [model_simps]:
  "any_in kws t \<Longrightarrow> any_in kws (a @ t @ b)"
  by (auto simp: any_in_iff intro: contains_mono)

lemma find_SomeD [model_simps]: "find P xs = Some x \<Longrightarrow> x \<in> set xs \<and> P x"
  by (induction xs) (auto split: if_splits)

lemma py_join_notin:
  "x \<notin> set sep \<Longrightarrow> (\<forall>s \<in> set xs. x \<notin> set s) \<Longrightarrow> x \<notin> set (py_join sep xs)"
  by (induction sep xs rule: py_join.induct) auto

lemma ran_upd_subset [model_simps]: "ran (m(k \<mapsto> x)) \<subseteq> insert x (ran m)"
  by (auto simp: ran_def)

lemma set_py_ascii: "x \<in> set (py s) \<Longrightarrow> x < 256"
  by (auto simp: py_def)

end
