(* ===== verification/PyStr.thy ===== *)
theory PyStr
  imports Prelude
begin

text \<open>
  The Python \<open>str\<close> operations the core uses, on code points:
  \<open>str.lower\<close> (\<open>lower\<close>), \<open>str.isupper\<close> on one character
  (\<open>is_upper_cp\<close>, from the Unicode tables), \<open>str.upper\<close> (\<open>upper\<close>), \<open>str(n)\<close> of an integer (\<open>show_nat\<close>,
  \<open>show_int\<close>, with its inverse \<open>read_nat\<close> for \<open>int(s)\<close> of a digit
  string), \<open>str.isspace\<close> and \<open>str.strip()\<close> (\<open>is_space\<close>,
  \<open>py_strip\<close>) and the float format \<open>f"{x:.2f}"\<close> (\<open>fmt2\<close>).

  \<open>lower_cp\<close> is Python's lower-case mapping on ASCII, on Latin-1 and on the
  few letters outside Latin-1 whose lower case is ASCII or Latin-1
  (U+0130, U+0178, U+212A, U+212B); every other code point is kept. Python
  lowers more letters (Latin Extended, Greek, Cyrillic, ...), each to a code
  point outside ASCII and outside the code points of the classifier's
  patterns, so no keyword match of the core depends on them.
\<close>

definition lower_cp :: "nat \<Rightarrow> nat list" where
  "lower_cp c =
     (if 65 \<le> c \<and> c \<le> 90 then [c + 32]
      else if 192 \<le> c \<and> c \<le> 222 \<and> c \<noteq> 215 then [c + 32]
      else if c = 376 then [255]
      else if c = 304 then [105, 775]
      else if c = 8490 then [107]
      else if c = 8491 then [229]
      else [c])"

definition lower :: "pystr \<Rightarrow> pystr" where
  "lower s = concat (map lower_cp s)"

text \<open>
  \<open>str.isupper\<close> on one character: the code points Python 3.11 (Unicode
  14.0) reports as upper case, as runs \<open>(lo, hi, step)\<close> of every
  \<open>step\<close>-th code point from \<open>lo\<close> to \<open>hi\<close>; ASCII is tested first.
\<close>

definition upper_runs :: "(nat \<times> nat \<times> nat) list" where
  "upper_runs =
    [(192, 214, 1), (216, 222, 1), (256, 310, 2), (313, 327, 2), (330, 376, 2),
     (377, 381, 2), (385, 386, 1), (388, 390, 2), (391, 393, 2), (394, 395, 1),
     (398, 401, 1), (403, 404, 1), (406, 408, 1), (412, 413, 1), (415, 416, 1),
     (418, 422, 2), (423, 425, 2), (428, 430, 2), (431, 433, 2), (434, 435, 1),
     (437, 439, 2), (440, 440, 1), (444, 444, 1), (452, 452, 1), (455, 455, 1),
     (458, 458, 1), (461, 475, 2), (478, 494, 2), (497, 497, 1), (500, 502, 2),
     (503, 504, 1), (506, 562, 2), (570, 571, 1), (573, 574, 1), (577, 579, 2),
     (580, 582, 1), (584, 590, 2), (880, 882, 2), (886, 886, 1), (895, 895, 1),
     (902, 904, 2), (905, 906, 1), (908, 910, 2), (911, 913, 2), (914, 929, 1),
     (931, 939, 1), (975, 975, 1), (978, 980, 1), (984, 1006, 2), (1012, 1012, 1),
     (1015, 1017, 2), (1018, 1018, 1), (1021, 1071, 1), (1120, 1152, 2), (1162, 1216, 2),
     (1217, 1229, 2), (1232, 1326, 2), (1329, 1366, 1), (4256, 4293, 1), (4295, 4295, 1),
     (4301, 4301, 1), (5024, 5109, 1), (7312, 7354, 1), (7357, 7359, 1), (7680, 7828, 2),
     (7838, 7934, 2), (7944, 7951, 1), (7960, 7965, 1), (7976, 7983, 1), (7992, 7999, 1),
     (8008, 8013, 1), (8025, 8031, 2), (8040, 8047, 1), (8120, 8123, 1), (8136, 8139, 1),
     (8152, 8155, 1), (8168, 8172, 1), (8184, 8187, 1), (8450, 8450, 1), (8455, 8455, 1),
     (8459, 8461, 1), (8464, 8466, 1), (8469, 8469, 1), (8473, 8477, 1), (8484, 8490, 2),
     (8491, 8493, 1), (8496, 8499, 1), (8510, 8511, 1), (8517, 8517, 1), (8544, 8559, 1),
     (8579, 8579, 1), (9398, 9423, 1), (11264, 11311, 1), (11360, 11362, 2),
     (11363, 11364, 1), (11367, 11373, 2), (11374, 11376, 1), (11378, 11378, 1),
     (11381, 11381, 1), (11390, 11392, 1), (11394, 11490, 2), (11499, 11501, 2),
     (11506, 11506, 1), (42560, 42604, 2), (42624, 42650, 2), (42786, 42798, 2),
     (42802, 42862, 2), (42873, 42877, 2), (42878, 42886, 2), (42891, 42893, 2),
     (42896, 42898, 2), (42902, 42922, 2), (42923, 42926, 1), (42928, 42932, 1),
     (42934, 42948, 2), (42949, 42951, 1), (42953, 42953, 1), (42960, 42960, 1),
     (42966, 42968, 2), (42997, 42997, 1), (65313, 65338, 1), (66560, 66599, 1),
     (66736, 66771, 1), (66928, 66938, 1), (66940, 66954, 1), (66956, 66962, 1),
     (66964, 66965, 1), (68736, 68786, 1), (71840, 71871, 1), (93760, 93791, 1),
     (119808, 119833, 1), (119860, 119885, 1), (119912, 119937, 1), (119964, 119966, 2),
     (119967, 119967, 1), (119970, 119970, 1), (119973, 119974, 1), (119977, 119980, 1),
     (119982, 119989, 1), (120016, 120041, 1), (120068, 120069, 1), (120071, 120074, 1),
     (120077, 120084, 1), (120086, 120092, 1), (120120, 120121, 1), (120123, 120126, 1),
     (120128, 120132, 1), (120134, 120134, 1), (120138, 120144, 1), (120172, 120197, 1),
     (120224, 120249, 1), (120276, 120301, 1), (120328, 120353, 1), (120380, 120405, 1),
     (120432, 120457, 1), (120488, 120512, 1), (120546, 120570, 1), (120604, 120628, 1),
     (120662, 120686, 1), (120720, 120744, 1), (120778, 120778, 1), (125184, 125217, 1),
     (127280, 127305, 1), (127312, 127337, 1), (127344, 127369, 1)]"

definition is_upper_cp :: "nat \<Rightarrow> bool" where
  "is_upper_cp c \<longleftrightarrow>
     (65 \<le> c \<and> c \<le> 90) \<or>
     (128 \<le> c \<and> list_ex (\<lambda>(lo, hi, st). lo \<le> c \<and> c \<le> hi \<and> (c - lo) mod st = 0) upper_runs)"

text \<open>
  \<open>str.upper\<close> on ASCII and Latin-1 (U+00DF becomes \<open>SS\<close>, U+00FF becomes
  U+0178, U+00B5 becomes U+039C), and on every other code point whose upper
  case is ASCII: the dotless \<open>i\<close> (U+0131), the long \<open>s\<close> (U+017F) and the
  ligatures U+FB00 to U+FB06 (\<open>FF\<close>, \<open>FI\<close>, \<open>FL\<close>, \<open>FFI\<close>, \<open>FFL\<close>,
  \<open>ST\<close>, \<open>ST\<close>). Other code points are kept; Python maps them to upper
  case outside ASCII, so a string with one of them is no ASCII category name
  either way, which is all the classifier asks of \<open>upper\<close>.
\<close>

definition upper_cp :: "nat \<Rightarrow> nat list" where
  "upper_cp c =
     (if 97 \<le> c \<and> c \<le> 122 then [c - 32]
      else if 224 \<le> c \<and> c \<le> 254 \<and> c \<noteq> 247 then [c - 32]
      else if c = 255 then [376]
      else if c = 223 then [83, 83]
      else if c = 181 then [924]
      else if c = 305 then [73]
      else if c = 383 then [83]
      else if c = 64256 then [70, 70]
      else if c = 64257 then [70, 73]
      else if c = 64258 then [70, 76]
      else if c = 64259 then [70, 70, 73]
      else if c = 64260 then [70, 70, 76]
      else if c = 64261 \<or> c = 64262 then [83, 84]
      else [c])"

definition upper :: "pystr \<Rightarrow> pystr" where
  "upper s = concat (map upper_cp s)"

declare lower_cp_def [pystr_defs] lower_def [pystr_defs]
  upper_cp_def [pystr_defs] upper_def [pystr_defs]

fun show_nat :: "nat \<Rightarrow> pystr" where
  "show_nat n = (if n < 10 then [48 + n] else show_nat (n div 10) @ [48 + n mod 10])"

declare show_nat.simps [simp del]

definition show_int :: "int \<Rightarrow> pystr" where
  "show_int i = (if i < 0 then 45 # show_nat (nat (- i)) else show_nat (nat i))"

text \<open>Python's \<open>str.isspace\<close>, the characters \<open>int()\<close> and \<open>str.strip()\<close> remove.\<close>

definition is_space :: "nat \<Rightarrow> bool" where
  "is_space c \<longleftrightarrow> (9 \<le> c \<and> c \<le> 13) \<or> (28 \<le> c \<and> c \<le> 32) \<or> c = 133 \<or> c = 160 \<or> c = 5760 \<or>
     (8192 \<le> c \<and> c \<le> 8202) \<or> c = 8232 \<or> c = 8233 \<or> c = 8239 \<or> c = 8287 \<or> c = 12288"

definition py_strip :: "pystr \<Rightarrow> pystr" where
  "py_strip s = rev (dropWhile is_space (rev (dropWhile is_space s)))"

definition read_nat :: "pystr \<Rightarrow> nat" where
  "read_nat ds = foldl (\<lambda>a d. 10 * a + (d - 48)) 0 ds"

definition is_digit :: "nat \<Rightarrow> bool" where
  "is_digit c \<longleftrightarrow> 48 \<le> c \<and> c \<le> 57"

text \<open>
  \<open>f"{x:.2f}"\<close>: the sign, then \<open>|x|\<close> rounded to hundredths with ties
  to even. Python rounds the binary double nearest to the decimal; on the
  scores of this program (decimals with at most two places) both agree.
\<close>

definition round_half_even :: "rat \<Rightarrow> int" where
  "round_half_even x =
     (let n = \<lfloor>x\<rfloor>; f = x - of_int n
      in if f > 1/2 \<or> (f = 1/2 \<and> odd n) then n + 1 else n)"

definition fmt2 :: "rat \<Rightarrow> pystr" where
  "fmt2 x =
     (let r = round_half_even (\<bar>x\<bar> * 100)
      in (if x < 0 then [45] else []) @ show_nat (nat (r div 100)) @ [46]
         @ [48 + nat (r mod 100) div 10, 48 + nat (r mod 100) mod 10])"

declare show_int_def [pystr_defs] fmt2_def [pystr_defs] round_half_even_def [pystr_defs]

subsection \<open>Upper case\<close>

lemma is_upper_cp_ascii [pystr_defs]: "c < 128 \<Longrightarrow> is_upper_cp c \<longleftrightarrow> 65 \<le> c \<and> c \<le> 90"
  by (simp add: is_upper_cp_def)

subsection \<open>Lower case\<close>

lemma lower_append [model_simps]: "lower (a @ b) = lower a @ lower b"
  by (simp add: lower_def)

lemma lower_Nil [simp]: "lower [] = []"
  by (simp add: lower_def)

lemma lower_cp_no_376: "376 \<notin> set (lower_cp c)"
  by (simp add: lower_cp_def)

text \<open>No lower-cased string holds U+0178 (\<open>Y\<close> with diaeresis, upper case).\<close>

lemma lower_no_376 [model_simps]: "376 \<notin> set (lower s)"
  by (auto simp: lower_def lower_cp_no_376)

lemma lower_cp_ascii: "c < 128 \<Longrightarrow> x \<in> set (lower_cp c) \<Longrightarrow> x < 128"
  by (auto simp: lower_cp_def split: if_splits)

subsection \<open>Decimal digits\<close>

lemma show_nat_digits: "x \<in> set (show_nat n) \<Longrightarrow> is_digit x"
proof (induction n rule: show_nat.induct)
  case (1 n)
  then show ?case
    by (cases "n < 10") (auto simp: show_nat.simps [of n] is_digit_def)
qed

lemma show_nat_not_Nil [simp]: "show_nat n \<noteq> []"
  by (subst show_nat.simps) simp

lemma read_nat_snoc: "read_nat (ds @ [d]) = 10 * read_nat ds + (d - 48)"
  by (simp add: read_nat_def)

text \<open>\<open>int(str(n)) = n\<close>.\<close>

theorem read_show_nat: "read_nat (show_nat n) = n"
proof (induction n rule: show_nat.induct)
  case (1 n)
  show ?case
  proof (cases "n < 10")
    case True
    then show ?thesis by (simp add: show_nat.simps [of n] read_nat_def)
  next
    case False
    then have "read_nat (show_nat n) = 10 * read_nat (show_nat (n div 10)) + n mod 10"
      by (simp add: show_nat.simps [of n] read_nat_snoc)
    also have "\<dots> = n" using "1.IH" False by simp
    finally show ?thesis .
  qed
qed

end
