(* ===== verification/Video.thy ===== *)
theory Video
  imports PyStr
begin

text \<open>
  The video metadata record the core consumes: the dictionary built by
  \<open>YouTubeService._format_video\<close> (src/backend/app/services/youtube_service.py),
  restricted to the keys the classifier and the filter engine read. Every key
  is always present in that dictionary; \<open>channel_title\<close> and \<open>language\<close>
  may hold \<open>None\<close> (the API's snippet may lack them), the other strings
  default to the empty string. The counts, thumbnail and publication date are
  never read by the core and are left out.
\<close>

record video =
  video_id :: pystr
  title :: pystr
  description :: pystr
  channel_title :: "pystr option"
  tags :: "pystr list"
  duration_seconds :: int
  is_short :: bool
  language :: "pystr option"

text \<open>\<open>YouTubeService._is_short\<close>: at most 60 seconds, or a \<open>#short\<close> tag in the title.\<close>

definition is_short_video :: "int \<Rightarrow> pystr \<Rightarrow> bool" where
  "is_short_video d t =
     (if d \<le> 60 then True
      else if contains (py ''#shorts'') (lower t) \<or> contains (py ''#short'') (lower t) then True
      else False)"

end
