(* ===== verification/Classifier.thy ===== *)
theory Classifier
  imports Video
begin

text \<open>
  The heuristic content classifier, \<open>AIClassifier._fallback_classification\<close>
  (src/backend/app/services/ai_classifier.py). Its keyword tables are the
  definitions \<open>*_keywords\<close>, \<open>music_channel_indicators\<close> and
  \<open>clickbait_patterns\<close>, copied in the source's order. The cascade of
  category stages works on the three locals \<open>category\<close>,
  \<open>entertainment_score\<close> and \<open>depth_score\<close> (record \<open>cascade\<close>); each
  stage is one definition, \<open>classify_cascade\<close> composes them in the source's
  order, \<open>duration_adjust\<close> and \<open>clickbait\<close> are the last two blocks, and
  \<open>fallback_classification\<close> is the whole method, \<open>Inl AttributeError\<close>
  where \<open>video.get("channel_title", "").lower()\<close> meets \<open>None\<close>.
\<close>

record classification =
  category :: pystr
  confidence_score :: score
  entertainment_score :: score
  depth_score :: score
  clickbait_score :: score

abbreviation ENTERTAINMENT :: pystr where "ENTERTAINMENT \<equiv> py ''ENTERTAINMENT''"
abbreviation MUSIC :: pystr where "MUSIC \<equiv> py ''MUSIC''"
abbreviation GAMING :: pystr where "GAMING \<equiv> py ''GAMING''"
abbreviation COMEDY :: pystr where "COMEDY \<equiv> py ''COMEDY''"
abbreviation EDUCATION :: pystr where "EDUCATION \<equiv> py ''EDUCATION''"
abbreviation SCIENCE_TECH :: pystr where "SCIENCE_TECH \<equiv> py ''SCIENCE_TECH''"
abbreviation HOWTO_STYLE :: pystr where "HOWTO_STYLE \<equiv> py ''HOWTO_STYLE''"

named_theorems classifier_tables "the keyword tables of the heuristic classifier"

subsection \<open>Keyword tables\<close>

definition music_keywords :: "pystr list" where
  "music_keywords = map py
    [''song'', ''music'', ''album'', ''concert'', ''lyrics'', ''lyrical'', ''audio'',
     ''official video'', ''official audio'', ''music video'', ''full song'',
     ''video song'', ''vedio song'',
     ''lofi'', ''lo-fi'', ''hip hop'', ''rap'', ''rock'', ''pop'', ''jazz'', ''classical'',
     ''edm'', ''dubstep'', ''remix'', ''cover'', ''acoustic'', ''instrumental'',
     ''tollywood'', ''bollywood'', ''kollywood'', ''sandalwood'',
     ''telugu'', ''hindi'', ''tamil'', ''kannada'', ''malayalam'', ''bhojpuri'',
     ''item song'', ''romantic song'', ''melody'', ''gaana'', ''gana'',
     ''promo song'', ''title song'', ''theme song'', ''trending song'',
     ''singer'', ''vocalist'', ''rapper'', ''dj'', ''producer'',
     ''beats'', ''track'', ''playlist'', ''mixtape'',
     ''live performance'', ''stage'', ''concert'', ''mtv'', ''spotify'', ''gaana'']"

definition music_channel_indicators :: "pystr list" where
  "music_channel_indicators = map py
    [''music'', ''records'', ''audio'', ''songs'', ''entertainment'', ''media'',
     ''films'', ''pictures'', ''studios'', ''mangavaram'', ''lahari'', ''aditya'',
     ''zee'', ''t-series'', ''sony'', ''tips'', ''saregama'', ''eros'']"

definition gaming_keywords :: "pystr list" where
  "gaming_keywords = map py
    [''gameplay'', ''gaming'', ''playthrough'', ''stream'', ''gamer'', ''game'',
     ''walkthrough'', ''let's play'', ''esports'', ''twitch'', ''streamer'',
     ''minecraft'', ''fortnite'', ''valorant'', ''gta'', ''cod'', ''pubg'',
     ''elden ring'', ''zelda'', ''pokemon'', ''nintendo'', ''playstation'', ''xbox'',
     ''speedrun'', ''pro player'', ''rank'', ''competitive'']"

definition comedy_keywords :: "pystr list" where
  "comedy_keywords = map py
    [''comedy'', ''funny'', ''laugh'', ''humor'', ''joke'', ''stand up'', ''skit'',
     ''prank'', ''roast'', ''meme'', ''compilation'', ''try not to laugh'',
     ''fails'', ''bloopers'', ''reaction'', ''challenge'']"

definition general_entertainment :: "pystr list" where
  "general_entertainment = map py
    [''movie'', ''film'', ''trailer'', ''teaser'', ''scenes'', ''clips'',
     ''vlog'', ''day in'', ''haul'', ''unboxing'', ''reaction'',
     ''celebrity'', ''interview'', ''talk show'', ''reality'', ''drama'']"

definition education_keywords :: "pystr list" where
  "education_keywords = map py
    [''tutorial'', ''course'', ''lecture'', ''lesson'', ''learn'', ''teaching'',
     ''education'', ''educational'', ''academy'', ''university'', ''college'',
     ''programming'', ''coding'', ''developer'', ''software development'',
     ''science'', ''physics'', ''chemistry'', ''mathematics'', ''biology'',
     ''history'', ''geography'', ''economics'', ''psychology'',
     ''certification'', ''exam prep'', ''study with me'', ''study tips'']"

definition tech_keywords :: "pystr list" where
  "tech_keywords = map py
    [''technology'', ''tech review'', ''python'', ''javascript'', ''java'',
     ''machine learning'', ''ai'', ''artificial intelligence'', ''data science'',
     ''cloud'', ''devops'', ''kubernetes'', ''docker'', ''programming tutorial'',
     ''code'', ''developer'', ''engineering'', ''computer science'']"

definition howto_keywords :: "pystr list" where
  "howto_keywords = map py
    [''how to'', ''diy'', ''tips'', ''tricks'', ''guide'', ''step by step'',
     ''recipe'', ''cooking'', ''baking'', ''makeup'', ''fashion'', ''style'',
     ''workout'', ''fitness'', ''yoga'', ''meditation'', ''self improvement'']"

text \<open>
  The source file spells three emoji as the UTF-8 bytes of each emoji read
  as Windows-1252 (mojibake): U+00F0 U+0178 U+02DC U+00B1 for the screaming
  face, U+00F0 U+0178 U+201D U+00A5 for the fire, U+00F0 U+0178 U+201D U+00B4
  for the red circle. These are the strings the program compares.
\<close>

definition emoji_scream :: pystr where "emoji_scream = [240, 376, 732, 177]"
definition emoji_fire :: pystr where "emoji_fire = [240, 376, 8221, 165]"
definition emoji_red_circle :: pystr where "emoji_red_circle = [240, 376, 8221, 180]"

definition clickbait_patterns :: "pystr list" where
  "clickbait_patterns =
     map py [''you won't believe'', ''gone wrong'', ''shocking'', ''exposed'', ''prank'']
     @ [emoji_scream, emoji_fire]
     @ map py [''secret'', ''revealed'', ''must see'',
               ''insane'', ''crazy'', ''epic fail'', ''best ever'', ''unbelievable'']"

declare music_keywords_def [classifier_tables] music_channel_indicators_def [classifier_tables]
  gaming_keywords_def [classifier_tables] comedy_keywords_def [classifier_tables]
  general_entertainment_def [classifier_tables] education_keywords_def [classifier_tables]
  tech_keywords_def [classifier_tables] howto_keywords_def [classifier_tables]
  clickbait_patterns_def [classifier_tables] emoji_scream_def [classifier_tables]
  emoji_fire_def [classifier_tables] emoji_red_circle_def [classifier_tables]

subsection \<open>The category cascade\<close>

record cascade =
  c_category :: pystr
  c_entertainment :: score
  c_depth :: score

definition cascade_init :: cascade where
  "cascade_init = \<lparr>c_category = ENTERTAINMENT, c_entertainment = 1/2, c_depth = 1/2\<rparr>"

text \<open>Priority 1: music keywords, unconditionally; then music channel names.\<close>

definition music_stage :: "pystr \<Rightarrow> cascade \<Rightarrow> cascade" where
  "music_stage text s =
     (if any_in music_keywords text
      then \<lparr>c_category = MUSIC, c_entertainment = 8/10, c_depth = 2/10\<rparr> else s)"

definition music_channel_stage :: "pystr \<Rightarrow> cascade \<Rightarrow> cascade" where
  "music_channel_stage channel s =
     (if c_category s \<noteq> MUSIC then
        (if any_in music_channel_indicators channel
         then \<lparr>c_category = MUSIC, c_entertainment = 7/10, c_depth = 3/10\<rparr> else s)
      else s)"

text \<open>
  Gaming, comedy, education, tech and how-to share one shape: only while the
  category is still \<open>ENTERTAINMENT\<close>, the first keyword of the list found in
  the text sets the category and both scores.
\<close>

definition category_stage ::
  "pystr \<Rightarrow> score \<Rightarrow> score \<Rightarrow> pystr list \<Rightarrow> pystr \<Rightarrow> cascade \<Rightarrow> cascade" where
  "category_stage cat e d kws text s =
     (if c_category s = ENTERTAINMENT then
        (if any_in kws text then \<lparr>c_category = cat, c_entertainment = e, c_depth = d\<rparr> else s)
      else s)"

definition general_stage :: "pystr \<Rightarrow> cascade \<Rightarrow> cascade" where
  "general_stage text s =
     (if c_category s = ENTERTAINMENT then
        (if any_in general_entertainment text then s\<lparr>c_entertainment := 7/10, c_depth := 3/10\<rparr> else s)
      else s)"

definition classify_cascade :: "pystr \<Rightarrow> pystr \<Rightarrow> cascade" where
  "classify_cascade text channel =
     (let s = music_stage text cascade_init;
          s = music_channel_stage channel s;
          s = category_stage GAMING (8/10) (3/10) gaming_keywords text s;
          s = category_stage COMEDY (9/10) (1/10) comedy_keywords text s;
          s = general_stage text s;
          s = category_stage EDUCATION (2/10) (8/10) education_keywords text s;
          s = category_stage SCIENCE_TECH (3/10) (7/10) tech_keywords text s;
          s = category_stage HOWTO_STYLE (4/10) (6/10) howto_keywords text s
      in s)"

subsection \<open>Duration, clickbait and the whole method\<close>

definition duration_adjust :: "int \<Rightarrow> cascade \<Rightarrow> cascade" where
  "duration_adjust duration s =
     (if duration < 60 then
        (if c_category s \<notin> {MUSIC}
         then s\<lparr>c_entertainment := max (c_entertainment s) (7/10),
                c_depth := min (c_depth s) (3/10)\<rparr>
         else s)
      else if duration > 1200 then s\<lparr>c_depth := min (c_depth s + 2/10) 1\<rparr>
      else s)"

definition caps_ratio :: "pystr \<Rightarrow> rat" where
  "caps_ratio t = of_nat (length (filter is_upper_cp t)) / of_nat (max (length t) 1)"

definition clickbait :: "pystr \<Rightarrow> pystr \<Rightarrow> score" where
  "clickbait text original_title =
     (let c = (if any_in clickbait_patterns text then 7/10 else 1/10);
          c = (if caps_ratio original_title > 1/2 then max c (5/10) else c);
          c = (if contains (py ''!!!'') original_title \<or> contains (py ''???'') original_title
                  \<or> contains emoji_red_circle original_title
               then max c (4/10) else c)
      in c)"

text \<open>The combined text \<open>f"{title} {' '.join(tags)} {description} {channel}"\<close>.\<close>

definition classifier_text :: "video \<Rightarrow> pystr \<Rightarrow> pystr" where
  "classifier_text v channel =
     lower (title v) @ [32] @ py_join [32] (map lower (tags v)) @ [32]
     @ take 500 (lower (description v)) @ [32] @ channel"

definition fallback_classification :: "video \<Rightarrow> py_error + classification" where
  "fallback_classification v =
     (case channel_title v of
        None \<Rightarrow> Inl AttributeError
      | Some ch \<Rightarrow>
          (let channel = lower ch;
               text = classifier_text v channel;
               s = duration_adjust (duration_seconds v) (classify_cascade text channel)
           in Inr \<lparr>category = c_category s, confidence_score = 6/10,
                   entertainment_score = c_entertainment s, depth_score = c_depth s,
                   clickbait_score = clickbait text (title v)\<rparr>))"

subsection \<open>The contract of the classifier\<close>

text \<open>
  \<open>VideoClassification\<close> (src/backend/app/schemas/video.py) validates every
  score into \<open>[0, 1]\<close>. \<open>heuristic_categories\<close> is the set the cascade
  can emit.
\<close>

definition classification_wf :: "classification \<Rightarrow> bool" where
  "classification_wf c \<longleftrightarrow>
     in_unit (confidence_score c) \<and> in_unit (entertainment_score c) \<and>
     in_unit (depth_score c) \<and> in_unit (clickbait_score c)"

definition heuristic_categories :: "pystr list" where
  "heuristic_categories =
     [EDUCATION, SCIENCE_TECH, HOWTO_STYLE, MUSIC, GAMING, COMEDY, ENTERTAINMENT]"

text \<open>
  The cascade as a declarative table: the rows in priority order, each the
  keyword list, the string it is matched against and the result; the first
  row that matches decides, the general-entertainment nudge applies only when
  none does.
\<close>

definition cascade_rows :: "pystr \<Rightarrow> pystr \<Rightarrow> (pystr list \<times> pystr \<times> cascade) list" where
  "cascade_rows text channel =
    [(music_keywords, text, \<lparr>c_category = MUSIC, c_entertainment = 8/10, c_depth = 2/10\<rparr>),
     (music_channel_indicators, channel, \<lparr>c_category = MUSIC, c_entertainment = 7/10, c_depth = 3/10\<rparr>),
     (gaming_keywords, text, \<lparr>c_category = GAMING, c_entertainment = 8/10, c_depth = 3/10\<rparr>),
     (comedy_keywords, text, \<lparr>c_category = COMEDY, c_entertainment = 9/10, c_depth = 1/10\<rparr>),
     (education_keywords, text, \<lparr>c_category = EDUCATION, c_entertainment = 2/10, c_depth = 8/10\<rparr>),
     (tech_keywords, text, \<lparr>c_category = SCIENCE_TECH, c_entertainment = 3/10, c_depth = 7/10\<rparr>),
     (howto_keywords, text, \<lparr>c_category = HOWTO_STYLE, c_entertainment = 4/10, c_depth = 6/10\<rparr>)]"

definition cascade_spec :: "pystr \<Rightarrow> pystr \<Rightarrow> cascade" where
  "cascade_spec text channel =
     (case find (\<lambda>(kws, src, r). any_in kws src) (cascade_rows text channel) of
        Some (_, _, r) \<Rightarrow> r
      | None \<Rightarrow> if any_in general_entertainment text
                then cascade_init\<lparr>c_entertainment := 7/10, c_depth := 3/10\<rparr> else cascade_init)"

subsection \<open>Example inputs\<close>

definition graph_lecture :: video where
  "graph_lecture =
     \<lparr>video_id = py ''g1'', title = py ''Graph Theory Lecture'', description = [],
      channel_title = Some (py ''CS Dojo''), tags = [], duration_seconds = 600,
      is_short = False, language = None\<rparr>"

definition coding_tutorial :: video where
  "coding_tutorial =
     \<lparr>video_id = py ''c1'', title = py ''Learn Coding Tutorial'', description = [],
      channel_title = Some (py ''CS Dojo''), tags = [], duration_seconds = 600,
      is_short = False, language = None\<rparr>"

definition prank_short :: video where
  "prank_short =
     \<lparr>video_id = py ''p1'', title = py ''YOU WON'T BELIEVE THIS SHOCKING PRANK!!!'',
      description = [], channel_title = Some (py ''Daily Pranks''), tags = [],
      duration_seconds = 45, is_short = True, language = None\<rparr>"

subsection \<open>Stages\<close>

lemma category_stage_skip [model_simps]:
  "c_category s \<noteq> ENTERTAINMENT \<Longrightarrow> category_stage c e d kws t s = s"
  by (simp add: category_stage_def)

lemma general_stage_skip [model_simps]:
  "c_category s \<noteq> ENTERTAINMENT \<Longrightarrow> general_stage t s = s"
  by (simp add: general_stage_def)

text \<open>The stage-by-stage code computes the table's first match.\<close>

lemma classify_cascade_eq_spec: "classify_cascade text channel = cascade_spec text channel"
  by (simp add: classify_cascade_def cascade_spec_def cascade_rows_def music_stage_def
      music_channel_stage_def category_stage_def general_stage_def cascade_init_def py_def)

lemma cascade_spec_wf:
  "c_category (cascade_spec t ch) \<in> set heuristic_categories \<and>
   in_unit (c_entertainment (cascade_spec t ch)) \<and> in_unit (c_depth (cascade_spec t ch))"
proof (cases "find (\<lambda>(kws, src, r). any_in kws src) (cascade_rows t ch)")
  case None
  then show ?thesis
    by (simp add: cascade_spec_def cascade_init_def heuristic_categories_def in_unit_def)
next
  case (Some row)
  then have "row \<in> set (cascade_rows t ch)" by (simp add: find_SomeD)
  with Some show ?thesis
    by (auto simp: cascade_spec_def cascade_rows_def heuristic_categories_def in_unit_def)
qed

lemma duration_adjust_category [simp]:
  "c_category (duration_adjust d s) = c_category s"
  by (simp add: duration_adjust_def)

lemma duration_adjust_wf:
  "in_unit (c_entertainment s) \<Longrightarrow> in_unit (c_depth s) \<Longrightarrow>
   in_unit (c_entertainment (duration_adjust d s)) \<and> in_unit (c_depth (duration_adjust d s))"
  by (auto simp: duration_adjust_def in_unit_def)

lemma clickbait_values:
  "clickbait x t \<in> {1/10, 4/10, 5/10, 7/10}"
  by (simp add: clickbait_def Let_def max_def)

lemma clickbait_in_unit: "in_unit (clickbait x t)"
  using clickbait_values [of x t] by (auto simp: in_unit_def)

lemma fallback_Inr:
  "channel_title v = Some ch \<Longrightarrow>
   fallback_classification v =
     Inr \<lparr>category = c_category (cascade_spec (classifier_text v (lower ch)) (lower ch)),
          confidence_score = 6/10,
          entertainment_score = c_entertainment (duration_adjust (duration_seconds v)
                                  (cascade_spec (classifier_text v (lower ch)) (lower ch))),
          depth_score = c_depth (duration_adjust (duration_seconds v)
                                  (cascade_spec (classifier_text v (lower ch)) (lower ch))),
          clickbait_score = clickbait (classifier_text v (lower ch)) (title v)\<rparr>"
  by (simp add: fallback_classification_def classify_cascade_eq_spec Let_def)

lemma fallback_classification_wf_aux:
  "fallback_classification v = Inr c \<Longrightarrow>
   classification_wf c \<and> category c \<in> set heuristic_categories"
  using cascade_spec_wf duration_adjust_wf clickbait_in_unit
  by (auto simp: fallback_classification_def classification_wf_def classify_cascade_eq_spec
      in_unit_def Let_def split: option.splits)

lemma cascade_spec_music:
  "any_in music_keywords t \<Longrightarrow> c_category (cascade_spec t ch) = MUSIC"
  by (simp add: cascade_spec_def cascade_rows_def)

lemma cascade_spec_gaming:
  "\<not> any_in music_keywords t \<Longrightarrow> \<not> any_in music_channel_indicators ch \<Longrightarrow>
   any_in gaming_keywords t \<Longrightarrow> c_category (cascade_spec t ch) = GAMING"
  by (simp add: cascade_spec_def cascade_rows_def)

lemma contains_trans: "contains a b \<Longrightarrow> contains b c \<Longrightarrow> contains a c"
  by (auto simp: contains_iff_sublist intro: sublist_order.order_trans)

lemma contains_title_text:
  "contains n (lower (title v)) \<Longrightarrow> contains n (classifier_text v ch)"
  using contains_mono [of n "lower (title v)" "[]"] by (simp add: classifier_text_def)

lemma any_in_memb: "k \<in> set kws \<Longrightarrow> contains k t \<Longrightarrow> any_in kws t"
  by (auto simp: any_in_iff)

lemma text_no_376: "376 \<notin> set (classifier_text v (lower ch))"
proof -
  have "376 \<notin> set (py_join [32] (map lower (tags v)))"
    by (rule py_join_notin) (auto simp: lower_no_376)
  moreover have "376 \<notin> set (take 500 (lower (description v)))"
    using lower_no_376 in_set_takeD by fastforce
  ultimately show ?thesis
    by (simp add: classifier_text_def lower_no_376)
qed

lemmas example_inputs = graph_lecture_def coding_tutorial_def prank_short_def

lemmas eval_classifier = classifier_text_def cascade_spec_def cascade_rows_def
  duration_adjust_def clickbait_def caps_ratio_def cascade_init_def

lemma fallback_graph_lecture:
  "fallback_classification graph_lecture =
     Inr \<lparr>category = MUSIC, confidence_score = 6/10, entertainment_score = 8/10,
          depth_score = 2/10, clickbait_score = 1/10\<rparr>"
  using fallback_Inr [of graph_lecture "py ''CS Dojo''"]
  by (simp add: example_inputs eval_classifier classifier_tables pystr_defs)

lemma fallback_coding_tutorial:
  "fallback_classification coding_tutorial =
     Inr \<lparr>category = GAMING, confidence_score = 6/10, entertainment_score = 8/10,
          depth_score = 3/10, clickbait_score = 1/10\<rparr>"
  using fallback_Inr [of coding_tutorial "py ''CS Dojo''"]
  by (simp add: example_inputs eval_classifier classifier_tables pystr_defs)

lemma fallback_prank_short:
  "fallback_classification prank_short =
     Inr \<lparr>category = GAMING, confidence_score = 6/10, entertainment_score = 8/10,
          depth_score = 3/10, clickbait_score = 7/10\<rparr>"
  using fallback_Inr [of prank_short "py ''Daily Pranks''"]
  by (simp add: example_inputs eval_classifier classifier_tables pystr_defs)

subsection \<open>Properties of the classifier\<close>

text \<open>
  Claim C3: every classification the heuristic produces satisfies the
  \<open>VideoClassification\<close> constraints (all four scores in \<open>[0, 1]\<close>) and
  its category is one of the seven the cascade can emit.
\<close>

theorem fallback_classification_wf:
  "fallback_classification v = Inr c \<Longrightarrow>
   classification_wf c \<and> category c \<in> set heuristic_categories"
  by (rule fallback_classification_wf_aux)

theorem fallback_classification_wf_witness:
  "fallback_classification graph_lecture =
     Inr \<lparr>category = MUSIC, confidence_score = 6/10, entertainment_score = 8/10,
          depth_score = 2/10, clickbait_score = 1/10\<rparr> \<and>
   classification_wf \<lparr>category = MUSIC, confidence_score = 6/10, entertainment_score = 8/10,
          depth_score = 2/10, clickbait_score = 1/10\<rparr>"
  using fallback_classification_wf [OF fallback_graph_lecture] fallback_graph_lecture by simp

text \<open>
  Claim C5: the stage-by-stage cascade computes the declarative table's first
  match: the first row (music keywords, music channel names, gaming, comedy,
  education, tech, how-to) whose keywords occur decides category and scores, a
  later stage never overrides an earlier one, and the general-entertainment
  nudge applies only when no row matches. So, against the "PRIORITY ORDER
  (first match wins)" of the docstring, which puts general entertainment
  third and comedy fourth, a general-entertainment word (movie, reaction)
  never stops the cascade: comedy is checked before it, and education after
  it still decides.
\<close>

theorem classify_cascade_first_match:
  "classify_cascade txt channel = cascade_spec txt channel \<and>
   (\<not> any_in music_keywords txt \<and> \<not> any_in music_channel_indicators channel \<and>
    \<not> any_in gaming_keywords txt \<longrightarrow>
      (any_in comedy_keywords txt \<longrightarrow> c_category (classify_cascade txt channel) = COMEDY) \<and>
      (\<not> any_in comedy_keywords txt \<and> any_in education_keywords txt \<longrightarrow>
         c_category (classify_cascade txt channel) = EDUCATION))"
  by (simp add: classify_cascade_eq_spec cascade_spec_def cascade_rows_def)

theorem classify_cascade_first_match_witness:
  "any_in general_entertainment (py ''funny movie reaction'') \<and>
   c_category (classify_cascade (py ''funny movie reaction'') []) = COMEDY \<and>
   any_in general_entertainment (py ''movie tutorial'') \<and>
   c_category (classify_cascade (py ''movie tutorial'') []) = EDUCATION"
proof -
  have a: "\<not> any_in music_keywords (py ''funny movie reaction'')"
    "\<not> any_in gaming_keywords (py ''funny movie reaction'')"
    "any_in comedy_keywords (py ''funny movie reaction'')"
    "any_in general_entertainment (py ''funny movie reaction'')"
    by (simp_all add: classifier_tables py_def)
  have b: "\<not> any_in music_keywords (py ''movie tutorial'')"
    "\<not> any_in gaming_keywords (py ''movie tutorial'')"
    "\<not> any_in comedy_keywords (py ''movie tutorial'')"
    "any_in education_keywords (py ''movie tutorial'')"
    "any_in general_entertainment (py ''movie tutorial'')"
    by (simp_all add: classifier_tables py_def)
  have c: "\<not> any_in music_channel_indicators []" by (simp add: music_channel_indicators_def py_def)
  have 1: "c_category (classify_cascade (py ''funny movie reaction'') []) = COMEDY"
    using classify_cascade_first_match [of "py ''funny movie reaction''" "[]"] a c by blast
  have 2: "c_category (classify_cascade (py ''movie tutorial'') []) = EDUCATION"
    using classify_cascade_first_match [of "py ''movie tutorial''" "[]"] b c by blast
  show ?thesis using 1 2 a(4) b(5) by blast
qed

text \<open>
  Claim C27: the heuristic fails exactly when the video's channel title is
  \<open>None\<close>, and then with \<open>AttributeError\<close> (\<open>None.lower()\<close>); every
  other input is classified.
\<close>

theorem fallback_classification_error:
  "fallback_classification v = Inl e \<longleftrightarrow> channel_title v = None \<and> e = AttributeError"
  by (auto simp: fallback_classification_def Let_def split: option.splits)

text \<open>
  The clickbait score is the maximum of three independent signals
  (phrase 0.7 else 0.1, capitals 0.5, punctuation 0.4), not their sum, and it
  reaches 0.7 exactly when a clickbait phrase occurs.
\<close>

theorem clickbait_independent_maxima:
  "clickbait txt t =
     max (if any_in clickbait_patterns txt then 7/10 else 1/10)
       (max (if 1/2 < caps_ratio t then 5/10 else 0)
            (if contains (py ''!!!'') t \<or> contains (py ''???'') t \<or> contains emoji_red_circle t
             then 4/10 else 0)) \<and>
   (7/10 \<le> clickbait txt t \<longleftrightarrow> any_in clickbait_patterns txt)"
  by (auto simp: clickbait_def Let_def max_def)

text \<open>
  the two emoji entries of \<open>clickbait_patterns\<close> never match: they
  hold U+0178, which no lower-cased text holds, so they are dead code.
\<close>

theorem emoji_patterns_never_match:
  "\<not> contains emoji_scream (classifier_text v (lower ch)) \<and>
   \<not> contains emoji_fire (classifier_text v (lower ch))"
proof -
  have "376 \<in> set emoji_scream" "376 \<in> set emoji_fire"
    by (simp_all add: emoji_scream_def emoji_fire_def)
  then show ?thesis using text_no_376 not_contains_missing by blast
qed

text \<open>
  Claim C37: keywords are matched as substrings without word boundaries: every
  video whose lower-cased title holds \<open>graph\<close> (graph theory, photography,
  biography) is MUSIC, through \<open>rap\<close>, and every video whose title holds
  \<open>coding\<close> is GAMING, through \<open>cod\<close>, unless a music keyword or a music
  channel name decides first; education is never reached for either.
\<close>

theorem substring_misclassification:
  assumes ch: "channel_title v = Some ch" and c: "fallback_classification v = Inr c"
  shows "(contains (py ''graph'') (lower (title v)) \<longrightarrow> category c = MUSIC) \<and>
         (contains (py ''coding'') (lower (title v)) \<and>
          \<not> any_in music_keywords (classifier_text v (lower ch)) \<and>
          \<not> any_in music_channel_indicators (lower ch) \<longrightarrow> category c = GAMING)"
proof -
  have cat: "category c = c_category (cascade_spec (classifier_text v (lower ch)) (lower ch))"
    using c fallback_Inr [OF ch] by auto
  have rap: "py ''rap'' \<in> set music_keywords" "contains (py ''rap'') (py ''graph'')"
    by (simp_all add: music_keywords_def py_def)
  have cod: "py ''cod'' \<in> set gaming_keywords" "contains (py ''cod'') (py ''coding'')"
    by (simp_all add: gaming_keywords_def py_def)
  show ?thesis
  proof (intro conjI impI)
    assume "contains (py ''graph'') (lower (title v))"
    then have "contains (py ''rap'') (classifier_text v (lower ch))"
      using rap(2) contains_trans contains_title_text by blast
    then show "category c = MUSIC" using cat rap(1) any_in_memb cascade_spec_music by metis
  next
    assume h: "contains (py ''coding'') (lower (title v)) \<and>
      \<not> any_in music_keywords (classifier_text v (lower ch)) \<and>
      \<not> any_in music_channel_indicators (lower ch)"
    then have "contains (py ''cod'') (classifier_text v (lower ch))"
      using cod(2) contains_trans contains_title_text by blast
    then have "any_in gaming_keywords (classifier_text v (lower ch))" using cod(1) any_in_memb by blast
    with h show "category c = GAMING" using cat cascade_spec_gaming by metis
  qed
qed

theorem substring_misclassification_witness:
  "category (projr (fallback_classification graph_lecture)) = MUSIC \<and>
   category (projr (fallback_classification coding_tutorial)) = GAMING"
proof -
  have g: "channel_title graph_lecture = Some (py ''CS Dojo'')"
    "contains (py ''graph'') (lower (title graph_lecture))"
    by (simp_all add: graph_lecture_def pystr_defs)
  have t: "channel_title coding_tutorial = Some (py ''CS Dojo'')"
    "contains (py ''coding'') (lower (title coding_tutorial))"
    "\<not> any_in music_keywords (classifier_text coding_tutorial (lower (py ''CS Dojo'')))"
    "\<not> any_in music_channel_indicators (lower (py ''CS Dojo''))"
    by (simp_all add: coding_tutorial_def classifier_text_def classifier_tables pystr_defs)
  show ?thesis
    using substring_misclassification [OF g(1) fallback_graph_lecture]
      substring_misclassification [OF t(1) fallback_coding_tutorial]
      fallback_graph_lecture fallback_coding_tutorial g(2) t(2-4) by simp
qed

text \<open>
  Claim C26: a video under 60 seconds that is not MUSIC ends with an
  entertainment score of at least 0.7 and a depth score of at most 0.3.
\<close>

theorem short_video_adjust:
  "duration_seconds v < 60 \<Longrightarrow> fallback_classification v = Inr c \<Longrightarrow> category c \<noteq> MUSIC \<Longrightarrow>
   7/10 \<le> entertainment_score c \<and> depth_score c \<le> 3/10"
  by (auto simp: fallback_classification_def duration_adjust_def Let_def split: option.splits)

theorem short_video_adjust_witness:
  "duration_seconds prank_short < 60 \<and> GAMING \<noteq> MUSIC \<and>
   fallback_classification prank_short =
     Inr \<lparr>category = GAMING, confidence_score = 6/10, entertainment_score = 8/10,
          depth_score = 3/10, clickbait_score = 7/10\<rparr>"
proof -
  have d: "duration_seconds prank_short < 60" by (simp add: prank_short_def)
  have "GAMING \<noteq> MUSIC" by (simp add: py_def)
  with d show ?thesis
    using short_video_adjust [OF d fallback_prank_short] fallback_prank_short by simp
qed

text \<open>
  Music detection has the highest priority: when a music keyword
  occurs in the combined text the category is MUSIC, whatever else matches.
\<close>

theorem music_keyword_priority:
  "channel_title v = Some ch \<Longrightarrow> any_in music_keywords (classifier_text v (lower ch)) \<Longrightarrow>
   fallback_classification v = Inr c \<Longrightarrow> category c = MUSIC"
  by (auto simp: fallback_Inr cascade_spec_music)

theorem music_keyword_priority_witness:
  "channel_title graph_lecture = Some (py ''CS Dojo'') \<and>
   any_in music_keywords (classifier_text graph_lecture (lower (py ''CS Dojo''))) \<and>
   category (projr (fallback_classification graph_lecture)) = MUSIC"
proof -
  have h1: "channel_title graph_lecture = Some (py ''CS Dojo'')" by (simp add: graph_lecture_def)
  have h2: "any_in music_keywords (classifier_text graph_lecture (lower (py ''CS Dojo'')))"
    by (simp add: graph_lecture_def classifier_text_def music_keywords_def pystr_defs)
  show ?thesis
    using h1 h2 music_keyword_priority [OF h1 h2 fallback_graph_lecture] fallback_graph_lecture
    by simp
qed

end
