(* ===== verification/FocusMode.thy ===== *)
theory FocusMode
  imports PyStr
begin

text \<open>
  The focus-mode configuration, the ORM class \<open>FocusMode\<close>
  (src/backend/app/models/focus_mode.py), and the preset table
  \<open>PRESET_MODES\<close> of src/backend/app/routers/modes.py. Identifiers (UUIDs)
  are natural numbers. The free-text \<open>description\<close> and the timestamps
  \<open>created_at\<close>/\<open>updated_at\<close> are never read by the core and are left out.
  The JSON list columns may hold JSON \<open>null\<close>; every reader of them tests
  them by truthiness first, so \<open>null\<close> and \<open>[]\<close> behave alike and both are
  the empty list here.
\<close>

record focus_mode =
  mode_id :: nat
  user_id :: nat
  name :: pystr
  mode_description :: "pystr option"
  is_active :: bool
  is_locked :: bool
  lock_until :: "timestamp option"
  allowed_categories :: "pystr list"
  blocked_categories :: "pystr list"
  min_duration_seconds :: int
  allowed_languages :: "pystr list"
  max_clickbait_score :: score
  max_entertainment_score :: score
  block_shorts :: bool
  block_trending :: bool
  daily_time_limit_minutes :: "int option"
  blocked_keywords :: "pystr list"

text \<open>A new row: the column defaults of \<open>FocusMode\<close>.\<close>

definition new_mode :: "nat \<Rightarrow> nat \<Rightarrow> pystr \<Rightarrow> focus_mode" where
  "new_mode mid uid n =
     \<lparr>mode_id = mid, user_id = uid, name = n, mode_description = None, is_active = False,
      is_locked = False, lock_until = None, allowed_categories = [], blocked_categories = [],
      min_duration_seconds = 0, allowed_languages = [], max_clickbait_score = 1,
      max_entertainment_score = 1, block_shorts = False, block_trending = False,
      daily_time_limit_minutes = None, blocked_keywords = []\<rparr>"

subsection \<open>Presets\<close>

definition preset_study :: "nat \<Rightarrow> nat \<Rightarrow> focus_mode" where
  "preset_study mid uid = (new_mode mid uid (py ''Study Mode''))
     \<lparr>mode_description := Some (py ''Focus on educational content only''),
      allowed_categories := [py ''EDUCATION''],
      blocked_categories := map py [''ENTERTAINMENT'', ''COMEDY'', ''GAMING'', ''MUSIC'',
                                    ''SCIENCE_TECH'', ''HOWTO_STYLE''],
      min_duration_seconds := 180, max_clickbait_score := 5/10,
      max_entertainment_score := 6/10, block_shorts := True, block_trending := False,
      blocked_keywords := map py [''prank'', ''gone wrong'', ''challenge'']\<rparr>"

definition preset_deep_work :: "nat \<Rightarrow> nat \<Rightarrow> focus_mode" where
  "preset_deep_work mid uid = (new_mode mid uid (py ''Deep Work''))
     \<lparr>mode_description := Some (py ''Maximum focus with strict filtering''),
      allowed_categories := map py [''EDUCATION'', ''SCIENCE_TECH''],
      blocked_categories := map py [''ENTERTAINMENT'', ''COMEDY'', ''GAMING'',
                                    ''NEWS_POLITICS'', ''MUSIC'', ''SPORTS''],
      min_duration_seconds := 300, max_clickbait_score := 3/10,
      max_entertainment_score := 4/10, block_shorts := True, block_trending := True,
      daily_time_limit_minutes := Some 60\<rparr>"

definition preset_music :: "nat \<Rightarrow> nat \<Rightarrow> focus_mode" where
  "preset_music mid uid = (new_mode mid uid (py ''Music Mode''))
     \<lparr>mode_description := Some (py ''Background music only''),
      allowed_categories := [py ''MUSIC''], blocked_categories := [],
      min_duration_seconds := 0, max_clickbait_score := 1,
      max_entertainment_score := 1, block_shorts := False, block_trending := False\<rparr>"

definition preset_relax :: "nat \<Rightarrow> nat \<Rightarrow> focus_mode" where
  "preset_relax mid uid = (new_mode mid uid (py ''Relax Mode''))
     \<lparr>mode_description := Some (py ''Controlled leisure with time limits''),
      allowed_categories := [], blocked_categories := [py ''NEWS_POLITICS''],
      min_duration_seconds := 0, max_clickbait_score := 5/10,
      max_entertainment_score := 8/10, block_shorts := True, block_trending := False,
      daily_time_limit_minutes := Some 60\<rparr>"

definition preset_gaming :: "nat \<Rightarrow> nat \<Rightarrow> focus_mode" where
  "preset_gaming mid uid = (new_mode mid uid (py ''Gaming Mode''))
     \<lparr>mode_description := Some (py ''Gaming content only''),
      allowed_categories := map py [''GAMING'', ''ENTERTAINMENT''], blocked_categories := [],
      min_duration_seconds := 0, max_clickbait_score := 7/10,
      max_entertainment_score := 1, block_shorts := False, block_trending := False\<rparr>"

definition preset_news :: "nat \<Rightarrow> nat \<Rightarrow> focus_mode" where
  "preset_news mid uid = (new_mode mid uid (py ''News Mode''))
     \<lparr>mode_description := Some (py ''Stay informed with news content''),
      allowed_categories := map py [''NEWS_POLITICS'', ''EDUCATION''],
      blocked_categories := map py [''ENTERTAINMENT'', ''COMEDY'', ''GAMING''],
      min_duration_seconds := 0, max_clickbait_score := 4/10,
      max_entertainment_score := 5/10, block_shorts := True, block_trending := False\<rparr>"

definition preset_fitness :: "nat \<Rightarrow> nat \<Rightarrow> focus_mode" where
  "preset_fitness mid uid = (new_mode mid uid (py ''Fitness Mode''))
     \<lparr>mode_description := Some (py ''Sports and fitness content''),
      allowed_categories := map py [''SPORTS'', ''HOWTO_STYLE'', ''PEOPLE_BLOGS''],
      blocked_categories := map py [''GAMING'', ''COMEDY''],
      min_duration_seconds := 0, max_clickbait_score := 5/10,
      max_entertainment_score := 7/10, block_shorts := False, block_trending := False\<rparr>"

definition preset_travel :: "nat \<Rightarrow> nat \<Rightarrow> focus_mode" where
  "preset_travel mid uid = (new_mode mid uid (py ''Travel Mode''))
     \<lparr>mode_description := Some (py ''Travel and exploration content''),
      allowed_categories := map py [''TRAVEL_EVENTS'', ''PEOPLE_BLOGS'', ''FILM_ANIMATION''],
      blocked_categories := map py [''GAMING'', ''NEWS_POLITICS''],
      min_duration_seconds := 0, max_clickbait_score := 5/10,
      max_entertainment_score := 8/10, block_shorts := False, block_trending := False\<rparr>"

definition preset_tech :: "nat \<Rightarrow> nat \<Rightarrow> focus_mode" where
  "preset_tech mid uid = (new_mode mid uid (py ''Tech Mode''))
     \<lparr>mode_description := Some (py ''Technology and science content''),
      allowed_categories := map py [''SCIENCE_TECH'', ''EDUCATION'', ''HOWTO_STYLE''],
      blocked_categories := map py [''ENTERTAINMENT'', ''COMEDY''],
      min_duration_seconds := 300, max_clickbait_score := 4/10,
      max_entertainment_score := 5/10, block_shorts := True, block_trending := False\<rparr>"

text \<open>\<open>PRESET_MODES.items()\<close>, in the dictionary's order.\<close>

definition preset_modes :: "(nat \<Rightarrow> nat \<Rightarrow> focus_mode) list" where
  "preset_modes = [preset_study, preset_deep_work, preset_music, preset_relax, preset_gaming,
                   preset_news, preset_fitness, preset_travel, preset_tech]"

declare new_mode_def [model_simps]

end
