(* ===== verification/FilterEngine.thy ===== *)
theory FilterEngine
  imports Classifier FocusMode
begin

text \<open>
  The policy engine, \<open>FilterEngine.check_video\<close>
  (src/backend/app/services/filter_engine.py): a chain of hard checks, the
  first failing one deciding. The returned dictionary \<open>{"allowed": True}\<close>
  is \<open>Allow\<close>, \<open>{"allowed": False, "reason": r}\<close> is \<open>Block r\<close>, with
  \<open>r\<close> the source's f-string. \<open>check_spec\<close> states the contract as an
  ordered list of (check fails, reason) pairs, \<open>admits\<close> as the conjunction
  of the checks; the lemmas show that \<open>check_video\<close> implements both.
\<close>

datatype verdict = Allow | Block pystr

definition shorts_reason :: pystr where
  "shorts_reason = py ''Shorts are blocked in this focus mode''"

definition too_short_reason :: "int \<Rightarrow> pystr" where
  "too_short_reason m =
     py ''Video too short (minimum '' @ show_int (m div 60) @ py '' minutes required)''"

definition category_blocked_reason :: "pystr \<Rightarrow> pystr" where
  "category_blocked_reason c = py ''Category '' @ [39] @ c @ [39] @ py '' is blocked in this focus mode''"

definition category_not_allowed_reason :: "pystr \<Rightarrow> pystr" where
  "category_not_allowed_reason c =
     py ''Category '' @ [39] @ c @ [39] @ py '' is not allowed in this focus mode''"

definition language_reason :: "pystr \<Rightarrow> pystr" where
  "language_reason l = py ''Language '' @ [39] @ l @ [39] @ py '' is not allowed in this focus mode''"

definition clickbait_reason :: "score \<Rightarrow> pystr" where
  "clickbait_reason x = py ''Video detected as clickbait (score: '' @ fmt2 x @ py '')''"

definition entertaining_reason :: "score \<Rightarrow> pystr" where
  "entertaining_reason x =
     py ''Video too entertaining for this focus mode (score: '' @ fmt2 x @ py '')''"

definition keyword_reason :: "pystr \<Rightarrow> pystr" where
  "keyword_reason k = py ''Video contains blocked keyword: '' @ [39] @ k @ [39]"

lemmas reason_defs = shorts_reason_def too_short_reason_def category_blocked_reason_def
  category_not_allowed_reason_def language_reason_def clickbait_reason_def
  entertaining_reason_def keyword_reason_def

text \<open>Step 4: a language set and not in the allow-list; \<open>None\<close> and \<open>""\<close> are falsy.\<close>

definition language_blocked :: "focus_mode \<Rightarrow> pystr option \<Rightarrow> bool" where
  "language_blocked m l =
     (allowed_languages m \<noteq> [] \<and>
      (case l of None \<Rightarrow> False | Some s \<Rightarrow> s \<noteq> [] \<and> s \<notin> set (allowed_languages m)))"

text \<open>Step 7: the keyword, lower-cased, in the lower-cased title or description.\<close>

definition keyword_hit :: "video \<Rightarrow> pystr \<Rightarrow> bool" where
  "keyword_hit v k \<longleftrightarrow> contains (lower k) (lower (title v)) \<or> contains (lower k) (lower (description v))"

definition check_video :: "focus_mode \<Rightarrow> video \<Rightarrow> classification \<Rightarrow> verdict" where
  "check_video m v c =
     (if block_shorts m \<and> is_short v then Block shorts_reason
      else if duration_seconds v < min_duration_seconds m
      then Block (too_short_reason (min_duration_seconds m))
      else if blocked_categories m \<noteq> [] \<and> category c \<in> set (blocked_categories m)
      then Block (category_blocked_reason (category c))
      else if allowed_categories m \<noteq> [] \<and> category c \<notin> set (allowed_categories m)
      then Block (category_not_allowed_reason (category c))
      else if language_blocked m (language v)
      then Block (language_reason (the (language v)))
      else if clickbait_score c > max_clickbait_score m
      then Block (clickbait_reason (clickbait_score c))
      else if entertainment_score c > max_entertainment_score m
      then Block (entertaining_reason (entertainment_score c))
      else if blocked_keywords m \<noteq> [] then
        (case find (keyword_hit v) (blocked_keywords m) of
           Some k \<Rightarrow> Block (keyword_reason k)
         | None \<Rightarrow> Allow)
      else Allow)"

subsection \<open>The contract\<close>

text \<open>The checks in the order the policy puts them, each with its reason.\<close>

definition policy_checks :: "focus_mode \<Rightarrow> video \<Rightarrow> classification \<Rightarrow> (bool \<times> pystr) list" where
  "policy_checks m v c =
    [(block_shorts m \<and> is_short v, shorts_reason),
     (duration_seconds v < min_duration_seconds m, too_short_reason (min_duration_seconds m)),
     (category c \<in> set (blocked_categories m), category_blocked_reason (category c)),
     (allowed_categories m \<noteq> [] \<and> category c \<notin> set (allowed_categories m),
      category_not_allowed_reason (category c)),
     (language_blocked m (language v), language_reason (the (language v))),
     (max_clickbait_score m < clickbait_score c, clickbait_reason (clickbait_score c)),
     (max_entertainment_score m < entertainment_score c,
      entertaining_reason (entertainment_score c))]
    @ map (\<lambda>k. (keyword_hit v k, keyword_reason k)) (blocked_keywords m)"

definition check_spec :: "focus_mode \<Rightarrow> video \<Rightarrow> classification \<Rightarrow> verdict" where
  "check_spec m v c = (case find fst (policy_checks m v c) of Some (_, r) \<Rightarrow> Block r | None \<Rightarrow> Allow)"

definition admits :: "focus_mode \<Rightarrow> video \<Rightarrow> classification \<Rightarrow> bool" where
  "admits m v c \<longleftrightarrow>
     \<not> (block_shorts m \<and> is_short v) \<and> min_duration_seconds m \<le> duration_seconds v \<and>
     category c \<notin> set (blocked_categories m) \<and>
     (allowed_categories m = [] \<or> category c \<in> set (allowed_categories m)) \<and>
     \<not> language_blocked m (language v) \<and>
     clickbait_score c \<le> max_clickbait_score m \<and> entertainment_score c \<le> max_entertainment_score m \<and>
     (\<forall>k \<in> set (blocked_keywords m). \<not> keyword_hit v k)"

subsection \<open>Lemmas\<close>

lemma find_fst_map_keywords:
  "find fst (map (\<lambda>k. (keyword_hit v k, keyword_reason k)) ks) =
   map_option (\<lambda>k. (True, keyword_reason k)) (find (keyword_hit v) ks)"
  by (induction ks) auto

lemma check_video_eq_spec: "check_video m v c = check_spec m v c"
  by (auto simp: check_video_def check_spec_def policy_checks_def find_fst_map_keywords
      split: option.splits)

lemma find_keyword_None_iff:
  "find (keyword_hit v) ks = None \<longleftrightarrow> (\<forall>k \<in> set ks. \<not> keyword_hit v k)"
  by (auto simp: find_None_iff)

lemma check_video_Allow_iff_aux: "check_video m v c = Allow \<longleftrightarrow> admits m v c"
  by (auto simp: check_video_def admits_def find_keyword_None_iff not_less
      split: option.splits dest: find_SomeD)

lemma reasons_not_Nil:
  "shorts_reason \<noteq> []" "too_short_reason n \<noteq> []" "category_blocked_reason x \<noteq> []"
  "category_not_allowed_reason x \<noteq> []" "language_reason x \<noteq> []" "clickbait_reason s \<noteq> []"
  "entertaining_reason s \<noteq> []" "keyword_reason x \<noteq> []"
  by (simp_all add: reason_defs py_def)

lemma check_video_short_blocked: "block_shorts m \<Longrightarrow> is_short v \<Longrightarrow> check_video m v c \<noteq> Allow"
  by (simp add: check_video_def)

lemma admits_stricter:
  "admits (m\<lparr>blocked_keywords := blocked_keywords m @ ks,
              blocked_categories := blocked_categories m @ cs\<rparr>) v c \<Longrightarrow> admits m v c"
  by (simp add: admits_def language_blocked_def split: option.splits)

lemma check_video_trending_aux: "check_video (m\<lparr>block_trending := b\<rparr>) v c = check_video m v c"
  by (simp add: check_video_def language_blocked_def split: option.splits)

subsection \<open>Properties of the policy engine\<close>

text \<open>
  Claim C1: \<open>check_video\<close> blocks with the reason of the first failing check of
  the ordered policy \<open>policy_checks\<close> and allows exactly the videos that pass
  every check (\<open>admits\<close>).
\<close>

theorem check_video_contract:
  "check_video m v c = check_spec m v c \<and> (check_video m v c = Allow \<longleftrightarrow> admits m v c)"
  using check_video_eq_spec check_video_Allow_iff_aux by blast

text \<open>
  Claim C2: the shorts check comes first: a short video under a mode that
  blocks shorts is blocked with the shorts reason, whatever else fails.
\<close>

theorem shorts_checked_first:
  "block_shorts m \<Longrightarrow> is_short v \<Longrightarrow> check_video m v c = Block shorts_reason"
  by (simp add: check_video_def)

theorem shorts_checked_first_witness:
  "block_shorts (preset_relax 1 1) \<and> is_short prank_short \<and> min_duration_seconds (preset_relax 1 1) = 0
   \<and> check_video (preset_relax 1 1) prank_short
       \<lparr>category = GAMING, confidence_score = 6/10, entertainment_score = 8/10,
        depth_score = 3/10, clickbait_score = 7/10\<rparr> = Block shorts_reason"
  using shorts_checked_first [of "preset_relax 1 1" prank_short]
  by (simp add: preset_relax_def new_mode_def prank_short_def)

text \<open>
  A blocked verdict always carries a non-empty reason.
\<close>

theorem blocked_reason_nonempty:
  "check_video m v c = Block r \<Longrightarrow> r \<noteq> []"
  by (auto simp: check_video_def reasons_not_Nil split: if_splits option.splits)

theorem blocked_reason_nonempty_witness:
  "check_video (preset_relax 1 1) prank_short
     \<lparr>category = GAMING, confidence_score = 6/10, entertainment_score = 8/10,
      depth_score = 3/10, clickbait_score = 7/10\<rparr> = Block shorts_reason \<and> shorts_reason \<noteq> []"
proof -
  have h: "check_video (preset_relax 1 1) prank_short
     \<lparr>category = GAMING, confidence_score = 6/10, entertainment_score = 8/10,
      depth_score = 3/10, clickbait_score = 7/10\<rparr> = Block shorts_reason"
    by (simp add: check_video_def preset_relax_def new_mode_def prank_short_def)
  show ?thesis using h blocked_reason_nonempty [OF h] by simp
qed

text \<open>
  With empty allowed and blocked category lists the category of the
  classification never changes the verdict (an empty allow-list allows every
  category).
\<close>

theorem empty_category_lists_ignore_category:
  "allowed_categories m = [] \<Longrightarrow> blocked_categories m = [] \<Longrightarrow>
   check_video m v (c\<lparr>category := x\<rparr>) = check_video m v c"
  by (simp add: check_video_def)

theorem empty_category_lists_ignore_category_witness:
  "allowed_categories (new_mode 1 1 []) = [] \<and> blocked_categories (new_mode 1 1 []) = [] \<and>
   check_video (new_mode 1 1 []) graph_lecture
     \<lparr>category = ENTERTAINMENT, confidence_score = 6/10, entertainment_score = 8/10,
      depth_score = 2/10, clickbait_score = 1/10\<rparr> = Allow"
proof -
  have "check_video (new_mode 1 1 []) graph_lecture
     \<lparr>category = MUSIC, confidence_score = 6/10, entertainment_score = 8/10,
      depth_score = 2/10, clickbait_score = 1/10\<rparr> = Allow"
    by (simp add: check_video_def new_mode_def graph_lecture_def language_blocked_def)
  then show ?thesis
    using empty_category_lists_ignore_category [where m = "new_mode 1 1 []" and v = graph_lecture
        and c = "\<lparr>category = MUSIC, confidence_score = 6/10, entertainment_score = 8/10,
          depth_score = 2/10, clickbait_score = 1/10\<rparr>" and x = ENTERTAINMENT]
    by (simp add: new_mode_def)
qed

text \<open>
  The \<open>block_trending\<close> flag of a mode is never evaluated by the
  engine: the verdict does not depend on it.
\<close>

theorem block_trending_not_evaluated:
  "check_video (m\<lparr>block_trending := b\<rparr>) v c = check_video m v c"
  by (rule check_video_trending_aux)

text \<open>
  A video without a language is never blocked by the language
  allow-list: the verdict is the same for every allow-list.
\<close>

theorem missing_language_never_blocks:
  "language v = None \<Longrightarrow>
   check_video (m\<lparr>allowed_languages := ls\<rparr>) v c = check_video m v c"
  by (simp add: check_video_def language_blocked_def)

theorem missing_language_never_blocks_witness:
  "language graph_lecture = None \<and>
   check_video ((new_mode 1 1 [])\<lparr>allowed_languages := [py ''en'']\<rparr>) graph_lecture
     \<lparr>category = MUSIC, confidence_score = 6/10, entertainment_score = 8/10,
      depth_score = 2/10, clickbait_score = 1/10\<rparr> = Allow"
proof -
  have "check_video (new_mode 1 1 []) graph_lecture
     \<lparr>category = MUSIC, confidence_score = 6/10, entertainment_score = 8/10,
      depth_score = 2/10, clickbait_score = 1/10\<rparr> = Allow"
    by (simp add: check_video_def new_mode_def graph_lecture_def language_blocked_def)
  moreover have "language graph_lecture = None" by (simp add: graph_lecture_def)
  ultimately show ?thesis
    using missing_language_never_blocks [where v = graph_lecture and m = "new_mode 1 1 []"
        and ls = "[py ''en'']"]
    by simp
qed

text \<open>
  a stricter mode blocks at least what the mode blocks: adding
  blocked keywords and blocked categories never turns a block into an allow.
\<close>

theorem stricter_mode_blocks_more:
  "check_video m v c \<noteq> Allow \<Longrightarrow>
   check_video (m\<lparr>blocked_keywords := blocked_keywords m @ ks,
                   blocked_categories := blocked_categories m @ cs\<rparr>) v c \<noteq> Allow"
  using admits_stricter check_video_Allow_iff_aux by blast

theorem stricter_mode_blocks_more_witness:
  "check_video (preset_relax 1 1) prank_short
     \<lparr>category = GAMING, confidence_score = 6/10, entertainment_score = 8/10,
      depth_score = 3/10, clickbait_score = 7/10\<rparr> \<noteq> Allow \<and>
   check_video ((preset_relax 1 1)\<lparr>blocked_keywords := blocked_keywords (preset_relax 1 1) @ [py ''x''],
       blocked_categories := blocked_categories (preset_relax 1 1) @ [GAMING]\<rparr>) prank_short
     \<lparr>category = GAMING, confidence_score = 6/10, entertainment_score = 8/10,
      depth_score = 3/10, clickbait_score = 7/10\<rparr> \<noteq> Allow"
proof -
  have h: "check_video (preset_relax 1 1) prank_short
     \<lparr>category = GAMING, confidence_score = 6/10, entertainment_score = 8/10,
      depth_score = 3/10, clickbait_score = 7/10\<rparr> \<noteq> Allow"
    by (simp add: check_video_def preset_relax_def new_mode_def prank_short_def)
  show ?thesis using h stricter_mode_blocks_more [OF h] by simp
qed

text \<open>
  Claim C38: an empty string among the blocked keywords blocks every video that
  passes the earlier checks (it occurs in every title).
\<close>

theorem empty_keyword_blocks_all:
  "[] \<in> set (blocked_keywords m) \<Longrightarrow> check_video m v c \<noteq> Allow"
  using check_video_Allow_iff_aux [of m v c]
  by (auto simp: admits_def keyword_hit_def)

theorem empty_keyword_blocks_all_witness:
  "[] \<in> set (blocked_keywords ((new_mode 1 1 [])\<lparr>blocked_keywords := [[]]\<rparr>)) \<and>
   check_video ((new_mode 1 1 [])\<lparr>blocked_keywords := [[]]\<rparr>) graph_lecture
     \<lparr>category = MUSIC, confidence_score = 6/10, entertainment_score = 8/10,
      depth_score = 2/10, clickbait_score = 1/10\<rparr> \<noteq> Allow"
  using empty_keyword_blocks_all [of "(new_mode 1 1 [])\<lparr>blocked_keywords := [[]]\<rparr>" graph_lecture]
  by simp

end
