(* ===== verification/Cache.thy ===== *)
theory Cache
  imports Classifier
begin

text \<open>
  The score cache and the classifier's entry point
  (src/backend/app/services/ai_classifier.py, src/backend/app/models/content_cache.py).
  The \<open>content_cache\<close> table is a map from video id to a row
  (\<open>cache_db\<close>); \<open>get_cached\<close> treats an expired row as absent,
  \<open>cache_result\<close> updates the classification of an existing row (keeping its
  metadata snapshot) or inserts a new one, both expiring 24 hours after the
  analysis. \<open>classify_video\<close> threads the table through: a live row is
  returned verbatim, otherwise the heuristic (or the Gemini path) computes the
  classification and writes it through. The Gemini call itself is external:
  its outcome is an argument, \<open>None\<close> for any exception the \<open>try\<close> block
  catches (API error, unparsable JSON, a non-numeric score), otherwise the raw
  fields of the parsed JSON object, each \<open>None\<close> when the key is missing.
  A raised exception leaves the table as it was: the session is rolled back.
\<close>

record content_cache =
  cc_video_id :: pystr
  cc_title :: pystr
  cc_description :: pystr
  cc_channel_title :: "pystr option"
  cc_tags :: "pystr list"
  cc_duration_seconds :: int
  cc_is_short :: bool
  cc_language :: "pystr option"
  cc_category :: pystr
  cc_confidence_score :: score
  cc_entertainment_score :: score
  cc_depth_score :: score
  cc_clickbait_score :: score
  cc_analyzed_at :: timestamp
  cc_expires_at :: timestamp

type_synonym cache_db = "pystr \<rightharpoonup> content_cache"

text \<open>\<open>timedelta(hours=24)\<close> in seconds.\<close>

definition cache_ttl :: int where
  "cache_ttl = 24 * 3600"

definition is_expired :: "timestamp \<Rightarrow> content_cache \<Rightarrow> bool" where
  "is_expired now e \<longleftrightarrow> now > cc_expires_at e"

definition get_cached :: "cache_db \<Rightarrow> pystr \<Rightarrow> timestamp \<Rightarrow> content_cache option" where
  "get_cached db vid now =
     (case db vid of
        Some e \<Rightarrow> if \<not> is_expired now e then Some e else None
      | None \<Rightarrow> None)"

definition cached_classification :: "content_cache \<Rightarrow> classification" where
  "cached_classification e =
     \<lparr>category = cc_category e, confidence_score = cc_confidence_score e,
      entertainment_score = cc_entertainment_score e, depth_score = cc_depth_score e,
      clickbait_score = cc_clickbait_score e\<rparr>"

definition cache_result :: "cache_db \<Rightarrow> video \<Rightarrow> classification \<Rightarrow> timestamp \<Rightarrow> cache_db" where
  "cache_result db v c now =
     (case db (video_id v) of
        Some e \<Rightarrow> db(video_id v \<mapsto>
          e\<lparr>cc_category := category c, cc_confidence_score := confidence_score c,
            cc_entertainment_score := entertainment_score c, cc_depth_score := depth_score c,
            cc_clickbait_score := clickbait_score c, cc_analyzed_at := now,
            cc_expires_at := now + cache_ttl\<rparr>)
      | None \<Rightarrow> db(video_id v \<mapsto>
          \<lparr>cc_video_id = video_id v, cc_title = title v, cc_description = description v,
           cc_channel_title = channel_title v, cc_tags = tags v,
           cc_duration_seconds = duration_seconds v, cc_is_short = is_short v,
           cc_language = language v, cc_category = category c,
           cc_confidence_score = confidence_score c,
           cc_entertainment_score = entertainment_score c, cc_depth_score = depth_score c,
           cc_clickbait_score = clickbait_score c, cc_analyzed_at = now,
           cc_expires_at = now + cache_ttl\<rparr>))"

subsection \<open>The Gemini path\<close>

record ai_raw =
  raw_category :: "pystr option"
  raw_confidence :: "rat option"
  raw_entertainment :: "rat option"
  raw_depth :: "rat option"
  raw_clickbait :: "rat option"

definition ai_categories :: "pystr list" where
  "ai_categories = map py [''EDUCATION'', ''STUDY'', ''TECH'', ''MUSIC'', ''PODCAST'',
                           ''NEWS'', ''ENTERTAINMENT'', ''MEME'', ''CLICKBAIT'', ''GAMING'']"

definition clamp01 :: "rat \<Rightarrow> score" where
  "clamp01 x = min 1 (max 0 x)"

definition normalize_ai :: "ai_raw \<Rightarrow> classification" where
  "normalize_ai r =
     (let cat = upper (case raw_category r of None \<Rightarrow> ENTERTAINMENT | Some s \<Rightarrow> s);
          cat = (if cat \<notin> set ai_categories then ENTERTAINMENT else cat)
      in \<lparr>category = cat,
          confidence_score = clamp01 (case raw_confidence r of None \<Rightarrow> 1/2 | Some x \<Rightarrow> x),
          entertainment_score = clamp01 (case raw_entertainment r of None \<Rightarrow> 1/2 | Some x \<Rightarrow> x),
          depth_score = clamp01 (case raw_depth r of None \<Rightarrow> 1/2 | Some x \<Rightarrow> x),
          clickbait_score = clamp01 (case raw_clickbait r of None \<Rightarrow> 0 | Some x \<Rightarrow> x)\<rparr>)"

text \<open>The \<open>except\<close> branch calls the heuristic, whose own exception propagates.\<close>

definition classify_with_ai :: "video \<Rightarrow> ai_raw option \<Rightarrow> py_error + classification" where
  "classify_with_ai v resp =
     (case resp of Some r \<Rightarrow> Inr (normalize_ai r) | None \<Rightarrow> fallback_classification v)"

subsection \<open>The entry point\<close>

definition classify_video ::
  "cache_db \<Rightarrow> timestamp \<Rightarrow> video \<Rightarrow> bool \<Rightarrow> bool \<Rightarrow> ai_raw option \<Rightarrow>
   (py_error + classification) \<times> cache_db" where
  "classify_video db now v force_refresh use_ai resp =
     (case (if \<not> force_refresh then get_cached db (video_id v) now else None) of
        Some e \<Rightarrow> (Inr (cached_classification e), db)
      | None \<Rightarrow>
          (let r = (if \<not> use_ai then fallback_classification v else classify_with_ai v resp)
           in case r of
                Inl err \<Rightarrow> (Inl err, db)
              | Inr c \<Rightarrow> (Inr c, cache_result db v c now)))"

text \<open>Every live row of the table holds a valid classification.\<close>

definition cache_wf :: "cache_db \<Rightarrow> bool" where
  "cache_wf db \<longleftrightarrow> (\<forall>e \<in> ran db. classification_wf (cached_classification e))"

text \<open>Every row of the table holds one of the categories the heuristic emits.\<close>

definition heuristic_cache :: "cache_db \<Rightarrow> bool" where
  "heuristic_cache db \<longleftrightarrow> (\<forall>e \<in> ran db. cc_category e \<in> set heuristic_categories)"

text \<open>The classification the heuristic gives \<open>graph_lecture\<close>, used by the examples.\<close>

definition sample_class :: classification where
  "sample_class = \<lparr>category = MUSIC, confidence_score = 6/10, entertainment_score = 8/10,
                    depth_score = 2/10, clickbait_score = 1/10\<rparr>"

subsection \<open>Lemmas\<close>

lemma get_cached_SomeD:
  "get_cached db vid now = Some e \<Longrightarrow> db vid = Some e \<and> now \<le> cc_expires_at e"
  by (auto simp: get_cached_def is_expired_def split: option.splits if_splits)

lemma cache_result_other [model_simps]:
  "k \<noteq> video_id v \<Longrightarrow> cache_result db v c now k = db k"
  by (simp add: cache_result_def split: option.splits)

lemma cache_result_same:
  "\<exists>e. cache_result db v c now (video_id v) = Some e \<and> cached_classification e = c \<and>
       cc_expires_at e = now + cache_ttl"
  by (simp add: cache_result_def cached_classification_def split: option.splits)

lemma in_unit_clamp01 [model_simps]: "in_unit (clamp01 x)"
  by (simp add: clamp01_def in_unit_def)

lemma normalize_ai_wf_aux:
  "classification_wf (normalize_ai r) \<and> category (normalize_ai r) \<in> set ai_categories"
  by (simp add: normalize_ai_def classification_wf_def in_unit_clamp01 Let_def ai_categories_def)

lemma classify_with_ai_wf:
  "classify_with_ai v resp = Inr c \<Longrightarrow> classification_wf c"
  using normalize_ai_wf_aux fallback_classification_wf_aux
  by (auto simp: classify_with_ai_def split: option.splits)

lemma ran_cache_result:
  "\<exists>e. cached_classification e = c \<and> ran (cache_result db v c now) \<subseteq> insert e (ran db)"
proof -
  obtain e where e: "cache_result db v c now (video_id v) = Some e" "cached_classification e = c"
    using cache_result_same by blast
  have "ran (cache_result db v c now) \<subseteq> insert e (ran db)"
  proof
    fix x assume "x \<in> ran (cache_result db v c now)"
    then obtain k where k: "cache_result db v c now k = Some x" by (auto simp: ran_def)
    show "x \<in> insert e (ran db)"
    proof (cases "k = video_id v")
      case True with k e show ?thesis by simp
    next
      case False with k show ?thesis by (auto simp: cache_result_other ran_def)
    qed
  qed
  with e show ?thesis by blast
qed

lemma cache_result_wf:
  "cache_wf db \<Longrightarrow> classification_wf c \<Longrightarrow> cache_wf (cache_result db v c now)"
  using ran_cache_result [of c db v now] by (auto simp: cache_wf_def)

lemma classify_video_cases:
  assumes h: "classify_video db now v f u resp = (r, db')"
  obtains (hit) e where "r = Inr (cached_classification e)" "db' = db"
      "get_cached db (video_id v) now = Some e"
    | (error) err where "r = Inl err" "db' = db"
    | (miss) c where "r = Inr c" "db' = cache_result db v c now"
      "fallback_classification v = Inr c \<or> classify_with_ai v resp = Inr c"
proof (cases "\<not> f \<and> get_cached db (video_id v) now \<noteq> None")
  case True
  then obtain e where nf: "\<not> f" and g: "get_cached db (video_id v) now = Some e" by auto
  with h have "r = Inr (cached_classification e)" "db' = db" by (simp_all add: classify_video_def)
  with g show ?thesis using hit by blast
next
  case False
  then have "classify_video db now v f u resp =
    (case (if \<not> u then fallback_classification v else classify_with_ai v resp) of
       Inl err \<Rightarrow> (Inl err, db) | Inr c \<Rightarrow> (Inr c, cache_result db v c now))"
    by (auto simp: classify_video_def)
  with h error miss show ?thesis
    by (cases u; cases "fallback_classification v"; cases "classify_with_ai v resp") auto
qed

lemma classify_video_heuristic:
  assumes db: "heuristic_cache db" and h: "classify_video db now v f False resp = (Inr c, db')"
  shows "category c \<in> set heuristic_categories \<and> heuristic_cache db'"
proof (cases "\<not> f \<and> get_cached db (video_id v) now \<noteq> None")
  case True
  then obtain e where "\<not> f" "get_cached db (video_id v) now = Some e" by auto
  moreover from this have "e \<in> ran db" by (auto dest: get_cached_SomeD simp: ran_def)
  ultimately show ?thesis using h db
    by (auto simp: classify_video_def heuristic_cache_def cached_classification_def)
next
  case False
  then have n: "(if \<not> f then get_cached db (video_id v) now else None) = None" by auto
  have fb: "fallback_classification v = Inr c" and db': "db' = cache_result db v c now"
    using h by (auto simp: classify_video_def n Let_def split: sum.splits)
  have c: "category c \<in> set heuristic_categories" using fallback_classification_wf_aux [OF fb] ..
  obtain e where "cached_classification e = c" "ran db' \<subseteq> insert e (ran db)"
    using ran_cache_result [of c db v now] db' by blast
  with c db show ?thesis by (auto simp: heuristic_cache_def cached_classification_def)
qed

lemma get_cached_after_result:
  "t' \<le> t + cache_ttl \<Longrightarrow>
   get_cached (cache_result db v c t) (video_id v) t' = cache_result db v c t (video_id v)"
  using cache_result_same [of db v c t]
  by (auto simp: get_cached_def is_expired_def)

lemma fallback_classification_Inl:
  "fallback_classification v = Inl e \<Longrightarrow> channel_title v = None \<and> e = AttributeError"
  by (auto simp: fallback_classification_def Let_def split: option.splits)

text \<open>With \<open>use_ai=False\<close> the only failure is the heuristic's on a video
  without a channel title.\<close>

lemma classify_video_heuristic_Inr:
  "channel_title v \<noteq> None \<Longrightarrow> \<exists>c db'. classify_video db now v f False resp = (Inr c, db')"
  using fallback_classification_Inl [of v]
  by (cases "fallback_classification v") (auto simp: classify_video_def split: option.split)

lemma classify_with_ai_Inl:
  "classify_with_ai v resp = Inl e \<Longrightarrow> channel_title v = None \<and> e = AttributeError"
  by (auto simp: classify_with_ai_def fallback_classification_Inl split: option.splits)

subsection \<open>Properties of the cache and the entry point\<close>

text \<open>
  Claim C6: cache round trip: after \<open>cache_result\<close> at time \<open>t\<close>, a lookup of
  the video returns the stored classification up to \<open>t\<close> plus 24 hours and
  nothing after.
\<close>

theorem cache_round_trip:
  "map_option cached_classification (get_cached (cache_result db v c t) (video_id v) t') =
   (if t' \<le> t + cache_ttl then Some c else None)"
  using cache_result_same [of db v c t]
  by (auto simp: get_cached_def is_expired_def)

text \<open>
  A live cache row short-circuits classification: unless a refresh is
  forced, its classification is returned verbatim and nothing is written.
\<close>

theorem classify_video_cache_hit:
  "\<not> force \<Longrightarrow> get_cached db (video_id v) now = Some e \<Longrightarrow>
   classify_video db now v force u resp = (Inr (cached_classification e), db)"
  by (simp add: classify_video_def)

theorem classify_video_cache_hit_witness:
  "\<exists>e. get_cached (cache_result Map.empty graph_lecture sample_class 0) (video_id graph_lecture) 10
         = Some e \<and>
       classify_video (cache_result Map.empty graph_lecture sample_class 0) 10 graph_lecture False False None
         = (Inr (cached_classification e), cache_result Map.empty graph_lecture sample_class 0)"
proof -
  obtain e where e: "cache_result Map.empty graph_lecture sample_class 0 (video_id graph_lecture) = Some e"
    "cached_classification e = sample_class" "cc_expires_at e = 0 + cache_ttl"
    using cache_result_same by blast
  then have g: "get_cached (cache_result Map.empty graph_lecture sample_class 0) (video_id graph_lecture) 10
      = Some e"
    by (simp add: get_cached_def is_expired_def cache_ttl_def)
  show ?thesis
    using g classify_video_cache_hit [of False, OF _ g] by blast
qed

text \<open>
  Claim C10: the entry point keeps the cache invariant: if every row holds a
  valid classification, so does every row afterwards, and every
  classification it returns is valid, from the cache, the heuristic or the
  Gemini path.
\<close>

theorem classify_video_preserves_cache_wf:
  "cache_wf db \<Longrightarrow> classify_video db now v f u resp = (r, db') \<Longrightarrow>
   cache_wf db' \<and> (\<forall>c. r = Inr c \<longrightarrow> classification_wf c)"
proof -
  assume db: "cache_wf db" and h: "classify_video db now v f u resp = (r, db')"
  from h show ?thesis
  proof (cases rule: classify_video_cases)
    case (hit e)
    with db show ?thesis
      by (auto simp: cache_wf_def ran_def dest!: get_cached_SomeD)
  next
    case (error err)
    with db show ?thesis by simp
  next
    case (miss c)
    note r = miss(1,2)
    from miss(3) have "classification_wf c"
      using fallback_classification_wf_aux classify_with_ai_wf by blast
    with db r show ?thesis by (simp add: cache_result_wf)
  qed
qed

theorem classify_video_preserves_cache_wf_witness:
  "cache_wf Map.empty \<and>
   classify_video Map.empty 0 graph_lecture False False None =
     (Inr sample_class, cache_result Map.empty graph_lecture sample_class 0) \<and>
   cache_wf (cache_result Map.empty graph_lecture sample_class 0) \<and> classification_wf sample_class"
proof -
  have w: "cache_wf Map.empty" by (simp add: cache_wf_def)
  have h: "classify_video Map.empty 0 graph_lecture False False None =
     (Inr sample_class, cache_result Map.empty graph_lecture sample_class 0)"
    by (simp add: classify_video_def get_cached_def fallback_graph_lecture sample_class_def)
  show ?thesis using classify_video_preserves_cache_wf [OF w h] w h by simp
qed

text \<open>
  A classification that raises writes nothing: the only error is the
  heuristic's \<open>AttributeError\<close> on a \<open>None\<close> channel title, and the cache is
  left as it was.
\<close>

theorem classify_video_error_no_write:
  "classify_video db now v f u resp = (Inl e, db') \<Longrightarrow>
   db' = db \<and> e = AttributeError \<and> channel_title v = None"
proof -
  assume h: "classify_video db now v f u resp = (Inl e, db')"
  from h have "db' = db" by (cases rule: classify_video_cases) auto
  moreover have "fallback_classification v = Inl e \<or> classify_with_ai v resp = Inl e"
    using h by (auto simp: classify_video_def Let_def split: option.splits if_splits sum.splits)
  ultimately show ?thesis
    using fallback_classification_Inl classify_with_ai_Inl by blast
qed

theorem classify_video_error_no_write_witness:
  "classify_video Map.empty 0 (graph_lecture\<lparr>channel_title := None\<rparr>) False False None =
     (Inl AttributeError, Map.empty) \<and> channel_title (graph_lecture\<lparr>channel_title := None\<rparr>) = None"
proof -
  have h: "classify_video Map.empty 0 (graph_lecture\<lparr>channel_title := None\<rparr>) False False None =
     (Inl AttributeError, Map.empty)"
    by (simp add: classify_video_def get_cached_def fallback_classification_def)
  show ?thesis using classify_video_error_no_write [OF h] h by simp
qed

text \<open>
  Classifying the same video again at the same time returns the same
  classification and writes nothing more: the first call leaves a live row.
\<close>

theorem classify_video_idempotent:
  "classify_video db t v f u resp = (Inr c, db') \<Longrightarrow>
   classify_video db' t v False u' resp' = (Inr c, db')"
proof -
  assume h: "classify_video db t v f u resp = (Inr c, db')"
  have ttl: "0 \<le> cache_ttl" by (simp add: cache_ttl_def)
  from h show ?thesis
  proof (cases rule: classify_video_cases)
    case (hit e)
    then show ?thesis by (simp add: classify_video_def)
  next
    case (error err)
    then show ?thesis by simp
  next
    case (miss c')
    note r = miss(1,2)
    obtain e where e: "cache_result db v c' t (video_id v) = Some e" "cached_classification e = c'"
      "cc_expires_at e = t + cache_ttl"
      using cache_result_same by blast
    with ttl have "get_cached db' (video_id v) t = Some e"
      using r by (simp add: get_cached_def is_expired_def)
    with e r show ?thesis by (simp add: classify_video_def)
  qed
qed

theorem classify_video_idempotent_witness:
  "classify_video Map.empty 0 graph_lecture False False None =
     (Inr sample_class, cache_result Map.empty graph_lecture sample_class 0) \<and>
   classify_video (cache_result Map.empty graph_lecture sample_class 0) 0 graph_lecture False True None =
     (Inr sample_class, cache_result Map.empty graph_lecture sample_class 0)"
proof -
  have h: "classify_video Map.empty 0 graph_lecture False False None =
     (Inr sample_class, cache_result Map.empty graph_lecture sample_class 0)"
    by (simp add: classify_video_def get_cached_def fallback_graph_lecture sample_class_def)
  show ?thesis using classify_video_idempotent [OF h, of True None] h by simp
qed

end
