(* ===== verification/ModeStore.thy ===== *)
theory ModeStore
  imports FocusMode
begin

text \<open>
  The focus-mode handlers of src/backend/app/routers/modes.py over the
  \<open>focus_modes\<close> table. The table is the list of rows \<open>modes\<close>; \<open>next_id\<close>
  stands for \<open>uuid.uuid4\<close> (fresh identifiers). Each handler takes the
  caller's user id and the request time \<open>now\<close> and returns the new table, or
  an \<open>HTTPException\<close> as \<open>Inl\<close>; \<open>get_db\<close> rolls the session back on any
  exception, so an error leaves the table unchanged. \<open>MultipleResults\<close> is
  \<open>scalar_one_or_none()\<close> meeting two rows and \<open>NotNullViolation\<close> the
  \<open>IntegrityError\<close> of a commit that sets a NOT NULL column to \<open>null\<close>
  (both 500 errors).
\<close>

datatype api_error = NotFound | Forbidden | BadRequest | MultipleResults | NotNullViolation

record mode_store =
  modes :: "focus_mode list"
  next_id :: nat

text \<open>
  \<open>FocusModeUpdate\<close> as \<open>model_dump(exclude_unset=True)\<close> hands it to the
  handler: \<open>None\<close> for a field the request leaves out, \<open>Some None\<close> for an
  explicit \<open>null\<close>, \<open>Some (Some v)\<close> for a value.
\<close>

record mode_update =
  upd_name :: "pystr option option"
  upd_description :: "pystr option option"
  upd_allowed_categories :: "pystr list option option"
  upd_blocked_categories :: "pystr list option option"
  upd_min_duration_seconds :: "int option option"
  upd_allowed_languages :: "pystr list option option"
  upd_max_clickbait_score :: "score option option"
  upd_max_entertainment_score :: "score option option"
  upd_block_shorts :: "bool option option"
  upd_block_trending :: "bool option option"
  upd_daily_time_limit_minutes :: "int option option"
  upd_blocked_keywords :: "pystr list option option"

text \<open>\<open>setattr(mode, key, value)\<close> on a nullable column (\<open>set_if\<close>) and on
  a column that is NOT NULL (\<open>set_nn\<close>, whose \<open>null\<close> is refused at commit).\<close>

definition set_if :: "'a option \<Rightarrow> 'a \<Rightarrow> 'a" where
  "set_if u x = (case u of None \<Rightarrow> x | Some y \<Rightarrow> y)"

definition set_nn :: "'a option option \<Rightarrow> 'a \<Rightarrow> 'a" where
  "set_nn u x = (case u of Some (Some y) \<Rightarrow> y | _ \<Rightarrow> x)"

definition apply_update :: "mode_update \<Rightarrow> focus_mode \<Rightarrow> focus_mode" where
  "apply_update u m =
     m\<lparr>name := set_nn (upd_name u) (name m),
       mode_description := set_if (upd_description u) (mode_description m),
       allowed_categories := set_nn (upd_allowed_categories u) (allowed_categories m),
       blocked_categories := set_nn (upd_blocked_categories u) (blocked_categories m),
       min_duration_seconds := set_nn (upd_min_duration_seconds u) (min_duration_seconds m),
       allowed_languages := set_nn (upd_allowed_languages u) (allowed_languages m),
       max_clickbait_score := set_nn (upd_max_clickbait_score u) (max_clickbait_score m),
       max_entertainment_score := set_nn (upd_max_entertainment_score u) (max_entertainment_score m),
       block_shorts := set_nn (upd_block_shorts u) (block_shorts m),
       block_trending := set_nn (upd_block_trending u) (block_trending m),
       daily_time_limit_minutes :=
         set_if (upd_daily_time_limit_minutes u) (daily_time_limit_minutes m),
       blocked_keywords := set_nn (upd_blocked_keywords u) (blocked_keywords m)\<rparr>"

text \<open>The columns of \<open>FocusMode\<close> that are NOT NULL (\<open>nullable=False\<close>, or a
  \<open>Mapped\<close> type that is not \<open>Optional\<close>) and that the update sets to
  \<open>null\<close>: the commit fails with \<open>IntegrityError\<close>, a 500 answer, and the
  session is rolled back.\<close>

definition null_violation :: "mode_update \<Rightarrow> bool" where
  "null_violation u \<longleftrightarrow>
     upd_name u = Some None \<or> upd_allowed_categories u = Some None \<or>
     upd_blocked_categories u = Some None \<or> upd_min_duration_seconds u = Some None \<or>
     upd_allowed_languages u = Some None \<or> upd_max_clickbait_score u = Some None \<or>
     upd_max_entertainment_score u = Some None \<or> upd_block_shorts u = Some None \<or>
     upd_block_trending u = Some None \<or> upd_blocked_keywords u = Some None"

text \<open>\<open>mode.is_locked and mode.lock_until and mode.lock_until > datetime.utcnow()\<close>.\<close>

definition locked_now :: "timestamp \<Rightarrow> focus_mode \<Rightarrow> bool" where
  "locked_now now m \<longleftrightarrow> is_locked m \<and> (case lock_until m of None \<Rightarrow> False | Some t \<Rightarrow> now < t)"

definition find_mode :: "mode_store \<Rightarrow> nat \<Rightarrow> nat \<Rightarrow> focus_mode option" where
  "find_mode st uid mid = find (\<lambda>m. mode_id m = mid \<and> user_id m = uid) (modes st)"

definition update_row :: "nat \<Rightarrow> (focus_mode \<Rightarrow> focus_mode) \<Rightarrow> focus_mode list \<Rightarrow> focus_mode list" where
  "update_row mid f ms = map (\<lambda>m. if mode_id m = mid then f m else m) ms"

text \<open>The preset rows for a user, identifiers from \<open>n\<close>, the first one active if asked.\<close>

definition preset_rows :: "nat \<Rightarrow> nat \<Rightarrow> bool \<Rightarrow> focus_mode list" where
  "preset_rows n uid first_active =
     map (\<lambda>(i, p). (p (n + i) uid)\<lparr>is_active := (first_active \<and> i = 0)\<rparr>)
       (enumerate 0 preset_modes)"

subsection \<open>Handlers\<close>

definition list_modes :: "nat \<Rightarrow> mode_store \<Rightarrow> mode_store" where
  "list_modes uid st =
     (if filter (\<lambda>m. user_id m = uid) (modes st) = []
      then st\<lparr>modes := modes st @ preset_rows (next_id st) uid False,
              next_id := next_id st + length preset_modes\<rparr>
      else st)"

definition reset_modes :: "nat \<Rightarrow> mode_store \<Rightarrow> mode_store" where
  "reset_modes uid st =
     st\<lparr>modes := filter (\<lambda>m. user_id m \<noteq> uid) (modes st) @ preset_rows (next_id st) uid True,
        next_id := next_id st + length preset_modes\<rparr>"

definition create_mode :: "nat \<Rightarrow> focus_mode \<Rightarrow> mode_store \<Rightarrow> mode_store" where
  "create_mode uid cfg st =
     st\<lparr>modes := modes st @ [cfg\<lparr>mode_id := next_id st, user_id := uid, is_active := False,
                                is_locked := False, lock_until := None\<rparr>],
        next_id := Suc (next_id st)\<rparr>"

definition get_active_mode :: "nat \<Rightarrow> mode_store \<Rightarrow> api_error + focus_mode" where
  "get_active_mode uid st =
     (case filter (\<lambda>m. user_id m = uid \<and> is_active m) (modes st) of
        [] \<Rightarrow> Inl NotFound
      | [m] \<Rightarrow> Inr m
      | _ \<Rightarrow> Inl MultipleResults)"

definition get_mode :: "nat \<Rightarrow> nat \<Rightarrow> mode_store \<Rightarrow> api_error + focus_mode" where
  "get_mode uid mid st = (case find_mode st uid mid of None \<Rightarrow> Inl NotFound | Some m \<Rightarrow> Inr m)"

definition update_mode ::
  "nat \<Rightarrow> nat \<Rightarrow> mode_update \<Rightarrow> timestamp \<Rightarrow> mode_store \<Rightarrow> api_error + mode_store" where
  "update_mode uid mid u now st =
     (case find_mode st uid mid of
        None \<Rightarrow> Inl NotFound
      | Some m \<Rightarrow>
          if locked_now now m then Inl Forbidden
          else if null_violation u then Inl NotNullViolation
          else Inr (st\<lparr>modes := update_row mid (apply_update u) (modes st)\<rparr>))"

definition delete_mode :: "nat \<Rightarrow> nat \<Rightarrow> mode_store \<Rightarrow> api_error + mode_store" where
  "delete_mode uid mid st =
     (case find_mode st uid mid of
        None \<Rightarrow> Inl NotFound
      | Some m \<Rightarrow> Inr (st\<lparr>modes := filter (\<lambda>m. mode_id m \<noteq> mid) (modes st)\<rparr>))"

definition activate_mode ::
  "nat \<Rightarrow> nat \<Rightarrow> timestamp \<Rightarrow> mode_store \<Rightarrow> api_error + mode_store" where
  "activate_mode uid mid now st =
     (let locked = filter (\<lambda>m. user_id m = uid \<and> is_locked m) (modes st)
      in if length locked > 1 then Inl MultipleResults
         else if locked \<noteq> [] \<and> locked_now now (hd locked) then Inl Forbidden
         else
           (let ms = map (\<lambda>m. if user_id m = uid
                               then m\<lparr>is_active := False, is_locked := False, lock_until := None\<rparr>
                               else m) (modes st)
            in case find (\<lambda>m. mode_id m = mid \<and> user_id m = uid) ms of
                 None \<Rightarrow> Inl NotFound
               | Some _ \<Rightarrow> Inr (st\<lparr>modes := update_row mid (\<lambda>m. m\<lparr>is_active := True\<rparr>) ms\<rparr>)))"

definition lock_session ::
  "nat \<Rightarrow> nat \<Rightarrow> int \<Rightarrow> timestamp \<Rightarrow> mode_store \<Rightarrow> api_error + mode_store" where
  "lock_session uid mid duration_minutes now st =
     (case find_mode st uid mid of
        None \<Rightarrow> Inl NotFound
      | Some m \<Rightarrow>
          if \<not> is_active m then Inl BadRequest
          else Inr (st\<lparr>modes := update_row mid
                        (\<lambda>m. m\<lparr>is_locked := True, lock_until := Some (now + 60 * duration_minutes)\<rparr>)
                        (modes st)\<rparr>))"

end
