(* ===== verification/Supervisor.thy ===== *)
theory Supervisor
  imports ModeStore
begin

text \<open>
  The focus-mode supervisor as a state machine: \<open>mstep\<close> has one rule per
  handler of routers/modes.py that changes the table (a handler that fails
  changes nothing), \<open>mreach\<close> the tables reachable from the empty one. The
  invariant \<open>store_inv\<close>: identifiers are distinct and below \<open>next_id\<close>,
  every locked mode is active, and no user has two active modes. It makes
  every \<open>scalar_one_or_none()\<close> of the handlers safe and gives the lock
  semantics; the findings show where the lock does not hold.
\<close>

definition ids_ok :: "mode_store \<Rightarrow> bool" where
  "ids_ok st \<longleftrightarrow> distinct (map mode_id (modes st)) \<and> (\<forall>m \<in> set (modes st). mode_id m < next_id st)"

definition locked_active :: "focus_mode list \<Rightarrow> bool" where
  "locked_active ms \<longleftrightarrow> (\<forall>m \<in> set ms. is_locked m \<longrightarrow> is_active m)"

definition one_active :: "focus_mode list \<Rightarrow> bool" where
  "one_active ms \<longleftrightarrow>
     (\<forall>m \<in> set ms. \<forall>m' \<in> set ms.
        is_active m \<and> is_active m' \<and> user_id m = user_id m' \<longrightarrow> mode_id m = mode_id m')"

definition store_inv :: "mode_store \<Rightarrow> bool" where
  "store_inv st \<longleftrightarrow> ids_ok st \<and> locked_active (modes st) \<and> one_active (modes st)"

definition init_store :: mode_store where
  "init_store = \<lparr>modes = [], next_id = 0\<rparr>"

text \<open>An example table: two modes of user 1 created by \<open>create_mode\<close>.\<close>

definition two_modes :: mode_store where
  "two_modes = create_mode 1 (new_mode 0 0 (py ''Play''))
     (create_mode 1 (new_mode 0 0 (py ''Work'')) init_store)"

inductive mstep :: "mode_store \<Rightarrow> mode_store \<Rightarrow> bool" where
  list: "mstep st (list_modes uid st)"
| reset: "mstep st (reset_modes uid st)"
| create: "mstep st (create_mode uid cfg st)"
| update: "update_mode uid mid u now st = Inr st' \<Longrightarrow> mstep st st'"
| delete: "delete_mode uid mid st = Inr st' \<Longrightarrow> mstep st st'"
| activate: "activate_mode uid mid now st = Inr st' \<Longrightarrow> mstep st st'"
| lock: "lock_session uid mid d now st = Inr st' \<Longrightarrow> mstep st st'"

inductive mreach :: "mode_store \<Rightarrow> bool" where
  init: "mreach init_store"
| step: "mreach st \<Longrightarrow> mstep st st' \<Longrightarrow> mreach st'"

inductive_cases mstep_cases: "mstep st st'"

subsection \<open>Rows and updates\<close>

lemma set_update_row:
  "x \<in> set (update_row mid f ms) \<Longrightarrow>
   (\<exists>m \<in> set ms. mode_id m = mid \<and> x = f m) \<or> (x \<in> set ms \<and> mode_id x \<noteq> mid)"
  by (auto simp: update_row_def)

lemma map_mode_id_update_row:
  "(\<And>m. mode_id (f m) = mode_id m) \<Longrightarrow> map mode_id (update_row mid f ms) = map mode_id ms"
  by (simp add: update_row_def comp_def)

lemma find_mode_SomeD:
  "find_mode st uid mid = Some m \<Longrightarrow> m \<in> set (modes st) \<and> mode_id m = mid \<and> user_id m = uid"
  by (auto simp: find_mode_def dest: find_SomeD)

lemma distinct_ids_eq:
  "distinct (map mode_id ms) \<Longrightarrow> m \<in> set ms \<Longrightarrow> m' \<in> set ms \<Longrightarrow> mode_id m = mode_id m' \<Longrightarrow> m = m'"
  by (metis distinct_map inj_onD)

lemma preset_rows_ids:
  "map mode_id (preset_rows n uid b) = [n..<n + length preset_modes]"
  by (simp add: preset_rows_def preset_modes_def preset_study_def preset_deep_work_def
      preset_music_def preset_relax_def preset_gaming_def preset_news_def preset_fitness_def
      preset_travel_def preset_tech_def new_mode_def upt_rec)

lemma preset_rows_unlocked: "m \<in> set (preset_rows n uid b) \<Longrightarrow> \<not> is_locked m \<and> user_id m = uid"
  by (auto simp: preset_rows_def preset_modes_def preset_study_def preset_deep_work_def
      preset_music_def preset_relax_def preset_gaming_def preset_news_def preset_fitness_def
      preset_travel_def preset_tech_def new_mode_def)

lemma preset_rows_active:
  "m \<in> set (preset_rows n uid b) \<Longrightarrow> is_active m \<Longrightarrow> mode_id m = n"
  by (auto simp: preset_rows_def preset_modes_def preset_study_def preset_deep_work_def
      preset_music_def preset_relax_def preset_gaming_def preset_news_def preset_fitness_def
      preset_travel_def preset_tech_def new_mode_def)

lemma preset_rows_inactive: "m \<in> set (preset_rows n uid False) \<Longrightarrow> \<not> is_active m"
  by (auto simp: preset_rows_def)

lemma preset_rows_id_bound:
  "m \<in> set (preset_rows n uid b) \<Longrightarrow> n \<le> mode_id m \<and> mode_id m < n + length preset_modes"
proof -
  assume "m \<in> set (preset_rows n uid b)"
  then have "mode_id m \<in> set (map mode_id (preset_rows n uid b))" by simp
  then show ?thesis by (simp only: preset_rows_ids) simp
qed

lemma apply_update_keeps [simp]:
  "mode_id (apply_update u m) = mode_id m" "user_id (apply_update u m) = user_id m"
  "is_active (apply_update u m) = is_active m" "is_locked (apply_update u m) = is_locked m"
  by (simp_all add: apply_update_def)

lemma ids_ok_append:
  "ids_ok st \<Longrightarrow> distinct (map mode_id P) \<Longrightarrow> next_id st \<le> n' \<Longrightarrow>
   (\<And>m. m \<in> set P \<Longrightarrow> next_id st \<le> mode_id m \<and> mode_id m < n') \<Longrightarrow>
   ids_ok (st\<lparr>modes := modes st @ P, next_id := n'\<rparr>)"
  unfolding ids_ok_def by fastforce

lemma locked_active_append [simp]:
  "locked_active (ms @ P) \<longleftrightarrow> locked_active ms \<and> locked_active P"
  by (auto simp: locked_active_def)

lemma one_active_append_inactive:
  "one_active ms \<Longrightarrow> (\<And>m. m \<in> set P \<Longrightarrow> \<not> is_active m) \<Longrightarrow> one_active (ms @ P)"
  unfolding one_active_def by fastforce

lemma preset_rows_locked_active: "locked_active (preset_rows n uid b)"
  using preset_rows_unlocked by (auto simp: locked_active_def)

lemma preset_rows_distinct: "distinct (map mode_id (preset_rows n uid b))"
  by (simp add: preset_rows_ids)

lemma ids_ok_filter: "ids_ok st \<Longrightarrow> ids_ok (st\<lparr>modes := filter P (modes st)\<rparr>)"
  by (auto simp: ids_ok_def distinct_map_filter)

subsection \<open>Each handler keeps the invariant\<close>

lemma list_modes_inv: "store_inv st \<Longrightarrow> store_inv (list_modes uid st)"
proof (cases "filter (\<lambda>m. user_id m = uid) (modes st) = []")
  case True
  assume inv: "store_inv st"
  let ?P = "preset_rows (next_id st) uid False"
  have "ids_ok (st\<lparr>modes := modes st @ ?P, next_id := next_id st + length preset_modes\<rparr>)"
    using inv by (intro ids_ok_append) (auto simp: store_inv_def preset_rows_distinct
        dest: preset_rows_id_bound)
  moreover have "locked_active (modes st @ ?P)"
    using inv by (simp add: store_inv_def preset_rows_locked_active)
  moreover have "one_active (modes st @ ?P)"
    using inv by (intro one_active_append_inactive) (auto simp: store_inv_def
        dest: preset_rows_inactive)
  ultimately show ?thesis using True by (simp add: list_modes_def store_inv_def)
next
  case False
  assume inv: "store_inv st"
  with False show ?thesis by (simp add: list_modes_def)
qed

lemma one_active_append_users:
  "one_active xs \<Longrightarrow> one_active P \<Longrightarrow> (\<And>m. m \<in> set xs \<Longrightarrow> user_id m \<noteq> uid) \<Longrightarrow>
   (\<And>m. m \<in> set P \<Longrightarrow> user_id m = uid) \<Longrightarrow> one_active (xs @ P)"
  unfolding one_active_def by (metis Un_iff set_append)

lemma preset_rows_one_active: "one_active (preset_rows n uid b)"
  using preset_rows_active unfolding one_active_def by metis

lemma one_active_filter: "one_active ms \<Longrightarrow> one_active (filter P ms)"
  unfolding one_active_def by simp

lemma locked_active_filter: "locked_active ms \<Longrightarrow> locked_active (filter P ms)"
  unfolding locked_active_def by simp

lemma reset_modes_inv: "store_inv st \<Longrightarrow> store_inv (reset_modes uid st)"
proof -
  assume inv: "store_inv st"
  let ?P = "preset_rows (next_id st) uid True"
  let ?O = "filter (\<lambda>m. user_id m \<noteq> uid) (modes st)"
  have o: "ids_ok (st\<lparr>modes := ?O\<rparr>)" using inv by (simp add: store_inv_def ids_ok_filter)
  have "ids_ok ((st\<lparr>modes := ?O\<rparr>)\<lparr>modes := modes (st\<lparr>modes := ?O\<rparr>) @ ?P,
                 next_id := next_id st + length preset_modes\<rparr>)"
    using o by (intro ids_ok_append) (auto simp: preset_rows_distinct dest: preset_rows_id_bound)
  moreover have "locked_active (?O @ ?P)"
    using inv by (simp add: store_inv_def locked_active_filter preset_rows_locked_active)
  moreover have "one_active (?O @ ?P)"
    using inv by (intro one_active_append_users [where uid = uid])
      (auto simp: store_inv_def one_active_filter preset_rows_one_active dest: preset_rows_unlocked)
  ultimately show ?thesis by (simp add: reset_modes_def store_inv_def)
qed

lemma create_mode_inv: "store_inv st \<Longrightarrow> store_inv (create_mode uid cfg st)"
proof -
  assume inv: "store_inv st"
  let ?r = "cfg\<lparr>mode_id := next_id st, user_id := uid, is_active := False,
                is_locked := False, lock_until := None\<rparr>"
  have "ids_ok (st\<lparr>modes := modes st @ [?r], next_id := Suc (next_id st)\<rparr>)"
    using inv by (intro ids_ok_append) (auto simp: store_inv_def)
  moreover have "locked_active (modes st @ [?r])"
    using inv by (simp add: store_inv_def locked_active_def)
  moreover have "one_active (modes st @ [?r])"
    using inv by (intro one_active_append_inactive) (auto simp: store_inv_def)
  ultimately show ?thesis by (simp add: create_mode_def store_inv_def)
qed

lemma delete_mode_inv:
  "store_inv st \<Longrightarrow> delete_mode uid mid st = Inr st' \<Longrightarrow> store_inv st'"
  by (auto simp: delete_mode_def store_inv_def ids_ok_filter [simplified] one_active_filter
      locked_active_filter split: option.splits)

text \<open>A row function that keeps identifier, owner and activity keeps the invariant's view.\<close>

lemma update_row_view:
  assumes "\<And>m. mode_id (f m) = mode_id m \<and> user_id (f m) = user_id m \<and> is_active (f m) = is_active m"
    and "x \<in> set (update_row mid f ms)"
  shows "\<exists>y \<in> set ms. mode_id x = mode_id y \<and> user_id x = user_id y \<and> is_active x = is_active y \<and>
           (x = y \<or> (mode_id y = mid \<and> x = f y))"
  using assms set_update_row [OF assms(2)] by metis

lemma one_active_update_row:
  "(\<And>m. mode_id (f m) = mode_id m \<and> user_id (f m) = user_id m \<and> is_active (f m) = is_active m) \<Longrightarrow>
   one_active ms \<Longrightarrow> one_active (update_row mid f ms)"
  unfolding one_active_def by (metis update_row_view)

lemma update_mode_inv:
  "store_inv st \<Longrightarrow> update_mode uid mid u now st = Inr st' \<Longrightarrow> store_inv st'"
proof -
  assume inv: "store_inv st" and h: "update_mode uid mid u now st = Inr st'"
  then have st': "st' = st\<lparr>modes := update_row mid (apply_update u) (modes st)\<rparr>"
    by (auto simp: update_mode_def split: option.splits if_splits)
  have "ids_ok st'"
    using inv by (simp add: st' store_inv_def ids_ok_def map_mode_id_update_row)
      (metis apply_update_keeps(1) set_update_row)
  moreover have "locked_active (modes st')"
    using inv unfolding st' store_inv_def locked_active_def
    by (auto dest!: set_update_row)
  moreover have "one_active (modes st')"
    using inv by (simp add: st' store_inv_def one_active_update_row)
  ultimately show ?thesis by (simp add: store_inv_def)
qed

lemma ids_ok_same_ids:
  "ids_ok st \<Longrightarrow> map mode_id (modes st') = map mode_id (modes st) \<Longrightarrow> next_id st' = next_id st \<Longrightarrow>
   ids_ok st'"
  unfolding ids_ok_def by (metis (mono_tags, lifting) imageE image_eqI list.set_map)

lemma deactivated_rows:
  assumes "y \<in> set (map (\<lambda>m. if user_id m = uid
             then m\<lparr>is_active := False, is_locked := False, lock_until := None\<rparr> else m) xs)"
  shows "(user_id y = uid \<and> \<not> is_active y \<and> \<not> is_locked y) \<or> (user_id y \<noteq> uid \<and> y \<in> set xs)"
proof -
  obtain m where y: "y = (if user_id m = uid
             then m\<lparr>is_active := False, is_locked := False, lock_until := None\<rparr> else m)"
    and m: "m \<in> set xs"
    using assms unfolding set_map by (erule imageE)
  show ?thesis using m unfolding y by (cases "user_id m = uid") simp_all
qed

lemma activate_mode_InrD:
  assumes h: "activate_mode uid mid now st = Inr st'"
  shows "\<exists>r \<in> set (map (\<lambda>m. if user_id m = uid
                    then m\<lparr>is_active := False, is_locked := False, lock_until := None\<rparr> else m) (modes st)).
           mode_id r = mid \<and> user_id r = uid \<and>
           st' = st\<lparr>modes := update_row mid (\<lambda>m. m\<lparr>is_active := True\<rparr>)
                   (map (\<lambda>m. if user_id m = uid
                    then m\<lparr>is_active := False, is_locked := False, lock_until := None\<rparr> else m) (modes st))\<rparr>"
proof -
  define ms1 where "ms1 = map (\<lambda>m. if user_id m = uid
                    then m\<lparr>is_active := False, is_locked := False, lock_until := None\<rparr> else m) (modes st)"
  have "(case find (\<lambda>m. mode_id m = mid \<and> user_id m = uid) ms1 of
           None \<Rightarrow> Inl NotFound
         | Some _ \<Rightarrow> Inr (st\<lparr>modes := update_row mid (\<lambda>m. m\<lparr>is_active := True\<rparr>) ms1\<rparr>))
        = (Inr st' :: api_error + mode_store)"
    using h unfolding activate_mode_def Let_def ms1_def[symmetric] by (simp split: if_splits)
  then obtain r where "find (\<lambda>m. mode_id m = mid \<and> user_id m = uid) ms1 = Some r"
      "st' = st\<lparr>modes := update_row mid (\<lambda>m. m\<lparr>is_active := True\<rparr>) ms1\<rparr>"
    by (cases "find (\<lambda>m. mode_id m = mid \<and> user_id m = uid) ms1") auto
  then show ?thesis unfolding ms1_def[symmetric] using find_SomeD by fastforce
qed

lemma activate_mode_inv:
  "store_inv st \<Longrightarrow> activate_mode uid mid now st = Inr st' \<Longrightarrow> store_inv st'"
proof -
  assume inv: "store_inv st" and h: "activate_mode uid mid now st = Inr st'"
  define ms1 where "ms1 = map (\<lambda>m. if user_id m = uid
                    then m\<lparr>is_active := False, is_locked := False, lock_until := None\<rparr> else m) (modes st)"
  obtain r where r: "r \<in> set ms1" "mode_id r = mid" "user_id r = uid"
    and st': "st' = st\<lparr>modes := update_row mid (\<lambda>m. m\<lparr>is_active := True\<rparr>) ms1\<rparr>"
    using activate_mode_InrD [OF h] unfolding ms1_def[symmetric] by blast
  have ids1: "map mode_id ms1 = map mode_id (modes st)"
    by (simp add: ms1_def comp_def)
  have dist1: "distinct (map mode_id ms1)"
    using inv ids1 by (simp add: store_inv_def ids_ok_def)
  have rows1: "\<And>x. x \<in> set ms1 \<Longrightarrow>
      (user_id x = uid \<and> \<not> is_active x \<and> \<not> is_locked x) \<or> (user_id x \<noteq> uid \<and> x \<in> set (modes st))"
    unfolding ms1_def by (rule deactivated_rows)
  have uniq: "\<And>y. y \<in> set ms1 \<Longrightarrow> mode_id y = mid \<Longrightarrow> y = r"
    using dist1 r distinct_ids_eq by metis
  have "map mode_id (modes st') = map mode_id (modes st)"
    unfolding st' using ids1 by (simp add: map_mode_id_update_row)
  moreover have "next_id st' = next_id st" by (simp add: st')
  moreover have "ids_ok st" using inv by (simp add: store_inv_def)
  ultimately have ids: "ids_ok st'" by (rule ids_ok_same_ids [rotated])
  have la: "locked_active (modes st')"
    unfolding locked_active_def
  proof
    fix x assume "x \<in> set (modes st')"
    then have "x \<in> set (update_row mid (\<lambda>m. m\<lparr>is_active := True\<rparr>) ms1)" by (simp add: st')
    then have "(\<exists>y \<in> set ms1. mode_id y = mid \<and> x = y\<lparr>is_active := True\<rparr>) \<or>
               (x \<in> set ms1 \<and> mode_id x \<noteq> mid)"
      by (rule set_update_row)
    then show "is_locked x \<longrightarrow> is_active x"
    proof
      assume "\<exists>y \<in> set ms1. mode_id y = mid \<and> x = y\<lparr>is_active := True\<rparr>"
      then show ?thesis by auto
    next
      assume "x \<in> set ms1 \<and> mode_id x \<noteq> mid"
      with rows1 [of x] inv show ?thesis by (auto simp: store_inv_def locked_active_def)
    qed
  qed
  have act_uid: "\<And>x. x \<in> set (modes st') \<Longrightarrow> is_active x \<Longrightarrow>
      (user_id x = uid \<and> mode_id x = mid) \<or> (user_id x \<noteq> uid \<and> x \<in> set (modes st))"
  proof -
    fix x assume x: "x \<in> set (modes st')" and a: "is_active x"
    from x have "x \<in> set (update_row mid (\<lambda>m. m\<lparr>is_active := True\<rparr>) ms1)" by (simp add: st')
    then have "(\<exists>y \<in> set ms1. mode_id y = mid \<and> x = y\<lparr>is_active := True\<rparr>) \<or>
               (x \<in> set ms1 \<and> mode_id x \<noteq> mid)"
      by (rule set_update_row)
    then show "(user_id x = uid \<and> mode_id x = mid) \<or> (user_id x \<noteq> uid \<and> x \<in> set (modes st))"
    proof
      assume "\<exists>y \<in> set ms1. mode_id y = mid \<and> x = y\<lparr>is_active := True\<rparr>"
      then obtain y where "y \<in> set ms1" "mode_id y = mid" "x = y\<lparr>is_active := True\<rparr>" by blast
      with uniq r show ?thesis by simp
    next
      assume "x \<in> set ms1 \<and> mode_id x \<noteq> mid"
      with rows1 [of x] a show ?thesis by auto
    qed
  qed
  have oa: "one_active (modes st')"
    unfolding one_active_def
  proof (intro ballI impI)
    fix x x' assume x: "x \<in> set (modes st')" and x': "x' \<in> set (modes st')"
      and a: "is_active x \<and> is_active x' \<and> user_id x = user_id x'"
    from act_uid [OF x] act_uid [OF x'] a inv
    show "mode_id x = mode_id x'"
      by (auto simp: store_inv_def one_active_def)
  qed
  from ids la oa show ?thesis by (simp add: store_inv_def)
qed

lemma lock_session_inv:
  "store_inv st \<Longrightarrow> lock_session uid mid d now st = Inr st' \<Longrightarrow> store_inv st'"
proof -
  assume inv: "store_inv st" and h: "lock_session uid mid d now st = Inr st'"
  let ?f = "\<lambda>m. m\<lparr>is_locked := True, lock_until := Some (now + 60 * d)\<rparr>"
  obtain m where m: "find_mode st uid mid = Some m" "is_active m"
    and st': "st' = st\<lparr>modes := update_row mid ?f (modes st)\<rparr>"
    using h by (auto simp: lock_session_def split: option.splits if_splits)
  from find_mode_SomeD [OF m(1)] have mm: "m \<in> set (modes st)" "mode_id m = mid" by simp_all
  have uniq: "\<And>y. y \<in> set (modes st) \<Longrightarrow> mode_id y = mid \<Longrightarrow> y = m"
    using inv mm distinct_ids_eq by (metis store_inv_def ids_ok_def)
  have "map mode_id (modes st') = map mode_id (modes st)"
    unfolding st' by (simp add: map_mode_id_update_row)
  moreover have "next_id st' = next_id st" by (simp add: st')
  moreover have "ids_ok st" using inv by (simp add: store_inv_def)
  ultimately have "ids_ok st'" by (rule ids_ok_same_ids [rotated])
  moreover have "locked_active (modes st')"
    unfolding locked_active_def
  proof
    fix x assume "x \<in> set (modes st')"
    then have "(\<exists>y \<in> set (modes st). mode_id y = mid \<and> x = ?f y) \<or>
               (x \<in> set (modes st) \<and> mode_id x \<noteq> mid)"
      by (simp add: st' set_update_row)
    then show "is_locked x \<longrightarrow> is_active x"
      using uniq m inv by (auto simp: store_inv_def locked_active_def)
  qed
  moreover have "one_active (modes st')"
    using inv by (simp add: st' store_inv_def one_active_update_row)
  ultimately show ?thesis by (simp add: store_inv_def)
qed

lemma mstep_inv: "mstep st st' \<Longrightarrow> store_inv st \<Longrightarrow> store_inv st'"
  by (induction rule: mstep.induct)
    (auto intro: list_modes_inv reset_modes_inv create_mode_inv update_mode_inv delete_mode_inv
      activate_mode_inv lock_session_inv)

lemma init_store_inv: "store_inv init_store"
  by (simp add: init_store_def store_inv_def ids_ok_def locked_active_def one_active_def)

subsection \<open>Lock and activation lemmas\<close>

lemma same_id_length:
  assumes "distinct (map mode_id xs)"
    and "\<And>x y. x \<in> set xs \<Longrightarrow> y \<in> set xs \<Longrightarrow> mode_id x = mode_id y"
  shows "length xs \<le> 1"
proof (cases xs)
  case (Cons a t)
  show ?thesis
  proof (cases t)
    case (Cons b u)
    with \<open>xs = a # t\<close> have "mode_id a = mode_id b"
      by (intro assms(2)) simp_all
    moreover have "mode_id a \<noteq> mode_id b"
      using assms(1) \<open>xs = a # t\<close> Cons by auto
    ultimately show ?thesis by simp
  qed (simp add: Cons)
qed simp

lemma length_le1_member: "length xs \<le> 1 \<Longrightarrow> x \<in> set xs \<Longrightarrow> xs = [x]"
  by (cases xs) auto

lemma active_rows_le1:
  "store_inv st \<Longrightarrow> length (filter (\<lambda>m. user_id m = uid \<and> is_active m) (modes st)) \<le> 1"
  by (rule same_id_length)
    (auto simp: store_inv_def ids_ok_def one_active_def distinct_map_filter)

lemma locked_rows_le1:
  "store_inv st \<Longrightarrow> length (filter (\<lambda>m. user_id m = uid \<and> is_locked m) (modes st)) \<le> 1"
  by (rule same_id_length)
    (auto simp: store_inv_def ids_ok_def one_active_def locked_active_def distinct_map_filter)

lemma locked_row_forbids:
  assumes inv: "store_inv st" and m: "m \<in> set (modes st)" "user_id m = uid" "locked_now now m"
  shows "activate_mode uid mid now st = Inl Forbidden"
proof -
  have "is_locked m" using m by (simp add: locked_now_def)
  then have "filter (\<lambda>m. user_id m = uid \<and> is_locked m) (modes st) = [m]"
    using locked_rows_le1 [OF inv, of uid] m by (intro length_le1_member) auto
  then show ?thesis using m by (simp add: activate_mode_def)
qed

lemma find_update_row:
  "find (\<lambda>m. mode_id m = mid \<and> user_id m = uid) ms = Some m \<Longrightarrow>
   (\<And>x. mode_id (f x) = mode_id x \<and> user_id (f x) = user_id x) \<Longrightarrow>
   find (\<lambda>m. mode_id m = mid \<and> user_id m = uid) (update_row mid f ms) = Some (f m)"
  by (induction ms) (auto simp: update_row_def)

lemma lock_session_InrD:
  assumes "lock_session uid mid d now st = Inr st'"
  obtains m where "find_mode st uid mid = Some m" "is_active m"
    "st' = st\<lparr>modes := update_row mid
       (\<lambda>m. m\<lparr>is_locked := True, lock_until := Some (now + 60 * d)\<rparr>) (modes st)\<rparr>"
  using assms by (auto simp: lock_session_def split: option.splits if_splits)

lemma update_row_member:
  "m \<in> set ms \<Longrightarrow> mode_id m = mid \<Longrightarrow> f m \<in> set (update_row mid f ms)"
  by (force simp: update_row_def)

lemma locked_rows_single:
  "store_inv st \<Longrightarrow> m \<in> set (modes st) \<Longrightarrow> user_id m = uid \<Longrightarrow> is_locked m \<Longrightarrow>
   filter (\<lambda>m. user_id m = uid \<and> is_locked m) (modes st) = [m]"
  using locked_rows_le1 by (intro length_le1_member) auto

lemma activate_unlocked:
  "filter (\<lambda>m. user_id m = uid \<and> is_locked m) (modes st) = [] \<Longrightarrow>
   activate_mode uid mid now st \<noteq> Inl Forbidden"
  by (simp add: activate_mode_def Let_def split: option.splits)

lemmas store_eval = two_modes_def create_mode_def init_store_def new_mode_def find_mode_def
  update_row_def lock_session_def activate_mode_def locked_now_def Let_def get_active_mode_def

lemma two_modes_inv: "store_inv two_modes"
  unfolding two_modes_def by (intro create_mode_inv init_store_inv)

lemma two_modes_locked:
  "\<exists>st1 st2. activate_mode 1 0 0 two_modes = Inr st1 \<and> lock_session 1 0 480 0 st1 = Inr st2 \<and>
     (\<exists>m. find_mode st2 1 0 = Some m \<and> locked_now 0 m \<and> is_active m)"
  by (simp add: store_eval)

lemma two_modes_locked_inv:
  obtains st2 m where "store_inv st2" "find_mode st2 1 0 = Some m" "locked_now 0 m" "is_active m"
proof -
  from two_modes_locked obtain st1 st2 m where h: "activate_mode 1 0 0 two_modes = Inr st1"
    "lock_session 1 0 480 0 st1 = Inr st2" "find_mode st2 1 0 = Some m" "locked_now 0 m" "is_active m"
    by blast
  have "store_inv st2" using lock_session_inv [OF activate_mode_inv [OF two_modes_inv h(1)] h(2)] .
  with h that show ?thesis by simp
qed

subsection \<open>Properties\<close>

text \<open>Claim C11. Every table reachable from the empty one by the handlers of routers/modes.py
  satisfies the invariant: identifiers distinct and below the counter, every locked mode
  active, at most one active mode per user.\<close>
theorem reachable_store_inv: "mreach st \<Longrightarrow> store_inv st"
  by (induction rule: mreach.induct) (auto intro: init_store_inv mstep_inv)

theorem reachable_store_inv_witness:
  "mreach (reset_modes 1 init_store) \<and> store_inv (reset_modes 1 init_store)"
proof -
  have r: "mreach (reset_modes 1 init_store)" by (rule mreach.step [OF mreach.init mstep.reset])
  from r reachable_store_inv [OF r] show ?thesis by simp
qed

text \<open>Claim C9. On a table satisfying the invariant, neither get_active_mode nor activate_mode
  raises the MultipleResultsFound error of scalar_one_or_none(): each user has at most one
  active and at most one locked mode.\<close>
theorem no_multiple_results:
  "store_inv st \<Longrightarrow>
   get_active_mode uid st \<noteq> Inl MultipleResults \<and> activate_mode uid mid now st \<noteq> Inl MultipleResults"
proof
  assume inv: "store_inv st"
  show "get_active_mode uid st \<noteq> Inl MultipleResults"
    using active_rows_le1 [OF inv, of uid]
    by (auto simp: get_active_mode_def split: list.splits)
  show "activate_mode uid mid now st \<noteq> Inl MultipleResults"
    using locked_rows_le1 [OF inv, of uid]
    by (auto simp: activate_mode_def Let_def split: option.splits)
qed

theorem no_multiple_results_witness:
  "store_inv two_modes \<and> get_active_mode 1 two_modes \<noteq> Inl MultipleResults \<and>
   activate_mode 1 0 0 two_modes \<noteq> Inl MultipleResults"
  using two_modes_inv no_multiple_results [OF two_modes_inv, of 1 0 0] by simp

text \<open>After a successful activation the user has exactly one active mode, the
  requested one, and none of the user's modes is locked.\<close>
theorem activate_mode_post:
  assumes inv: "store_inv st" and h: "activate_mode uid mid now st = Inr st'"
  shows "(\<exists>m. get_active_mode uid st' = Inr m \<and> mode_id m = mid) \<and>
         (\<forall>x \<in> set (modes st'). user_id x = uid \<longrightarrow> \<not> is_locked x)"
proof -
  define ms1 where "ms1 = map (\<lambda>m. if user_id m = uid
                    then m\<lparr>is_active := False, is_locked := False, lock_until := None\<rparr> else m) (modes st)"
  obtain r where r: "r \<in> set ms1" "mode_id r = mid" "user_id r = uid"
    and st': "st' = st\<lparr>modes := update_row mid (\<lambda>m. m\<lparr>is_active := True\<rparr>) ms1\<rparr>"
    using activate_mode_InrD [OF h] unfolding ms1_def[symmetric] by blast
  have unl: "\<And>y. y \<in> set ms1 \<Longrightarrow> user_id y = uid \<Longrightarrow> \<not> is_locked y"
    using deactivated_rows [of _ uid "modes st"] unfolding ms1_def by blast
  have inv': "store_inv st'" using activate_mode_inv [OF inv h] .
  have "r\<lparr>is_active := True\<rparr> \<in> set (modes st')"
    using r by (auto simp: st' update_row_def)
  then have "filter (\<lambda>m. user_id m = uid \<and> is_active m) (modes st') = [r\<lparr>is_active := True\<rparr>]"
    using active_rows_le1 [OF inv', of uid] r by (intro length_le1_member) auto
  then have "get_active_mode uid st' = Inr (r\<lparr>is_active := True\<rparr>)"
    by (simp add: get_active_mode_def)
  moreover have "\<forall>x \<in> set (modes st'). user_id x = uid \<longrightarrow> \<not> is_locked x"
  proof (intro ballI impI)
    fix x assume x: "x \<in> set (modes st')" "user_id x = uid"
    from x(1) have "(\<exists>y \<in> set ms1. mode_id y = mid \<and> x = y\<lparr>is_active := True\<rparr>) \<or>
               (x \<in> set ms1 \<and> mode_id x \<noteq> mid)"
      by (intro set_update_row) (simp add: st')
    with unl x(2) show "\<not> is_locked x" by auto
  qed
  ultimately show ?thesis using r by auto
qed

theorem activate_mode_post_witness:
  "store_inv two_modes \<and> (\<exists>st'. activate_mode 1 1 0 two_modes = Inr st' \<and>
     (\<exists>m. get_active_mode 1 st' = Inr m \<and> mode_id m = 1) \<and>
     (\<forall>x \<in> set (modes st'). user_id x = 1 \<longrightarrow> \<not> is_locked x))"
proof -
  have "\<exists>st'. activate_mode 1 1 0 two_modes = Inr st'" by (simp add: store_eval)
  then obtain st' where h: "activate_mode 1 1 0 two_modes = Inr st'" ..
  from activate_mode_post [OF two_modes_inv h] h two_modes_inv show ?thesis by blast
qed

text \<open>Claim C7. Scenario D: once a mode is locked for d minutes at time now, every activation
  request of the same user before now + 60 d seconds fails with 403 Forbidden, whichever
  mode it names.\<close>
theorem lock_then_activate_forbidden:
  assumes inv: "store_inv st" and h: "lock_session uid mid d now st = Inr st'"
    and t: "t < now + 60 * d"
  shows "activate_mode uid mid' t st' = Inl Forbidden"
proof -
  obtain m where m: "find_mode st uid mid = Some m" "is_active m"
    and st': "st' = st\<lparr>modes := update_row mid
       (\<lambda>m. m\<lparr>is_locked := True, lock_until := Some (now + 60 * d)\<rparr>) (modes st)\<rparr>"
    using h by (rule lock_session_InrD)
  let ?m' = "m\<lparr>is_locked := True, lock_until := Some (now + 60 * d)\<rparr>"
  have "?m' \<in> set (modes st')"
    unfolding st' using find_mode_SomeD [OF m(1)] by (auto intro: update_row_member)
  moreover have "user_id ?m' = uid" using find_mode_SomeD [OF m(1)] by simp
  moreover have "locked_now t ?m'" using t by (simp add: locked_now_def)
  ultimately show ?thesis
    using locked_row_forbids [OF lock_session_inv [OF inv h]] by blast
qed

theorem lock_then_activate_forbidden_witness:
  "\<exists>st1 st2. store_inv st1 \<and> lock_session 1 0 30 0 st1 = Inr st2 \<and> 600 < 0 + 60 * (30::int) \<and>
     activate_mode 1 1 600 st2 = Inl Forbidden"
proof -
  have "\<exists>st1 st2. activate_mode 1 0 0 two_modes = Inr st1 \<and> lock_session 1 0 30 0 st1 = Inr st2"
    by (simp add: store_eval)
  then obtain st1 st2 where h: "activate_mode 1 0 0 two_modes = Inr st1" "lock_session 1 0 30 0 st1 = Inr st2"
    by blast
  have inv: "store_inv st1" by (rule activate_mode_inv [OF two_modes_inv h(1)])
  have "activate_mode 1 1 600 st2 = Inl Forbidden"
    by (rule lock_then_activate_forbidden [OF inv h(2)]) simp
  with inv h(2) show ?thesis by auto
qed

text \<open>Claim C33. reset_modes (POST /modes/reset) runs under an active lock: afterwards no mode
  of the user is locked and an activation is no longer refused with Forbidden, so the lock
  is bypassed.\<close>
theorem reset_modes_ignores_lock:
  "(\<forall>x \<in> set (modes (reset_modes uid st)). user_id x = uid \<longrightarrow> \<not> is_locked x) \<and>
   activate_mode uid mid now (reset_modes uid st) \<noteq> Inl Forbidden"
proof -
  have "\<forall>x \<in> set (modes (reset_modes uid st)). user_id x = uid \<longrightarrow> \<not> is_locked x"
    using preset_rows_unlocked by (auto simp: reset_modes_def)
  moreover from this have "filter (\<lambda>m. user_id m = uid \<and> is_locked m) (modes (reset_modes uid st)) = []"
    by (auto simp: filter_empty_conv)
  ultimately show ?thesis using activate_unlocked by blast
qed

theorem reset_modes_ignores_lock_witness:
  "\<exists>st2 m. find_mode st2 1 0 = Some m \<and> locked_now 0 m \<and>
     (\<forall>x \<in> set (modes (reset_modes 1 st2)). user_id x = 1 \<longrightarrow> \<not> is_locked x) \<and>
     activate_mode 1 1 0 (reset_modes 1 st2) \<noteq> Inl Forbidden"
proof -
  obtain st2 m where "find_mode st2 1 0 = Some m" "locked_now 0 m"
    using two_modes_locked by blast
  with reset_modes_ignores_lock [of 1 st2 1 0] show ?thesis by blast
qed

text \<open>Claim C34. delete_mode does not check the lock: a mode that is currently locked can be
  deleted, after which activating another mode succeeds past the lock check.\<close>
theorem delete_bypasses_lock:
  assumes inv: "store_inv st" and m: "find_mode st uid mid = Some m" "locked_now now m"
  shows "\<exists>st'. delete_mode uid mid st = Inr st' \<and> activate_mode uid mid' now st' \<noteq> Inl Forbidden"
proof -
  let ?st' = "st\<lparr>modes := filter (\<lambda>x. mode_id x \<noteq> mid) (modes st)\<rparr>"
  have mm: "m \<in> set (modes st)" "mode_id m = mid" "user_id m = uid"
    using find_mode_SomeD [OF m(1)] by simp_all
  have one: "filter (\<lambda>m. user_id m = uid \<and> is_locked m) (modes st) = [m]"
    using locked_rows_single [OF inv mm(1) mm(3)] m(2) by (simp add: locked_now_def)
  have "filter (\<lambda>m. user_id m = uid \<and> is_locked m) (modes ?st') = []"
  proof (rule ccontr)
    assume "filter (\<lambda>m. user_id m = uid \<and> is_locked m) (modes ?st') \<noteq> []"
    then obtain x where x: "x \<in> set (modes st)" "mode_id x \<noteq> mid" "user_id x = uid" "is_locked x"
      by (auto simp: filter_empty_conv)
    then have "x \<in> set (filter (\<lambda>m. user_id m = uid \<and> is_locked m) (modes st))" by simp
    with one x(2) mm(2) show False by simp
  qed
  moreover have "delete_mode uid mid st = Inr ?st'" using m(1) by (simp add: delete_mode_def)
  ultimately show ?thesis using activate_unlocked by blast
qed

theorem delete_bypasses_lock_witness:
  "\<exists>st2 m. store_inv st2 \<and> find_mode st2 1 0 = Some m \<and> locked_now 0 m \<and>
     (\<exists>st'. delete_mode 1 0 st2 = Inr st' \<and> activate_mode 1 1 0 st' \<noteq> Inl Forbidden)"
proof -
  obtain st2 m where h: "store_inv st2" "find_mode st2 1 0 = Some m" "locked_now 0 m"
    by (rule two_modes_locked_inv)
  with delete_bypasses_lock [OF h, of 1] show ?thesis by blast
qed

text \<open>lock_session on the active mode always overwrites lock_until with now +
  duration, even when the mode is already locked until later, so re-locking for one minute
  shortens an eight-hour lock.\<close>
theorem relock_replaces_deadline:
  assumes m: "find_mode st uid mid = Some m" "is_active m"
  shows "\<exists>st'. lock_session uid mid d now st = Inr st' \<and>
           find_mode st' uid mid = Some (m\<lparr>is_locked := True, lock_until := Some (now + 60 * d)\<rparr>)"
  using m find_update_row [of mid uid "modes st" m] by (simp add: lock_session_def find_mode_def)

theorem relock_replaces_deadline_witness:
  "\<exists>st2 m. find_mode st2 1 0 = Some m \<and> is_active m \<and> lock_until m = Some (60 * 480) \<and>
     (\<exists>st'. lock_session 1 0 1 0 st2 = Inr st' \<and>
        find_mode st' 1 0 = Some (m\<lparr>is_locked := True, lock_until := Some 60\<rparr>))"
proof -
  have "\<exists>st1 st2 m. activate_mode 1 0 0 two_modes = Inr st1 \<and> lock_session 1 0 480 0 st1 = Inr st2 \<and>
     find_mode st2 1 0 = Some m \<and> is_active m \<and> lock_until m = Some (60 * 480)"
    by (simp add: store_eval)
  then obtain st2 m where h: "find_mode st2 1 0 = Some m" "is_active m" "lock_until m = Some (60 * 480)"
    by blast
  from relock_replaces_deadline [OF h(1,2), of 1 0] h show ?thesis by auto
qed

lemma find_deactivated_None:
  "(find (\<lambda>m. mode_id m = mid \<and> user_id m = uid)
      (map (\<lambda>m. if user_id m = uid
                then m\<lparr>is_active := False, is_locked := False, lock_until := None\<rparr> else m) xs) = None) =
   (find (\<lambda>m. mode_id m = mid \<and> user_id m = uid) xs = None)"
  by (induction xs) auto

lemma activate_mode_unlocked_Inr:
  assumes le: "length (filter (\<lambda>m. user_id m = uid \<and> is_locked m) (modes st)) \<le> 1"
    and free: "\<forall>l \<in> set (modes st). user_id l = uid \<longrightarrow> \<not> locked_now now l"
    and m: "find_mode st uid mid \<noteq> None"
  shows "\<exists>st'. activate_mode uid mid now st = Inr st'"
proof -
  let ?L = "filter (\<lambda>m. user_id m = uid \<and> is_locked m) (modes st)"
  have "?L \<noteq> [] \<Longrightarrow> \<not> locked_now now (hd ?L)"
  proof -
    assume "?L \<noteq> []"
    then have "hd ?L \<in> set ?L" by (rule hd_in_set)
    with free show ?thesis by simp
  qed
  moreover have "find (\<lambda>m. mode_id m = mid \<and> user_id m = uid) (modes st) \<noteq> None"
    using m by (simp add: find_mode_def)
  ultimately show ?thesis
    using le by (auto simp: activate_mode_def Let_def find_deactivated_None split: option.splits)
qed

text \<open>Claim C13. Every lock ends: on a table with the invariant, for every mode of the user
  there is a time after which activating it succeeds, provided no request changes the
  table in between (the lock's deadline; at once when nothing is locked).\<close>
theorem activation_eventually_enabled:
  assumes inv: "store_inv st" and m: "find_mode st uid mid \<noteq> None"
  shows "\<exists>t. \<forall>now \<ge> t. \<exists>st'. activate_mode uid mid now st = Inr st'"
proof -
  let ?L = "filter (\<lambda>m. user_id m = uid \<and> is_locked m) (modes st)"
  define t where "t = (case ?L of [] \<Rightarrow> 0 | l # _ \<Rightarrow> (case lock_until l of None \<Rightarrow> 0 | Some d \<Rightarrow> d))"
  have le: "length ?L \<le> 1" by (rule locked_rows_le1 [OF inv])
  have "\<forall>now \<ge> t. \<forall>l \<in> set (modes st). user_id l = uid \<longrightarrow> \<not> locked_now now l"
  proof (intro allI impI ballI)
    fix now l assume now: "t \<le> now" and l: "l \<in> set (modes st)" "user_id l = uid"
    show "\<not> locked_now now l"
    proof
      assume lk: "locked_now now l"
      then have "?L = [l]" using locked_rows_single [OF inv l] by (simp add: locked_now_def)
      with lk now show False by (auto simp: t_def locked_now_def split: option.splits)
    qed
  qed
  then show ?thesis using activate_mode_unlocked_Inr [OF le _ m] by blast
qed

theorem activation_eventually_enabled_witness:
  "\<exists>st2 m. store_inv st2 \<and> find_mode st2 1 0 = Some m \<and> locked_now 0 m \<and>
     (\<exists>t. \<forall>now \<ge> t. \<exists>st'. activate_mode 1 0 now st2 = Inr st')"
proof -
  obtain st2 m where h: "store_inv st2" "find_mode st2 1 0 = Some m" "locked_now 0 m" "is_active m"
    by (rule two_modes_locked_inv)
  then have "find_mode st2 1 0 \<noteq> None" by simp
  from activation_eventually_enabled [OF h(1) this] h show ?thesis by blast
qed

end
