(* ===== verification/History.thy ===== *)
theory History
  imports Prelude
begin

text \<open>
  The user-history tables read by the focus engine, the personalization
  service and the analytics router: \<open>watch_history\<close>
  (src/backend/app/models/watch_history.py) and \<open>user_feedback\<close>
  (src/backend/app/models/feedback.py), each a list of rows in table order.
  Timestamps are seconds since the epoch in UTC, so the UTC midnight that
  starts the day of \<open>now\<close> is \<open>now - now mod 86400\<close>.
\<close>

record watch_event =
  w_user_id :: nat
  w_video_id :: pystr
  w_watch_duration_seconds :: int
  w_video_duration_seconds :: int
  w_watch_percentage :: rat
  w_was_skipped :: bool
  w_completed :: bool
  w_watched_at :: timestamp

record feedback_event =
  f_user_id :: nat
  f_video_id :: pystr
  f_feedback_type :: pystr
  f_created_at :: timestamp

text \<open>\<open>datetime.utcnow().replace(hour=0, minute=0, second=0, microsecond=0)\<close>.\<close>

definition today_start :: "timestamp \<Rightarrow> timestamp" where
  "today_start now = now - now mod 86400"

text \<open>\<open>datetime.utcnow() - timedelta(days=days)\<close>.\<close>

definition days_ago :: "int \<Rightarrow> timestamp \<Rightarrow> timestamp" where
  "days_ago days now = now - days * 86400"

text \<open>The rows of one user from a point in time on
  (\<open>where(user_id == user.id, watched_at >= since)\<close>).\<close>

definition watches_since :: "nat \<Rightarrow> timestamp \<Rightarrow> watch_event list \<Rightarrow> watch_event list" where
  "watches_since uid since hist = filter (\<lambda>w. w_user_id w = uid \<and> since \<le> w_watched_at w) hist"

definition feedback_since :: "nat \<Rightarrow> timestamp \<Rightarrow> feedback_event list \<Rightarrow> feedback_event list" where
  "feedback_since uid since fb = filter (\<lambda>f. f_user_id f = uid \<and> since \<le> f_created_at f) fb"

lemma today_start_bounds: "today_start now \<le> now \<and> now < today_start now + 86400"
  using pos_mod_sign [of 86400 now] pos_mod_bound [of 86400 now]
  unfolding today_start_def by linarith

lemma sum_watches_nonneg:
  "(\<And>w. w \<in> set hist \<Longrightarrow> 0 \<le> w_watch_duration_seconds w) \<Longrightarrow>
   0 \<le> sum_list (map w_watch_duration_seconds (watches_since uid t hist))"
  by (induction hist) (auto simp: watches_since_def)

end
