(* ===== verification/FocusEngine.thy ===== *)
theory FocusEngine
  imports Supervisor History
begin

text \<open>
  The \<open>FocusEngine\<close> service (src/backend/app/services/focus_engine.py) over
  the same \<open>focus_modes\<close> table as the router. It raises \<open>ValueError\<close>
  (\<open>engine_error\<close>) instead of HTTP errors, and reading the lock state heals
  an expired lock: \<open>_get_locked_mode\<close> commits the cleared lock before it
  returns, so a later error of the same call does not undo the heal. The
  operations that can fail after a commit return the pair
  \<open>(result, table)\<close>; the others return the new table on success only.
\<close>

datatype engine_error = ModeLocked focus_mode | ModeNotFound | NotActive | MultipleRows

text \<open>\<open>for mode in all_modes: if str(mode.id) == str(mode_id): ...; break\<close>:
  change the first row that satisfies \<open>P\<close>.\<close>

fun update_first :: "('a \<Rightarrow> bool) \<Rightarrow> ('a \<Rightarrow> 'a) \<Rightarrow> 'a list \<Rightarrow> 'a list" where
  "update_first P f [] = []"
| "update_first P f (x # xs) = (if P x then f x # xs else x # update_first P f xs)"

definition engine_get_active_mode :: "nat \<Rightarrow> mode_store \<Rightarrow> engine_error + focus_mode option" where
  "engine_get_active_mode uid st =
     (case filter (\<lambda>m. user_id m = uid \<and> is_active m) (modes st) of
        [] \<Rightarrow> Inr None
      | [m] \<Rightarrow> Inr (Some m)
      | _ \<Rightarrow> Inl MultipleRows)"

definition unlock_row :: "focus_mode \<Rightarrow> focus_mode" where
  "unlock_row m = m\<lparr>is_locked := False, lock_until := None\<rparr>"

definition get_locked_mode ::
  "nat \<Rightarrow> timestamp \<Rightarrow> mode_store \<Rightarrow> engine_error + (focus_mode option \<times> mode_store)" where
  "get_locked_mode uid now st =
     (case filter (\<lambda>m. user_id m = uid \<and> is_locked m) (modes st) of
        [] \<Rightarrow> Inr (None, st)
      | [m] \<Rightarrow>
          (case lock_until m of
             None \<Rightarrow> Inr (None, st)
           | Some t \<Rightarrow>
               if t > now then Inr (Some m, st)
               else Inr (None, st\<lparr>modes := update_row (mode_id m) unlock_row (modes st)\<rparr>))
      | _ \<Rightarrow> Inl MultipleRows)"

definition deactivate_user :: "nat \<Rightarrow> focus_mode list \<Rightarrow> focus_mode list" where
  "deactivate_user uid ms =
     map (\<lambda>m. if user_id m = uid
               then m\<lparr>is_active := False, is_locked := False, lock_until := None\<rparr> else m) ms"

definition engine_activate_mode ::
  "nat \<Rightarrow> nat \<Rightarrow> timestamp \<Rightarrow> mode_store \<Rightarrow> (engine_error + focus_mode) \<times> mode_store" where
  "engine_activate_mode uid mid now st =
     (case get_locked_mode uid now st of
        Inl e \<Rightarrow> (Inl e, st)
      | Inr (Some l, st1) \<Rightarrow> (Inl (ModeLocked l), st1)
      | Inr (None, st1) \<Rightarrow>
          (let ms = deactivate_user uid (modes st1)
           in case find (\<lambda>m. user_id m = uid \<and> mode_id m = mid) ms of
                None \<Rightarrow> (Inl ModeNotFound, st1)
              | Some t \<Rightarrow>
                  (Inr (t\<lparr>is_active := True\<rparr>),
                   st1\<lparr>modes := update_first (\<lambda>m. user_id m = uid \<and> mode_id m = mid)
                                  (\<lambda>m. m\<lparr>is_active := True\<rparr>) ms\<rparr>)))"

definition engine_lock_session ::
  "nat \<Rightarrow> nat \<Rightarrow> int \<Rightarrow> timestamp \<Rightarrow> mode_store \<Rightarrow> engine_error + (focus_mode \<times> mode_store)" where
  "engine_lock_session uid mid duration_minutes now st =
     (case find_mode st uid mid of
        None \<Rightarrow> Inl ModeNotFound
      | Some m \<Rightarrow>
          if \<not> is_active m then Inl NotActive
          else
            (let f = (\<lambda>m. m\<lparr>is_locked := True, lock_until := Some (now + 60 * duration_minutes)\<rparr>)
             in Inr (f m, st\<lparr>modes := update_row mid f (modes st)\<rparr>)))"

definition engine_unlock_session ::
  "nat \<Rightarrow> nat \<Rightarrow> mode_store \<Rightarrow> engine_error + (focus_mode \<times> mode_store)" where
  "engine_unlock_session uid mid st =
     (case find_mode st uid mid of
        None \<Rightarrow> Inl ModeNotFound
      | Some m \<Rightarrow> Inr (unlock_row m, st\<lparr>modes := update_row mid unlock_row (modes st)\<rparr>))"

text \<open>The dictionary returned by \<open>check_time_limit\<close>.\<close>

record time_limit =
  has_limit :: bool
  exceeded :: bool
  used_minutes :: int
  limit_minutes :: "int option"
  remaining_minutes :: "int option"

definition no_limit :: time_limit where
  "no_limit = \<lparr>has_limit = False, exceeded = False, used_minutes = 0,
               limit_minutes = None, remaining_minutes = None\<rparr>"

text \<open>\<open>if not mode.daily_time_limit_minutes\<close> is true for \<open>None\<close> and for \<open>0\<close>;
  \<open>func.sum\<close> over today's rows of the user, \<open>or 0\<close> when there are none.\<close>

definition check_time_limit ::
  "nat \<Rightarrow> timestamp \<Rightarrow> watch_event list \<Rightarrow> focus_mode \<Rightarrow> time_limit" where
  "check_time_limit uid now hist m =
     (case daily_time_limit_minutes m of
        None \<Rightarrow> no_limit
      | Some l \<Rightarrow>
          if l = 0 then no_limit
          else
            (let total = sum_list (map w_watch_duration_seconds
                           (watches_since uid (today_start now) hist));
                 used = total div 60
             in \<lparr>has_limit = True, exceeded = (used \<ge> l), used_minutes = used,
                 limit_minutes = Some l, remaining_minutes = Some (max 0 (l - used))\<rparr>))"

text \<open>\<open>get_session_stats\<close>: \<open>None\<close> is \<open>has_active_mode = False\<close>; the lock
  status is the remaining whole minutes and the deadline.\<close>

record session_stats =
  stats_mode :: focus_mode
  stats_time_limit :: time_limit
  stats_lock :: "(int \<times> timestamp) option"

definition lock_status :: "timestamp \<Rightarrow> focus_mode \<Rightarrow> (int \<times> timestamp) option" where
  "lock_status now m =
     (if is_locked m then
        (case lock_until m of
           None \<Rightarrow> None
         | Some t \<Rightarrow> if t - now > 0 then Some ((t - now) div 60, t) else None)
      else None)"

definition get_session_stats ::
  "nat \<Rightarrow> timestamp \<Rightarrow> watch_event list \<Rightarrow> mode_store \<Rightarrow> engine_error + session_stats option" where
  "get_session_stats uid now hist st =
     (case engine_get_active_mode uid st of
        Inl e \<Rightarrow> Inl e
      | Inr None \<Rightarrow> Inr None
      | Inr (Some m) \<Rightarrow>
          Inr (Some \<lparr>stats_mode = m, stats_time_limit = check_time_limit uid now hist m,
                     stats_lock = lock_status now m\<rparr>))"

text \<open>How the router reports each \<open>ValueError\<close> of the service.\<close>

definition router_error :: "engine_error \<Rightarrow> api_error" where
  "router_error e = (case e of ModeLocked _ \<Rightarrow> Forbidden | ModeNotFound \<Rightarrow> NotFound
                      | NotActive \<Rightarrow> BadRequest | MultipleRows \<Rightarrow> MultipleResults)"

subsection \<open>Lemmas\<close>

lemma update_row_absent: "mid \<notin> set (map mode_id ms) \<Longrightarrow> update_row mid f ms = ms"
  by (induction ms) (auto simp: update_row_def)

lemma update_first_unique:
  "distinct (map mode_id ms) \<Longrightarrow> x \<in> set ms \<Longrightarrow> user_id x = uid \<Longrightarrow> mode_id x = mid \<Longrightarrow>
   update_first (\<lambda>m. user_id m = uid \<and> mode_id m = mid) f ms = update_row mid f ms"
proof (induction ms)
  case (Cons y ys)
  show ?case
  proof (cases "user_id y = uid \<and> mode_id y = mid")
    case True
    with Cons.prems(1) have "mid \<notin> set (map mode_id ys)" by auto
    with True show ?thesis by (simp add: update_row_def update_row_absent [unfolded update_row_def])
  next
    case False
    with Cons.prems have "mode_id y \<noteq> mid \<and> x \<in> set ys" by auto
    with False Cons.IH Cons.prems show ?thesis by (simp add: update_row_def)
  qed
qed simp

lemma map_mode_id_deactivate [simp]: "map mode_id (deactivate_user uid ms) = map mode_id ms"
  by (simp add: deactivate_user_def comp_def)

lemma deactivate_heal:
  assumes "distinct (map mode_id ms)" "m \<in> set ms" "user_id m = uid"
  shows "deactivate_user uid (update_row (mode_id m) unlock_row ms) = deactivate_user uid ms"
  unfolding deactivate_user_def update_row_def map_map
proof (rule map_cong [OF refl])
  fix x assume x: "x \<in> set ms"
  show "((\<lambda>m. if user_id m = uid then m\<lparr>is_active := False, is_locked := False, lock_until := None\<rparr> else m) \<circ>
         (\<lambda>ma. if mode_id ma = mode_id m then unlock_row ma else ma)) x =
        (if user_id x = uid then x\<lparr>is_active := False, is_locked := False, lock_until := None\<rparr> else x)"
  proof (cases "mode_id x = mode_id m")
    case True
    with assms x have "x = m" using distinct_ids_eq by blast
    with assms(3) show ?thesis by (simp add: unlock_row_def)
  qed simp
qed

lemma find_swap: "find (\<lambda>m. P m \<and> Q m) xs = find (\<lambda>m. Q m \<and> P m) xs"
  by (simp add: conj_commute)


lemma activate_mode_proceed:
  "\<not> (length (filter (\<lambda>m. user_id m = uid \<and> is_locked m) (modes st)) > 1) \<Longrightarrow>
   \<not> (filter (\<lambda>m. user_id m = uid \<and> is_locked m) (modes st) \<noteq> [] \<and>
      locked_now now (hd (filter (\<lambda>m. user_id m = uid \<and> is_locked m) (modes st)))) \<Longrightarrow>
   activate_mode uid mid now st =
     (case find (\<lambda>m. user_id m = uid \<and> mode_id m = mid) (deactivate_user uid (modes st)) of
        None \<Rightarrow> Inl NotFound
      | Some _ \<Rightarrow> Inr (st\<lparr>modes := update_row mid (\<lambda>m. m\<lparr>is_active := True\<rparr>)
                              (deactivate_user uid (modes st))\<rparr>))"
  unfolding activate_mode_def Let_def deactivate_user_def [symmetric]
  by (simp only: if_False not_less [symmetric] find_swap [of "\<lambda>m. mode_id m = mid"])

lemma engine_proceed:
  assumes ids: "distinct (map mode_id (modes st))"
    and ms: "deactivate_user uid (modes st1) = deactivate_user uid (modes st)"
    and st1: "st1 = st\<lparr>modes := modes st1\<rparr>"
  shows "(case (case find (\<lambda>m. user_id m = uid \<and> mode_id m = mid) (deactivate_user uid (modes st1)) of
                None \<Rightarrow> (Inl ModeNotFound, st1)
              | Some t \<Rightarrow> (Inr (t\<lparr>is_active := True\<rparr>),
                   st1\<lparr>modes := update_first (\<lambda>m. user_id m = uid \<and> mode_id m = mid)
                                  (\<lambda>m. m\<lparr>is_active := True\<rparr>) (deactivate_user uid (modes st1))\<rparr>)) of
           (Inl e, _) \<Rightarrow> Inl (router_error e) | (Inr _, st') \<Rightarrow> Inr st') =
     (case find (\<lambda>m. user_id m = uid \<and> mode_id m = mid) (deactivate_user uid (modes st)) of
        None \<Rightarrow> Inl NotFound
      | Some _ \<Rightarrow> Inr (st\<lparr>modes := update_row mid (\<lambda>m. m\<lparr>is_active := True\<rparr>)
                              (deactivate_user uid (modes st))\<rparr>))"
proof (cases "find (\<lambda>m. user_id m = uid \<and> mode_id m = mid) (deactivate_user uid (modes st))")
  case None
  then show ?thesis using ms by (simp add: router_error_def)
next
  case (Some t)
  then have "t \<in> set (deactivate_user uid (modes st))" "user_id t = uid" "mode_id t = mid"
    by (auto dest: find_SomeD)
  moreover have "distinct (map mode_id (deactivate_user uid (modes st)))" using ids by simp
  ultimately have "update_first (\<lambda>m. user_id m = uid \<and> mode_id m = mid) (\<lambda>m. m\<lparr>is_active := True\<rparr>)
      (deactivate_user uid (modes st)) =
    update_row mid (\<lambda>m. m\<lparr>is_active := True\<rparr>) (deactivate_user uid (modes st))"
    by (intro update_first_unique) simp_all
  moreover have "\<And>Y. st1\<lparr>modes := Y\<rparr> = st\<lparr>modes := Y\<rparr>" by (subst st1) simp
  ultimately show ?thesis using Some ms by simp
qed


lemma filter_singleton_mem: "filter P xs = [m] \<Longrightarrow> m \<in> set xs \<and> P m"
proof -
  assume "filter P xs = [m]"
  then have "m \<in> set (filter P xs)" by simp
  then show ?thesis by simp
qed

lemma get_locked_mode_cases:
  assumes inv: "store_inv st"
  obtains (none) "filter (\<lambda>m. user_id m = uid \<and> is_locked m) (modes st) = []"
      "get_locked_mode uid now st = Inr (None, st)"
  | (nodeadline) m where "filter (\<lambda>m. user_id m = uid \<and> is_locked m) (modes st) = [m]"
      "lock_until m = None" "get_locked_mode uid now st = Inr (None, st)"
  | (live) m t where "filter (\<lambda>m. user_id m = uid \<and> is_locked m) (modes st) = [m]"
      "lock_until m = Some t" "now < t" "get_locked_mode uid now st = Inr (Some m, st)"
  | (expired) m t where "filter (\<lambda>m. user_id m = uid \<and> is_locked m) (modes st) = [m]"
      "lock_until m = Some t" "t \<le> now"
      "get_locked_mode uid now st =
         Inr (None, st\<lparr>modes := update_row (mode_id m) unlock_row (modes st)\<rparr>)"
proof (cases "filter (\<lambda>m. user_id m = uid \<and> is_locked m) (modes st)")
  case Nil
  then show ?thesis using none by (simp add: get_locked_mode_def)
next
  case (Cons m rest)
  with locked_rows_le1 [OF inv, of uid] have L: "filter (\<lambda>m. user_id m = uid \<and> is_locked m) (modes st) = [m]"
    by simp
  show ?thesis
  proof (cases "lock_until m")
    case None
    then show ?thesis using nodeadline L by (simp add: get_locked_mode_def)
  next
    case (Some t)
    then show ?thesis
      using live [OF L Some] expired [OF L Some] by (cases "now < t") (auto simp: get_locked_mode_def L)
  qed
qed

lemma two_modes_short_lock:
  "\<exists>st1 st2. activate_mode 1 0 0 two_modes = Inr st1 \<and> lock_session 1 0 1 0 st1 = Inr st2 \<and>
     (\<exists>m. find_mode st2 1 0 = Some m \<and> is_locked m)"
  by (simp add: store_eval)

text \<open>Claim C12. The router's activate_mode and the service's FocusEngine.activate_mode
  agree on every table with the invariant: the router succeeds exactly when the service
  does, with the same table, and each ValueError of the service is the router's HTTP
  error (locked: 403, unknown mode: 404).\<close>
theorem engine_activate_refines:
  assumes inv: "store_inv st"
  shows "activate_mode uid mid now st =
           (case engine_activate_mode uid mid now st of
              (Inl e, _) \<Rightarrow> Inl (router_error e)
            | (Inr _, st') \<Rightarrow> Inr st')"
proof -
  have ids: "distinct (map mode_id (modes st))" using inv by (simp add: store_inv_def ids_ok_def)
  have le1: "\<not> (length (filter (\<lambda>m. user_id m = uid \<and> is_locked m) (modes st)) > 1)"
    using locked_rows_le1 [OF inv, of uid] by simp
  from inv show ?thesis
  proof (cases rule: get_locked_mode_cases [where uid = uid and now = now])
    case none
    then show ?thesis using activate_mode_proceed [OF le1] engine_proceed [OF ids refl]
      by (simp add: engine_activate_mode_def Let_def)
  next
    case (nodeadline m)
    then have "\<not> locked_now now m" by (simp add: locked_now_def)
    then show ?thesis using nodeadline activate_mode_proceed [OF le1] engine_proceed [OF ids refl]
      by (simp add: engine_activate_mode_def Let_def)
  next
    case (live m t)
    then have m: "m \<in> set (modes st)" "user_id m = uid" "is_locked m"
      using filter_singleton_mem [OF live(1)] by simp_all
    have "locked_now now m" using live(2,3) m(3) by (simp add: locked_now_def)
    then have "activate_mode uid mid now st = Inl Forbidden"
      by (rule locked_row_forbids [OF inv m(1,2)])
    with live show ?thesis by (simp add: engine_activate_mode_def router_error_def)
  next
    case (expired m t)
    let ?st1 = "st\<lparr>modes := update_row (mode_id m) unlock_row (modes st)\<rparr>"
    have m: "m \<in> set (modes st)" "user_id m = uid"
      using filter_singleton_mem [OF expired(1)] by simp_all
    have "\<not> locked_now now m" using expired by (simp add: locked_now_def)
    moreover have heal: "deactivate_user uid (modes ?st1) = deactivate_user uid (modes st)"
      using deactivate_heal [OF ids m] by simp
    ultimately show ?thesis
      using expired activate_mode_proceed [OF le1] engine_proceed [OF ids heal]
      by (simp add: engine_activate_mode_def Let_def)
  qed
qed

theorem engine_activate_refines_witness:
  "store_inv two_modes \<and>
   activate_mode 1 1 0 two_modes =
     (case engine_activate_mode 1 1 0 two_modes of (Inl e, _) \<Rightarrow> Inl (router_error e) | (Inr _, st') \<Rightarrow> Inr st')"
  using two_modes_inv engine_activate_refines [OF two_modes_inv, of 1 1 0] by simp


lemma update_row_inv:
  assumes inv: "store_inv st"
    and f: "\<And>m. mode_id (f m) = mode_id m \<and> user_id (f m) = user_id m \<and> is_active (f m) = is_active m"
    and lk: "\<And>m. is_locked (f m) \<Longrightarrow> is_locked m"
  shows "store_inv (st\<lparr>modes := update_row mid f (modes st)\<rparr>)"
proof -
  have ids: "ids_ok st" using inv by (simp add: store_inv_def)
  have "map mode_id (modes (st\<lparr>modes := update_row mid f (modes st)\<rparr>)) = map mode_id (modes st)"
    using f by (simp add: map_mode_id_update_row)
  then have "ids_ok (st\<lparr>modes := update_row mid f (modes st)\<rparr>)"
    by (rule ids_ok_same_ids [OF ids]) simp
  moreover have "locked_active (update_row mid f (modes st))"
    using inv f lk unfolding store_inv_def locked_active_def
    by (auto dest!: set_update_row)
  moreover have "one_active (update_row mid f (modes st))"
    using inv f by (simp add: store_inv_def one_active_update_row)
  ultimately show ?thesis by (simp add: store_inv_def)
qed

lemma unlock_row_inv: "store_inv st \<Longrightarrow> store_inv (st\<lparr>modes := update_row mid unlock_row (modes st)\<rparr>)"
  by (rule update_row_inv) (simp_all add: unlock_row_def)

lemma update_row_unlocked:
  assumes L: "filter (\<lambda>m. user_id m = uid \<and> is_locked m) (modes st) = [m]"
    and x: "x \<in> set (update_row (mode_id m) unlock_row (modes st))" "user_id x = uid" "is_locked x"
  shows False
proof -
  from x(1) have "(\<exists>y \<in> set (modes st). mode_id y = mode_id m \<and> x = unlock_row y) \<or>
                  (x \<in> set (modes st) \<and> mode_id x \<noteq> mode_id m)"
    by (rule set_update_row)
  then show False
  proof
    assume "\<exists>y \<in> set (modes st). mode_id y = mode_id m \<and> x = unlock_row y"
    with x(3) show False by (auto simp: unlock_row_def)
  next
    assume "x \<in> set (modes st) \<and> mode_id x \<noteq> mode_id m"
    with x(2,3) have "x \<in> set (filter (\<lambda>m. user_id m = uid \<and> is_locked m) (modes st))" "x \<noteq> m"
      by auto
    with L show False by simp
  qed
qed

text \<open>The lazy expiry of _get_locked_mode: on a table with the invariant, a live lock is
  reported and nothing changes; otherwise the invariant still holds afterwards and no
  mode of the user is left locked with a deadline, an expired lock being cleared and
  committed.\<close>
theorem get_locked_mode_heals:
  assumes inv: "store_inv st" and h: "get_locked_mode uid now st = Inr (r, st')"
  shows "store_inv st' \<and>
         (case r of
            Some m \<Rightarrow> st' = st \<and> locked_now now m
          | None \<Rightarrow> (\<forall>x \<in> set (modes st'). user_id x = uid \<and> is_locked x \<longrightarrow> lock_until x = None))"
  using inv
proof (cases rule: get_locked_mode_cases [where uid = uid and now = now])
  case none
  with h have "r = None" "st' = st" by simp_all
  with none inv show ?thesis by (auto simp: filter_empty_conv)
next
  case (nodeadline m)
  with h have "r = None" "st' = st" by simp_all
  moreover have "\<And>x. x \<in> set (modes st) \<Longrightarrow> user_id x = uid \<Longrightarrow> is_locked x \<Longrightarrow> x = m"
  proof -
    fix x assume "x \<in> set (modes st)" "user_id x = uid" "is_locked x"
    then have "x \<in> set (filter (\<lambda>m. user_id m = uid \<and> is_locked m) (modes st))" by simp
    with nodeadline(1) show "x = m" by simp
  qed
  ultimately show ?thesis using nodeadline(2) inv by auto
next
  case (live m t)
  with h have "r = Some m" "st' = st" by simp_all
  moreover have "is_locked m" using filter_singleton_mem [OF live(1)] by simp
  ultimately show ?thesis using live inv by (simp add: locked_now_def)
next
  case (expired m t)
  with h have r: "r = None" and st': "st' = st\<lparr>modes := update_row (mode_id m) unlock_row (modes st)\<rparr>"
    by simp_all
  have "store_inv st'" unfolding st' by (rule unlock_row_inv [OF inv])
  moreover have "\<forall>x \<in> set (modes st'). user_id x = uid \<and> is_locked x \<longrightarrow> lock_until x = None"
    using update_row_unlocked [OF expired(1)] by (auto simp: st')
  ultimately show ?thesis using r by simp
qed

theorem get_locked_mode_heals_witness:
  "\<exists>st2 st3. store_inv st2 \<and> get_locked_mode 1 100 st2 = Inr (None, st3) \<and>
     store_inv st3 \<and> (\<forall>x \<in> set (modes st3). user_id x = 1 \<and> is_locked x \<longrightarrow> lock_until x = None)"
proof -
  obtain st1 st2 where h: "activate_mode 1 0 0 two_modes = Inr st1" "lock_session 1 0 1 0 st1 = Inr st2"
    using two_modes_short_lock by blast
  have inv: "store_inv st2" using lock_session_inv [OF activate_mode_inv [OF two_modes_inv h(1)] h(2)] .
  have "\<exists>st3. get_locked_mode 1 100 st2 = Inr (None, st3)"
    using h by (auto simp: store_eval get_locked_mode_def)
  then obtain st3 where g: "get_locked_mode 1 100 st2 = Inr (None, st3)" ..
  from get_locked_mode_heals [OF inv g] inv g show ?thesis by auto
qed


text \<open>Unlock_session is the administrative override: on a locked mode it always succeeds,
  keeps the invariant and afterwards activation passes the lock check.\<close>
theorem unlock_session_clears_lock:
  assumes inv: "store_inv st" and m: "find_mode st uid mid = Some m" "is_locked m"
  shows "\<exists>st'. engine_unlock_session uid mid st = Inr (unlock_row m, st') \<and> store_inv st' \<and>
           activate_mode uid mid' now st' \<noteq> Inl Forbidden"
proof -
  let ?st' = "st\<lparr>modes := update_row mid unlock_row (modes st)\<rparr>"
  have mm: "m \<in> set (modes st)" "mode_id m = mid" "user_id m = uid"
    using find_mode_SomeD [OF m(1)] by simp_all
  have L: "filter (\<lambda>m. user_id m = uid \<and> is_locked m) (modes st) = [m]"
    using locked_rows_single [OF inv mm(1) mm(3) m(2)] .
  have "filter (\<lambda>m. user_id m = uid \<and> is_locked m) (modes ?st') = []"
    using update_row_unlocked [OF L] mm(2) by (auto simp: filter_empty_conv)
  then have "activate_mode uid mid' now ?st' \<noteq> Inl Forbidden" by (rule activate_unlocked)
  moreover have "engine_unlock_session uid mid st = Inr (unlock_row m, ?st')"
    using m(1) by (simp add: engine_unlock_session_def)
  ultimately show ?thesis using unlock_row_inv [OF inv] by blast
qed

theorem unlock_session_clears_lock_witness:
  "\<exists>st2 m. store_inv st2 \<and> find_mode st2 1 0 = Some m \<and> is_locked m \<and>
     (\<exists>st'. engine_unlock_session 1 0 st2 = Inr (unlock_row m, st') \<and> store_inv st' \<and>
        activate_mode 1 1 0 st' \<noteq> Inl Forbidden)"
proof -
  obtain st2 m where h: "store_inv st2" "find_mode st2 1 0 = Some m" "locked_now 0 m"
    by (rule two_modes_locked_inv)
  then have "is_locked m" by (simp add: locked_now_def)
  with h unlock_session_clears_lock [OF h(1,2) this, of 1 0] show ?thesis by blast
qed

text \<open>Every state-changing operation of the FocusEngine service keeps the table invariant,
  also when activation fails after healing an expired lock.\<close>
theorem engine_ops_preserve_inv:
  assumes inv: "store_inv st"
  shows "store_inv (snd (engine_activate_mode uid mid now st)) \<and>
         (\<forall>m st'. engine_lock_session uid mid d now st = Inr (m, st') \<longrightarrow> store_inv st') \<and>
         (\<forall>m st'. engine_unlock_session uid mid st = Inr (m, st') \<longrightarrow> store_inv st')"
proof (intro conjI allI impI)
  show "store_inv (snd (engine_activate_mode uid mid now st))"
  proof (cases "engine_activate_mode uid mid now st")
    case (Pair r st')
    show ?thesis
    proof (cases r)
      case (Inr x)
      with Pair engine_activate_refines [OF inv, of uid mid now]
      have "activate_mode uid mid now st = Inr st'" by simp
      with Pair show ?thesis using activate_mode_inv [OF inv] by simp
    next
      case (Inl e)
      from inv show ?thesis
      proof (cases rule: get_locked_mode_cases [where uid = uid and now = now])
        case (expired m t)
        then have "st' = st\<lparr>modes := update_row (mode_id m) unlock_row (modes st)\<rparr>"
          using Pair Inl by (auto simp: engine_activate_mode_def Let_def split: option.splits)
        with Pair show ?thesis using unlock_row_inv [OF inv] by simp
      qed (use Pair Inl inv in \<open>auto simp: engine_activate_mode_def Let_def split: option.splits\<close>)
    qed
  qed
next
  fix m st' assume "engine_lock_session uid mid d now st = Inr (m, st')"
  then obtain m0 where "find_mode st uid mid = Some m0" "is_active m0"
    "st' = st\<lparr>modes := update_row mid
       (\<lambda>m. m\<lparr>is_locked := True, lock_until := Some (now + 60 * d)\<rparr>) (modes st)\<rparr>"
    by (auto simp: engine_lock_session_def Let_def split: option.splits if_splits)
  then have "lock_session uid mid d now st = Inr st'" by (simp add: lock_session_def)
  then show "store_inv st'" by (rule lock_session_inv [OF inv])
next
  fix m st' assume "engine_unlock_session uid mid st = Inr (m, st')"
  then have "st' = st\<lparr>modes := update_row mid unlock_row (modes st)\<rparr>"
    by (auto simp: engine_unlock_session_def split: option.splits)
  then show "store_inv st'" using unlock_row_inv [OF inv] by simp
qed

theorem engine_ops_preserve_inv_witness:
  "store_inv two_modes \<and> store_inv (snd (engine_activate_mode 1 0 0 two_modes)) \<and>
   (\<exists>m st'. engine_unlock_session 1 0 two_modes = Inr (m, st') \<and> store_inv st')"
proof -
  have "\<exists>m st'. engine_unlock_session 1 0 two_modes = Inr (m, st')"
    by (simp add: store_eval engine_unlock_session_def)
  then obtain m st' where u: "engine_unlock_session 1 0 two_modes = Inr (m, st')" by blast
  from engine_ops_preserve_inv [OF two_modes_inv, of 1 0 0 30] two_modes_inv u show ?thesis by auto
qed

lemma check_time_limit_Some:
  "daily_time_limit_minutes m = Some l \<Longrightarrow> l \<noteq> 0 \<Longrightarrow>
   check_time_limit uid now hist m =
     (let used = sum_list (map w_watch_duration_seconds (watches_since uid (today_start now) hist)) div 60
      in \<lparr>has_limit = True, exceeded = (used \<ge> l), used_minutes = used,
          limit_minutes = Some l, remaining_minutes = Some (max 0 (l - used))\<rparr>)"
  by (simp add: check_time_limit_def Let_def)

text \<open>Claim C19. check_time_limit: there is a limit exactly when daily_time_limit_minutes is set and
  not 0; the limit is exceeded exactly when the remaining minutes are 0; the remaining
  minutes lie between 0 and the limit.\<close>
theorem check_time_limit_contract:
  assumes nonneg: "\<forall>w \<in> set hist. 0 \<le> w_watch_duration_seconds w"
  shows "(has_limit (check_time_limit uid now hist m) \<longleftrightarrow>
            (\<exists>l. daily_time_limit_minutes m = Some l \<and> l \<noteq> 0)) \<and>
         (exceeded (check_time_limit uid now hist m) \<longleftrightarrow>
            has_limit (check_time_limit uid now hist m) \<and>
            remaining_minutes (check_time_limit uid now hist m) = Some 0) \<and>
         (\<forall>l. daily_time_limit_minutes m = Some l \<longrightarrow> 0 < l \<longrightarrow>
            (\<exists>k. remaining_minutes (check_time_limit uid now hist m) = Some k \<and> 0 \<le> k \<and> k \<le> l))"
proof (cases "\<exists>l. daily_time_limit_minutes m = Some l \<and> l \<noteq> 0")
  case True
  then obtain l where l: "daily_time_limit_minutes m = Some l" "l \<noteq> 0" by blast
  have "0 \<le> sum_list (map w_watch_duration_seconds (watches_since uid (today_start now) hist))"
    using nonneg by (intro sum_watches_nonneg) simp
  then have "0 \<le> sum_list (map w_watch_duration_seconds (watches_since uid (today_start now) hist)) div 60"
    by simp
  then show ?thesis using l by (auto simp: check_time_limit_Some Let_def)
next
  case False
  then have "check_time_limit uid now hist m = no_limit"
    by (cases "daily_time_limit_minutes m") (auto simp: check_time_limit_def)
  with False show ?thesis by (auto simp: no_limit_def)
qed

theorem check_time_limit_contract_witness:
  "has_limit (check_time_limit 1 100000 [\<lparr>w_user_id = 1, w_video_id = py ''abc'',
        w_watch_duration_seconds = 4200, w_video_duration_seconds = 4200, w_watch_percentage = 1,
        w_was_skipped = False, w_completed = True, w_watched_at = 90000\<rparr>] (preset_deep_work 1 1)) \<and>
   exceeded (check_time_limit 1 100000 [\<lparr>w_user_id = 1, w_video_id = py ''abc'',
        w_watch_duration_seconds = 4200, w_video_duration_seconds = 4200, w_watch_percentage = 1,
        w_was_skipped = False, w_completed = True, w_watched_at = 90000\<rparr>] (preset_deep_work 1 1)) \<and>
   remaining_minutes (check_time_limit 1 100000 [\<lparr>w_user_id = 1, w_video_id = py ''abc'',
        w_watch_duration_seconds = 4200, w_video_duration_seconds = 4200, w_watch_percentage = 1,
        w_was_skipped = False, w_completed = True, w_watched_at = 90000\<rparr>] (preset_deep_work 1 1)) = Some 0"
proof -
  let ?h = "[\<lparr>w_user_id = 1, w_video_id = py ''abc'', w_watch_duration_seconds = 4200,
        w_video_duration_seconds = 4200, w_watch_percentage = 1, w_was_skipped = False,
        w_completed = True, w_watched_at = 90000\<rparr>]"
  have n: "\<forall>w \<in> set ?h. 0 \<le> w_watch_duration_seconds w" by simp
  have c: "remaining_minutes (check_time_limit 1 100000 ?h (preset_deep_work 1 1)) = Some 0"
    "has_limit (check_time_limit 1 100000 ?h (preset_deep_work 1 1))"
    by (simp_all add: check_time_limit_def preset_deep_work_def new_mode_def watches_since_def
        today_start_def Let_def)
  from check_time_limit_contract [OF n, of 1 100000 "preset_deep_work 1 1"] n c show ?thesis by simp
qed

end
