(* ===== verification/Analytics.thy ===== *)
theory Analytics
  imports FocusEngine
begin

text \<open>
  The analytics router (src/backend/app/routers/analytics.py) over the
  \<open>watch_history\<close> and \<open>user_feedback\<close> tables of \<open>History\<close>. Writes append a
  row stamped with the request time; reads filter the user's rows. SQL's
  \<open>ORDER BY watched_at DESC\<close> leaves the order of equal timestamps to the
  database; the model breaks ties by table order (a stable sort).
  \<open>int(x / 60)\<close> truncates towards zero (\<open>py_trunc_div\<close>), unlike the
  floor division \<open>//\<close> of the focus engine.
\<close>

record analytics_db =
  watches :: "watch_event list"
  feedbacks :: "feedback_event list"

text \<open>\<open>WatchEvent\<close>: the request body of \<open>POST /analytics/watch\<close>.\<close>

record watch_request =
  req_video_id :: pystr
  req_watch_duration_seconds :: int
  req_video_duration_seconds :: int
  req_was_skipped :: bool
  req_completed :: bool

definition watch_percentage :: "int \<Rightarrow> int \<Rightarrow> rat" where
  "watch_percentage watched vdur =
     (if vdur > 0 then (of_int watched / of_int vdur) * 100 else 0)"

definition track_watch :: "nat \<Rightarrow> timestamp \<Rightarrow> watch_request \<Rightarrow> analytics_db \<Rightarrow> analytics_db" where
  "track_watch uid now e db =
     db\<lparr>watches := watches db @
        [\<lparr>w_user_id = uid, w_video_id = req_video_id e,
          w_watch_duration_seconds = req_watch_duration_seconds e,
          w_video_duration_seconds = req_video_duration_seconds e,
          w_watch_percentage = watch_percentage (req_watch_duration_seconds e) (req_video_duration_seconds e),
          w_was_skipped = req_was_skipped e, w_completed = req_completed e, w_watched_at = now\<rparr>]\<rparr>"

definition submit_feedback :: "nat \<Rightarrow> timestamp \<Rightarrow> pystr \<Rightarrow> pystr \<Rightarrow> analytics_db \<Rightarrow> analytics_db" where
  "submit_feedback uid now vid ftype db =
     db\<lparr>feedbacks := feedbacks db @
        [\<lparr>f_user_id = uid, f_video_id = vid, f_feedback_type = ftype, f_created_at = now\<rparr>]\<rparr>"

text \<open>\<open>GET /analytics/history\<close>: the user's rows newest first, page \<open>page\<close>
  (from 1) of \<open>per_page\<close> rows, and the total count.\<close>

definition user_history :: "nat \<Rightarrow> analytics_db \<Rightarrow> watch_event list" where
  "user_history uid db =
     sort_key (\<lambda>w. - w_watched_at w) (filter (\<lambda>w. w_user_id w = uid) (watches db))"

definition get_history :: "nat \<Rightarrow> nat \<Rightarrow> nat \<Rightarrow> analytics_db \<Rightarrow> watch_event list \<times> nat" where
  "get_history uid page per_page db =
     (let offset = (page - 1) * per_page
      in (take per_page (drop offset (user_history uid db)),
          length (filter (\<lambda>w. w_user_id w = uid) (watches db))))"

text \<open>\<open>int(x / 60)\<close> for an integer \<open>x\<close>: truncation towards zero.\<close>

definition py_trunc_div :: "int \<Rightarrow> int \<Rightarrow> int" where
  "py_trunc_div x d = sgn x * (\<bar>x\<bar> div d)"

record daily_stats =
  ds_date :: timestamp
  ds_watch_time_minutes :: int
  ds_videos_watched :: nat
  ds_time_limit_minutes :: "int option"
  ds_time_remaining_minutes :: "int option"

text \<open>\<open>GET /analytics/daily\<close>: today's watch time, and the active mode's
  limit; \<open>if time_limit\<close> is false for \<open>None\<close> and for 0.\<close>

definition get_daily_stats ::
  "nat \<Rightarrow> timestamp \<Rightarrow> mode_store \<Rightarrow> analytics_db \<Rightarrow> api_error + daily_stats" where
  "get_daily_stats uid now st db =
     (let rows = watches_since uid (today_start now) (watches db);
          tsum = sum_list (map w_watch_duration_seconds rows);
          mins = py_trunc_div tsum 60
      in case filter (\<lambda>m. user_id m = uid \<and> is_active m) (modes st) of
           [] \<Rightarrow> Inr \<lparr>ds_date = today_start now, ds_watch_time_minutes = mins,
                     ds_videos_watched = length rows, ds_time_limit_minutes = None,
                     ds_time_remaining_minutes = None\<rparr>
         | [m] \<Rightarrow>
             (let tl = daily_time_limit_minutes m
              in Inr \<lparr>ds_date = today_start now, ds_watch_time_minutes = mins,
                      ds_videos_watched = length rows, ds_time_limit_minutes = tl,
                      ds_time_remaining_minutes =
                        (case tl of None \<Rightarrow> None
                         | Some l \<Rightarrow> if l = 0 then None else Some (max 0 (l - mins)))\<rparr>)
         | _ \<Rightarrow> Inl MultipleResults)"

record analytics_summary =
  as_total_watch_time_minutes :: int
  as_videos_watched :: nat
  as_videos_skipped :: nat
  as_videos_completed :: nat
  as_average_watch_percentage :: rat
  as_daily_usage :: "(int \<times> int) list"

text \<open>\<open>func.date(watched_at)\<close> as a day number.\<close>

definition day_of :: "timestamp \<Rightarrow> int" where
  "day_of t = t div 86400"

text \<open>\<open>GET /analytics/summary\<close> for the last \<open>days\<close> days: totals, the
  average watch percentage (\<open>func.avg\<close>, 0 without rows) and the minutes per
  day, days ascending.\<close>

definition get_analytics_summary :: "nat \<Rightarrow> int \<Rightarrow> timestamp \<Rightarrow> analytics_db \<Rightarrow> analytics_summary" where
  "get_analytics_summary uid days now db =
     (let rows = watches_since uid (days_ago days now) (watches db);
          tsum = sum_list (map w_watch_duration_seconds rows);
          dates = sort (remdups (map (\<lambda>w. day_of (w_watched_at w)) rows))
      in \<lparr>as_total_watch_time_minutes = py_trunc_div tsum 60,
          as_videos_watched = length rows,
          as_videos_skipped = length (filter w_was_skipped rows),
          as_videos_completed = length (filter w_completed rows),
          as_average_watch_percentage =
            (if rows = [] then 0 else sum_list (map w_watch_percentage rows) / of_nat (length rows)),
          as_daily_usage =
            map (\<lambda>d. (d, py_trunc_div (sum_list (map w_watch_duration_seconds
                          (filter (\<lambda>w. day_of (w_watched_at w) = d) rows))) 60)) dates\<rparr>)"

text \<open>Examples: 70 minutes watched today (day 1, \<open>now\<close> = 100000), and a table
  whose only mode is the active deep-work preset (limit 60 minutes).\<close>

definition seventy_minutes :: analytics_db where
  "seventy_minutes =
     \<lparr>watches = [\<lparr>w_user_id = 1, w_video_id = py ''v1'', w_watch_duration_seconds = 4200,
                   w_video_duration_seconds = 4200, w_watch_percentage = 100, w_was_skipped = False,
                   w_completed = True, w_watched_at = 90000\<rparr>],
      feedbacks = []\<rparr>"

definition deep_work_store :: mode_store where
  "deep_work_store = \<lparr>modes = [(preset_deep_work 0 1)\<lparr>is_active := True\<rparr>], next_id = 1\<rparr>"

subsection \<open>Lemmas\<close>

lemma py_trunc_div_nonneg: "0 \<le> x \<Longrightarrow> py_trunc_div x d = x div d"
  by (auto simp: py_trunc_div_def sgn_if)

lemma deep_work_active:
  "filter (\<lambda>m. user_id m = 1 \<and> is_active m) (modes deep_work_store) = [(preset_deep_work 0 1)\<lparr>is_active := True\<rparr>]"
  by (simp add: deep_work_store_def preset_deep_work_def new_mode_def)

text \<open>Claim C24. GET /analytics/daily and FocusEngine.check_time_limit agree: with non-negative watch
  durations, the daily endpoint reports the active mode's limit, the same remaining
  minutes as check_time_limit, and, when there is a limit, the same used minutes (int(x
  / 60) and x // 60 agree on x >= 0).\<close>
theorem daily_stats_agrees_time_limit:
  assumes nonneg: "\<forall>w \<in> set (watches db). 0 \<le> w_watch_duration_seconds w"
    and act: "filter (\<lambda>m. user_id m = uid \<and> is_active m) (modes st) = [m]"
    and h: "get_daily_stats uid now st db = Inr r"
  shows "ds_time_limit_minutes r = daily_time_limit_minutes m \<and>
         ds_time_remaining_minutes r = remaining_minutes (check_time_limit uid now (watches db) m) \<and>
         (has_limit (check_time_limit uid now (watches db) m) \<longrightarrow>
            ds_watch_time_minutes r = used_minutes (check_time_limit uid now (watches db) m))"
proof -
  let ?t = "sum_list (map w_watch_duration_seconds (watches_since uid (today_start now) (watches db)))"
  have "0 \<le> ?t" using nonneg by (intro sum_watches_nonneg) simp
  then have mins: "py_trunc_div ?t 60 = ?t div 60" by (rule py_trunc_div_nonneg)
  show ?thesis
    using h act mins
    by (cases "daily_time_limit_minutes m")
      (auto simp: get_daily_stats_def check_time_limit_def no_limit_def Let_def)
qed

theorem daily_stats_agrees_time_limit_witness:
  "\<exists>r. (\<forall>w \<in> set (watches seventy_minutes). 0 \<le> w_watch_duration_seconds w) \<and>
     get_daily_stats 1 100000 deep_work_store seventy_minutes = Inr r \<and>
     ds_time_remaining_minutes r =
       remaining_minutes (check_time_limit 1 100000 (watches seventy_minutes)
         ((preset_deep_work 0 1)\<lparr>is_active := True\<rparr>))"
proof -
  have n: "\<forall>w \<in> set (watches seventy_minutes). 0 \<le> w_watch_duration_seconds w"
    by (simp add: seventy_minutes_def)
  have "\<exists>r. get_daily_stats 1 100000 deep_work_store seventy_minutes = Inr r"
    by (simp add: get_daily_stats_def deep_work_active [unfolded One_nat_def] Let_def)
  then obtain r where h: "get_daily_stats 1 100000 deep_work_store seventy_minutes = Inr r" ..
  from daily_stats_agrees_time_limit [OF n deep_work_active h] n h show ?thesis by blast
qed

lemma take_mult_Suc: "take (Suc n * k) xs = take (n * k) xs @ take k (drop (n * k) xs)"
proof -
  have "Suc n * k = n * k + k" by simp
  then show ?thesis by (simp only: take_add)
qed

text \<open>GET /analytics/history pages partition the user's history: pages 1 to n together are
  the first n * per_page rows, newest first, and the reported total is the number of the
  user's rows.\<close>
theorem history_pages_partition:
  "concat (map (\<lambda>p. fst (get_history uid p per_page db)) [1..<Suc n]) =
     take (n * per_page) (user_history uid db) \<and>
   snd (get_history uid p per_page db) = length (user_history uid db)"
proof
  show "concat (map (\<lambda>p. fst (get_history uid p per_page db)) [1..<Suc n]) =
     take (n * per_page) (user_history uid db)"
  proof (induction n)
    case (Suc n)
    then show ?case by (simp add: get_history_def take_mult_Suc del: mult_Suc)
  qed simp
  show "snd (get_history uid p per_page db) = length (user_history uid db)"
    by (simp add: get_history_def user_history_def)
qed

end
