(* ===== verification/Personalization.thy ===== *)
theory Personalization
  imports Cache History "HOL-Library.Multiset"
begin

text \<open>
  The personalization service (src/backend/app/services/personalization.py).
  A Python dict that counts categories keeps its keys in insertion order; it
  is an association list here, bumped in the order the rows come. The rows of
  the two outer joins come in the database's order (there is no
  \<open>ORDER BY\<close>), which is the table order of the model; \<open>list(set(...))\<close>
  has an order Python leaves unspecified, modelled as first occurrence. Every
  property below depends on the counts and on membership only, so it holds
  whatever order the database or the hash gives. \<open>sorted(..., reverse=True)\<close>
  is stable and descending, which is the library's stable \<open>sort_key\<close> on the
  negated key. Scores are exact rationals; two items whose exact scores tie
  may be ordered by float rounding in Python.
\<close>

text \<open>\<open>d[k] = d.get(k, 0) + 1\<close> on an insertion-ordered dict.\<close>

fun bump :: "'k \<Rightarrow> ('k \<times> nat) list \<Rightarrow> ('k \<times> nat) list" where
  "bump k [] = [(k, 1)]"
| "bump k ((k', n) # rest) = (if k = k' then (k', n + 1) # rest else (k', n) # bump k rest)"

definition count_by :: "'k list \<Rightarrow> ('k \<times> nat) list" where
  "count_by ks = fold bump ks []"

record history_stats =
  completed_by_category :: "(pystr \<times> nat) list"
  skipped_by_category :: "(pystr \<times> nat) list"
  avg_preferred_duration :: rat
  total_videos :: nat

text \<open>\<open>content.category if content else "UNKNOWN"\<close> over the outer join with
  the cache table.\<close>

definition watch_category :: "cache_db \<Rightarrow> watch_event \<Rightarrow> pystr" where
  "watch_category db w = (case db (w_video_id w) of Some e \<Rightarrow> cc_category e | None \<Rightarrow> py ''UNKNOWN'')"

definition analyze_watch_history ::
  "nat \<Rightarrow> timestamp \<Rightarrow> cache_db \<Rightarrow> watch_event list \<Rightarrow> history_stats" where
  "analyze_watch_history uid now db hist =
     (let rows = watches_since uid (days_ago 30 now) hist;
          done = filter w_completed rows;
          durs = List.map_filter (\<lambda>w. map_option cc_duration_seconds (db (w_video_id w))) done
      in \<lparr>completed_by_category = count_by (map (watch_category db) done),
          skipped_by_category = count_by (map (watch_category db) (filter w_was_skipped rows)),
          avg_preferred_duration =
            (if durs = [] then 0 else of_int (sum_list durs) / of_nat (length durs)),
          total_videos = length rows\<rparr>)"

text \<open>\<open>content.category if content else None\<close>; the \<open>and category\<close> test
  drops \<open>None\<close> and the empty string.\<close>

definition feedback_category :: "cache_db \<Rightarrow> feedback_event \<Rightarrow> pystr option" where
  "feedback_category db f =
     (case db (f_video_id f) of
        Some e \<Rightarrow> if cc_category e = [] then None else Some (cc_category e)
      | None \<Rightarrow> None)"

definition disliked_categories ::
  "nat \<Rightarrow> timestamp \<Rightarrow> cache_db \<Rightarrow> feedback_event list \<Rightarrow> pystr list" where
  "disliked_categories uid now db fb =
     remdups (List.map_filter
       (\<lambda>f. if f_feedback_type f = py ''like'' then None
            else if f_feedback_type f \<in> {py ''dislike'', py ''not_interested''}
            then feedback_category db f else None)
       (feedback_since uid (days_ago 30 now) fb))"

definition liked_categories ::
  "nat \<Rightarrow> timestamp \<Rightarrow> cache_db \<Rightarrow> feedback_event list \<Rightarrow> pystr list" where
  "liked_categories uid now db fb =
     remdups (List.map_filter
       (\<lambda>f. if f_feedback_type f = py ''like'' then feedback_category db f else None)
       (feedback_since uid (days_ago 30 now) fb))"

text \<open>\<open>[c[0] for c in sorted(d.items(), key=lambda x: x[1], reverse=True)[:3]]\<close>.\<close>

definition top3 :: "(pystr \<times> nat) list \<Rightarrow> pystr list" where
  "top3 counts = map fst (take 3 (sort_key (\<lambda>(c, n). - int n) counts))"

record preferences =
  preferred_categories :: "pystr list"
  avoided_categories :: "pystr list"
  duration_min :: int
  duration_max :: int
  skip_threshold :: rat

definition add_disliked :: "pystr list \<Rightarrow> pystr list \<Rightarrow> pystr list" where
  "add_disliked dis avoided = fold (\<lambda>c acc. if c \<in> set acc then acc else acc @ [c]) dis avoided"

definition get_user_preferences ::
  "nat \<Rightarrow> timestamp \<Rightarrow> cache_db \<Rightarrow> watch_event list \<Rightarrow> feedback_event list \<Rightarrow> preferences" where
  "get_user_preferences uid now db hist fb =
     (let hs = analyze_watch_history uid now db hist
      in \<lparr>preferred_categories = top3 (completed_by_category hs),
          avoided_categories = add_disliked (disliked_categories uid now db fb)
                                 (top3 (skipped_by_category hs)),
          duration_min = 0, duration_max = 3600, skip_threshold = 3/10\<rparr>)"

text \<open>A video dict as the ranking reads it: each field \<open>None\<close> when the key is
  missing (\<open>video.get(key, default)\<close>).\<close>

record rank_item =
  ri_video_id :: pystr
  ri_category :: "pystr option"
  ri_depth_score :: "rat option"
  ri_clickbait_score :: "rat option"

definition personalization_score :: "preferences \<Rightarrow> rank_item \<Rightarrow> rat" where
  "personalization_score p v =
     (let cat = (case ri_category v of None \<Rightarrow> [] | Some c \<Rightarrow> c);
          s = 1;
          s = (if cat \<in> set (preferred_categories p) then s + 1/2 else s);
          s = (if cat \<in> set (avoided_categories p) then s - 1/2 else s);
          s = s + (case ri_depth_score v of None \<Rightarrow> 1/2 | Some d \<Rightarrow> d) * (3/10);
          s = s - (case ri_clickbait_score v of None \<Rightarrow> 0 | Some b \<Rightarrow> b) * (4/10)
      in s)"

definition get_personalized_ranking :: "preferences \<Rightarrow> rank_item list \<Rightarrow> (rank_item \<times> rat) list" where
  "get_personalized_ranking p vs =
     sort_key (\<lambda>(v, s). - s) (map (\<lambda>v. (v, personalization_score p v)) vs)"

text \<open>\<open>adjust_scores\<close>: the classification with the optional
  \<open>preference_boost\<close> and \<open>preference_penalty\<close> keys.\<close>

definition adjust_scores ::
  "preferences \<Rightarrow> classification \<Rightarrow> classification \<times> rat option \<times> rat option" where
  "adjust_scores p c =
     (c, if category c \<in> set (preferred_categories p) then Some (2/10) else None,
         if category c \<in> set (avoided_categories p) then Some (3/10) else None)"

text \<open>\<open>d.get(k, 0)\<close> on a counting dict.\<close>

definition dict_get :: "('k \<times> nat) list \<Rightarrow> 'k \<Rightarrow> nat" where
  "dict_get d k = (case map_of d k of None \<Rightarrow> 0 | Some n \<Rightarrow> n)"

text \<open>How many of the user's completed watches of the last 30 days fall in a category.\<close>

definition completed_count :: "nat \<Rightarrow> timestamp \<Rightarrow> cache_db \<Rightarrow> watch_event list \<Rightarrow> pystr \<Rightarrow> nat" where
  "completed_count uid now db hist c =
     count_list (map (watch_category db) (filter w_completed (watches_since uid (days_ago 30 now) hist))) c"

text \<open>An example history: one completed watch of \<open>graph_lecture\<close>.\<close>

definition one_watch :: "watch_event list" where
  "one_watch = [\<lparr>w_user_id = 1, w_video_id = video_id graph_lecture, w_watch_duration_seconds = 600,
     w_video_duration_seconds = 600, w_watch_percentage = 1, w_was_skipped = False,
     w_completed = True, w_watched_at = 0\<rparr>]"

text \<open>A video dict whose scores, where present, are those of a valid
  \<open>VideoClassification\<close>.\<close>

definition rank_scores_ok :: "rank_item \<Rightarrow> bool" where
  "rank_scores_ok v \<longleftrightarrow>
     (case ri_depth_score v of None \<Rightarrow> True | Some d \<Rightarrow> in_unit d) \<and>
     (case ri_clickbait_score v of None \<Rightarrow> True | Some b \<Rightarrow> in_unit b)"

text \<open>Two example videos and preferences for the ranking.\<close>

definition music_item :: rank_item where
  "music_item = \<lparr>ri_video_id = py ''m'', ri_category = Some MUSIC, ri_depth_score = Some (2/10),
                  ri_clickbait_score = Some (1/10)\<rparr>"

definition edu_item :: rank_item where
  "edu_item = \<lparr>ri_video_id = py ''e'', ri_category = Some EDUCATION, ri_depth_score = Some (8/10),
                ri_clickbait_score = Some (7/10)\<rparr>"

definition study_prefs :: preferences where
  "study_prefs = \<lparr>preferred_categories = [EDUCATION], avoided_categories = [MUSIC],
                   duration_min = 0, duration_max = 3600, skip_threshold = 3/10\<rparr>"

subsection \<open>Lemmas\<close>

lemma bump_keys: "map fst (bump k d) = (if k \<in> set (map fst d) then map fst d else map fst d @ [k])"
  by (induction d rule: bump.induct) auto

lemma bump_get: "dict_get (bump k d) x = dict_get d x + (if x = k then 1 else 0)"
  by (induction d rule: bump.induct) (auto simp: dict_get_def split: option.splits)

lemma bump_pos: "(\<forall>(k', n) \<in> set d. 0 < n) \<Longrightarrow> (\<forall>(k', n) \<in> set (bump k d). 0 < n)"
  by (induction d rule: bump.induct) auto

lemma fold_bump:
  "distinct (map fst d) \<Longrightarrow>
   distinct (map fst (fold bump ks d)) \<and>
   set (map fst (fold bump ks d)) = set (map fst d) \<union> set ks \<and>
   dict_get (fold bump ks d) x = dict_get d x + count_list ks x"
proof (induction ks arbitrary: d)
  case (Cons k ks)
  have "distinct (map fst (bump k d))" using Cons.prems by (simp add: bump_keys)
  from Cons.IH [OF this] show ?case by (auto simp: bump_keys bump_get)
qed simp

lemma count_by_props:
  "distinct (map fst (count_by ks)) \<and> set (map fst (count_by ks)) = set ks \<and>
   dict_get (count_by ks) x = count_list ks x"
  using fold_bump [of "[]" ks x] by (simp add: count_by_def dict_get_def)

lemma count_by_member: "(c, n) \<in> set (count_by ks) \<Longrightarrow> n = count_list ks c"
proof -
  assume "(c, n) \<in> set (count_by ks)"
  with count_by_props [of ks] have "map_of (count_by ks) c = Some n" by simp
  with count_by_props [of ks c] show ?thesis by (simp add: dict_get_def)
qed

lemma count_by_pos: "(c, n) \<in> set (count_by ks) \<Longrightarrow> 0 < n"
proof -
  have "\<forall>(k', n) \<in> set (fold bump ks d). 0 < n" if "\<forall>(k', n) \<in> set d. 0 < n" for d
    using that
  proof (induction ks arbitrary: d)
    case (Cons k ks)
    from Cons.IH [OF bump_pos [OF Cons.prems]] show ?case by simp
  qed simp
  from this [of "[]"] have "\<forall>(k', n) \<in> set (count_by ks). 0 < n" unfolding count_by_def by simp
  then show "(c, n) \<in> set (count_by ks) \<Longrightarrow> 0 < n" by blast
qed

lemma personalization_score_split:
  "personalization_score p v =
     1 + (if (case ri_category v of None \<Rightarrow> [] | Some c \<Rightarrow> c) \<in> set (preferred_categories p)
          then 1/2 else 0)
       - (if (case ri_category v of None \<Rightarrow> [] | Some c \<Rightarrow> c) \<in> set (avoided_categories p)
          then 1/2 else 0)
       + (case ri_depth_score v of None \<Rightarrow> 1/2 | Some d \<Rightarrow> d) * (3/10)
       - (case ri_clickbait_score v of None \<Rightarrow> 0 | Some b \<Rightarrow> b) * (4/10)"
  by (simp add: personalization_score_def Let_def)

lemma rank_scores_ok_bounds:
  "rank_scores_ok v \<Longrightarrow>
   0 \<le> (case ri_depth_score v of None \<Rightarrow> 1/2 | Some d \<Rightarrow> d) \<and>
   (case ri_depth_score v of None \<Rightarrow> 1/2 | Some d \<Rightarrow> d) \<le> (1::rat) \<and>
   0 \<le> (case ri_clickbait_score v of None \<Rightarrow> 0 | Some b \<Rightarrow> b) \<and>
   (case ri_clickbait_score v of None \<Rightarrow> 0 | Some b \<Rightarrow> b) \<le> (1::rat)"
  by (auto simp: rank_scores_ok_def in_unit_def split: option.splits)

lemma ranking_scores:
  "x \<in> set (get_personalized_ranking p vs) \<Longrightarrow> snd x = personalization_score p (fst x)"
  by (auto simp: get_personalized_ranking_def)

lemma ranking_sorted: "sorted (map (\<lambda>(v, s). - s) (get_personalized_ranking p vs))"
  by (simp add: get_personalized_ranking_def)

lemma map_set_memb: "x \<in> set xs \<Longrightarrow> f x \<in> set (map f xs)"
  by simp

lemma bspec2: "\<forall>x \<in> A. \<forall>y \<in> B. P x y \<Longrightarrow> a \<in> A \<Longrightarrow> b \<in> B \<Longrightarrow> P a b"
  by blast

lemma top3_props:
  assumes dist: "distinct (map fst counts)"
  shows "length (top3 counts) \<le> 3 \<and> distinct (top3 counts) \<and> set (top3 counts) \<subseteq> set (map fst counts) \<and>
    (\<forall>c n d m. c \<in> set (top3 counts) \<longrightarrow> (c, n) \<in> set counts \<longrightarrow> (d, m) \<in> set counts \<longrightarrow>
       d \<notin> set (top3 counts) \<longrightarrow> m \<le> n)"
proof -
  let ?f = "\<lambda>(c::pystr, n::nat). - int n"
  let ?S = "sort_key ?f counts"
  have setS: "set ?S = set counts" by simp
  have distS: "distinct (map fst ?S)"
    using dist by (simp add: distinct_map)
  have srt: "sorted (map ?f ?S)" by (rule sorted_sort_key)
  have "distinct (map fst (take 3 ?S))" using distS by (simp add: take_map [symmetric])
  then have "distinct (top3 counts)" by (simp only: top3_def)
  moreover have "length (top3 counts) \<le> 3" by (simp add: top3_def)
  moreover have "set (top3 counts) \<subseteq> set (map fst counts)"
  proof
    fix c assume "c \<in> set (top3 counts)"
    then obtain n where "(c, n) \<in> set (take 3 ?S)" by (auto simp: top3_def)
    then have "(c, n) \<in> set counts" using setS by (auto dest: in_set_takeD)
    then show "c \<in> set (map fst counts)" by force
  qed
  moreover have "\<forall>c n d m. c \<in> set (top3 counts) \<longrightarrow> (c, n) \<in> set counts \<longrightarrow> (d, m) \<in> set counts \<longrightarrow>
       d \<notin> set (top3 counts) \<longrightarrow> m \<le> n"
  proof (intro allI impI)
    fix c n d m
    assume c: "c \<in> set (top3 counts)" and cn: "(c, n) \<in> set counts"
      and dm: "(d, m) \<in> set counts" and d: "d \<notin> set (top3 counts)"
    from c obtain n' where cn': "(c, n') \<in> set (take 3 ?S)" by (auto simp: top3_def)
    then have "(c, n') \<in> set counts" using setS by (auto dest: in_set_takeD)
    with cn dist have nn: "n' = n" by (metis eq_key_imp_eq_value)
    have "(d, m) \<notin> set (take 3 ?S)" using d by (force simp: top3_def)
    moreover have "(d, m) \<in> set (take 3 ?S @ drop 3 ?S)" using dm setS by (simp only: append_take_drop_id)
    ultimately have dm': "(d, m) \<in> set (drop 3 ?S)" by (metis Un_iff set_append)
    have "sorted (map ?f (take 3 ?S) @ map ?f (drop 3 ?S))"
      using srt by (metis append_take_drop_id map_append)
    then have C: "\<forall>x \<in> set (map ?f (take 3 ?S)). \<forall>y \<in> set (map ?f (drop 3 ?S)). x \<le> y"
      unfolding sorted_append by (elim conjE)
    have A: "?f (c, n') \<in> set (map ?f (take 3 ?S))" using cn' by (rule map_set_memb)
    have B: "?f (d, m) \<in> set (map ?f (drop 3 ?S))" using dm' by (rule map_set_memb)
    have "?f (c, n') \<le> ?f (d, m)" by (rule bspec2 [OF C A B])
    then have "- int n' \<le> - int m" by simp
    with nn show "m \<le> n" by linarith
  qed
  ultimately show ?thesis by blast
qed

lemma set_add_disliked: "set (add_disliked dis av) = set av \<union> set dis"
proof -
  have "set (fold (\<lambda>c acc. if c \<in> set acc then acc else acc @ [c]) dis av) = set av \<union> set dis" for av
    by (induction dis arbitrary: av) auto
  then show ?thesis by (simp add: add_disliked_def)
qed

lemma top3_count_by:
  assumes c: "c \<in> set (top3 (count_by ks))"
  shows "0 < count_list ks c \<and> (\<forall>d. d \<notin> set (top3 (count_by ks)) \<longrightarrow> count_list ks d \<le> count_list ks c)"
proof -
  have dist: "distinct (map fst (count_by ks))" using count_by_props [of ks] by (rule conjunct1)
  note T = top3_props [OF dist]
  from c T obtain n where cn: "(c, n) \<in> set (count_by ks)" by force
  then have n: "n = count_list ks c" "0 < n" by (simp_all add: count_by_member count_by_pos)
  have "count_list ks d \<le> n" if d: "d \<notin> set (top3 (count_by ks))" for d
  proof (cases "d \<in> set ks")
    case True
    with count_by_props [of ks] obtain m where dm: "(d, m) \<in> set (count_by ks)" by force
    with T c cn d have "m \<le> n" by blast
    with count_by_member [OF dm] show ?thesis by simp
  next
    case False
    then show ?thesis by (simp add: count_list_0_iff)
  qed
  with n show ?thesis by simp
qed

lemma one_watch_prefs:
  "preferred_categories
     (get_user_preferences 1 0 (cache_result Map.empty graph_lecture sample_class 0) one_watch []) = [MUSIC]"
  by (simp add: get_user_preferences_def analyze_watch_history_def Let_def one_watch_def
      watches_since_def days_ago_def watch_category_def cache_result_def sample_class_def
      count_by_def top3_def)

text \<open>get_user_preferences: at most three preferred categories, without repetition, each
  watched to completion at least once and at least as often as every category left out;
  the avoided categories are the three most skipped together with the explicitly
  disliked ones.\<close>
theorem preferences_contract:
  "length (preferred_categories (get_user_preferences uid now db hist fb)) \<le> 3 \<and>
   distinct (preferred_categories (get_user_preferences uid now db hist fb)) \<and>
   (\<forall>c \<in> set (preferred_categories (get_user_preferences uid now db hist fb)).
      0 < completed_count uid now db hist c \<and>
      (\<forall>d. d \<notin> set (preferred_categories (get_user_preferences uid now db hist fb)) \<longrightarrow>
         completed_count uid now db hist d \<le> completed_count uid now db hist c)) \<and>
   set (avoided_categories (get_user_preferences uid now db hist fb)) =
     set (top3 (skipped_by_category (analyze_watch_history uid now db hist))) \<union>
     set (disliked_categories uid now db fb)"
proof -
  let ?ks = "map (watch_category db) (filter w_completed (watches_since uid (days_ago 30 now) hist))"
  have p: "preferred_categories (get_user_preferences uid now db hist fb) = top3 (count_by ?ks)"
    by (simp add: get_user_preferences_def analyze_watch_history_def Let_def)
  have dist: "distinct (map fst (count_by ?ks))" using count_by_props [of ?ks] by (rule conjunct1)
  have cc: "\<And>c. completed_count uid now db hist c = count_list ?ks c"
    by (simp add: completed_count_def)
  have av: "set (avoided_categories (get_user_preferences uid now db hist fb)) =
     set (top3 (skipped_by_category (analyze_watch_history uid now db hist))) \<union>
     set (disliked_categories uid now db fb)"
    by (simp add: get_user_preferences_def Let_def set_add_disliked)
  have "\<forall>c \<in> set (top3 (count_by ?ks)). 0 < count_list ?ks c \<and>
      (\<forall>d. d \<notin> set (top3 (count_by ?ks)) \<longrightarrow> count_list ?ks d \<le> count_list ?ks c)"
    using top3_count_by by blast
  with top3_props [OF dist] av show ?thesis unfolding p cc by blast
qed

theorem preferences_contract_witness:
  "preferred_categories
     (get_user_preferences 1 0 (cache_result Map.empty graph_lecture sample_class 0) one_watch []) = [MUSIC] \<and>
   0 < completed_count 1 0 (cache_result Map.empty graph_lecture sample_class 0) one_watch MUSIC"
  using preferences_contract [of 1 0 "cache_result Map.empty graph_lecture sample_class 0" one_watch "[]"]
    one_watch_prefs by simp

text \<open>get_personalized_ranking never adds or removes a video, orders by descending
  personalization score, and keeps the input order among videos of equal score (Python's
  sorted is stable).\<close>
theorem ranking_stable_permutation:
  "mset (map fst (get_personalized_ranking p vs)) = mset vs \<and>
   sorted (map (\<lambda>(v, s). - s) (get_personalized_ranking p vs)) \<and>
   (\<forall>k. filter (\<lambda>(v, s). s = k) (get_personalized_ranking p vs) =
        filter (\<lambda>(v, s). s = k) (map (\<lambda>v. (v, personalization_score p v)) vs))"
proof (intro conjI allI)
  show "mset (map fst (get_personalized_ranking p vs)) = mset vs"
  proof -
    have "mset (map fst (get_personalized_ranking p vs)) =
          mset (map fst (map (\<lambda>v. (v, personalization_score p v)) vs))"
      unfolding get_personalized_ranking_def mset_map mset_sort ..
    then show ?thesis by (simp add: comp_def)
  qed
  show "sorted (map (\<lambda>(v, s). - s) (get_personalized_ranking p vs))"
    by (simp add: get_personalized_ranking_def)
  fix k
  have "filter (\<lambda>y. (\<lambda>(v, s). - s) y = - k) (get_personalized_ranking p vs) =
        filter (\<lambda>y. (\<lambda>(v, s). - s) y = - k) (map (\<lambda>v. (v, personalization_score p v)) vs)"
    unfolding get_personalized_ranking_def by (rule sort_key_stable)
  then show "filter (\<lambda>(v, s). s = k) (get_personalized_ranking p vs) =
        filter (\<lambda>(v, s). s = k) (map (\<lambda>v. (v, personalization_score p v)) vs)"
    by (simp add: case_prod_unfold)
qed

text \<open>With depth and clickbait scores in [0, 1] (or missing), every personalization score
  lies between 0.1 and 1.8.\<close>
theorem personalization_score_bounds:
  assumes d: "\<forall>d. ri_depth_score v = Some d \<longrightarrow> in_unit d"
    and b: "\<forall>b. ri_clickbait_score v = Some b \<longrightarrow> in_unit b"
  shows "1/10 \<le> personalization_score p v \<and> personalization_score p v \<le> 9/5"
proof -
  define D where "D = (case ri_depth_score v of None \<Rightarrow> 1/2 | Some d \<Rightarrow> d)"
  define B where "B = (case ri_clickbait_score v of None \<Rightarrow> 0 | Some b \<Rightarrow> b)"
  define cat where "cat = (case ri_category v of None \<Rightarrow> [] | Some c \<Rightarrow> c)"
  have D: "0 \<le> D \<and> D \<le> (1::rat)" using d by (cases "ri_depth_score v") (simp_all add: D_def in_unit_def)
  have B: "0 \<le> B \<and> B \<le> (1::rat)" using b by (cases "ri_clickbait_score v") (simp_all add: B_def in_unit_def)
  have s: "personalization_score p v =
      1 + (if cat \<in> set (preferred_categories p) then 1/2 else 0)
        - (if cat \<in> set (avoided_categories p) then 1/2 else 0) + D * (3/10) - B * (4/10)"
    by (simp add: personalization_score_def Let_def D_def B_def cat_def)
  show ?thesis unfolding s using D B by (simp split: if_splits)
qed

theorem personalization_score_bounds_witness:
  "(\<forall>d. ri_depth_score \<lparr>ri_video_id = py ''a'', ri_category = Some MUSIC, ri_depth_score = Some (1/2),
                        ri_clickbait_score = None\<rparr> = Some d \<longrightarrow> in_unit d) \<and>
   1/10 \<le> personalization_score
     \<lparr>preferred_categories = [MUSIC], avoided_categories = [], duration_min = 0, duration_max = 3600,
      skip_threshold = 3/10\<rparr>
     \<lparr>ri_video_id = py ''a'', ri_category = Some MUSIC, ri_depth_score = Some (1/2),
      ri_clickbait_score = None\<rparr>"
  using personalization_score_bounds
    [of "\<lparr>ri_video_id = py ''a'', ri_category = Some MUSIC, ri_depth_score = Some (1/2),
          ri_clickbait_score = None\<rparr>"
        "\<lparr>preferred_categories = [MUSIC], avoided_categories = [], duration_min = 0, duration_max = 3600,
          skip_threshold = 3/10\<rparr>"]
  by (simp add: in_unit_def)

text \<open>Claim C17. With scores in [0, 1] (or missing), get_personalized_ranking puts every
  video of a preferred category that is not avoided (score at least 1.1) before every
  video of an avoided category that is not preferred (score at most 0.8), wherever
  either occurs in the input.\<close>
theorem preferred_ranked_before_avoided:
  assumes ok: "rank_scores_ok v1" "rank_scores_ok v2"
    and c1: "ri_category v1 = Some c1" "c1 \<in> set (preferred_categories p)"
            "c1 \<notin> set (avoided_categories p)"
    and c2: "ri_category v2 = Some c2" "c2 \<in> set (avoided_categories p)"
            "c2 \<notin> set (preferred_categories p)"
    and ij: "i < length (get_personalized_ranking p vs)" "j < length (get_personalized_ranking p vs)"
            "fst (get_personalized_ranking p vs ! i) = v1" "fst (get_personalized_ranking p vs ! j) = v2"
  shows "i < j"
proof (rule ccontr)
  let ?rs = "get_personalized_ranking p vs"
  assume "\<not> i < j"
  then have "j \<le> i" by simp
  then have "map (\<lambda>(v, s). - s) ?rs ! j \<le> map (\<lambda>(v, s). - s) ?rs ! i"
    using sorted_nth_mono [OF ranking_sorted [of p vs], of j i] ij(1) by simp
  then have le: "snd (?rs ! i) \<le> snd (?rs ! j)" using ij(1,2) by (simp add: case_prod_unfold)
  have "snd (?rs ! i) = personalization_score p v1"
    using ranking_scores [OF nth_mem [OF ij(1)]] ij(3) by simp
  moreover have "snd (?rs ! j) = personalization_score p v2"
    using ranking_scores [OF nth_mem [OF ij(2)]] ij(4) by simp
  moreover have "11/10 \<le> personalization_score p v1"
    using rank_scores_ok_bounds [OF ok(1)] c1 by (simp add: personalization_score_split)
  moreover have "personalization_score p v2 \<le> 8/10"
    using rank_scores_ok_bounds [OF ok(2)] c2 by (simp add: personalization_score_split)
  ultimately show False using le by simp
qed

theorem preferred_ranked_before_avoided_witness:
  "get_personalized_ranking study_prefs [music_item, edu_item] =
     [(edu_item, 73/50), (music_item, 13/25)] \<and> (0::nat) < 1"
proof -
  have r: "get_personalized_ranking study_prefs [music_item, edu_item] =
     [(edu_item, 73/50), (music_item, 13/25)]"
    by (simp add: get_personalized_ranking_def personalization_score_def study_prefs_def
        music_item_def edu_item_def Let_def py_def)
  have "rank_scores_ok edu_item" "rank_scores_ok music_item"
    by (simp_all add: rank_scores_ok_def edu_item_def music_item_def in_unit_def)
  moreover have "ri_category edu_item = Some EDUCATION" "ri_category music_item = Some MUSIC"
    "EDUCATION \<in> set (preferred_categories study_prefs)"
    "EDUCATION \<notin> set (avoided_categories study_prefs)"
    "MUSIC \<in> set (avoided_categories study_prefs)"
    "MUSIC \<notin> set (preferred_categories study_prefs)"
    by (simp_all add: edu_item_def music_item_def study_prefs_def py_def)
  ultimately have "(0::nat) < 1"
    using preferred_ranked_before_avoided [of edu_item music_item EDUCATION study_prefs MUSIC 0
        "[music_item, edu_item]" 1] r by simp
  with r show ?thesis by simp
qed

end
