(* ===== verification/Feed.thy ===== *)
theory Feed
  imports FilterEngine Cache ModeStore
begin

text \<open>
  The feed router (src/backend/app/routers/feed.py) composes the other
  components: the active mode from the \<open>focus_modes\<close> table, the videos of
  the YouTube API (an argument: what the external call returned), the
  classifier with its cache, and the policy engine. When the API fails the
  router falls back to synthetic demo videos; their generation and the
  seeded shuffle are external, so the shuffled list is an argument, and the
  router's own quick filter over it is modelled. A \<open>FeedItem\<close> keeps the
  fields of the video record and the classification that the model has.
\<close>

datatype fetch_result = Fetched "video list" "pystr option" | FetchFailed

record feed_item =
  fi_video_id :: pystr
  fi_title :: pystr
  fi_channel_title :: "pystr option"
  fi_duration_seconds :: int
  fi_is_short :: bool
  fi_category :: pystr
  fi_clickbait_score :: score
  fi_entertainment_score :: score

record feed_response =
  fr_items :: "feed_item list"
  fr_next_page_token :: "pystr option"
  fr_total_results :: "int option"
  fr_filtered_count :: nat

definition mk_feed_item :: "video \<Rightarrow> classification \<Rightarrow> feed_item" where
  "mk_feed_item v c =
     \<lparr>fi_video_id = video_id v, fi_title = title v, fi_channel_title = channel_title v,
      fi_duration_seconds = duration_seconds v, fi_is_short = is_short v,
      fi_category = category c, fi_clickbait_score = clickbait_score c,
      fi_entertainment_score = entertainment_score c\<rparr>"

text \<open>The loop over the API videos: classify (through the cache), check,
  keep the allowed ones up to \<open>max_results\<close>, count the blocked ones. An
  exception of the classifier ends the request; the rows it already cached
  stay, since \<open>_cache_result\<close> commits each one.\<close>

fun classify_filter ::
  "focus_mode \<Rightarrow> nat \<Rightarrow> timestamp \<Rightarrow> cache_db \<Rightarrow> video list \<Rightarrow> feed_item list \<Rightarrow> nat \<Rightarrow>
   (py_error + feed_item list \<times> nat) \<times> cache_db" where
  "classify_filter m maxr now db [] items fc = (Inr (items, fc), db)"
| "classify_filter m maxr now db (v # vs) items fc =
     (case classify_video db now v False False None of
        (Inl e, db') \<Rightarrow> (Inl e, db')
      | (Inr c, db') \<Rightarrow>
          if check_video m v c = Allow then
            (let items' = items @ [mk_feed_item v c]
             in if length items' \<ge> maxr then (Inr (items', fc), db')
                else classify_filter m maxr now db' vs items' fc)
          else classify_filter m maxr now db' vs items (Suc fc))"

text \<open>A demo video: its metadata and the pre-assigned fields
  (\<open>video.get("category", "ENTERTAINMENT")\<close> and the two scores, each
  \<open>None\<close> when the key is missing).\<close>

record demo_video =
  dv_video :: video
  dv_category :: "pystr option"
  dv_clickbait_score :: "score option"
  dv_entertainment_score :: "score option"

definition demo_category :: "demo_video \<Rightarrow> pystr" where
  "demo_category d = (case dv_category d of None \<Rightarrow> py ''ENTERTAINMENT'' | Some c \<Rightarrow> c)"

text \<open>The quick check of the demo path: allow-list, block-list, duration,
  shorts, in this order.\<close>

definition demo_admits :: "focus_mode \<Rightarrow> demo_video \<Rightarrow> bool" where
  "demo_admits m d =
     (if allowed_categories m \<noteq> [] \<and> demo_category d \<notin> set (allowed_categories m) then False
      else if blocked_categories m \<noteq> [] \<and> demo_category d \<in> set (blocked_categories m) then False
      else if duration_seconds (dv_video d) < min_duration_seconds m then False
      else if block_shorts m \<and> is_short (dv_video d) then False
      else True)"

definition mk_demo_item :: "demo_video \<Rightarrow> feed_item" where
  "mk_demo_item d =
     \<lparr>fi_video_id = video_id (dv_video d), fi_title = title (dv_video d),
      fi_channel_title = channel_title (dv_video d),
      fi_duration_seconds = duration_seconds (dv_video d), fi_is_short = is_short (dv_video d),
      fi_category = demo_category d,
      fi_clickbait_score = (case dv_clickbait_score d of None \<Rightarrow> 1/10 | Some x \<Rightarrow> x),
      fi_entertainment_score = (case dv_entertainment_score d of None \<Rightarrow> 3/10 | Some x \<Rightarrow> x)\<rparr>"

fun demo_filter ::
  "focus_mode \<Rightarrow> nat \<Rightarrow> demo_video list \<Rightarrow> feed_item list \<Rightarrow> nat \<Rightarrow> feed_item list \<times> nat" where
  "demo_filter m maxr [] items fc = (items, fc)"
| "demo_filter m maxr (d # ds) items fc =
     (if \<not> demo_admits m d then demo_filter m maxr ds items (Suc fc)
      else (let items' = items @ [mk_demo_item d]
            in if length items' \<ge> maxr then (items', fc) else demo_filter m maxr ds items' fc))"

subsection \<open>Page tokens\<close>

text \<open>The digits part of \<open>int(s)\<close>: ASCII digits with single underscores
  between them. (Python also accepts the other Unicode decimal digits; a
  page token spelled with them reads as 0 here.)\<close>

definition digits_ok :: "pystr \<Rightarrow> bool" where
  "digits_ok r \<longleftrightarrow> r \<noteq> [] \<and> is_digit (hd r) \<and> is_digit (last r) \<and>
     (\<forall>c \<in> set r. is_digit c \<or> c = 95) \<and> \<not> contains [95, 95] r"

definition py_int :: "pystr \<Rightarrow> int option" where
  "py_int s =
     (let t = py_strip s;
          (neg, r) = (case t of
                        [] \<Rightarrow> (False, [])
                      | c # r \<Rightarrow> if c = 45 then (True, r) else if c = 43 then (False, r) else (False, t))
      in if digits_ok r
         then Some ((if neg then -1 else 1) * int (read_nat (filter is_digit r)))
         else None)"

text \<open>\<open>page_num = int(page_token)\<close> when the token is set and parses, else 0.\<close>

definition page_num :: "pystr option \<Rightarrow> int" where
  "page_num tok = (case tok of None \<Rightarrow> 0 | Some s \<Rightarrow> (case py_int s of Some n \<Rightarrow> n | None \<Rightarrow> 0))"

subsection \<open>The endpoints\<close>

text \<open>\<open>GET /feed\<close>. \<open>get_active_mode\<close> of the table (a missing active mode is
  a 400 here), then the API result or, on failure, the demo list.\<close>

definition get_feed ::
  "nat \<Rightarrow> nat \<Rightarrow> pystr option \<Rightarrow> fetch_result \<Rightarrow> demo_video list \<Rightarrow> timestamp \<Rightarrow>
   mode_store \<Rightarrow> cache_db \<Rightarrow> (api_error + py_error + feed_response) \<times> cache_db" where
  "get_feed uid max_results page_token fetched demo now st db =
     (case get_active_mode uid st of
        Inl NotFound \<Rightarrow> (Inl BadRequest, db)
      | Inl e \<Rightarrow> (Inl e, db)
      | Inr m \<Rightarrow>
          (case fetched of
             FetchFailed \<Rightarrow>
               (let pn = page_num page_token;
                    (items, fc) = demo_filter m max_results demo [] 0
                in (Inr (Inr \<lparr>fr_items = items, fr_next_page_token = Some (show_int (pn + 1)),
                             fr_total_results = Some (int (length items + fc)),
                             fr_filtered_count = fc\<rparr>), db))
           | Fetched vs tok \<Rightarrow>
               (case classify_filter m max_results now db vs [] 0 of
                  (Inl e, db') \<Rightarrow> (Inr (Inl e), db')
                | (Inr (items, fc), db') \<Rightarrow>
                    (Inr (Inr \<lparr>fr_items = items, fr_next_page_token = tok,
                               fr_total_results = Some (int (length items + fc)),
                               fr_filtered_count = fc\<rparr>), db'))))"

text \<open>\<open>GET /feed/search\<close>: the query is validated by FastAPI
  (\<open>min_length=1, max_length=500\<close>, a 422 response), a missing active mode is
  a 400, a failing YouTube call a 503 (no demo fallback here), then the
  loop of \<open>get_feed\<close>; \<open>total_results\<close> is the API's own count, an argument
  like the fetched videos.\<close>

datatype search_error = QueryInvalid | ServiceUnavailable

definition search_feed ::
  "nat \<Rightarrow> pystr \<Rightarrow> nat \<Rightarrow> fetch_result \<Rightarrow> int option \<Rightarrow> timestamp \<Rightarrow> mode_store \<Rightarrow> cache_db \<Rightarrow>
   ((search_error + api_error) + py_error + feed_response) \<times> cache_db" where
  "search_feed uid query max_results fetched api_total now st db =
     (if length query < 1 \<or> 500 < length query then (Inl (Inl QueryInvalid), db)
      else case get_active_mode uid st of
        Inl NotFound \<Rightarrow> (Inl (Inr BadRequest), db)
      | Inl e \<Rightarrow> (Inl (Inr e), db)
      | Inr m \<Rightarrow>
          (case fetched of
             FetchFailed \<Rightarrow> (Inl (Inl ServiceUnavailable), db)
           | Fetched vs tok \<Rightarrow>
               (case classify_filter m max_results now db vs [] 0 of
                  (Inl e, db') \<Rightarrow> (Inr (Inl e), db')
                | (Inr (items, fc), db') \<Rightarrow>
                    (Inr (Inr \<lparr>fr_items = items, fr_next_page_token = tok,
                               fr_total_results = api_total, fr_filtered_count = fc\<rparr>), db'))))"

text \<open>\<open>GET /feed/video/{id}\<close>: the classification and, when the user has an
  active mode, its verdict; without one every video is allowed.\<close>

definition get_video_verdict ::
  "nat \<Rightarrow> video \<Rightarrow> timestamp \<Rightarrow> mode_store \<Rightarrow> cache_db \<Rightarrow>
   (api_error + py_error + classification \<times> verdict) \<times> cache_db" where
  "get_video_verdict uid v now st db =
     (case get_active_mode uid st of
        Inl MultipleResults \<Rightarrow> (Inl MultipleResults, db)
      | r \<Rightarrow>
          (case classify_video db now v False False None of
             (Inl e, db') \<Rightarrow> (Inr (Inl e), db')
           | (Inr c, db') \<Rightarrow>
               (Inr (Inr (c, case r of Inr m \<Rightarrow> check_video m v c | Inl _ \<Rightarrow> Allow)), db')))"

text \<open>\<open>POST /filter/check\<close> (routers/filter.py): a missing active mode is a
  400 here, a video the API does not find (\<open>None\<close>) a 404, then the
  classification and the verdict.\<close>

definition check_filter ::
  "nat \<Rightarrow> video option \<Rightarrow> timestamp \<Rightarrow> mode_store \<Rightarrow> cache_db \<Rightarrow>
   (api_error + py_error + classification \<times> verdict) \<times> cache_db" where
  "check_filter uid vo now st db =
     (case get_active_mode uid st of
        Inl NotFound \<Rightarrow> (Inl BadRequest, db)
      | Inl e \<Rightarrow> (Inl e, db)
      | Inr m \<Rightarrow>
          (case vo of
             None \<Rightarrow> (Inl NotFound, db)
           | Some v \<Rightarrow>
               (case classify_video db now v False False None of
                  (Inl e, db') \<Rightarrow> (Inr (Inl e), db')
                | (Inr c, db') \<Rightarrow> (Inr (Inr (c, check_video m v c)), db'))))"

subsection \<open>Examples\<close>

text \<open>A table whose only mode is the active music preset of user 1, an
  education classification, and a demo video whose title holds a keyword the
  study preset blocks.\<close>

definition music_store :: mode_store where
  "music_store = \<lparr>modes = [(preset_music 0 1)\<lparr>is_active := True\<rparr>], next_id = 1\<rparr>"

definition edu_class :: classification where
  "edu_class = \<lparr>category = EDUCATION, confidence_score = 6/10, entertainment_score = 2/10,
                 depth_score = 1, clickbait_score = 1/10\<rparr>"

definition prank_demo :: demo_video where
  "prank_demo =
     \<lparr>dv_video = \<lparr>video_id = py ''d1'', title = py ''Physics Prank Experiment'', description = [],
        channel_title = Some (py ''Lab''), tags = [], duration_seconds = 600, is_short = False,
        language = None\<rparr>,
      dv_category = Some EDUCATION, dv_clickbait_score = None, dv_entertainment_score = None\<rparr>"

subsection \<open>Lemmas\<close>

lemma dropWhile_none: "\<forall>c \<in> set s. \<not> P c \<Longrightarrow> dropWhile P s = s"
  by (cases s) auto

lemma py_strip_id: "\<forall>c \<in> set s. \<not> is_space c \<Longrightarrow> py_strip s = s"
  by (simp add: py_strip_def dropWhile_none)

lemma digit_not_space: "is_digit c \<Longrightarrow> \<not> is_space c \<and> c \<noteq> 45 \<and> c \<noteq> 43 \<and> c \<noteq> 95"
  by (auto simp: is_digit_def is_space_def)

lemma digits_ok_show_nat: "digits_ok (show_nat k)"
proof -
  have d: "\<forall>c \<in> set (show_nat k). is_digit c" using show_nat_digits by blast
  then have "95 \<notin> set (show_nat k)" using digit_not_space by blast
  then have "\<not> contains [95, 95] (show_nat k)" by (intro not_contains_missing) simp_all
  with d show ?thesis
    by (simp add: digits_ok_def)
qed

lemma filter_show_nat: "filter is_digit (show_nat k) = show_nat k"
  using show_nat_digits by (simp add: filter_id_conv)

lemma py_int_show_nat: "py_int (show_nat k) = Some (int k)"
proof -
  have d: "\<forall>c \<in> set (show_nat k). is_digit c" using show_nat_digits by blast
  then have s: "py_strip (show_nat k) = show_nat k" using digit_not_space by (simp add: py_strip_id)
  obtain c r where cr: "show_nat k = c # r" by (cases "show_nat k") simp_all
  with d have "c \<noteq> 45 \<and> c \<noteq> 43" using digit_not_space by simp
  moreover have "py_strip (c # r) = c # r" using s cr by simp
  moreover have "digits_ok (c # r)" "filter is_digit (c # r) = c # r" "read_nat (c # r) = k"
    using digits_ok_show_nat [of k] filter_show_nat [of k] read_show_nat [of k] cr by simp_all
  ultimately show ?thesis unfolding cr by (simp add: py_int_def Let_def)
qed

lemma py_int_neg: "py_int (45 # show_nat k) = Some (- int k)"
proof -
  have d: "\<forall>c \<in> set (show_nat k). is_digit c" using show_nat_digits by blast
  then have s: "py_strip (45 # show_nat k) = 45 # show_nat k"
    using digit_not_space by (intro py_strip_id) (auto simp: is_space_def)
  show ?thesis
    using digits_ok_show_nat [of k] filter_show_nat [of k] read_show_nat [of k]
    by (simp add: py_int_def s Let_def)
qed

theorem py_int_show_int: "py_int (show_int n) = Some n"
  by (simp add: show_int_def py_int_show_nat py_int_neg)

lemma classify_filter_Inr:
  "classify_filter m maxr now db vs items fc = (Inr (items', fc'), db') \<Longrightarrow> length items < maxr \<Longrightarrow>
   \<exists>vcs. items' = items @ map (\<lambda>(v, c). mk_feed_item v c) vcs \<and>
     (\<forall>(v, c) \<in> set vcs. check_video m v c = Allow) \<and> subseq (map fst vcs) vs \<and>
     fc \<le> fc' \<and> length vcs + (fc' - fc) \<le> length vs \<and> length items' \<le> maxr \<and>
     (length items' < maxr \<longrightarrow> length vcs + (fc' - fc) = length vs)"
proof (induction m maxr now db vs items fc arbitrary: items' fc' db' rule: classify_filter.induct)
  case (1 m maxr now db items fc)
  then show ?case by auto
next
  case (2 m maxr now db v vs items fc)
  obtain r db1 where cv: "classify_video db now v False False None = (r, db1)" by fastforce
  show ?case
  proof (cases r)
    case (Inl e)
    with 2 cv show ?thesis by simp
  next
    case (Inr c)
    show ?thesis
    proof (cases "check_video m v c = Allow")
      case allow: True
      show ?thesis
      proof (cases "length (items @ [mk_feed_item v c]) \<ge> maxr")
        case True
        with 2 cv Inr allow have "items' = items @ [mk_feed_item v c]" "fc' = fc" by (simp_all add: Let_def)
        with True allow "2.prems"(2) show ?thesis
          by (intro exI [of _ "[(v, c)]"]) auto
      next
        case False
        with 2 cv Inr allow have rec: "classify_filter m maxr now db1 vs (items @ [mk_feed_item v c]) fc =
            (Inr (items', fc'), db')" by (simp add: Let_def)
        from "2.IH"(1) [OF cv [symmetric] Inr allow _ False rec] False
        obtain vcs where "items' = (items @ [mk_feed_item v c]) @ map (\<lambda>(v, c). mk_feed_item v c) vcs"
          "\<forall>(v, c) \<in> set vcs. check_video m v c = Allow" "subseq (map fst vcs) vs"
          "fc \<le> fc'" "length vcs + (fc' - fc) \<le> length vs" "length items' \<le> maxr"
          "length items' < maxr \<longrightarrow> length vcs + (fc' - fc) = length vs"
          by (auto simp: Let_def)
        then show ?thesis using allow by (intro exI [of _ "(v, c) # vcs"]) auto
      qed
    next
      case block: False
      with 2 cv Inr have rec: "classify_filter m maxr now db1 vs items (Suc fc) = (Inr (items', fc'), db')"
        by simp
      from "2.IH"(2) [OF cv [symmetric] Inr block rec "2.prems"(2)]
      obtain vcs where "items' = items @ map (\<lambda>(v, c). mk_feed_item v c) vcs"
          "\<forall>(v, c) \<in> set vcs. check_video m v c = Allow" "subseq (map fst vcs) vs"
          "Suc fc \<le> fc'" "length vcs + (fc' - Suc fc) \<le> length vs" "length items' \<le> maxr"
          "length items' < maxr \<longrightarrow> length vcs + (fc' - Suc fc) = length vs"
        by blast
      then show ?thesis by (intro exI [of _ vcs]) auto
    qed
  qed
qed

text \<open>A list of videos the mode blocks whatever their classification: the
  loop keeps none and counts each one.\<close>

lemma classify_filter_all_blocked:
  assumes "classify_filter m maxr now db vs [] 0 = (Inr (items, fc), db')" "0 < maxr"
    and "\<And>v c. v \<in> set vs \<Longrightarrow> check_video m v c \<noteq> Allow"
  shows "items = [] \<and> fc = length vs"
proof -
  obtain vcs where "items = map (\<lambda>(v, c). mk_feed_item v c) vcs"
    "\<forall>(v, c) \<in> set vcs. check_video m v c = Allow" "subseq (map fst vcs) vs"
    "length items < maxr \<longrightarrow> length vcs + fc = length vs"
    using classify_filter_Inr [OF assms(1)] assms(2) by auto
  moreover have "vcs = []"
  proof (cases vcs)
    case (Cons p ps)
    then obtain v c where "(v, c) \<in> set vcs" by (cases p) auto
    then have vm: "v \<in> set (map fst vcs)" by force
    obtain y where "y \<in> set vs" "v = y"
      using list_emb_set [OF \<open>subseq (map fst vcs) vs\<close> vm] by blast
    then have "v \<in> set vs" by simp
    with \<open>(v, c) \<in> set vcs\<close> \<open>\<forall>(v, c) \<in> set vcs. check_video m v c = Allow\<close> assms(3) show ?thesis
      by auto
  qed simp
  ultimately show ?thesis using assms(2) by simp
qed

lemma classify_filter_heuristic:
  "classify_filter m maxr now db vs items fc = (Inr (items', fc'), db') \<Longrightarrow> heuristic_cache db \<Longrightarrow>
   \<forall>it \<in> set items'. it \<in> set items \<or>
     (fi_category it \<in> set heuristic_categories \<and>
      (allowed_categories m \<noteq> [] \<longrightarrow> fi_category it \<in> set (allowed_categories m)))"
proof (induction m maxr now db vs items fc arbitrary: items' fc' db' rule: classify_filter.induct)
  case (1 m maxr now db items fc)
  then show ?case by simp
next
  case (2 m maxr now db v vs items fc)
  obtain r db1 where cv: "classify_video db now v False False None = (r, db1)" by fastforce
  show ?case
  proof (cases r)
    case (Inl e)
    with 2 cv show ?thesis by simp
  next
    case (Inr c)
    from classify_video_heuristic [OF "2.prems"(2)] cv Inr
    have c: "category c \<in> set heuristic_categories" and db1: "heuristic_cache db1" by auto
    show ?thesis
    proof (cases "check_video m v c = Allow")
      case allow: True
      then have a: "allowed_categories m \<noteq> [] \<longrightarrow> category c \<in> set (allowed_categories m)"
        by (auto simp: check_video_Allow_iff_aux admits_def)
      show ?thesis
      proof (cases "length (items @ [mk_feed_item v c]) \<ge> maxr")
        case True
        with 2 cv Inr allow have "items' = items @ [mk_feed_item v c]" by (simp add: Let_def)
        with c a show ?thesis by (auto simp: mk_feed_item_def)
      next
        case False
        with 2 cv Inr allow have rec: "classify_filter m maxr now db1 vs (items @ [mk_feed_item v c]) fc =
            (Inr (items', fc'), db')" by (simp add: Let_def)
        from "2.IH"(1) [OF cv [symmetric] Inr allow _ False rec db1] c a show ?thesis
          by (auto simp: Let_def mk_feed_item_def)
      qed
    next
      case block: False
      with 2 cv Inr have rec: "classify_filter m maxr now db1 vs items (Suc fc) = (Inr (items', fc'), db')"
        by simp
      from "2.IH"(2) [OF cv [symmetric] Inr block rec db1] show ?thesis .
    qed
  qed
qed

lemma classify_graph_lecture:
  "classify_video Map.empty 0 graph_lecture False False None =
     (Inr sample_class, cache_result Map.empty graph_lecture sample_class 0)"
  by (simp add: classify_video_def get_cached_def fallback_graph_lecture sample_class_def)

lemma music_store_active: "get_active_mode 1 music_store = Inr ((preset_music 0 1)\<lparr>is_active := True\<rparr>)"
  by (simp add: get_active_mode_def music_store_def preset_music_def new_mode_def)

lemma music_allows_graph_lecture:
  "check_video ((preset_music 0 1)\<lparr>is_active := True\<rparr>) graph_lecture sample_class = Allow"
  by (simp add: check_video_def preset_music_def new_mode_def graph_lecture_def sample_class_def
      language_blocked_def)

text \<open>Claim C8. GET /feed on the API path: at most max_results items, each the FeedItem of an input
  video, in input order, that check_video allows under the active mode; total_results is
  items plus filtered, at most the number of fetched videos, and equal to it unless the
  result cap was reached.\<close>
theorem get_feed_contract:
  assumes m: "get_active_mode uid st = Inr m"
    and h: "get_feed uid maxr tok (Fetched vs t) demo now st db = (Inr (Inr r), db')"
    and pos: "0 < maxr"
  shows "length (fr_items r) \<le> maxr \<and>
         (\<exists>vcs. fr_items r = map (\<lambda>(v, c). mk_feed_item v c) vcs \<and>
            (\<forall>(v, c) \<in> set vcs. check_video m v c = Allow) \<and> subseq (map fst vcs) vs) \<and>
         fr_total_results r = Some (int (length (fr_items r) + fr_filtered_count r)) \<and>
         length (fr_items r) + fr_filtered_count r \<le> length vs \<and>
         (length (fr_items r) < maxr \<longrightarrow> length (fr_items r) + fr_filtered_count r = length vs)"
proof -
  obtain res db1 where cf: "classify_filter m maxr now db vs [] 0 = (res, db1)" by fastforce
  with h m obtain items fc where res: "res = Inr (items, fc)"
    and r: "r = \<lparr>fr_items = items, fr_next_page_token = t,
                 fr_total_results = Some (int (length items + fc)), fr_filtered_count = fc\<rparr>"
    by (cases res) (auto simp: get_feed_def)
  from classify_filter_Inr [OF cf [unfolded res]] pos show ?thesis by (auto simp: r)
qed

theorem get_feed_contract_witness:
  "\<exists>r db'. get_active_mode 1 music_store = Inr ((preset_music 0 1)\<lparr>is_active := True\<rparr>) \<and>
     get_feed 1 5 None (Fetched [graph_lecture] None) [] 0 music_store Map.empty = (Inr (Inr r), db') \<and>
     length (fr_items r) \<le> 5 \<and> fr_items r = [mk_feed_item graph_lecture sample_class]"
proof -
  let ?r = "\<lparr>fr_items = [mk_feed_item graph_lecture sample_class], fr_next_page_token = None,
             fr_total_results = Some 1, fr_filtered_count = 0\<rparr>"
  have h: "get_feed 1 5 None (Fetched [graph_lecture] None) [] 0 music_store Map.empty =
      (Inr (Inr ?r), cache_result Map.empty graph_lecture sample_class 0)"
    by (simp add: get_feed_def music_store_active [unfolded One_nat_def] classify_graph_lecture
        music_allows_graph_lecture [unfolded One_nat_def])
  from get_feed_contract [OF music_store_active h] music_store_active h show ?thesis by auto
qed

text \<open>Claim C22. GET /feed/search runs the loop of GET /feed: for a valid query it returns what
  GET /feed returns on the same fetched videos, with the API's total_results in place of
  items + filtered_count; where GET /feed falls back to demo videos on a failed API call,
  search answers 503.\<close>
theorem search_feed_agrees_get_feed:
  assumes q: "1 \<le> length query" "length query \<le> 500"
  shows "search_feed uid query maxr fetched tot now st db =
    (case get_feed uid maxr tok fetched demo now st db of
       (Inl e, db') \<Rightarrow> (Inl (Inr e), db')
     | (Inr (Inl e), db') \<Rightarrow> (Inr (Inl e), db')
     | (Inr (Inr r), db') \<Rightarrow>
         (case fetched of
            FetchFailed \<Rightarrow> (Inl (Inl ServiceUnavailable), db)
          | Fetched _ _ \<Rightarrow> (Inr (Inr (r\<lparr>fr_total_results := tot\<rparr>)), db')))"
proof -
  have v: "\<not> (length query < 1 \<or> 500 < length query)" using q by linarith
  show ?thesis
  proof (cases "get_active_mode uid st")
    case (Inl e)
    with v show ?thesis by (cases e) (simp_all add: search_feed_def get_feed_def)
  next
    case (Inr m)
    show ?thesis
    proof (cases fetched)
      case FetchFailed
      with v Inr show ?thesis by (simp add: search_feed_def get_feed_def split_def Let_def)
    next
      case (Fetched vs t)
      with v Inr show ?thesis
        by (simp add: search_feed_def get_feed_def split: prod.splits sum.splits)
    qed
  qed
qed

theorem search_feed_agrees_get_feed_witness:
  "1 \<le> length (py ''lofi'') \<and> length (py ''lofi'') \<le> 500 \<and>
   search_feed 1 (py ''lofi'') 5 (Fetched [graph_lecture] None) (Some 1000) 0 music_store Map.empty =
     (Inr (Inr \<lparr>fr_items = [mk_feed_item graph_lecture sample_class], fr_next_page_token = None,
                fr_total_results = Some 1000, fr_filtered_count = 0\<rparr>),
      cache_result Map.empty graph_lecture sample_class 0)"
proof -
  have q: "1 \<le> length (py ''lofi'')" "length (py ''lofi'') \<le> 500" by (simp_all add: py_def)
  have h: "get_feed 1 5 None (Fetched [graph_lecture] None) [] 0 music_store Map.empty =
      (Inr (Inr \<lparr>fr_items = [mk_feed_item graph_lecture sample_class], fr_next_page_token = None,
             fr_total_results = Some 1, fr_filtered_count = 0\<rparr>),
       cache_result Map.empty graph_lecture sample_class 0)"
    by (simp add: get_feed_def music_store_active [unfolded One_nat_def] classify_graph_lecture
        music_allows_graph_lecture [unfolded One_nat_def])
  from search_feed_agrees_get_feed [OF q, of 1 5 "Fetched [graph_lecture] None" "Some 1000" 0
      music_store "Map.empty" None "[]"] h q
  show ?thesis by simp
qed

text \<open>With an active mode, \<open>POST /filter/check\<close> and \<open>GET /feed/video/{id}\<close>
  give the same classification, verdict and cache.\<close>
lemma check_filter_agrees_get_video:
  "get_active_mode uid st = Inr m \<Longrightarrow>
   check_filter uid (Some v) now st db = get_video_verdict uid v now st db"
  by (simp add: check_filter_def get_video_verdict_def split: prod.splits sum.splits)

text \<open>The demo path's quick filter is weaker than the policy engine: a demo video the policy
  engine would allow under its pre-assigned category is admitted.\<close>
theorem demo_filter_weaker:
  "category c = demo_category d \<Longrightarrow> check_video m (dv_video d) c = Allow \<Longrightarrow> demo_admits m d"
  by (auto simp: demo_admits_def check_video_def split: if_splits)

theorem demo_filter_weaker_witness:
  "category edu_class = demo_category prank_demo \<and>
   check_video (preset_music 0 1\<lparr>allowed_categories := [EDUCATION]\<rparr>) (dv_video prank_demo)
     edu_class = Allow \<and>
   demo_admits (preset_music 0 1\<lparr>allowed_categories := [EDUCATION]\<rparr>) prank_demo"
proof -
  have a: "category edu_class = demo_category prank_demo"
    by (simp add: demo_category_def prank_demo_def edu_class_def)
  have b: "check_video (preset_music 0 1\<lparr>allowed_categories := [EDUCATION]\<rparr>) (dv_video prank_demo)
     edu_class = Allow"
    by (simp add: check_video_def preset_music_def new_mode_def prank_demo_def edu_class_def
        language_blocked_def)
  from demo_filter_weaker [OF a b] a b show ?thesis by simp
qed

text \<open>The demo path's next_page_token round-trips: str(page_num + 1) parses back to page_num
  + 1 on the next request (int() of str()).\<close>
theorem demo_page_token_roundtrip:
  "get_feed uid maxr tok FetchFailed demo now st db = (Inr (Inr r), db') \<Longrightarrow>
   page_num (fr_next_page_token r) = page_num tok + 1"
  by (auto simp: get_feed_def page_num_def py_int_show_int Let_def split: sum.splits api_error.splits prod.splits)

theorem demo_page_token_roundtrip_witness:
  "\<exists>r db'. get_feed 1 5 (Some (py ''3'')) FetchFailed [] 0 music_store Map.empty = (Inr (Inr r), db') \<and>
     page_num (fr_next_page_token r) = 4"
proof -
  have "\<exists>r. get_feed 1 5 (Some (py ''3'')) FetchFailed [] 0 music_store Map.empty = (Inr (Inr r), Map.empty)"
    by (simp add: get_feed_def music_store_active [unfolded One_nat_def] Let_def)
  then obtain r where h: "get_feed 1 5 (Some (py ''3'')) FetchFailed [] 0 music_store Map.empty =
      (Inr (Inr r), Map.empty)" ..
  have "page_num (Some (py ''3'')) = 3"
    by (simp add: page_num_def py_int_def py_strip_def is_space_def digits_ok_def is_digit_def
        read_nat_def py_def)
  with demo_page_token_roundtrip [OF h] h show ?thesis by auto
qed

text \<open>Claim C36. The demo path's quick filter is exactly the first four checks of the policy
  (shorts, minimum duration, blocked and allowed categories), whatever the mode and the
  video: the language, clickbait, entertainment and keyword checks of check_video are
  skipped. So the study preset admits a demo video titled with its blocked keyword
  'prank', which check_video blocks with the keyword reason.\<close>
theorem demo_path_skips_keyword_check:
  "category c = demo_category d \<Longrightarrow>
   demo_admits m d \<longleftrightarrow> \<not> list_ex fst (take 4 (policy_checks m (dv_video d) c))"
  by (auto simp: demo_admits_def policy_checks_def)

theorem demo_path_skips_keyword_check_witness:
  "category edu_class = demo_category prank_demo \<and> demo_admits (preset_study 0 1) prank_demo \<and>
   check_video (preset_study 0 1) (dv_video prank_demo) edu_class =
     Block (keyword_reason (py ''prank''))"
proof -
  have c: "category edu_class = demo_category prank_demo"
    by (simp add: demo_category_def prank_demo_def edu_class_def)
  have "\<not> list_ex fst (take 4 (policy_checks (preset_study 0 1) (dv_video prank_demo) edu_class))"
    by (simp add: policy_checks_def preset_study_def new_mode_def prank_demo_def edu_class_def
        pystr_defs)
  then have "demo_admits (preset_study 0 1) prank_demo"
    using demo_path_skips_keyword_check [OF c] by simp
  moreover have "check_video (preset_study 0 1) (dv_video prank_demo) edu_class =
     Block (keyword_reason (py ''prank''))"
    by (simp add: check_video_def preset_study_def new_mode_def prank_demo_def edu_class_def
        language_blocked_def keyword_hit_def pystr_defs)
  ultimately show ?thesis using c by simp
qed

end
