(* ===== verification/YouTube.thy ===== *)
theory YouTube
  imports Video PyStr
begin

text \<open>
  The metadata side of src/backend/app/services/youtube_service.py:
  \<open>_parse_duration\<close> and \<open>_format_video\<close>, which turn an item of the YouTube
  Data API into the video record the classifier and the filter read. The
  HTTP requests are external. The regular expression
  \<open>PT(?:(\d+)H)?(?:(\d+)M)?(?:(\d+)S)?\<close> is applied with \<open>re.match\<close>: it is
  anchored at the start only, and each optional group is taken exactly when
  the longest run of digits at that point is followed by its letter (a
  shorter run would be followed by a digit), so a left-to-right scan computes
  the match. \<open>\d\<close> is read as an ASCII digit.
\<close>

text \<open>One optional group \<open>(?:(\d+)L)?\<close>: its value and the rest of the input.\<close>

definition duration_group :: "nat \<Rightarrow> pystr \<Rightarrow> nat \<times> pystr" where
  "duration_group letter s =
     (let ds = takeWhile is_digit s; rest = dropWhile is_digit s
      in if ds \<noteq> [] \<and> rest \<noteq> [] \<and> hd rest = letter then (read_nat ds, tl rest) else (0, s))"

definition parse_duration :: "pystr \<Rightarrow> int" where
  "parse_duration s =
     (if starts_with (py ''PT'') s then
        (let (h, r1) = duration_group 72 (drop 2 s);
             (m, r2) = duration_group 77 r1;
             (sec, r3) = duration_group 83 r2
         in int (h * 3600 + m * 60 + sec))
      else 0)"

text \<open>The fields of an API item that \<open>_format_video\<close> reads, each \<open>None\<close>
  when the key is missing; \<open>item_duration\<close> is \<open>contentDetails.duration\<close>,
  \<open>None\<close> also when there are no details.\<close>

record api_item =
  item_id :: pystr
  item_title :: "pystr option"
  item_description :: "pystr option"
  item_channel_title :: "pystr option"
  item_tags :: "pystr list option"
  item_default_language :: "pystr option"
  item_default_audio_language :: "pystr option"
  item_duration :: "pystr option"

text \<open>Python's \<open>a or b\<close> on optional strings: \<open>a\<close> unless it is \<open>None\<close> or
  empty.\<close>

definition py_or :: "pystr option \<Rightarrow> pystr option \<Rightarrow> pystr option" where
  "py_or a b = (case a of Some x \<Rightarrow> if x \<noteq> [] then Some x else b | None \<Rightarrow> b)"

definition format_video :: "api_item \<Rightarrow> video" where
  "format_video it =
     (let d = parse_duration (case item_duration it of None \<Rightarrow> py ''PT0S'' | Some x \<Rightarrow> x);
          t = (case item_title it of None \<Rightarrow> [] | Some x \<Rightarrow> x)
      in \<lparr>video_id = item_id it, title = t,
          description = (case item_description it of None \<Rightarrow> [] | Some x \<Rightarrow> x),
          channel_title = item_channel_title it,
          tags = (case item_tags it of None \<Rightarrow> [] | Some x \<Rightarrow> x),
          duration_seconds = d, is_short = is_short_video d t,
          language = py_or (item_default_language it) (item_default_audio_language it)\<rparr>)"

text \<open>The canonical ISO-8601 form of a duration without days, as the API
  writes it: zero parts are left out, and zero is \<open>PT0S\<close>.\<close>

definition iso_duration :: "nat \<Rightarrow> pystr" where
  "iso_duration n =
     (let h = n div 3600; m = n mod 3600 div 60; s = n mod 60
      in py ''PT'' @ (if h = 0 then [] else show_nat h @ [72])
                   @ (if m = 0 then [] else show_nat m @ [77])
                   @ (if s = 0 \<and> (h \<noteq> 0 \<or> m \<noteq> 0) then [] else show_nat s @ [83]))"

subsection \<open>Lemmas\<close>

lemma takeWhile_show_nat:
  "\<not> is_digit c \<Longrightarrow> takeWhile is_digit (show_nat k @ c # r) = show_nat k \<and>
                     dropWhile is_digit (show_nat k @ c # r) = c # r"
  using show_nat_digits [of _ k] by (simp add: takeWhile_append dropWhile_append)

lemma duration_group_show:
  "\<not> is_digit c \<Longrightarrow>
   duration_group l (show_nat k @ c # r) = (if c = l then (k, r) else (0, show_nat k @ c # r))"
  using takeWhile_show_nat [of c k r] by (simp add: duration_group_def read_show_nat)

lemma duration_group_Nil: "duration_group l [] = (0, [])"
  by (simp add: duration_group_def)

lemma letters_not_digits: "\<not> is_digit 72" "\<not> is_digit 77" "\<not> is_digit 83"
  by (simp_all add: is_digit_def)

lemma hms_split: "(n::nat) = n div 3600 * 3600 + n mod 3600 div 60 * 60 + n mod 60"
proof -
  have "n mod 3600 = n mod 3600 div 60 * 60 + n mod 3600 mod 60" by simp
  moreover have "n mod 3600 mod 60 = n mod 60" by (simp add: mod_mod_cancel)
  ultimately show ?thesis by (metis add.assoc div_mult_mod_eq)
qed

lemma parse_duration_PT:
  "parse_duration (py ''PT'' @ x) =
     (case duration_group 72 x of (h, r1) \<Rightarrow> case duration_group 77 r1 of (m, r2) \<Rightarrow>
        case duration_group 83 r2 of (sec, r3) \<Rightarrow> int (h * 3600 + m * 60 + sec))"
proof -
  have "starts_with (py ''PT'') (py ''PT'' @ x)" "drop 2 (py ''PT'' @ x) = x" by (simp_all add: py_def)
  then show ?thesis by (simp add: parse_duration_def Let_def del: drop_append)
qed

lemma parse_duration_PT0S: "parse_duration (py ''PT0S'') = 0"
proof -
  have "py ''PT0S'' = py ''PT'' @ show_nat 0 @ [83]" by (simp add: py_def show_nat.simps)
  then show ?thesis using parse_duration_PT [of "show_nat 0 @ [83]"]
    by (simp add: duration_group_show duration_group_Nil letters_not_digits)
qed

text \<open>A video without \<open>contentDetails.duration\<close> is read as 0 seconds and a short.\<close>

lemma format_video_no_duration:
  "item_duration it = None \<Longrightarrow> duration_seconds (format_video it) = 0 \<and> is_short (format_video it)"
  by (simp add: format_video_def Let_def is_short_video_def parse_duration_PT0S)

text \<open>Claim C20. _parse_duration inverts the API's canonical ISO-8601 form: for every duration without
  days, parsing the PT...H...M...S string gives back the number of seconds.\<close>

theorem parse_iso_duration: "parse_duration (iso_duration n) = int n"
proof -
  define h where "h = n div 3600"
  define m where "m = n mod 3600 div 60"
  define s where "s = n mod 60"
  have n: "n = h * 3600 + m * 60 + s" unfolding h_def m_def s_def by (rule hms_split)
  have "iso_duration n = py ''PT'' @ (if h = 0 then [] else show_nat h @ [72])
                   @ (if m = 0 then [] else show_nat m @ [77])
                   @ (if s = 0 \<and> (h \<noteq> 0 \<or> m \<noteq> 0) then [] else show_nat s @ [83])"
    by (simp add: iso_duration_def Let_def h_def m_def s_def)
  then show ?thesis
    by (simp only: parse_duration_PT)
      (simp add: duration_group_show duration_group_Nil letters_not_digits n)
qed

text \<open>A duration the pattern does not match, such as the P1DT2H of a stream longer than a
  day, or a search result without details, is read as 0 seconds, so _format_video marks
  the video as a short, and a mode that blocks shorts blocks it.\<close>
theorem unparsed_duration_is_short:
  "(case item_duration it of None \<Rightarrow> True | Some d \<Rightarrow> \<not> starts_with (py ''PT'') d) \<Longrightarrow>
   duration_seconds (format_video it) = 0 \<and> is_short (format_video it)"
proof -
  assume h: "case item_duration it of None \<Rightarrow> True | Some d \<Rightarrow> \<not> starts_with (py ''PT'') d"
  have "parse_duration (case item_duration it of None \<Rightarrow> py ''PT0S'' | Some x \<Rightarrow> x) = 0"
  proof (cases "item_duration it")
    case None
    then show ?thesis by (simp add: parse_duration_PT0S)
  next
    case (Some d)
    with h show ?thesis by (simp add: parse_duration_def)
  qed
  then show ?thesis by (simp add: format_video_def Let_def is_short_video_def)
qed

theorem unparsed_duration_is_short_witness:
  "(case item_duration (\<lparr>item_id = py ''live'', item_title = Some (py ''24h stream''), item_description = None,
      item_channel_title = None, item_tags = None, item_default_language = None,
      item_default_audio_language = None, item_duration = Some (py ''P1DT2H'')\<rparr>) of
      None \<Rightarrow> True | Some d \<Rightarrow> \<not> starts_with (py ''PT'') d) \<and>
   is_short (format_video \<lparr>item_id = py ''live'', item_title = Some (py ''24h stream''),
      item_description = None, item_channel_title = None, item_tags = None,
      item_default_language = None, item_default_audio_language = None,
      item_duration = Some (py ''P1DT2H'')\<rparr>)"
proof -
  have h: "case item_duration (\<lparr>item_id = py ''live'', item_title = Some (py ''24h stream''), item_description = None,
      item_channel_title = None, item_tags = None, item_default_language = None,
      item_default_audio_language = None, item_duration = Some (py ''P1DT2H'')\<rparr>) of
      None \<Rightarrow> True | Some d \<Rightarrow> \<not> starts_with (py ''PT'') d"
    by (simp add: py_def)
  from unparsed_duration_is_short [OF h] h show ?thesis by simp
qed

end
