(* ===== verification/Suggestions.thy ===== *)
theory Suggestions
  imports PyStr "HOL-Library.Multiset" "HOL-Library.Product_Lexorder"
begin

text \<open>
  The search-suggestions router (src/backend/app/routers/suggestions.py):
  \<open>get_suggestions\<close> lower-cases the query, keeps the fixed suggestions that
  start with it or contain it, sorts them by the key
  \<open>(0 if x.startswith(q) else 1, len(x))\<close> and returns the first eight.
  \<open>list.sort\<close> is stable and compares tuples lexicographically, which is the
  library's \<open>sort_key\<close> over the lexicographic order of pairs. The query
  parameter is validated by FastAPI (\<open>min_length=1, max_length=100\<close>); a
  query outside those bounds is a 422 response, \<open>None\<close> here.
\<close>

definition base_suggestions :: "pystr list" where
  "base_suggestions = map py
     [''python tutorial'', ''python for beginners'', ''python crash course'',
      ''programming tutorial'', ''machine learning'', ''data science'', ''web development'',
      ''react tutorial'', ''javascript tutorial'', ''computer science'', ''coding for beginners'',
      ''learn to code'', ''algorithms explained'', ''system design'',
      ''music playlist'', ''lofi beats'', ''study music'', ''relaxing music'', ''classical music'',
      ''jazz music'', ''pop music'', ''workout playlist'',
      ''funny videos'', ''comedy sketches'', ''stand up comedy'', ''movie trailers'',
      ''gaming highlights'', ''best moments'',
      ''productivity tips'', ''study tips'', ''how to focus'', ''time management'',
      ''morning routine'']"

text \<open>\<open>s.startswith(q) or q in s\<close>.\<close>

definition suggestion_matches :: "pystr \<Rightarrow> pystr \<Rightarrow> bool" where
  "suggestion_matches q s \<longleftrightarrow> starts_with q s \<or> contains q s"

text \<open>The sort key \<open>(0 if x.startswith(q) else 1, len(x))\<close>.\<close>

definition relevance :: "pystr \<Rightarrow> pystr \<Rightarrow> nat \<times> nat" where
  "relevance q x = (if starts_with q x then 0 else 1, length x)"

definition get_suggestions :: "pystr \<Rightarrow> pystr list option" where
  "get_suggestions query =
     (if length query < 1 \<or> 100 < length query then None
      else
        (let q = lower query;
             matching = filter (suggestion_matches q) base_suggestions
         in Some (take 8 (sort_key (relevance q) matching))))"

text \<open>The reference ranking: the suggestions that start with the query,
  shortest first, then those that only contain it, shortest first; ties keep
  the order of the list.\<close>

definition suggestions_spec :: "pystr \<Rightarrow> pystr list" where
  "suggestions_spec q =
     take 8 (sort_key length (filter (starts_with q) base_suggestions) @
             sort_key length (filter (\<lambda>s. \<not> starts_with q s \<and> contains q s) base_suggestions))"

subsection \<open>Lemmas\<close>

lemma starts_with_contains: "starts_with q s \<Longrightarrow> contains q s"
  by (simp add: starts_with_iff_prefix contains_iff_sublist)

lemma suggestion_matches_iff: "suggestion_matches q s \<longleftrightarrow> contains q s"
  using starts_with_contains [of q s] by (auto simp: suggestion_matches_def)

lemma sorted_map_pair: "sorted (map g xs) \<Longrightarrow> sorted (map (\<lambda>x. (c::nat, g x)) xs)"
  by (induction xs) (auto simp: less_eq_prod_def)

lemma sort_key_two_groups:
  fixes g :: "'a \<Rightarrow> nat"
  shows "sort_key (\<lambda>x. (if P x then 0::nat else 1, g x)) xs =
     sort_key g (filter P xs) @ sort_key g (filter (\<lambda>x. \<not> P x) xs)"
proof -
  define f where "f = (\<lambda>x. (if P x then 0::nat else 1, g x))"
  define A where "A = sort_key g (filter P xs)"
  define B where "B = sort_key g (filter (\<lambda>x. \<not> P x) xs)"
  have fP: "\<And>x. P x \<Longrightarrow> f x = (0, g x)" and fN: "\<And>x. \<not> P x \<Longrightarrow> f x = (1, g x)"
    by (simp_all add: f_def)
  have sA: "\<And>x. x \<in> set A \<Longrightarrow> P x" and sB: "\<And>x. x \<in> set B \<Longrightarrow> \<not> P x"
    by (simp_all add: A_def B_def)
  have "sort_key f xs = A @ B"
  proof (rule properties_for_sort_key)
    show "mset (A @ B) = mset xs"
      unfolding A_def B_def by (metis mset_append mset_sort mset_filter multiset_partition)
  next
    fix k
    have stab: "\<And>ys. filter (\<lambda>x. g k = g x) (sort_key g ys) = filter (\<lambda>x. g k = g x) ys"
      using sort_key_stable [of g "g k"] by (simp add: eq_commute [of "g k"])
    show "filter (\<lambda>x. f k = f x) (A @ B) = filter (\<lambda>x. f k = f x) xs"
    proof (cases "P k")
      case True
      have "filter (\<lambda>x. f k = f x) A = filter (\<lambda>x. g k = g x) A"
        by (rule filter_cong) (simp_all add: True fP sA)
      moreover have "filter (\<lambda>x. f k = f x) B = []"
        by (simp add: filter_empty_conv True fP fN sB)
      moreover have "filter (\<lambda>x. f k = f x) xs = filter (\<lambda>x. g k = g x) (filter P xs)"
        by (simp add: filter_filter) (rule filter_cong, simp_all add: True f_def)
      ultimately show ?thesis by (simp add: A_def stab)
    next
      case False
      have "filter (\<lambda>x. f k = f x) B = filter (\<lambda>x. g k = g x) B"
        by (rule filter_cong) (simp_all add: False fN sB)
      moreover have "filter (\<lambda>x. f k = f x) A = []"
        by (simp add: filter_empty_conv False fP fN sA)
      moreover have "filter (\<lambda>x. f k = f x) xs = filter (\<lambda>x. g k = g x) (filter (\<lambda>x. \<not> P x) xs)"
        by (simp add: filter_filter) (rule filter_cong, simp_all add: False f_def)
      ultimately show ?thesis by (simp add: B_def stab)
    qed
  next
    have m: "map f A = map (\<lambda>x. (0, g x)) A" "map f B = map (\<lambda>x. (1, g x)) B"
      by (simp_all add: fP fN sA sB)
    have "sorted (map (\<lambda>x. (0::nat, g x)) A)" "sorted (map (\<lambda>x. (1::nat, g x)) B)"
      by (simp_all add: A_def B_def sorted_map_pair)
    then show "sorted (map f (A @ B))"
      unfolding map_append m by (auto simp: sorted_append less_eq_prod_def)
  qed
  then show ?thesis by (simp add: f_def A_def B_def)
qed

lemma filter_contains_starts:
  "filter (starts_with q) (filter (contains q) xs) = filter (starts_with q) xs"
  "filter (\<lambda>x. \<not> starts_with q x) (filter (contains q) xs) =
     filter (\<lambda>s. \<not> starts_with q s \<and> contains q s) xs"
  by (simp_all add: filter_filter) (rule filter_cong, auto dest: starts_with_contains)+

lemma sort_relevance:
  "sort_key (relevance q) (filter (suggestion_matches q) xs) =
     sort_key length (filter (starts_with q) xs) @
     sort_key length (filter (\<lambda>s. \<not> starts_with q s \<and> contains q s) xs)"
proof -
  have "relevance q = (\<lambda>x. (if starts_with q x then 0::nat else 1, length x))"
    by (simp add: relevance_def fun_eq_iff)
  moreover have "filter (suggestion_matches q) xs = filter (contains q) xs"
    by (rule filter_cong) (simp_all add: suggestion_matches_iff)
  ultimately show ?thesis
    by (simp only: sort_key_two_groups filter_contains_starts)
qed

text \<open>Claim C18. get_suggestions equals the reference ranking: an invalid query is a 422
  response; otherwise the result is the first eight of the suggestions that start with
  the lower-cased query, shortest first, followed by those that only contain it,
  shortest first.\<close>
theorem get_suggestions_eq_spec:
  "get_suggestions query =
     (if length query < 1 \<or> 100 < length query then None else Some (suggestions_spec (lower query)))"
  by (simp add: get_suggestions_def suggestions_spec_def sort_relevance Let_def)

lemma distinct_base_suggestions: "distinct base_suggestions"
  by (simp add: base_suggestions_def py_def)

text \<open>What get_suggestions returns for a valid query: at most eight distinct
  suggestions of the fixed list, each containing the lower-cased query, ordered by the
  relevance key; when fewer than eight come back they are all the matching ones.\<close>
theorem get_suggestions_contract:
  assumes h: "get_suggestions query = Some r"
  shows "1 \<le> length query \<and> length query \<le> 100 \<and> length r \<le> 8 \<and> distinct r \<and>
         (\<forall>s \<in> set r. s \<in> set base_suggestions \<and> contains (lower query) s) \<and>
         sorted (map (relevance (lower query)) r) \<and>
         (length r < 8 \<longrightarrow> set r = {s \<in> set base_suggestions. contains (lower query) s})"
proof -
  define q where "q = lower query"
  define M where "M = filter (suggestion_matches q) base_suggestions"
  have v: "\<not> (length query < 1 \<or> 100 < length query)"
    using h by (auto simp: get_suggestions_def split: if_splits)
  then have q: "1 \<le> length query \<and> length query \<le> 100" by linarith
  have r: "r = take 8 (sort_key (relevance q) M)"
    using h v by (simp add: get_suggestions_def q_def M_def Let_def)
  have setM: "set M = {s \<in> set base_suggestions. contains q s}"
    by (auto simp: M_def suggestion_matches_iff)
  have "distinct (sort_key (relevance q) M)"
    using distinct_base_suggestions by (simp add: M_def)
  then have d: "distinct r" by (simp add: r)
  have s: "sorted (map (relevance q) r)"
    unfolding r take_map [symmetric] by (rule sorted_wrt_take) simp
  have sub: "set r \<subseteq> set M" unfolding r by (metis set_sort set_take_subset)
  have c: "length r < 8 \<longrightarrow> set r = set M"
    by (simp add: r)
  have l: "length r \<le> 8" by (simp add: r)
  show ?thesis using q d s sub c setM l by (auto simp: q_def)
qed

theorem get_suggestions_contract_witness:
  "get_suggestions (py ''Python'') =
     Some (map py [''python tutorial'', ''python crash course'', ''python for beginners'']) \<and>
   set (map py [''python tutorial'', ''python crash course'', ''python for beginners'']) =
     {s \<in> set base_suggestions. contains (lower (py ''Python'')) s}"
proof -
  have h: "get_suggestions (py ''Python'') =
     Some (map py [''python tutorial'', ''python crash course'', ''python for beginners''])"
    by code_simp
  from get_suggestions_contract [OF h] h show ?thesis by simp
qed

end
