(* ===== verification/DemoData.thy ===== *)
theory DemoData
  imports Feed "HOL-Library.Multiset" "HOL-Library.While_Combinator"
begin

text \<open>
  The demo data of src/backend/app/services/demo_data.py, which the feed
  serves when the YouTube API fails. \<open>DEMO_VIDEOS\<close> is copied verbatim
  (without the thumbnail URLs, which the model of a feed item does not
  carry). The randomness is an argument: \<open>rnd i\<close> is the i-th
  \<open>random.randint(1000, 9999)\<close> of \<open>get_demo_videos\<close>, a \<open>gen_draws\<close> value
  holds the draws of \<open>generate_dynamic_videos\<close> for each index (its id, its
  title after the template is filled, its channel and its duration), and each
  \<open>random.shuffle\<close> is a function on lists that the lemmas assume to be a
  permutation. \<open>published_at\<close> and \<open>view_count\<close> of the generated videos are
  not modelled; no filter reads them.
\<close>

record demo_entry =
  de_id :: pystr
  de_title :: pystr
  de_channel_title :: pystr
  de_duration_seconds :: int
  de_view_count :: nat

definition de :: "string \<Rightarrow> string \<Rightarrow> string \<Rightarrow> int \<Rightarrow> nat \<Rightarrow> demo_entry" where
  "de i t c d v = \<lparr>de_id = py i, de_title = py t, de_channel_title = py c,
                   de_duration_seconds = d, de_view_count = v\<rparr>"

definition DEMO_VIDEOS :: "(pystr \<times> demo_entry list) list" where
  "DEMO_VIDEOS = map (\<lambda>(c, es). (py c, es))
   [(''EDUCATION'', [
      de ''edu_1'' ''Python Tutorial for Beginners - Full Course'' ''Programming with Mosh'' 3600 15000000,
      de ''edu_2'' ''Machine Learning Full Course - 12 Hours'' ''freeCodeCamp'' 43200 8000000,
      de ''edu_3'' ''Data Science Tutorial for Beginners'' ''Simplilearn'' 5400 3500000,
      de ''edu_4'' ''JavaScript Crash Course For Beginners'' ''Traversy Media'' 5760 6200000,
      de ''edu_5'' ''React JS Tutorial - Build a Portfolio Website'' ''Web Dev Simplified'' 7200 2100000,
      de ''edu_6'' ''Learn TypeScript in 50 Minutes'' ''Fireship'' 3000 4500000,
      de ''edu_7'' ''Docker Tutorial for Beginners'' ''TechWorld with Nana'' 7200 3200000,
      de ''edu_8'' ''Git and GitHub for Beginners - Crash Course'' ''freeCodeCamp'' 5400 5800000,
      de ''edu_9'' ''SQL Tutorial - Full Database Course for Beginners'' ''freeCodeCamp'' 14400 7200000,
      de ''edu_10'' ''AWS Tutorial for Beginners'' ''Simplilearn'' 10800 2900000,
      de ''edu_11'' ''Node.js Full Course for Beginners'' ''Dave Gray'' 28800 1500000,
      de ''edu_12'' ''Vue.js Course for Beginners'' ''The Net Ninja'' 14400 1200000,
      de ''edu_13'' ''Rust Programming Tutorial'' ''Let's Get Rusty'' 7200 890000,
      de ''edu_14'' ''Go Programming Language Full Course'' ''Tech With Tim'' 18000 650000,
      de ''edu_15'' ''Kubernetes Tutorial for Beginners'' ''TechWorld with Nana'' 14400 2100000,
      de ''edu_16'' ''C++ Programming Course - Beginner to Advanced'' ''freeCodeCamp'' 108000 4300000,
      de ''edu_17'' ''Java Programming Tutorial'' ''Bro Code'' 43200 3800000,
      de ''edu_18'' ''HTML & CSS Full Course for Beginners'' ''SuperSimpleDev'' 25200 2500000,
      de ''edu_19'' ''Linux Command Line Full Course'' ''freeCodeCamp'' 18000 1800000,
      de ''edu_20'' ''MongoDB Tutorial for Beginners'' ''The Net Ninja'' 10800 980000]),
    (''SCIENCE_TECH'', [
      de ''tech_1'' ''How Does the Internet Work?'' ''Lesics'' 900 4500000,
      de ''tech_2'' ''How AI Will Change Everything'' ''Veritasium'' 1200 9800000,
      de ''tech_3'' ''The Science of 3D Printing'' ''Stuff Made Here'' 1800 3200000,
      de ''tech_4'' ''Quantum Computing Explained'' ''Kurzgesagt'' 720 12000000,
      de ''tech_5'' ''SpaceX Starship Deep Dive'' ''Everyday Astronaut'' 3600 1800000,
      de ''tech_6'' ''How Batteries Work'' ''Undecided with Matt Ferrell'' 1500 2100000,
      de ''tech_7'' ''The Future of Electric Cars'' ''MKBHD'' 1200 8900000,
      de ''tech_8'' ''How Nuclear Reactors Work'' ''Real Engineering'' 1800 5400000,
      de ''tech_9'' ''The Science of Black Holes'' ''PBS Space Time'' 1200 3800000,
      de ''tech_10'' ''How CRISPR Gene Editing Works'' ''Kurzgesagt'' 600 15000000,
      de ''tech_11'' ''Understanding Neural Networks'' ''3Blue1Brown'' 1200 8500000,
      de ''tech_12'' ''The James Webb Telescope Explained'' ''Astrum'' 2400 2300000,
      de ''tech_13'' ''How Does GPS Work?'' ''Practical Engineering'' 900 4100000,
      de ''tech_14'' ''The Science of Climate Change'' ''It's Okay To Be Smart'' 1500 1900000,
      de ''tech_15'' ''How Fusion Energy Works'' ''Kyle Hill'' 1800 1200000,
      de ''tech_16'' ''Explaining Blockchain Technology'' ''Simply Explained'' 600 3400000,
      de ''tech_17'' ''How Modern CPUs Work'' ''Linus Tech Tips'' 1200 6700000,
      de ''tech_18'' ''The Physics of Time Travel'' ''Veritasium'' 1800 11000000,
      de ''tech_19'' ''How mRNA Vaccines Work'' ''SciShow'' 900 2800000,
      de ''tech_20'' ''The Future of Solar Power'' ''Undecided with Matt Ferrell'' 1200 1500000]),
    (''HOWTO_STYLE'', [
      de ''howto_1'' ''How to Cook Perfect Pasta Every Time'' ''Gordon Ramsay'' 600 8500000,
      de ''howto_2'' ''Home Workout - No Equipment Needed'' ''THENX'' 1200 4200000,
      de ''howto_3'' ''DIY Room Makeover on a Budget'' ''Mr. Kate'' 1800 2100000,
      de ''howto_4'' ''Productivity Tips from a CEO'' ''Ali Abdaal'' 900 3800000,
      de ''howto_5'' ''Learn Guitar in 21 Days'' ''Justin Guitar'' 2400 5500000,
      de ''howto_6'' ''Morning Routine for Success'' ''Thomas Frank'' 720 2300000,
      de ''howto_7'' ''How to Start a Business'' ''Graham Stephan'' 1800 4100000,
      de ''howto_8'' ''Photography Tips for Beginners'' ''Peter McKinnon'' 1200 3600000,
      de ''howto_9'' ''How to Edit Videos Like a Pro'' ''MKBHD'' 900 5200000,
      de ''howto_10'' ''Beginner's Guide to Investing'' ''Andrei Jikh'' 1500 2800000,
      de ''howto_11'' ''Home Cooking Essentials'' ''Joshua Weissman'' 1800 3100000,
      de ''howto_12'' ''How to Build Good Habits'' ''Improvement Pill'' 600 4500000,
      de ''howto_13'' ''Meditation for Beginners'' ''Headspace'' 900 2700000,
      de ''howto_14'' ''How to Design Your Home'' ''Havenly'' 1200 1800000,
      de ''howto_15'' ''Budget Travel Tips'' ''Kara and Nate'' 1500 2400000,
      de ''howto_16'' ''Drawing Tutorial for Beginners'' ''Proko'' 2400 1900000,
      de ''howto_17'' ''How to Study Effectively'' ''Mike and Matty'' 720 3200000,
      de ''howto_18'' ''Yoga for Complete Beginners'' ''Yoga With Adriene'' 1800 8900000,
      de ''howto_19'' ''Skincare Routine Guide'' ''James Welsh'' 900 1500000,
      de ''howto_20'' ''How to Learn Any Skill Fast'' ''Matt D'Avella'' 1200 4800000]),
    (''MUSIC'', [
      de ''music_1'' ''Lofi Hip Hop Radio - Beats to Study/Relax to'' ''Lofi Girl'' 0 950000000,
      de ''music_2'' ''Classical Music Playlist for Concentration'' ''HALIDONMUSIC'' 10800 45000000,
      de ''music_3'' ''Jazz Music for Work and Study'' ''Cafe Music BGM'' 7200 28000000,
      de ''music_4'' ''Piano Music for Relaxation'' ''Relaxing Records'' 3600 18000000,
      de ''music_5'' ''Best Pop Songs 2024 Playlist'' ''Top Music'' 5400 12000000,
      de ''music_6'' ''Ambient Music for Sleep'' ''Yellow Brick Cinema'' 28800 89000000,
      de ''music_7'' ''Epic Orchestral Music Mix'' ''HDSounDI'' 7200 34000000,
      de ''music_8'' ''Acoustic Guitar Relaxing Music'' ''Acoustic FM'' 10800 21000000,
      de ''music_9'' ''Electronic Dance Music Mix'' ''NCS Release'' 3600 156000000,
      de ''music_10'' ''Chill Indie Pop Playlist'' ''Indie Supreme'' 5400 8900000,
      de ''music_11'' ''Deep House Mix for Focus'' ''Chill Nation'' 7200 42000000,
      de ''music_12'' ''Meditation Music - 1 Hour'' ''Soothing Relaxation'' 3600 67000000,
      de ''music_13'' ''Rock Classics Playlist'' ''Rock Legends'' 14400 23000000,
      de ''music_14'' ''R&B Soul Mix 2024'' ''Chill R&B'' 5400 15000000,
      de ''music_15'' ''Nature Sounds - Rain and Thunder'' ''Relaxing White Noise'' 36000 112000000,
      de ''music_16'' ''Hip Hop Workout Music'' ''Workout Music Service'' 3600 18000000,
      de ''music_17'' ''Country Music Hits 2024'' ''Country Now'' 7200 9500000,
      de ''music_18'' ''K-Pop Hits Playlist'' ''K-Pop Universe'' 5400 78000000,
      de ''music_19'' ''Latin Dance Music Mix'' ''Latin Vibes'' 3600 34000000,
      de ''music_20'' ''Reggae Vibes Playlist'' ''Reggae Camp'' 7200 12000000]),
    (''GAMING'', [
      de ''game_1'' ''Best Gaming Moments of 2024'' ''GameSpot'' 1200 5600000,
      de ''game_2'' ''Minecraft Hardcore Survival Series'' ''Dream'' 2400 35000000,
      de ''game_3'' ''GTA 6 Trailer Analysis'' ''IGN'' 900 28000000,
      de ''game_4'' ''Pro Tips for Valorant Beginners'' ''100 Thieves'' 1500 4200000,
      de ''game_5'' ''Elden Ring Boss Guide'' ''VaatiVidya'' 1800 8900000,
      de ''game_6'' ''Fortnite Tips and Tricks'' ''Ninja'' 1200 15000000,
      de ''game_7'' ''Call of Duty Warzone Strategy Guide'' ''JGOD'' 1800 3400000,
      de ''game_8'' ''League of Legends Pro Tips'' ''Faker'' 2400 8700000,
      de ''game_9'' ''Zelda Tears of the Kingdom Secrets'' ''Nintendo Life'' 1500 6200000,
      de ''game_10'' ''Hogwarts Legacy Complete Walkthrough'' ''GameRanx'' 7200 4500000,
      de ''game_11'' ''FIFA 24 Ultimate Team Guide'' ''Nepenthez'' 1800 2100000,
      de ''game_12'' ''Among Us Strategies'' ''Disguised Toast'' 1200 12000000,
      de ''game_13'' ''Cyberpunk 2077 Build Guide'' ''Fextralife'' 2100 3800000,
      de ''game_14'' ''Spider-Man 2 PS5 Gameplay'' ''PlayStation'' 900 18000000,
      de ''game_15'' ''Starfield Exploration Guide'' ''Bethesda'' 1800 5600000,
      de ''game_16'' ''Baldur's Gate 3 Class Guide'' ''Larian Studios'' 2400 4200000,
      de ''game_17'' ''Apex Legends Movement Guide'' ''Aceu'' 1500 2900000,
      de ''game_18'' ''Palworld Beginner's Guide'' ''Arekkz Gaming'' 1800 7800000,
      de ''game_19'' ''Final Fantasy XVI Review'' ''SkillUp'' 2700 1500000,
      de ''game_20'' ''Diablo 4 Endgame Guide'' ''Rhykker'' 2100 2300000]),
    (''ENTERTAINMENT'', [
      de ''ent_1'' ''Top 10 Movies of 2024'' ''WatchMojo'' 1200 7800000,
      de ''ent_2'' ''Stand-Up Comedy Special'' ''Netflix Comedy'' 3600 12000000,
      de ''ent_3'' ''Travel Vlog: Japan 2024'' ''Lost LeBlanc'' 1800 4500000,
      de ''ent_4'' ''Celebrity Interview Collection'' ''The Tonight Show'' 2700 9200000,
      de ''ent_5'' ''Animation Short Film Compilation'' ''CGMeetup'' 1500 3800000,
      de ''ent_6'' ''Best TV Shows 2024'' ''CineFix'' 1800 5600000,
      de ''ent_7'' ''Hidden Gems on Netflix'' ''MovieFlame'' 1200 3200000,
      de ''ent_8'' ''Behind the Scenes: Marvel Movies'' ''Marvel Entertainment'' 900 18000000,
      de ''ent_9'' ''Oscar Winners Best Speeches'' ''Oscars'' 2100 8400000,
      de ''ent_10'' ''True Crime Documentary'' ''Netflix'' 5400 15000000,
      de ''ent_11'' ''Broadway Musicals Best Moments'' ''Broadway HD'' 1800 2100000,
      de ''ent_12'' ''Food Challenge: 24 Hours'' ''MrBeast'' 1200 89000000,
      de ''ent_13'' ''World's Most Amazing Places'' ''Beautiful Destinations'' 600 34000000,
      de ''ent_14'' ''Funny Animal Compilation'' ''The Pet Collective'' 900 56000000,
      de ''ent_15'' ''Extreme Sports Compilation'' ''Red Bull'' 1500 23000000,
      de ''ent_16'' ''Magic Tricks Revealed'' ''Penn & Teller'' 1800 12000000,
      de ''ent_17'' ''Talent Show Best Auditions'' ''Got Talent Global'' 2400 67000000,
      de ''ent_18'' ''World Records Being Broken'' ''Guinness World Records'' 1200 45000000,
      de ''ent_19'' ''Satisfying Video Compilation'' ''Oddly Satisfying'' 600 78000000,
      de ''ent_20'' ''Prank Wars Compilation'' ''Dude Perfect'' 1500 34000000])]"

text \<open>\<open>0.3 if category in ["EDUCATION", "SCIENCE_TECH"] else 0.6\<close>.\<close>

definition demo_entertainment :: "pystr \<Rightarrow> score" where
  "demo_entertainment c = (if c \<in> {EDUCATION, SCIENCE_TECH} then 3/10 else 6/10)"

text \<open>The videos of the requested categories, each labelled with its
  category, in the order of the request; all of them when the list is empty
  (\<open>if categories:\<close> is false for \<open>None\<close> and for \<open>[]\<close>).\<close>

definition demo_selection :: "pystr list \<Rightarrow> (pystr \<times> demo_entry) list" where
  "demo_selection cats =
     (if cats \<noteq> [] then
        concat (map (\<lambda>c. case map_of DEMO_VIDEOS c of None \<Rightarrow> [] | Some es \<Rightarrow> map (Pair c) es) cats)
      else concat (map (\<lambda>(c, es). map (Pair c) es) DEMO_VIDEOS))"

text \<open>The loop that adds the common fields to the i-th selected video.\<close>

definition decorate :: "(nat \<Rightarrow> nat) \<Rightarrow> nat \<Rightarrow> pystr \<times> demo_entry \<Rightarrow> demo_video" where
  "decorate rnd i ce =
     (case ce of (c, e) \<Rightarrow>
        \<lparr>dv_video = \<lparr>video_id = de_id e @ py ''_'' @ show_nat (rnd i), title = de_title e,
                      description = [], channel_title = Some (de_channel_title e), tags = [],
                      duration_seconds = de_duration_seconds e,
                      is_short = de_duration_seconds e < 60, language = None\<rparr>,
         dv_category = Some c, dv_clickbait_score = Some (1/10),
         dv_entertainment_score = Some (demo_entertainment c)\<rparr>)"

definition get_demo_videos ::
  "pystr list \<Rightarrow> nat \<Rightarrow> (nat \<Rightarrow> nat) \<Rightarrow> (demo_video list \<Rightarrow> demo_video list) \<Rightarrow> demo_video list" where
  "get_demo_videos cats max_results rnd shuffle =
     take max_results (shuffle (map (\<lambda>(i, ce). decorate rnd i ce) (enumerate 0 (demo_selection cats))))"

text \<open>The categories \<open>generate_dynamic_videos\<close> has title templates for.\<close>

definition template_categories :: "pystr list" where
  "template_categories = [EDUCATION, SCIENCE_TECH, py ''NEWS_POLITICS'', HOWTO_STYLE, MUSIC, GAMING,
                          ENTERTAINMENT]"

definition available_cats :: "pystr list \<Rightarrow> pystr list" where
  "available_cats cats =
     (let l = filter (\<lambda>c. c \<in> set template_categories)
                (if cats \<noteq> [] then cats else map fst DEMO_VIDEOS)
      in if l = [] then [EDUCATION] else l)"

record gen_draws =
  g_id :: "nat \<Rightarrow> pystr"
  g_title :: "nat \<Rightarrow> pystr"
  g_channel :: "nat \<Rightarrow> pystr"
  g_duration :: "nat \<Rightarrow> int"

definition gen_item :: "pystr list \<Rightarrow> gen_draws \<Rightarrow> nat \<Rightarrow> demo_video" where
  "gen_item acs g i =
     (let cat = acs ! (i mod length acs)
      in \<lparr>dv_video = \<lparr>video_id = g_id g i, title = g_title g i, description = [],
                       channel_title = Some (g_channel g i), tags = [],
                       duration_seconds = g_duration g i, is_short = False, language = None\<rparr>,
          dv_category = Some cat, dv_clickbait_score = Some (1/10),
          dv_entertainment_score = Some (demo_entertainment cat)\<rparr>)"

text \<open>\<open>for i in range(count)\<close>: the index runs up to \<open>count\<close> (\<open>cnt\<close> here).\<close>

function gen_loop :: "pystr list \<Rightarrow> gen_draws \<Rightarrow> nat \<Rightarrow> nat \<Rightarrow> demo_video list" where
  "gen_loop acs g cnt i =
     (if i < cnt then gen_item acs g i # gen_loop acs g cnt (Suc i) else [])"
  by pat_completeness auto
termination by (relation "measure (\<lambda>(acs, g, cnt, i). cnt - i)") auto

definition generate_dynamic_videos :: "pystr list \<Rightarrow> nat \<Rightarrow> gen_draws \<Rightarrow> demo_video list" where
  "generate_dynamic_videos cats cnt g = gen_loop (available_cats cats) g cnt 0"

text \<open>The same loop as the source writes it: the state \<open>(generated, i)\<close>,
  \<open>generated.append(video)\<close> at each step, run by \<open>while_option\<close>, which is
  \<open>None\<close> when the loop does not stop.\<close>

definition gen_for :: "pystr list \<Rightarrow> gen_draws \<Rightarrow> nat \<Rightarrow> (demo_video list \<times> nat) option" where
  "gen_for acs g cnt =
     while_option (\<lambda>(generated, i). i < cnt)
       (\<lambda>(generated, i). (generated @ [gen_item acs g i], Suc i)) ([], 0)"

text \<open>The list the feed's demo path filters: \<open>get_demo_videos\<close> (three times
  the page size) and \<open>generate_dynamic_videos\<close> (twice), concatenated and
  shuffled.\<close>

definition demo_feed_input ::
  "focus_mode \<Rightarrow> nat \<Rightarrow> (nat \<Rightarrow> nat) \<Rightarrow> gen_draws \<Rightarrow> (demo_video list \<Rightarrow> demo_video list) \<Rightarrow>
   (demo_video list \<Rightarrow> demo_video list) \<Rightarrow> demo_video list" where
  "demo_feed_input m max_results rnd g shuffle1 shuffle2 =
     shuffle2 (get_demo_videos (allowed_categories m) (max_results * 3) rnd shuffle1 @
               generate_dynamic_videos (allowed_categories m) (max_results * 2) g)"

subsection \<open>Examples\<close>

text \<open>A table whose only mode is the active Travel preset of user 1, and random draws
  that give every generated video the same fields.\<close>

definition travel_store :: mode_store where
  "travel_store = \<lparr>modes = [(preset_travel 0 1)\<lparr>is_active := True\<rparr>], next_id = 1\<rparr>"

definition plain_draws :: gen_draws where
  "plain_draws = \<lparr>g_id = (\<lambda>i. py ''gen''), g_title = (\<lambda>i. py ''Title''), g_channel = (\<lambda>i. py ''EduPro''),
                   g_duration = (\<lambda>i. 600)\<rparr>"

subsection \<open>Lemmas\<close>

declare gen_loop.simps [simp del]

lemma gen_loop_step [simp]:
  "i < cnt \<Longrightarrow> gen_loop acs g cnt i = gen_item acs g i # gen_loop acs g cnt (Suc i)"
  "\<not> i < cnt \<Longrightarrow> gen_loop acs g cnt i = []"
  by (simp_all add: gen_loop.simps)

lemma gen_loop_upt: "gen_loop acs g cnt i = map (gen_item acs g) [i..<cnt]"
proof (induction acs g cnt i rule: gen_loop.induct)
  case (1 acs g cnt i)
  show ?case
  proof (cases "i < cnt")
    case True
    with "1.IH" [OF True] show ?thesis
      by (simp only: gen_loop_step(1) [OF True] upt_conv_Cons [OF True] list.map)
  next
    case False
    then show ?thesis by (simp only: gen_loop_step(2) [OF False]) simp
  qed
qed

text \<open>From any state \<open>(xs, i)\<close> with \<open>i \<le> cnt\<close> the loop stops after
  \<open>cnt - i\<close> steps, having appended the items \<open>i\<close> to \<open>cnt - 1\<close>.\<close>

lemma gen_for_from:
  "i \<le> cnt \<Longrightarrow>
   while_option (\<lambda>(generated, i). i < cnt) (\<lambda>(generated, i). (generated @ [gen_item acs g i], Suc i))
     (xs, i) = Some (xs @ map (gen_item acs g) [i..<cnt], cnt)"
proof (induction "cnt - i" arbitrary: xs i)
  case 0
  then have "i = cnt" by simp
  then show ?case by (subst while_option_unfold) simp
next
  case (Suc k)
  then have lt: "i < cnt" and k: "k = cnt - Suc i" and le: "Suc i \<le> cnt" by simp_all
  have "while_option (\<lambda>(generated, i). i < cnt) (\<lambda>(generated, i). (generated @ [gen_item acs g i], Suc i))
     (xs, i) =
     while_option (\<lambda>(generated, i). i < cnt) (\<lambda>(generated, i). (generated @ [gen_item acs g i], Suc i))
     (xs @ [gen_item acs g i], Suc i)"
    using lt by (subst while_option_unfold) simp
  also have "\<dots> = Some ((xs @ [gen_item acs g i]) @ map (gen_item acs g) [Suc i..<cnt], cnt)"
    by (rule Suc.hyps(1) [OF k le])
  finally show ?case using lt by (simp add: upt_conv_Cons)
qed

lemma gen_loop_length: "length (gen_loop acs g cnt i) = cnt - i"
proof (induction acs g cnt i rule: gen_loop.induct)
  case (1 acs g cnt i)
  show ?case
  proof (cases "i < cnt")
    case True
    then have "length (gen_loop acs g cnt i) = Suc (length (gen_loop acs g cnt (Suc i)))"
      by (simp only: gen_loop_step(1) [OF True] list.size)
    with "1.IH" [OF True] True show ?thesis by linarith
  next
    case False
    then show ?thesis by simp
  qed
qed

lemma gen_loop_nth:
  "k < cnt - i \<Longrightarrow> gen_loop acs g cnt i ! k = gen_item acs g (i + k)"
proof (induction acs g cnt i arbitrary: k rule: gen_loop.induct)
  case (1 acs g cnt i)
  then have lt: "i < cnt" by simp
  show ?case
  proof (cases k)
    case 0
    with lt show ?thesis by simp
  next
    case (Suc k')
    with "1.prems" have "k' < cnt - Suc i" by simp
    with "1.IH" [OF lt] lt Suc show ?thesis by simp
  qed
qed

lemma available_cats_ne: "available_cats cats \<noteq> []"
  by (simp add: available_cats_def Let_def)

lemma demo_filter_none:
  "\<forall>d \<in> set ds. \<not> demo_admits m d \<Longrightarrow> demo_filter m maxr ds items fc = (items, fc + length ds)"
  by (induction ds arbitrary: fc) auto


lemma available_cats_sub: "set (available_cats cats) \<subseteq> set template_categories"
  by (auto simp: available_cats_def Let_def template_categories_def)

lemma generate_nth:
  "k < cnt \<Longrightarrow> generate_dynamic_videos cats cnt g ! k = gen_item (available_cats cats) g k"
  using gen_loop_nth [of k cnt 0] by (simp add: generate_dynamic_videos_def)

lemma generate_length: "length (generate_dynamic_videos cats cnt g) = cnt"
  by (simp add: generate_dynamic_videos_def gen_loop_length)

lemma generate_members:
  "d \<in> set (generate_dynamic_videos cats cnt g) \<Longrightarrow>
   \<exists>k < cnt. d = gen_item (available_cats cats) g k"
  by (metis generate_length generate_nth in_set_conv_nth)

text \<open>The for-loop of generate_dynamic_videos terminates for every count: run as a
  while loop from ([], 0), it stops with i = count, having appended one generated video
  per index, which is the list generate_dynamic_videos returns.\<close>
theorem gen_for_terminates:
  "gen_for (available_cats cats) g cnt = Some (generate_dynamic_videos cats cnt g, cnt)"
  using gen_for_from [where i = 0 and cnt = cnt and xs = "[]" and acs = "available_cats cats" and g = g]
  by (simp add: gen_for_def generate_dynamic_videos_def gen_loop_upt)

text \<open>Generate_dynamic_videos runs its loop exactly cnt times and cycles through
  the available categories: the k-th video has category number k mod n of them; the
  available categories are the requested ones that have templates (all of DEMO_VIDEOS's
  when none are requested, EDUCATION when none is left); no generated video is a short
  and each carries clickbait 0.1.\<close>
theorem generate_dynamic_videos_contract:
  "length (generate_dynamic_videos cats cnt g) = cnt \<and>
   (\<forall>k < cnt. dv_category (generate_dynamic_videos cats cnt g ! k) =
      Some (available_cats cats ! (k mod length (available_cats cats)))) \<and>
   available_cats cats \<noteq> [] \<and> set (available_cats cats) \<subseteq> set template_categories \<and>
   (\<forall>d \<in> set (generate_dynamic_videos cats cnt g).
      \<not> is_short (dv_video d) \<and> dv_clickbait_score d = Some (1/10))"
proof (intro conjI allI impI ballI)
  show "length (generate_dynamic_videos cats cnt g) = cnt" by (rule generate_length)
  show "available_cats cats \<noteq> []" by (rule available_cats_ne)
  show "set (available_cats cats) \<subseteq> set template_categories" by (rule available_cats_sub)
next
  fix k assume "k < cnt"
  then show "dv_category (generate_dynamic_videos cats cnt g ! k) =
      Some (available_cats cats ! (k mod length (available_cats cats)))"
    by (simp add: generate_nth gen_item_def Let_def)
next
  fix d assume "d \<in> set (generate_dynamic_videos cats cnt g)"
  then obtain k where "d = gen_item (available_cats cats) g k" using generate_members by blast
  then show "\<not> is_short (dv_video d)" "dv_clickbait_score d = Some (1/10)"
    by (simp_all add: gen_item_def Let_def)
qed

theorem generate_dynamic_videos_contract_witness:
  "length (generate_dynamic_videos [MUSIC, GAMING] 3 plain_draws) = 3 \<and>
   dv_category (generate_dynamic_videos [MUSIC, GAMING] 3 plain_draws ! 2) = Some MUSIC \<and>
   available_cats [MUSIC, GAMING] = [MUSIC, GAMING]"
proof -
  have a: "available_cats [MUSIC, GAMING] = [MUSIC, GAMING]"
    by (simp add: available_cats_def template_categories_def py_def)
  from generate_dynamic_videos_contract [of "[MUSIC, GAMING]" 3 plain_draws] a show ?thesis
    by (simp add: numeral_2_eq_2)
qed


lemma demo_keys:
  "map fst DEMO_VIDEOS =
     map py [''EDUCATION'', ''SCIENCE_TECH'', ''HOWTO_STYLE'', ''MUSIC'', ''GAMING'', ''ENTERTAINMENT'']"
  by (simp add: DEMO_VIDEOS_def)

lemma travel_not_demo_keys:
  "c \<in> set (allowed_categories (preset_travel mid u)) \<Longrightarrow> map_of DEMO_VIDEOS c = None"
proof -
  assume c: "c \<in> set (allowed_categories (preset_travel mid u))"
  have "set (allowed_categories (preset_travel mid u)) \<inter> set (map fst DEMO_VIDEOS) = {}"
    unfolding demo_keys by (simp add: preset_travel_def new_mode_def py_def)
  with c show ?thesis by (auto simp: map_of_eq_None_iff)
qed

lemma demo_selection_travel: "demo_selection (allowed_categories (preset_travel mid u)) = []"
proof -
  have "allowed_categories (preset_travel mid u) \<noteq> []" by (simp add: preset_travel_def new_mode_def)
  then show ?thesis
    using travel_not_demo_keys [of _ mid u] by (auto simp: demo_selection_def)
qed

lemma available_cats_travel: "available_cats (allowed_categories (preset_travel mid u)) = [EDUCATION]"
  by (simp add: available_cats_def preset_travel_def new_mode_def template_categories_def py_def)

lemma perm_Nil: "mset (f []) = mset [] \<Longrightarrow> f [] = []"
  by simp

text \<open>Claim C30. The demo fallback cannot serve the Travel preset either: DEMO_VIDEOS has none of
  its categories, and generate_dynamic_videos, having no templates for them, falls back to
  EDUCATION, which the Travel allow-list rejects. Whatever the random draws and shuffles,
  the demo feed is empty and all 2 * max_results generated videos are counted as
  filtered.\<close>
theorem travel_demo_feed_empty:
  assumes m: "get_active_mode uid st = Inr m"
    and travel: "allowed_categories m = allowed_categories (preset_travel mid u)"
    and sh: "\<forall>xs. mset (shuffle1 xs) = mset xs" "\<forall>xs. mset (shuffle2 xs) = mset xs"
    and h: "get_feed uid maxr tok FetchFailed (demo_feed_input m maxr rnd g shuffle1 shuffle2) now st db =
            (Inr (Inr r), db')"
  shows "fr_items r = [] \<and> fr_filtered_count r = 2 * maxr"
proof -
  let ?gen = "generate_dynamic_videos (allowed_categories m) (maxr * 2) g"
  have "shuffle1 [] = []" using sh(1) by (intro perm_Nil) simp
  then have dv: "get_demo_videos (allowed_categories m) (maxr * 3) rnd shuffle1 = []"
    by (simp add: get_demo_videos_def travel demo_selection_travel)
  define ds where "ds = demo_feed_input m maxr rnd g shuffle1 shuffle2"
  have ds: "mset ds = mset ?gen" using sh(2) by (simp add: ds_def demo_feed_input_def dv)
  have "\<forall>d \<in> set ds. \<not> demo_admits m d"
  proof
    fix d assume "d \<in> set ds"
    then have "d \<in> set ?gen" using mset_eq_setD [OF ds] by simp
    then obtain k where "d = gen_item (available_cats (allowed_categories m)) g k"
      using generate_members by blast
    then have "demo_category d = EDUCATION"
      by (simp add: travel available_cats_travel gen_item_def demo_category_def Let_def)
    then show "\<not> demo_admits m d"
      by (simp add: demo_admits_def travel preset_travel_def new_mode_def py_def)
  qed
  then have "demo_filter m maxr ds [] 0 = ([], length ds)" by (simp add: demo_filter_none)
  moreover have "length ds = 2 * maxr"
    using ds generate_length [of "allowed_categories m" "maxr * 2" g] by (metis mset_eq_length mult.commute)
  ultimately show ?thesis using h m by (auto simp: get_feed_def ds_def Let_def)
qed


lemma travel_store_active: "get_active_mode 1 travel_store = Inr ((preset_travel 0 1)\<lparr>is_active := True\<rparr>)"
  by (simp add: get_active_mode_def travel_store_def preset_travel_def new_mode_def)

theorem travel_demo_feed_empty_witness:
  "\<exists>r db'. get_active_mode 1 travel_store = Inr ((preset_travel 0 1)\<lparr>is_active := True\<rparr>) \<and>
     allowed_categories ((preset_travel 0 1)\<lparr>is_active := True\<rparr>) = allowed_categories (preset_travel 0 1) \<and>
     (\<forall>xs. mset (id xs) = mset (xs :: demo_video list)) \<and> (\<forall>xs. mset (rev xs) = mset (xs :: demo_video list)) \<and>
     get_feed 1 2 None FetchFailed
       (demo_feed_input ((preset_travel 0 1)\<lparr>is_active := True\<rparr>) 2 (\<lambda>i. 1000) plain_draws id rev)
       0 travel_store Map.empty = (Inr (Inr r), db') \<and>
     fr_items r = [] \<and> fr_filtered_count r = 4"
proof -
  have sh: "\<forall>xs. mset (id xs) = mset (xs :: demo_video list)" "\<forall>xs. mset (rev xs) = mset (xs :: demo_video list)"
    by simp_all
  have "\<exists>r db'. get_feed 1 2 None FetchFailed
       (demo_feed_input ((preset_travel 0 1)\<lparr>is_active := True\<rparr>) 2 (\<lambda>i. 1000) plain_draws id rev)
       0 travel_store Map.empty = (Inr (Inr r), db')"
    by (simp add: get_feed_def travel_store_active [unfolded One_nat_def] split_def Let_def)
  then obtain r db' where h: "get_feed 1 2 None FetchFailed
       (demo_feed_input ((preset_travel 0 1)\<lparr>is_active := True\<rparr>) 2 (\<lambda>i. 1000) plain_draws id rev)
       0 travel_store Map.empty = (Inr (Inr r), db')" by blast
  have t: "allowed_categories ((preset_travel 0 1)\<lparr>is_active := True\<rparr>) = allowed_categories (preset_travel 0 1)"
    by simp
  from travel_demo_feed_empty [OF travel_store_active t sh h] travel_store_active t sh h
  show ?thesis by auto
qed

end
