(* ===== verification/Auth.thy ===== *)
theory Auth
  imports PyStr
begin

text \<open>
  Authentication (src/backend/app/routers/auth.py) over the \<open>users\<close> table
  (models/user.py). The HTTP exchanges with Google are external: the user
  information they yield is an argument, \<open>None\<close> when either request fails
  (a 400). JSON Web Tokens are abstract: a token is either one this server
  signed, holding its claims, or any other string, which \<open>jwt.decode\<close>
  rejects; \<open>jwt.decode\<close> also rejects a token whose \<open>exp\<close> lies in the past
  (python-jose, no leeway). Forging a signature is outside the model, which
  is sound only while \<open>jwt_secret_key\<close> is secret (its default in config.py
  is a public string). User ids are numbers, \<open>str(user.id)\<close> is their
  decimal string and \<open>uuid.UUID(s)\<close> parses it back (\<open>ValueError\<close> on
  anything else). The unique constraints on \<open>email\<close> and \<open>google_id\<close> make an
  insert that would duplicate either fail with \<open>IntegrityError\<close>, which
  rolls the request back.
\<close>

record claims =
  sub :: "pystr option"
  exp :: timestamp

datatype token = Signed claims | Unsigned pystr

record token_response =
  access_token :: token
  expires_in :: int

record user_row =
  u_id :: nat
  u_email :: pystr
  u_google_id :: pystr
  u_display_name :: "pystr option"
  u_avatar_url :: "pystr option"
  u_last_login :: timestamp

record user_db =
  users :: "user_row list"
  next_uid :: nat

datatype auth_error = Unauthorized | AuthBadRequest | IntegrityError

text \<open>\<open>settings.jwt_expire_minutes\<close> (config.py, 7 days).\<close>

definition jwt_expire_minutes :: int where
  "jwt_expire_minutes = 10080"

definition create_access_token :: "nat \<Rightarrow> timestamp \<Rightarrow> token_response" where
  "create_access_token uid now =
     \<lparr>access_token = Signed \<lparr>sub = Some (show_nat uid), exp = now + jwt_expire_minutes * 60\<rparr>,
      expires_in = jwt_expire_minutes * 60\<rparr>"

definition jwt_decode :: "token \<Rightarrow> timestamp \<Rightarrow> claims option" where
  "jwt_decode t now = (case t of Signed c \<Rightarrow> if exp c < now then None else Some c | Unsigned _ \<Rightarrow> None)"

definition uuid_parse :: "pystr \<Rightarrow> nat option" where
  "uuid_parse s = (if s \<noteq> [] \<and> (\<forall>c \<in> set s. is_digit c) then Some (read_nat s) else None)"

definition get_current_user :: "token option \<Rightarrow> timestamp \<Rightarrow> user_db \<Rightarrow> auth_error + user_row" where
  "get_current_user tok now db =
     (case tok of
        None \<Rightarrow> Inl Unauthorized
      | Some t \<Rightarrow>
          (case jwt_decode t now of
             None \<Rightarrow> Inl Unauthorized
           | Some c \<Rightarrow>
               (case sub c of
                  None \<Rightarrow> Inl Unauthorized
                | Some s \<Rightarrow>
                    (case uuid_parse s of
                       None \<Rightarrow> Inl Unauthorized
                     | Some uid \<Rightarrow>
                         (case find (\<lambda>u. u_id u = uid) (users db) of
                            None \<Rightarrow> Inl Unauthorized
                          | Some u \<Rightarrow> Inr u)))))"

text \<open>An insert of a new row: the next fresh id, or \<open>IntegrityError\<close> when
  the email or the Google id is taken.\<close>

definition insert_user ::
  "pystr \<Rightarrow> pystr \<Rightarrow> pystr option \<Rightarrow> pystr option \<Rightarrow> timestamp \<Rightarrow> user_db \<Rightarrow>
   auth_error + user_row \<times> user_db" where
  "insert_user email gid name avatar now db =
     (if (\<exists>u \<in> set (users db). u_email u = email \<or> u_google_id u = gid) then Inl IntegrityError
      else
        (let u = \<lparr>u_id = next_uid db, u_email = email, u_google_id = gid, u_display_name = name,
                  u_avatar_url = avatar, u_last_login = now\<rparr>
         in Inr (u, db\<lparr>users := users db @ [u], next_uid := Suc (next_uid db)\<rparr>)))"

text \<open>What \<open>/oauth2/v2/userinfo\<close> returns.\<close>

record google_info =
  gi_id :: pystr
  gi_email :: pystr
  gi_name :: "pystr option"
  gi_picture :: "pystr option"

definition google_callback ::
  "google_info option \<Rightarrow> timestamp \<Rightarrow> user_db \<Rightarrow> auth_error + token_response \<times> user_db" where
  "google_callback info now db =
     (case info of
        None \<Rightarrow> Inl AuthBadRequest
      | Some gi \<Rightarrow>
          (case find (\<lambda>u. u_google_id u = gi_id gi) (users db) of
             None \<Rightarrow>
               (case insert_user (gi_email gi) (gi_id gi) (gi_name gi) (gi_picture gi) now db of
                  Inl e \<Rightarrow> Inl e
                | Inr (u, db') \<Rightarrow> Inr (create_access_token (u_id u) now, db'))
           | Some u \<Rightarrow>
               Inr (create_access_token (u_id u) now,
                    db\<lparr>users := map (\<lambda>x. if u_id x = u_id u
                                         then x\<lparr>u_last_login := now, u_avatar_url := gi_picture gi\<rparr>
                                         else x) (users db)\<rparr>)))"

definition demo_email :: pystr where
  "demo_email = py ''demo@focustube.dev''"

definition demo_login :: "timestamp \<Rightarrow> user_db \<Rightarrow> auth_error + token_response \<times> user_db" where
  "demo_login now db =
     (case find (\<lambda>u. u_email u = demo_email) (users db) of
        None \<Rightarrow>
          (case insert_user demo_email (py ''demo-user-001'') (Some (py ''Demo User'')) None now db of
             Inl e \<Rightarrow> Inl e
           | Inr (u, db') \<Rightarrow> Inr (create_access_token (u_id u) now, db'))
      | Some u \<Rightarrow> Inr (create_access_token (u_id u) now, db))"

definition refresh_token :: "token option \<Rightarrow> timestamp \<Rightarrow> user_db \<Rightarrow> auth_error + token_response" where
  "refresh_token tok now db =
     (case get_current_user tok now db of Inl e \<Rightarrow> Inl e | Inr u \<Rightarrow> Inr (create_access_token (u_id u) now))"

text \<open>\<open>POST /auth/logout\<close>: nothing happens on the server; the client is
  expected to discard its token.\<close>

definition logout :: "user_db \<Rightarrow> pystr \<times> user_db" where
  "logout db = (py ''Logged out successfully'', db)"

text \<open>\<open>GET /auth/me\<close>: the user of the token.\<close>

definition get_me :: "token option \<Rightarrow> timestamp \<Rightarrow> user_db \<Rightarrow> auth_error + user_row" where
  "get_me tok now db = get_current_user tok now db"

text \<open>\<open>GET /auth/google\<close>: the consent URL built from the client id and the
  redirect URI of the settings, inserted as they are.\<close>

definition google_auth_url :: "pystr \<Rightarrow> pystr \<Rightarrow> pystr" where
  "google_auth_url client_id redirect_uri =
     py ''https://accounts.google.com/o/oauth2/v2/auth?'' @
     py ''client_id='' @ client_id @ py ''&'' @
     py ''redirect_uri='' @ redirect_uri @ py ''&'' @
     py ''response_type=code&'' @
     py ''scope=openid%20email%20profile%20https://www.googleapis.com/auth/youtube.readonly&'' @
     py ''access_type=offline&'' @
     py ''prompt=consent''"

text \<open>The table invariant the primary key and the two unique constraints keep.\<close>

definition users_inv :: "user_db \<Rightarrow> bool" where
  "users_inv db \<longleftrightarrow>
     distinct (map u_id (users db)) \<and> distinct (map u_email (users db)) \<and>
     distinct (map u_google_id (users db)) \<and> (\<forall>u \<in> set (users db). u_id u < next_uid db)"

definition empty_users :: user_db where
  "empty_users = \<lparr>users = [], next_uid = 0\<rparr>"

text \<open>The table after the first demo login at time 0.\<close>

definition demo_user_row :: user_row where
  "demo_user_row = \<lparr>u_id = 0, u_email = demo_email, u_google_id = py ''demo-user-001'',
                    u_display_name = Some (py ''Demo User''), u_avatar_url = None, u_last_login = 0\<rparr>"

definition demo_users :: user_db where
  "demo_users = \<lparr>users = [demo_user_row], next_uid = 1\<rparr>"

text \<open>A Google account that is not the demo one but has the demo email.\<close>

definition clash_info :: google_info where
  "clash_info = \<lparr>gi_id = py ''g-2'', gi_email = demo_email, gi_name = None, gi_picture = None\<rparr>"

subsection \<open>Lemmas\<close>

lemma uuid_parse_show: "uuid_parse (show_nat n) = Some n"
  using show_nat_digits [of _ n] by (simp add: uuid_parse_def read_show_nat)

lemma find_distinct_key:
  "distinct (map f xs) \<Longrightarrow> x \<in> set xs \<Longrightarrow> find (\<lambda>y. f y = f x) xs = Some x"
  by (induction xs) (auto simp: image_iff)

lemma get_current_user_token:
  "get_current_user (Some (access_token (create_access_token uid now))) now' db =
     (if now' \<le> now + jwt_expire_minutes * 60
      then (case find (\<lambda>u. u_id u = uid) (users db) of None \<Rightarrow> Inl Unauthorized | Some u \<Rightarrow> Inr u)
      else Inl Unauthorized)"
  by (simp add: get_current_user_def create_access_token_def jwt_decode_def uuid_parse_show
      not_less split: option.splits)

lemma find_user_id:
  "users_inv db \<Longrightarrow> u \<in> set (users db) \<Longrightarrow> find (\<lambda>x. u_id x = u_id u) (users db) = Some u"
  by (intro find_distinct_key) (simp_all add: users_inv_def)

lemma token_auth_now:
  "users_inv db \<Longrightarrow> u \<in> set (users db) \<Longrightarrow>
   get_current_user (Some (access_token (create_access_token (u_id u) now))) now db = Inr u"
  using find_user_id by (simp add: get_current_user_token jwt_expire_minutes_def)

text \<open>Claim C16. Token round trip: the token create_access_token issues for an existing user
  authenticates that user on every later request up to seven days
  (jwt_expire_minutes) after issue, and is refused with 401 afterwards.\<close>
theorem access_token_roundtrip:
  assumes inv: "users_inv db" and u: "u \<in> set (users db)"
  shows "get_current_user (Some (access_token (create_access_token (u_id u) now))) now' db =
           (if now' \<le> now + jwt_expire_minutes * 60 then Inr u else Inl Unauthorized)"
  using find_user_id [OF inv u] by (simp add: get_current_user_token)

lemma insert_user_inv:
  assumes inv: "users_inv db" and h: "insert_user email gid name avatar now db = Inr (u, db')"
  shows "users_inv db' \<and> u \<in> set (users db') \<and> u_email u = email"
proof -
  have free: "\<forall>x \<in> set (users db). u_email x \<noteq> email \<and> u_google_id x \<noteq> gid"
    and db': "db' = db\<lparr>users := users db @ [u], next_uid := Suc (next_uid db)\<rparr>"
    and u: "u = \<lparr>u_id = next_uid db, u_email = email, u_google_id = gid, u_display_name = name,
                  u_avatar_url = avatar, u_last_login = now\<rparr>"
    using h by (auto simp: insert_user_def Let_def split: if_splits)
  have "next_uid db \<notin> u_id ` set (users db)" using inv by (auto simp: users_inv_def)
  with inv free show ?thesis
    by (auto simp: users_inv_def db' u image_iff less_Suc_eq)
qed

lemma map_touch_keys:
  "(\<And>x. u_id (f x) = u_id x \<and> u_email (f x) = u_email x \<and> u_google_id (f x) = u_google_id x) \<Longrightarrow>
   map u_id (map f xs) = map u_id xs \<and> map u_email (map f xs) = map u_email xs \<and>
   map u_google_id (map f xs) = map u_google_id xs"
  by (induction xs) auto

text \<open>The sign-in handlers keep the users table consistent: after a successful Google
  callback or demo login, user ids, emails and Google ids are still unique and every id
  is below the id counter.\<close>
theorem auth_ops_preserve_users_inv:
  assumes inv: "users_inv db"
  shows "(\<forall>t db'. google_callback info now db = Inr (t, db') \<longrightarrow> users_inv db') \<and>
         (\<forall>t db'. demo_login now db = Inr (t, db') \<longrightarrow> users_inv db')"
proof (intro conjI allI impI)
  fix t db' assume h: "google_callback info now db = Inr (t, db')"
  then obtain gi where gi: "info = Some gi" by (cases info) (auto simp: google_callback_def)
  show "users_inv db'"
  proof (cases "find (\<lambda>u. u_google_id u = gi_id gi) (users db)")
    case None
    then obtain u where "insert_user (gi_email gi) (gi_id gi) (gi_name gi) (gi_picture gi) now db = Inr (u, db')"
      using h gi by (auto simp: google_callback_def split: sum.splits)
    then show ?thesis using insert_user_inv [OF inv] by blast
  next
    case (Some u)
    let ?f = "\<lambda>x. if u_id x = u_id u then x\<lparr>u_last_login := now, u_avatar_url := gi_picture gi\<rparr> else x"
    have db': "db' = db\<lparr>users := map ?f (users db)\<rparr>" using h gi Some by (simp add: google_callback_def)
    have k: "map u_id (map ?f (users db)) = map u_id (users db) \<and>
             map u_email (map ?f (users db)) = map u_email (users db) \<and>
             map u_google_id (map ?f (users db)) = map u_google_id (users db)"
      by (rule map_touch_keys) simp
    have n: "next_uid db' = next_uid db" by (simp add: db')
    have m: "map u_id (users db') = map u_id (users db)" "map u_email (users db') = map u_email (users db)"
      "map u_google_id (users db') = map u_google_id (users db)"
      using k by (simp_all add: db')
    have "\<forall>x \<in> set (users db'). u_id x < next_uid db'"
    proof
      fix x assume "x \<in> set (users db')"
      then have "u_id x \<in> set (map u_id (users db'))" by simp
      then have "u_id x \<in> set (map u_id (users db))" by (simp only: m)
      then show "u_id x < next_uid db'" using inv n by (auto simp: users_inv_def)
    qed
    then show ?thesis using inv m by (simp add: users_inv_def)
  qed
next
  fix t db' assume h: "demo_login now db = Inr (t, db')"
  show "users_inv db'"
  proof (cases "find (\<lambda>u. u_email u = demo_email) (users db)")
    case None
    then obtain u where "insert_user demo_email (py ''demo-user-001'') (Some (py ''Demo User'')) None now db =
        Inr (u, db')"
      using h by (auto simp: demo_login_def split: sum.splits)
    then show ?thesis using insert_user_inv [OF inv] by blast
  next
    case (Some u)
    with h inv show ?thesis by (simp add: demo_login_def)
  qed
qed


theorem access_token_roundtrip_witness:
  "users_inv demo_users \<and> demo_user_row \<in> set (users demo_users) \<and>
   get_current_user (Some (access_token (create_access_token (u_id demo_user_row) 0))) 3600 demo_users =
     Inr demo_user_row \<and>
   get_current_user (Some (access_token (create_access_token (u_id demo_user_row) 0))) 700000 demo_users =
     Inl Unauthorized"
proof -
  have i: "users_inv demo_users" and u: "demo_user_row \<in> set (users demo_users)"
    by (simp_all add: users_inv_def demo_users_def demo_user_row_def)
  show ?thesis
    using access_token_roundtrip [OF i u, of 0 3600] access_token_roundtrip [OF i u, of 0 700000] i u
    by (simp add: jwt_expire_minutes_def)
qed

theorem auth_ops_preserve_users_inv_witness:
  "users_inv empty_users \<and> (\<exists>t db'. demo_login 0 empty_users = Inr (t, db') \<and> users_inv db')"
proof -
  have i: "users_inv empty_users" by (simp add: users_inv_def empty_users_def)
  have "\<exists>t db'. demo_login 0 empty_users = Inr (t, db')"
    by (simp add: demo_login_def empty_users_def insert_user_def Let_def)
  then obtain t db' where h: "demo_login 0 empty_users = Inr (t, db')" by blast
  from auth_ops_preserve_users_inv [OF i, of undefined 0] h i show ?thesis by blast
qed

text \<open>Claim C35. GET /auth/demo has no guard: from any consistent users table in which the demo
  Google id, if present, belongs to the demo email, it returns a token that authenticates
  as the demo account for seven days, to any caller, although its docstring restricts it
  to development and portfolio demos.\<close>
theorem demo_login_open:
  assumes inv: "users_inv db"
    and free: "\<forall>u \<in> set (users db). u_google_id u = py ''demo-user-001'' \<longrightarrow> u_email u = demo_email"
  shows "\<exists>t db' u. demo_login now db = Inr (t, db') \<and>
           get_current_user (Some (access_token t)) now db' = Inr u \<and> u_email u = demo_email"
proof (cases "find (\<lambda>u. u_email u = demo_email) (users db)")
  case (Some u)
  then have u: "u \<in> set (users db)" "u_email u = demo_email" by (auto dest: find_Some_iff [THEN iffD1] simp: find_Some_iff in_set_conv_nth)
  have "get_current_user (Some (access_token (create_access_token (u_id u) now))) now db = Inr u"
    using find_user_id [OF inv u(1)] by (simp add: get_current_user_token jwt_expire_minutes_def)
  with Some u show ?thesis by (auto simp: demo_login_def)
next
  case None
  then have "\<forall>u \<in> set (users db). u_email u \<noteq> demo_email" by (simp add: find_None_iff)
  with free have ok: "\<not> (\<exists>u \<in> set (users db). u_email u = demo_email \<or> u_google_id u = py ''demo-user-001'')"
    by blast
  obtain u db' where ins: "insert_user demo_email (py ''demo-user-001'') (Some (py ''Demo User'')) None now db =
      Inr (u, db')"
    using ok by (simp add: insert_user_def Let_def)
  from insert_user_inv [OF inv ins] have i': "users_inv db'" "u \<in> set (users db')" "u_email u = demo_email"
    by simp_all
  have "get_current_user (Some (access_token (create_access_token (u_id u) now))) now db' = Inr u"
    using find_user_id [OF i'(1,2)] by (simp add: get_current_user_token jwt_expire_minutes_def)
  with None ins i'(3) show ?thesis by (auto simp: demo_login_def)
qed

theorem demo_login_open_witness:
  "users_inv empty_users \<and>
   (\<exists>t db' u. demo_login 0 empty_users = Inr (t, db') \<and>
      get_current_user (Some (access_token t)) 0 db' = Inr u \<and> u_email u = demo_email)"
proof -
  have i: "users_inv empty_users" by (simp add: users_inv_def empty_users_def)
  have f: "\<forall>u \<in> set (users empty_users). u_google_id u = py ''demo-user-001'' \<longrightarrow> u_email u = demo_email"
    by (simp add: empty_users_def)
  from demo_login_open [OF i f, of 0] i show ?thesis by blast
qed

text \<open>Claim C23. GET /auth/callback on a consistent users table, for the account Google
  reports: a returning account (its Google id is in the table) is found and keeps the
  number of rows; a new one is inserted as exactly one row, unless its email belongs to
  another account, which is the one failure (IntegrityError). On success the table stays
  consistent and the issued token authenticates the row of that Google account.\<close>
theorem google_callback_contract:
  assumes inv: "users_inv db"
  shows "case google_callback (Some gi) now db of
           Inl e \<Rightarrow> e = IntegrityError \<and> gi_id gi \<notin> u_google_id ` set (users db) \<and>
                   gi_email gi \<in> u_email ` set (users db)
         | Inr (t, db') \<Rightarrow> users_inv db' \<and>
             length (users db') =
               length (users db) + (if gi_id gi \<in> u_google_id ` set (users db) then 0 else 1) \<and>
             (\<exists>u. get_current_user (Some (access_token t)) now db' = Inr u \<and> u_google_id u = gi_id gi)"
proof (cases "find (\<lambda>u. u_google_id u = gi_id gi) (users db)")
  case None
  then have new: "gi_id gi \<notin> u_google_id ` set (users db)" by (auto simp: find_None_iff)
  show ?thesis
  proof (cases "gi_email gi \<in> u_email ` set (users db)")
    case True
    then have "insert_user (gi_email gi) (gi_id gi) (gi_name gi) (gi_picture gi) now db = Inl IntegrityError"
      by (auto simp: insert_user_def)
    with None new True show ?thesis by (simp add: google_callback_def)
  next
    case False
    define u where "u = \<lparr>u_id = next_uid db, u_email = gi_email gi, u_google_id = gi_id gi,
      u_display_name = gi_name gi, u_avatar_url = gi_picture gi, u_last_login = now\<rparr>"
    define db' where "db' = db\<lparr>users := users db @ [u], next_uid := Suc (next_uid db)\<rparr>"
    have "\<not> (\<exists>x \<in> set (users db). u_email x = gi_email gi \<or> u_google_id x = gi_id gi)"
      using False new by force
    then have ins: "insert_user (gi_email gi) (gi_id gi) (gi_name gi) (gi_picture gi) now db = Inr (u, db')"
      by (simp add: insert_user_def u_def db'_def Let_def)
    from insert_user_inv [OF inv ins] have i': "users_inv db'" "u \<in> set (users db')" by simp_all
    have "get_current_user (Some (access_token (create_access_token (u_id u) now))) now db' = Inr u"
      using token_auth_now [OF i'] .
    then show ?thesis using None new ins i'(1) by (simp add: google_callback_def db'_def u_def)
  qed
next
  case (Some u)
  then have u: "u \<in> set (users db)" "u_google_id u = gi_id gi" by (auto dest: find_SomeD)
  define f :: "user_row \<Rightarrow> user_row" where "f = (\<lambda>x. if u_id x = u_id u then x\<lparr>u_last_login := now, u_avatar_url := gi_picture gi\<rparr>
                                                  else x)"
  define db' where "db' = db\<lparr>users := map f (users db)\<rparr>"
  have h: "google_callback (Some gi) now db = Inr (create_access_token (u_id u) now, db')"
    using Some by (simp add: google_callback_def db'_def f_def)
  have i': "users_inv db'" using auth_ops_preserve_users_inv [OF inv] h by blast
  have "f u \<in> set (users db')" using u(1) by (simp add: db'_def)
  from token_auth_now [OF i' this] have
    "get_current_user (Some (access_token (create_access_token (u_id u) now))) now db' = Inr (f u)"
    by (simp add: f_def)
  moreover have "u_google_id (f u) = gi_id gi" using u(2) by (simp add: f_def)
  moreover have "gi_id gi \<in> u_google_id ` set (users db)" using u by (metis image_eqI)
  ultimately show ?thesis using h i' by (auto simp: db'_def)
qed

theorem google_callback_contract_witness:
  "users_inv demo_users \<and> google_callback (Some clash_info) 0 demo_users = Inl IntegrityError \<and>
   gi_id clash_info \<notin> u_google_id ` set (users demo_users)"
proof -
  have i: "users_inv demo_users" by (simp add: users_inv_def demo_users_def demo_user_row_def)
  have e: "google_callback (Some clash_info) 0 demo_users = Inl IntegrityError"
    by (simp add: google_callback_def insert_user_def demo_users_def demo_user_row_def clash_info_def
        demo_email_def py_def)
  from google_callback_contract [OF i, of clash_info 0] e i show ?thesis by simp
qed

end
