(* ===== verification/Rules.thy ===== *)
theory Rules
  imports ModeStore
begin

text \<open>
  The filter-rule endpoints of routers/modes.py (\<open>list_mode_rules\<close>,
  \<open>create_rule\<close>) over the \<open>filter_rules\<close> table (models/filter_rule.py),
  and the ORM cascade of focus_mode.py that deletes a mode's rules with the
  mode. The request schema \<open>FilterRuleCreate\<close> restricts \<open>rule_type\<close> and
  \<open>action\<close> to fixed words (datatypes here) and the condition to 1 to 500
  characters; a request outside that is a 422 response. No part of the
  program reads the rules when it filters.
\<close>

datatype rule_type = RKeyword | RChannel | RCategory | RDuration | RScore

datatype rule_action = ABlock | AAllow | ADelay

record rule_create =
  rc_rule_type :: rule_type
  rc_condition :: pystr
  rc_action :: rule_action
  rc_priority :: int

record filter_rule =
  rule_id :: nat
  r_mode_id :: nat
  r_rule_type :: rule_type
  r_condition :: pystr
  r_action :: rule_action
  r_priority :: int
  r_is_active :: bool

record rule_db =
  rules :: "filter_rule list"
  next_rule_id :: nat

datatype rule_error = Unprocessable | RuleModeNotFound

text \<open>\<open>ORDER BY priority DESC\<close>: equal priorities keep table order here (the
  database leaves them unordered).\<close>

definition list_mode_rules ::
  "nat \<Rightarrow> nat \<Rightarrow> mode_store \<Rightarrow> rule_db \<Rightarrow> rule_error + filter_rule list" where
  "list_mode_rules uid mid st rdb =
     (case find_mode st uid mid of
        None \<Rightarrow> Inl RuleModeNotFound
      | Some _ \<Rightarrow> Inr (sort_key (\<lambda>r. - r_priority r) (filter (\<lambda>r. r_mode_id r = mid) (rules rdb))))"

definition create_rule ::
  "nat \<Rightarrow> nat \<Rightarrow> rule_create \<Rightarrow> mode_store \<Rightarrow> rule_db \<Rightarrow> rule_error + filter_rule \<times> rule_db" where
  "create_rule uid mid rc st rdb =
     (if length (rc_condition rc) < 1 \<or> 500 < length (rc_condition rc) then Inl Unprocessable
      else case find_mode st uid mid of
        None \<Rightarrow> Inl RuleModeNotFound
      | Some _ \<Rightarrow>
          (let r = \<lparr>rule_id = next_rule_id rdb, r_mode_id = mid, r_rule_type = rc_rule_type rc,
                    r_condition = rc_condition rc, r_action = rc_action rc,
                    r_priority = rc_priority rc, r_is_active = True\<rparr>
           in Inr (r, rdb\<lparr>rules := rules rdb @ [r], next_rule_id := Suc (next_rule_id rdb)\<rparr>)))"

text \<open>\<open>delete_mode\<close> with \<open>cascade="all, delete-orphan"\<close>: the mode's rules go
  with it.\<close>

definition delete_mode_cascade ::
  "nat \<Rightarrow> nat \<Rightarrow> mode_store \<Rightarrow> rule_db \<Rightarrow> api_error + mode_store \<times> rule_db" where
  "delete_mode_cascade uid mid st rdb =
     (case delete_mode uid mid st of
        Inl e \<Rightarrow> Inl e
      | Inr st' \<Rightarrow> Inr (st', rdb\<lparr>rules := filter (\<lambda>r. r_mode_id r \<noteq> mid) (rules rdb)\<rparr>))"

subsection \<open>Lemmas\<close>

text \<open>A rule created for a mode is listed for it, at the place its priority
  gives it, and a deleted mode leaves no rules behind.\<close>

lemma create_rule_listed:
  "create_rule uid mid rc st rdb = Inr (r, rdb') \<Longrightarrow>
   \<exists>rs. list_mode_rules uid mid st rdb' = Inr rs \<and> r \<in> set rs \<and> sorted (map (\<lambda>r. - r_priority r) rs)"
  by (auto simp: create_rule_def list_mode_rules_def Let_def split: if_splits option.splits)

lemma delete_cascade_no_rules:
  "delete_mode_cascade uid mid st rdb = Inr (st', rdb') \<Longrightarrow>
   find_mode st' uid mid = None \<and> (\<forall>r \<in> set (rules rdb'). r_mode_id r \<noteq> mid)"
  by (auto simp: delete_mode_cascade_def delete_mode_def find_mode_def find_None_iff
      split: option.splits sum.splits)

end
