(* ===== verification/YouTubeService.thy ===== *)
theory YouTubeService
  imports YouTube Feed
begin

text \<open>
  The request side of src/backend/app/services/youtube_service.py and how the
  routers consume it. \<open>_make_request\<close> is the HTTP call: the model takes what
  it returned as an argument, an \<open>api_response\<close>, which is \<open>ApiError\<close> for a
  non-200 status (the dict \<open>{"error": ..., "items": []}\<close>) and otherwise the
  items with \<open>nextPageToken\<close> and \<open>pageInfo.totalResults\<close>. The query, the
  page token and \<open>maxResults\<close> only shape that request and are not
  modelled. The methods then build the dict the routers read, \<open>yt_result\<close>:
  \<open>YtError\<close> when it carries the key \<open>"error"\<close>, otherwise the formatted
  videos, the next page token and the total.
\<close>

text \<open>The \<open>snippet\<close> of an item, each field \<open>None\<close> when the key is missing.\<close>

record snippet =
  sn_title :: "pystr option"
  sn_description :: "pystr option"
  sn_channel_title :: "pystr option"
  sn_tags :: "pystr list option"
  sn_default_language :: "pystr option"
  sn_default_audio_language :: "pystr option"

text \<open>An item of the \<open>search\<close> endpoint (\<open>id\<close> is the dict \<open>{"videoId": ...}\<close>)
  and a resource of the \<open>videos\<close> endpoint (\<open>id\<close> a string, with
  \<open>contentDetails.duration\<close>).\<close>

record search_item =
  si_video_id :: pystr
  si_snippet :: snippet

record video_resource =
  vr_id :: pystr
  vr_snippet :: snippet
  vr_duration :: "pystr option"

datatype 'a api_response = ApiError | ApiOk "'a list" "pystr option" "int option"

datatype yt_result = YtError | YtOk "video list" "pystr option" "int option"

text \<open>The arguments of \<open>_format_video(item, details)\<close>: the id and the snippet
  of \<open>item\<close>, and \<open>details\<close> when it is a non-empty dict (\<open>{}\<close> is falsy, so
  a missing detail gives no duration).\<close>

definition api_item_of :: "pystr \<Rightarrow> snippet \<Rightarrow> video_resource option \<Rightarrow> api_item" where
  "api_item_of vid sn det =
     \<lparr>item_id = vid, item_title = sn_title sn, item_description = sn_description sn,
      item_channel_title = sn_channel_title sn, item_tags = sn_tags sn,
      item_default_language = sn_default_language sn,
      item_default_audio_language = sn_default_audio_language sn,
      item_duration = (case det of None \<Rightarrow> None | Some r \<Rightarrow> vr_duration r)\<rparr>"

text \<open>\<open>_get_videos_details\<close>: no request for an empty id list; otherwise the
  loop \<open>details[item["id"]] = item\<close> over the response (an error response has
  no items), a later item overwriting an earlier one with the same id.\<close>

definition get_videos_details ::
  "pystr list \<Rightarrow> video_resource api_response \<Rightarrow> pystr \<rightharpoonup> video_resource" where
  "get_videos_details ids resp =
     (if ids = [] then Map.empty
      else case resp of
        ApiError \<Rightarrow> Map.empty
      | ApiOk items _ _ \<Rightarrow> fold (\<lambda>r d. d(vr_id r \<mapsto> r)) items Map.empty)"

text \<open>\<open>search_videos\<close>: the search response, then the details response of the
  second request for the ids found.\<close>

definition search_videos ::
  "search_item api_response \<Rightarrow> video_resource api_response \<Rightarrow> yt_result" where
  "search_videos resp dresp =
     (case resp of
        ApiError \<Rightarrow> YtError
      | ApiOk items tok tot \<Rightarrow>
          (let details = get_videos_details (map si_video_id items) dresp
           in YtOk (map (\<lambda>it. format_video (api_item_of (si_video_id it) (si_snippet it)
                                              (details (si_video_id it)))) items)
                   tok tot))"

text \<open>\<open>get_video_details\<close>: \<open>None\<close> when the response has no items, else the
  first resource, formatted under the requested id.\<close>

definition get_video_details :: "pystr \<Rightarrow> video_resource api_response \<Rightarrow> video option" where
  "get_video_details vid resp =
     (case resp of
        ApiError \<Rightarrow> None
      | ApiOk [] _ _ \<Rightarrow> None
      | ApiOk (r # _) _ _ \<Rightarrow> Some (format_video (api_item_of vid (vr_snippet r) (Some r))))"

text \<open>\<open>get_recommended_videos\<close>: the \<open>mostPopular\<close> chart. It does not look for
  the key \<open>"error"\<close>: an error response has no items, and the method returns
  an empty page with neither token nor total.\<close>

definition format_resource :: "video_resource \<Rightarrow> video" where
  "format_resource r = format_video (api_item_of (vr_id r) (vr_snippet r) (Some r))"

definition get_recommended_videos :: "video_resource api_response \<Rightarrow> yt_result" where
  "get_recommended_videos resp =
     (case resp of
        ApiError \<Rightarrow> YtOk [] None None
      | ApiOk items tok tot \<Rightarrow> YtOk (map format_resource items) tok tot)"

text \<open>\<open>get_channel_videos\<close>: \<open>search_videos\<close> without the error check.\<close>

definition get_channel_videos ::
  "search_item api_response \<Rightarrow> video_resource api_response \<Rightarrow> yt_result" where
  "get_channel_videos resp dresp =
     (case resp of
        ApiError \<Rightarrow> YtOk [] None None
      | ApiOk _ _ _ \<Rightarrow> search_videos resp dresp)"

text \<open>\<open>get_transcript\<close>: the texts of the caption segments joined by spaces;
  the argument is what \<open>YouTubeTranscriptApi.get_transcript\<close> returned, \<open>None\<close>
  when it raised.\<close>

definition get_transcript :: "pystr list option \<Rightarrow> pystr option" where
  "get_transcript segs = map_option (py_join [32]) segs"

text \<open>How \<open>GET /feed\<close> fetches (feed.py): a mode with allowed categories
  searches, one without takes the recommended chart; a result with the key
  \<open>"error"\<close> sends the router to the demo data.\<close>

definition feed_fetch ::
  "focus_mode \<Rightarrow> search_item api_response \<Rightarrow> video_resource api_response \<Rightarrow>
   video_resource api_response \<Rightarrow> fetch_result" where
  "feed_fetch m sresp dresp rresp =
     (case (if allowed_categories m \<noteq> [] then search_videos sresp dresp
            else get_recommended_videos rresp) of
        YtError \<Rightarrow> FetchFailed
      | YtOk vs tok _ \<Rightarrow> Fetched vs tok)"

text \<open>How \<open>GET /feed/search\<close> fetches: the result and the API's total.\<close>

definition search_fetch :: "yt_result \<Rightarrow> fetch_result \<times> int option" where
  "search_fetch r = (case r of YtError \<Rightarrow> (FetchFailed, None) | YtOk vs tok tot \<Rightarrow> (Fetched vs tok, tot))"

text \<open>The reference reading of the details dict: the last resource of the
  response with the requested id.\<close>

definition last_resource :: "video_resource api_response \<Rightarrow> pystr \<Rightarrow> video_resource option" where
  "last_resource resp vid =
     (case resp of ApiError \<Rightarrow> None | ApiOk ds _ _ \<Rightarrow> find (\<lambda>r. vr_id r = vid) (rev ds))"

definition relax_store :: mode_store where
  "relax_store = \<lparr>modes = [(preset_relax 0 1)\<lparr>is_active := True\<rparr>], next_id = 1\<rparr>"

text \<open>The study preset active for user 1, and a search result for it.\<close>

definition study_store :: mode_store where
  "study_store = \<lparr>modes = [(preset_study 0 1)\<lparr>is_active := True\<rparr>], next_id = 1\<rparr>"

definition lecture_item :: search_item where
  "lecture_item =
     \<lparr>si_video_id = py ''lec01'',
      si_snippet = \<lparr>sn_title = Some (py ''Linear algebra lecture 1''), sn_description = None,
                    sn_channel_title = Some (py ''MIT OpenCourseWare''), sn_tags = None,
                    sn_default_language = None, sn_default_audio_language = None\<rparr>\<rparr>"

subsection \<open>Lemmas\<close>

lemma find_append_cases:
  "find P (xs @ ys) = (case find P xs of None \<Rightarrow> find P ys | Some x \<Rightarrow> Some x)"
  by (induction xs) simp_all

lemma fold_details:
  "fold (\<lambda>r d. d(vr_id r \<mapsto> r)) rs d0 vid =
     (case find (\<lambda>r. vr_id r = vid) (rev rs) of None \<Rightarrow> d0 vid | Some r \<Rightarrow> Some r)"
  by (induction rs arbitrary: d0) (auto simp: find_append_cases split: option.split)

lemma get_videos_details_last:
  "vid \<in> set ids \<Longrightarrow> get_videos_details ids resp vid = last_resource resp vid"
  by (auto simp: get_videos_details_def last_resource_def fold_details split: api_response.split option.split)

text \<open>search_videos formats every item of a successful search, in order, under its
  own video id, with the details of the last resource the second request returned for
  that id (none when the details request failed or omitted it); an error response of
  the search is the result with the key "error".\<close>
theorem search_videos_spec:
  "search_videos resp dresp =
     (case resp of
        ApiError \<Rightarrow> YtError
      | ApiOk items tok tot \<Rightarrow>
          YtOk (map (\<lambda>it. format_video (api_item_of (si_video_id it) (si_snippet it)
                                          (last_resource dresp (si_video_id it)))) items)
               tok tot)"
proof (cases resp)
  case (ApiOk items tok tot)
  have "\<And>it. it \<in> set items \<Longrightarrow>
     get_videos_details (map si_video_id items) dresp (si_video_id it) = last_resource dresp (si_video_id it)"
    by (rule get_videos_details_last) simp
  then show ?thesis by (simp add: search_videos_def ApiOk)
qed (simp add: search_videos_def)

text \<open>Claim C31. When the active mode allows no category, GET /feed takes the recommended
  chart, and a failed request there (an invalid key, an exhausted quota) is not an
  error for the router: instead of the demo videos, the user gets an empty page with
  no next token.\<close>
theorem recommended_error_empty_feed:
  assumes "get_active_mode uid st = Inr m" "allowed_categories m = []"
  shows "get_feed uid maxr tok (feed_fetch m sresp dresp ApiError) demo now st db =
           (Inr (Inr \<lparr>fr_items = [], fr_next_page_token = None, fr_total_results = Some 0,
                      fr_filtered_count = 0\<rparr>), db)"
  using assms by (simp add: feed_fetch_def get_recommended_videos_def get_feed_def)

theorem recommended_error_empty_feed_witness:
  "get_feed 1 20 None (feed_fetch ((preset_relax 0 1)\<lparr>is_active := True\<rparr>) ApiError ApiError ApiError)
      [] 0 relax_store Map.empty =
     (Inr (Inr \<lparr>fr_items = [], fr_next_page_token = None, fr_total_results = Some 0,
                fr_filtered_count = 0\<rparr>), Map.empty)"
proof -
  have a: "get_active_mode 1 relax_store = Inr ((preset_relax 0 1)\<lparr>is_active := True\<rparr>)"
    by (simp add: get_active_mode_def relax_store_def preset_relax_def new_mode_def)
  have c: "allowed_categories ((preset_relax 0 1)\<lparr>is_active := True\<rparr>) = []"
    by (simp add: preset_relax_def new_mode_def)
  show ?thesis by (rule recommended_error_empty_feed [OF a c])
qed

text \<open>Claim C32. When the details request of a search fails, or omits a video, the video has no
  duration, is read as 0 seconds and marked a short: a mode with allowed categories
  that blocks shorts then gets an empty feed from GET /feed, every fetched video counted
  as filtered.\<close>
theorem failed_details_empty_feed:
  assumes m: "get_active_mode uid st = Inr m" "allowed_categories m \<noteq> []" "block_shorts m"
    and h: "get_feed uid maxr tok (feed_fetch m (ApiOk items t n) ApiError rresp) demo now st db =
              (Inr (Inr r), db')"
    and pos: "0 < maxr"
  shows "fr_items r = [] \<and> fr_filtered_count r = length items"
proof -
  define vs where "vs = map (\<lambda>it. format_video (api_item_of (si_video_id it) (si_snippet it) None)) items"
  have f: "feed_fetch m (ApiOk items t n) ApiError rresp = Fetched vs t"
    using m(2) by (simp add: feed_fetch_def search_videos_spec last_resource_def vs_def)
  have short: "\<And>v c. v \<in> set vs \<Longrightarrow> check_video m v c \<noteq> Allow"
    using m(3) format_video_no_duration check_video_short_blocked
    by (auto simp: vs_def api_item_of_def)
  obtain res db1 where cf: "classify_filter m maxr now db vs [] 0 = (res, db1)" by fastforce
  with h m(1) f obtain its fc where res: "res = Inr (its, fc)" and "fr_items r = its" "fr_filtered_count r = fc"
    by (cases res) (auto simp: get_feed_def)
  moreover have "its = [] \<and> fc = length vs"
    by (rule classify_filter_all_blocked [OF cf [unfolded res] pos short])
  ultimately show ?thesis by (simp add: vs_def)
qed

theorem failed_details_empty_feed_witness:
  "\<exists>r db'. get_feed 1 20 None
       (feed_fetch ((preset_study 0 1)\<lparr>is_active := True\<rparr>) (ApiOk [lecture_item] None None)
          ApiError ApiError) [] 0 study_store Map.empty = (Inr (Inr r), db') \<and>
     fr_items r = [] \<and> fr_filtered_count r = 1"
proof -
  define m where "m = (preset_study 0 1)\<lparr>is_active := True\<rparr>"
  define v where "v = format_video (api_item_of (py ''lec01'') (si_snippet lecture_item) None)"
  have a: "get_active_mode 1 study_store = Inr m"
    by (simp add: get_active_mode_def study_store_def m_def preset_study_def new_mode_def)
  have cats: "allowed_categories m \<noteq> []" and bs: "block_shorts m"
    by (simp_all add: m_def preset_study_def new_mode_def)
  have f: "feed_fetch m (ApiOk [lecture_item] None None) ApiError ApiError = Fetched [v] None"
    using cats by (simp add: feed_fetch_def search_videos_spec last_resource_def v_def lecture_item_def)
  have "channel_title v \<noteq> None"
    by (simp add: v_def format_video_def api_item_of_def lecture_item_def Let_def)
  then obtain c db1 where cv: "classify_video Map.empty 0 v False False None = (Inr c, db1)"
    using classify_video_heuristic_Inr by blast
  have "check_video m v c \<noteq> Allow"
    using bs format_video_no_duration check_video_short_blocked by (simp add: v_def api_item_of_def)
  then have h: "get_feed 1 20 None (feed_fetch m (ApiOk [lecture_item] None None) ApiError ApiError)
      [] 0 study_store Map.empty =
      (Inr (Inr \<lparr>fr_items = [], fr_next_page_token = None, fr_total_results = Some 1,
                 fr_filtered_count = 1\<rparr>), db1)"
    by (simp add: f get_feed_def a [unfolded One_nat_def] cv)
  from failed_details_empty_feed [OF a cats bs h] h show ?thesis by (auto simp: m_def)
qed

end
