(* ===== verification/Schemas.thy ===== *)
theory Schemas
  imports Analytics
begin

text \<open>
  Request validation (src/backend/app/schemas/mode.py, feedback.py): FastAPI
  validates each request body against its pydantic schema before the handler
  runs and answers 422 when a \<open>Field\<close> constraint fails. The constraints are
  bool-valued predicates here, and each handler that takes such a body is
  wrapped: \<open>Unprocessable\<close> for an invalid body, else the handler of
  ModeStore or Analytics. A constraint on an \<open>Optional\<close> field applies only
  to a value that is present. The lemmas show that the constraints keep the
  stored thresholds in range, bound every lock to eight hours, and leave the
  watch percentage unbounded above.
\<close>

datatype http_error = Unprocessable | Http api_error

text \<open>\<open>FocusModeCreate\<close>.\<close>

record mode_create =
  mc_name :: pystr
  mc_description :: "pystr option"
  mc_allowed_categories :: "pystr list"
  mc_blocked_categories :: "pystr list"
  mc_min_duration_seconds :: int
  mc_allowed_languages :: "pystr list"
  mc_max_clickbait_score :: score
  mc_max_entertainment_score :: score
  mc_block_shorts :: bool
  mc_block_trending :: bool
  mc_daily_time_limit_minutes :: "int option"
  mc_blocked_keywords :: "pystr list"

definition unit_score :: "score \<Rightarrow> bool" where
  "unit_score x \<longleftrightarrow> 0 \<le> x \<and> x \<le> 1"

definition opt_ok :: "('a \<Rightarrow> bool) \<Rightarrow> 'a option \<Rightarrow> bool" where
  "opt_ok P x = (case x of None \<Rightarrow> True | Some y \<Rightarrow> P y)"

definition mode_create_valid :: "mode_create \<Rightarrow> bool" where
  "mode_create_valid r \<longleftrightarrow>
     1 \<le> length (mc_name r) \<and> length (mc_name r) \<le> 100 \<and>
     opt_ok (\<lambda>d. length d \<le> 500) (mc_description r) \<and>
     0 \<le> mc_min_duration_seconds r \<and>
     unit_score (mc_max_clickbait_score r) \<and> unit_score (mc_max_entertainment_score r) \<and>
     opt_ok (\<lambda>l. 1 \<le> l) (mc_daily_time_limit_minutes r)"

text \<open>\<open>FocusMode(user_id=user.id, **mode_data.model_dump())\<close>: the body's
  fields over the column defaults; \<open>create_mode\<close> sets the id, the owner and
  the lock columns.\<close>

definition mode_of_create :: "mode_create \<Rightarrow> focus_mode" where
  "mode_of_create r =
     (new_mode 0 0 (mc_name r))
       \<lparr>mode_description := mc_description r, allowed_categories := mc_allowed_categories r,
        blocked_categories := mc_blocked_categories r,
        min_duration_seconds := mc_min_duration_seconds r, allowed_languages := mc_allowed_languages r,
        max_clickbait_score := mc_max_clickbait_score r,
        max_entertainment_score := mc_max_entertainment_score r,
        block_shorts := mc_block_shorts r, block_trending := mc_block_trending r,
        daily_time_limit_minutes := mc_daily_time_limit_minutes r,
        blocked_keywords := mc_blocked_keywords r\<rparr>"

text \<open>\<open>FocusModeUpdate\<close>: the same constraints on the fields that are set to a
  value; pydantic lets an explicit \<open>null\<close> through on every field, since
  all are \<open>Optional\<close>, and the constraints do not apply to it.\<close>

definition mode_update_valid :: "mode_update \<Rightarrow> bool" where
  "mode_update_valid u \<longleftrightarrow>
     opt_ok (opt_ok (\<lambda>n. 1 \<le> length n \<and> length n \<le> 100)) (upd_name u) \<and>
     opt_ok (opt_ok (\<lambda>d. length d \<le> 500)) (upd_description u) \<and>
     opt_ok (opt_ok (\<lambda>d. 0 \<le> d)) (upd_min_duration_seconds u) \<and>
     opt_ok (opt_ok unit_score) (upd_max_clickbait_score u) \<and>
     opt_ok (opt_ok unit_score) (upd_max_entertainment_score u) \<and>
     opt_ok (opt_ok (\<lambda>l. 1 \<le> l)) (upd_daily_time_limit_minutes u)"

text \<open>\<open>LockSessionRequest\<close>: \<open>duration_minutes\<close> between 1 and 480.\<close>

definition lock_request_valid :: "int \<Rightarrow> bool" where
  "lock_request_valid d \<longleftrightarrow> 1 \<le> d \<and> d \<le> 480"

text \<open>\<open>WatchEvent\<close>: both durations non-negative.\<close>

definition watch_request_valid :: "watch_request \<Rightarrow> bool" where
  "watch_request_valid e \<longleftrightarrow> 0 \<le> req_watch_duration_seconds e \<and> 0 \<le> req_video_duration_seconds e"

text \<open>\<open>FeedbackCreate.feedback_type\<close>: the pattern
  \<open>^(like|dislike|not_interested|wrong_category|helpful|distracting)$\<close>.\<close>

definition feedback_types :: "pystr list" where
  "feedback_types = map py [''like'', ''dislike'', ''not_interested'', ''wrong_category'',
                            ''helpful'', ''distracting'']"

definition feedback_request_valid :: "pystr \<Rightarrow> pystr option \<Rightarrow> bool" where
  "feedback_request_valid ftype reason \<longleftrightarrow>
     ftype \<in> set feedback_types \<and> opt_ok (\<lambda>r. length r \<le> 500) reason"

subsection \<open>The validated handlers\<close>

definition lift_http :: "api_error + 'a \<Rightarrow> http_error + 'a" where
  "lift_http r = (case r of Inl e \<Rightarrow> Inl (Http e) | Inr x \<Rightarrow> Inr x)"

definition create_mode_req :: "nat \<Rightarrow> mode_create \<Rightarrow> mode_store \<Rightarrow> http_error + mode_store" where
  "create_mode_req uid r st =
     (if mode_create_valid r then Inr (create_mode uid (mode_of_create r) st) else Inl Unprocessable)"

definition update_mode_req ::
  "nat \<Rightarrow> nat \<Rightarrow> mode_update \<Rightarrow> timestamp \<Rightarrow> mode_store \<Rightarrow> http_error + mode_store" where
  "update_mode_req uid mid u now st =
     (if mode_update_valid u then lift_http (update_mode uid mid u now st) else Inl Unprocessable)"

definition lock_session_req ::
  "nat \<Rightarrow> nat \<Rightarrow> int \<Rightarrow> timestamp \<Rightarrow> mode_store \<Rightarrow> http_error + mode_store" where
  "lock_session_req uid mid d now st =
     (if lock_request_valid d then lift_http (lock_session uid mid d now st) else Inl Unprocessable)"

definition track_watch_req ::
  "nat \<Rightarrow> timestamp \<Rightarrow> watch_request \<Rightarrow> analytics_db \<Rightarrow> http_error + analytics_db" where
  "track_watch_req uid now e db =
     (if watch_request_valid e then Inr (track_watch uid now e db) else Inl Unprocessable)"

definition submit_feedback_req ::
  "nat \<Rightarrow> timestamp \<Rightarrow> pystr \<Rightarrow> pystr \<Rightarrow> pystr option \<Rightarrow> analytics_db \<Rightarrow> http_error + analytics_db" where
  "submit_feedback_req uid now vid ftype reason db =
     (if feedback_request_valid ftype reason then Inr (submit_feedback uid now vid ftype db)
      else Inl Unprocessable)"

text \<open>The mode table as the API can change it: the handlers of routers/modes.py,
  those with a body behind its validation.\<close>

inductive vstep :: "mode_store \<Rightarrow> mode_store \<Rightarrow> bool" where
  list: "vstep st (list_modes uid st)"
| reset: "vstep st (reset_modes uid st)"
| create: "create_mode_req uid r st = Inr st' \<Longrightarrow> vstep st st'"
| update: "update_mode_req uid mid u now st = Inr st' \<Longrightarrow> vstep st st'"
| delete: "delete_mode uid mid st = Inr st' \<Longrightarrow> vstep st st'"
| activate: "activate_mode uid mid now st = Inr st' \<Longrightarrow> vstep st st'"
| lock: "lock_session_req uid mid d now st = Inr st' \<Longrightarrow> vstep st st'"

inductive vreach :: "mode_store \<Rightarrow> bool" where
  init: "vreach init_store"
| step: "vreach st \<Longrightarrow> vstep st st' \<Longrightarrow> vreach st'"

text \<open>The values a row may hold once it went through the schemas.\<close>

definition mode_values_ok :: "focus_mode \<Rightarrow> bool" where
  "mode_values_ok m \<longleftrightarrow>
     1 \<le> length (name m) \<and> length (name m) \<le> 100 \<and>
     opt_ok (\<lambda>d. length d \<le> 500) (mode_description m) \<and> 0 \<le> min_duration_seconds m \<and>
     unit_score (max_clickbait_score m) \<and> unit_score (max_entertainment_score m) \<and>
     opt_ok (\<lambda>l. 1 \<le> l) (daily_time_limit_minutes m)"

definition values_inv :: "mode_store \<Rightarrow> bool" where
  "values_inv st \<longleftrightarrow> (\<forall>m \<in> set (modes st). mode_values_ok m)"

text \<open>A body of \<open>POST /modes\<close>.\<close>

definition reading_create :: mode_create where
  "reading_create =
     \<lparr>mc_name = py ''Reading'', mc_description = None, mc_allowed_categories = [py ''EDUCATION''],
      mc_blocked_categories = [], mc_min_duration_seconds = 600, mc_allowed_languages = [],
      mc_max_clickbait_score = 3/10, mc_max_entertainment_score = 1/2, mc_block_shorts = True,
      mc_block_trending = False, mc_daily_time_limit_minutes = Some 90, mc_blocked_keywords = []\<rparr>"

definition long_watch :: watch_request where
  "long_watch = \<lparr>req_video_id = py ''v'', req_watch_duration_seconds = 600,
      req_video_duration_seconds = 60, req_was_skipped = False, req_completed = True\<rparr>"

subsection \<open>Lemmas\<close>

lemma mode_values_ok_lock_fields [simp]:
  "mode_values_ok (m\<lparr>is_active := a\<rparr>) = mode_values_ok m"
  "mode_values_ok (m\<lparr>is_locked := l, lock_until := t\<rparr>) = mode_values_ok m"
  "mode_values_ok (m\<lparr>is_active := a, is_locked := l, lock_until := t\<rparr>) = mode_values_ok m"
  "mode_values_ok (m\<lparr>mode_id := i, user_id := u\<rparr>) = mode_values_ok m"
  by (simp_all add: mode_values_ok_def)

lemma preset_values: "p \<in> set preset_modes \<Longrightarrow> mode_values_ok (p mid uid)"
  by (auto simp: preset_modes_def preset_study_def preset_deep_work_def preset_music_def
      preset_relax_def preset_gaming_def preset_news_def preset_fitness_def preset_travel_def
      preset_tech_def new_mode_def mode_values_ok_def unit_score_def opt_ok_def py_def)

lemma preset_rows_values: "m \<in> set (preset_rows n uid b) \<Longrightarrow> mode_values_ok m"
  by (auto simp: preset_rows_def in_set_enumerate_eq preset_values)

lemma values_inv_update_row:
  "values_inv st \<Longrightarrow> (\<And>m. mode_values_ok m \<Longrightarrow> mode_values_ok (f m)) \<Longrightarrow>
   values_inv (st\<lparr>modes := update_row mid f (modes st)\<rparr>)"
  unfolding values_inv_def by (auto dest!: set_update_row)

lemma values_inv_filter: "values_inv st \<Longrightarrow> values_inv (st\<lparr>modes := filter P (modes st)\<rparr>)"
  by (simp add: values_inv_def)

lemma set_nn_ok: "opt_ok (opt_ok P) u \<Longrightarrow> P x \<Longrightarrow> P (set_nn u x)"
  by (auto simp: set_nn_def opt_ok_def split: option.splits)

lemma set_if_ok: "opt_ok (opt_ok P) u \<Longrightarrow> opt_ok P x \<Longrightarrow> opt_ok P (set_if u x)"
  by (auto simp: set_if_def opt_ok_def split: option.splits)

lemma apply_update_values:
  assumes v: "mode_update_valid u" and m: "mode_values_ok m"
  shows "mode_values_ok (apply_update u m)"
proof -
  note vs = v [unfolded mode_update_valid_def] and ms = m [unfolded mode_values_ok_def]
  have "1 \<le> length (set_nn (upd_name u) (name m)) \<and> length (set_nn (upd_name u) (name m)) \<le> 100"
    using set_nn_ok [of "\<lambda>n. 1 \<le> length n \<and> length n \<le> 100" "upd_name u" "name m"] vs ms
    by simp
  moreover have "opt_ok (\<lambda>d. length d \<le> 500) (set_if (upd_description u) (mode_description m))"
    using set_if_ok [of "\<lambda>d. length d \<le> 500" "upd_description u" "mode_description m"] vs ms
    by simp
  moreover have "0 \<le> set_nn (upd_min_duration_seconds u) (min_duration_seconds m)"
    using set_nn_ok [of "\<lambda>d. 0 \<le> d" "upd_min_duration_seconds u" "min_duration_seconds m"] vs ms
    by simp
  moreover have "unit_score (set_nn (upd_max_clickbait_score u) (max_clickbait_score m))"
    using set_nn_ok [of unit_score "upd_max_clickbait_score u" "max_clickbait_score m"] vs ms
    by simp
  moreover have "unit_score (set_nn (upd_max_entertainment_score u) (max_entertainment_score m))"
    using set_nn_ok [of unit_score "upd_max_entertainment_score u" "max_entertainment_score m"] vs ms
    by simp
  moreover have "opt_ok (\<lambda>l. 1 \<le> l)
      (set_if (upd_daily_time_limit_minutes u) (daily_time_limit_minutes m))"
    using set_if_ok [of "\<lambda>l. 1 \<le> l" "upd_daily_time_limit_minutes u" "daily_time_limit_minutes m"]
      vs ms by simp
  ultimately show ?thesis by (simp add: mode_values_ok_def apply_update_def)
qed

lemma mode_of_create_values: "mode_create_valid r \<Longrightarrow> mode_values_ok (mode_of_create r)"
  by (simp add: mode_create_valid_def mode_values_ok_def mode_of_create_def new_mode_def)

lemma lift_http_Inr [simp]: "(lift_http r = Inr x) = (r = Inr x)"
  by (cases r) (simp_all add: lift_http_def)

text \<open>Each validated handler is one of the handlers of the state machine.\<close>

lemma vstep_mstep: "vstep st st' \<Longrightarrow> mstep st st'"
proof (induction rule: vstep.induct)
  case (create uid r st st')
  then show ?case by (auto simp: create_mode_req_def split: if_splits intro: mstep.create)
next
  case (update uid mid u now st st')
  then show ?case by (auto simp: update_mode_req_def split: if_splits intro: mstep.update)
next
  case (lock uid mid d now st st')
  then show ?case by (auto simp: lock_session_req_def split: if_splits intro: mstep.lock)
qed (auto intro: mstep.intros)

lemma vstep_values: "vstep st st' \<Longrightarrow> values_inv st \<Longrightarrow> values_inv st'"
proof (induction rule: vstep.induct)
  case (list st uid)
  then show ?case by (auto simp: list_modes_def values_inv_def preset_rows_values)
next
  case (reset st uid)
  then show ?case by (auto simp: reset_modes_def values_inv_def preset_rows_values)
next
  case (create uid r st st')
  then show ?case
    by (auto simp: create_mode_req_def create_mode_def values_inv_def mode_of_create_values
        split: if_splits)
next
  case (update uid mid u now st st')
  then have "mode_update_valid u" "st' = st\<lparr>modes := update_row mid (apply_update u) (modes st)\<rparr>"
    by (auto simp: update_mode_req_def update_mode_def split: if_splits option.splits)
  with update.prems show ?case by (simp add: values_inv_update_row apply_update_values)
next
  case (delete uid mid st st')
  then show ?case by (auto simp: delete_mode_def values_inv_filter split: option.splits)
next
  case (activate uid mid now st st')
  have st': "st' = st\<lparr>modes := update_row mid (\<lambda>m. m\<lparr>is_active := True\<rparr>)
                   (map (\<lambda>m. if user_id m = uid
                    then m\<lparr>is_active := False, is_locked := False, lock_until := None\<rparr> else m) (modes st))\<rparr>"
    using activate_mode_InrD [OF activate.hyps] by blast
  have "values_inv (st\<lparr>modes := map (\<lambda>m. if user_id m = uid
                    then m\<lparr>is_active := False, is_locked := False, lock_until := None\<rparr> else m) (modes st)\<rparr>)"
    using activate.prems by (auto simp: values_inv_def)
  from values_inv_update_row [OF this, of "\<lambda>m. m\<lparr>is_active := True\<rparr>" mid] show ?case
    by (simp add: st')
next
  case (lock uid mid d now st st')
  then have "lock_session uid mid d now st = Inr st'"
    by (auto simp: lock_session_req_def split: if_splits)
  then obtain m where "find_mode st uid mid = Some m" "is_active m" "st' = st\<lparr>modes := update_row mid
       (\<lambda>m. m\<lparr>is_locked := True, lock_until := Some (now + 60 * d)\<rparr>) (modes st)\<rparr>"
    by (rule lock_session_InrD)
  with lock.prems show ?case by (simp add: values_inv_update_row)
qed

lemma lock_session_req_InrD:
  "lock_session_req uid mid d now st = Inr st' \<Longrightarrow> lock_request_valid d \<and> lock_session uid mid d now st = Inr st'"
  by (simp add: lock_session_req_def split: if_splits)

subsection \<open>Properties\<close>

text \<open>Claim C4. Every mode table the API can produce, through the handlers of routers/modes.py
  with their request bodies validated by the pydantic schemas, keeps the supervisor's
  invariant, and every row holds values the schemas allow: a name of 1 to 100
  characters, a non-negative minimum duration, both score thresholds in [0, 1] and a
  time limit of at least one minute when there is one.\<close>
theorem validated_reachable_inv: "vreach st \<Longrightarrow> store_inv st \<and> values_inv st"
proof (induction rule: vreach.induct)
  case init
  show ?case by (simp add: init_store_inv) (simp add: values_inv_def init_store_def)
next
  case (step st st')
  then show ?case using vstep_mstep mstep_inv vstep_values by blast
qed

theorem validated_reachable_inv_witness:
  "vreach (create_mode 1 (mode_of_create reading_create) init_store) \<and>
   store_inv (create_mode 1 (mode_of_create reading_create) init_store) \<and>
   values_inv (create_mode 1 (mode_of_create reading_create) init_store)"
proof -
  have "create_mode_req 1 reading_create init_store = Inr (create_mode 1 (mode_of_create reading_create) init_store)"
    by (simp add: create_mode_req_def mode_create_valid_def reading_create_def unit_score_def opt_ok_def py_def)
  then have "vreach (create_mode 1 (mode_of_create reading_create) init_store)"
    by (blast intro: vreach.step vreach.init vstep.create)
  with validated_reachable_inv show ?thesis by blast
qed

text \<open>Claim C14. A lock set through the API lasts at most eight hours: after a validated
  POST /modes/{id}/lock at time now, activating any mode of the user succeeds from
  now + 480 minutes on, as long as no other request changes the table.\<close>
theorem validated_lock_expires:
  assumes inv: "store_inv st" and h: "lock_session_req uid mid d now st = Inr st'"
    and m: "find_mode st' uid mid' \<noteq> None" and t: "now + 60 * 480 \<le> t"
  shows "\<exists>st''. activate_mode uid mid' t st' = Inr st''"
proof -
  have d: "lock_request_valid d" and lk: "lock_session uid mid d now st = Inr st'"
    using lock_session_req_InrD [OF h] by simp_all
  obtain m0 where m0: "find_mode st uid mid = Some m0" "is_active m0"
    and st': "st' = st\<lparr>modes := update_row mid
       (\<lambda>m. m\<lparr>is_locked := True, lock_until := Some (now + 60 * d)\<rparr>) (modes st)\<rparr>"
    using lk by (rule lock_session_InrD)
  have inv': "store_inv st'" by (rule lock_session_inv [OF inv lk])
  let ?m' = "m0\<lparr>is_locked := True, lock_until := Some (now + 60 * d)\<rparr>"
  have m': "?m' \<in> set (modes st')" "user_id ?m' = uid" "is_locked ?m'"
    unfolding st' using find_mode_SomeD [OF m0(1)] by (auto intro: update_row_member)
  have "\<forall>l \<in> set (modes st'). user_id l = uid \<longrightarrow> \<not> locked_now t l"
  proof (intro ballI impI notI)
    fix l assume l: "l \<in> set (modes st')" "user_id l = uid" and lt: "locked_now t l"
    then have "[l] = [?m']"
      using locked_rows_single [OF inv' l] locked_rows_single [OF inv' m'] by (simp add: locked_now_def)
    then have "l = ?m'" by simp
    with lt d t show False by (simp add: locked_now_def lock_request_valid_def)
  qed
  then show ?thesis using activate_mode_unlocked_Inr [OF locked_rows_le1 [OF inv'] _ m] by blast
qed

theorem validated_lock_expires_witness:
  "\<exists>st1 st2. store_inv st1 \<and> lock_session_req 1 0 480 0 st1 = Inr st2 \<and>
     find_mode st2 1 1 \<noteq> None \<and> 0 + 60 * 480 \<le> (28800::int) \<and>
     (\<exists>st3. activate_mode 1 1 28800 st2 = Inr st3)"
proof -
  have "\<exists>st1 st2. activate_mode 1 0 0 two_modes = Inr st1 \<and> lock_session_req 1 0 480 0 st1 = Inr st2 \<and>
     find_mode st2 1 1 \<noteq> None"
    by (simp add: store_eval lock_session_req_def lock_request_valid_def lift_http_def)
  then obtain st1 st2 where h: "activate_mode 1 0 0 two_modes = Inr st1"
    "lock_session_req 1 0 480 0 st1 = Inr st2" "find_mode st2 1 1 \<noteq> None"
    by blast
  have inv: "store_inv st1" by (rule activate_mode_inv [OF two_modes_inv h(1)])
  from validated_lock_expires [OF inv h(2) h(3), of 28800] inv h show ?thesis by auto
qed

text \<open>Claim C25. WatchEvent only asks both durations to be non-negative: the stored
  watch_percentage of a valid event is never negative, but it exceeds 100 exactly when
  the reported watch time is longer than the video, and nothing bounds it.\<close>
theorem watch_percentage_bounds:
  assumes "track_watch_req uid now e db = Inr db'"
  shows "\<exists>w. watches db' = watches db @ [w] \<and> 0 \<le> w_watch_percentage w \<and>
           (100 < w_watch_percentage w \<longleftrightarrow>
              0 < req_video_duration_seconds e \<and> req_video_duration_seconds e < req_watch_duration_seconds e)"
proof -
  let ?a = "req_watch_duration_seconds e" and ?b = "req_video_duration_seconds e"
  have v: "0 \<le> ?a" "0 \<le> ?b" and db': "db' = track_watch uid now e db"
    using assms by (auto simp: track_watch_req_def watch_request_valid_def split: if_splits)
  have "0 \<le> watch_percentage ?a ?b" using v by (simp add: watch_percentage_def)
  moreover have "100 < watch_percentage ?a ?b \<longleftrightarrow> 0 < ?b \<and> ?b < ?a"
  proof (cases "0 < ?b")
    case True
    then have "100 < watch_percentage ?a ?b \<longleftrightarrow> of_int ?b < (of_int ?a :: rat)"
      by (simp add: watch_percentage_def field_simps)
    with True show ?thesis by simp
  qed (simp add: watch_percentage_def)
  ultimately show ?thesis by (simp add: db' track_watch_def)
qed

theorem watch_percentage_bounds_witness:
  "track_watch_req 1 0 long_watch \<lparr>watches = [], feedbacks = []\<rparr> =
     Inr (track_watch 1 0 long_watch \<lparr>watches = [], feedbacks = []\<rparr>) \<and>
   (\<exists>w. watches (track_watch 1 0 long_watch \<lparr>watches = [], feedbacks = []\<rparr>) = [w] \<and>
        100 < w_watch_percentage w)"
proof -
  have h: "track_watch_req 1 0 long_watch \<lparr>watches = [], feedbacks = []\<rparr> =
     Inr (track_watch 1 0 long_watch \<lparr>watches = [], feedbacks = []\<rparr>)"
    by (simp add: track_watch_req_def watch_request_valid_def long_watch_def)
  have "0 < req_video_duration_seconds long_watch \<and>
      req_video_duration_seconds long_watch < req_watch_duration_seconds long_watch"
    by (simp add: long_watch_def)
  with watch_percentage_bounds [OF h] h show ?thesis by auto
qed

end
