(* ===== verification/GeminiIO.thy ===== *)
theory GeminiIO
  imports Cache
begin

text \<open>
  The text side of \<open>AIClassifier._classify_with_ai\<close>
  (src/backend/app/services/ai_classifier.py): the fields the prompt is
  formatted with, and how the model's answer is cut out of a Markdown code
  fence before \<open>json.loads\<close>. The Gemini call and the JSON parser are
  external: the answer text is an argument (\<open>None\<close> when the call raised)
  and so is the parser (\<open>None\<close> when \<open>json.loads\<close> or a later step raised),
  after which the post-processing of Cache applies.
\<close>

text \<open>The arguments of \<open>CLASSIFICATION_PROMPT.format(...)\<close>. The video dict
  of \<open>_format_video\<close> always has the key \<open>channel_title\<close>, so the default
  \<open>"Unknown"\<close> of \<open>video.get("channel_title", "Unknown")\<close> never applies and a
  missing channel is formatted as \<open>str(None)\<close>. It has no key
  \<open>transcript\<close>, so the transcript is an argument, empty in every call of
  the application.\<close>

record prompt_fields =
  pf_title :: pystr
  pf_description :: pystr
  pf_tags :: pystr
  pf_channel :: pystr
  pf_duration :: pystr
  pf_transcript_section :: pystr

definition transcript_section :: "pystr \<Rightarrow> pystr" where
  "transcript_section t =
     (if t = [] then []
      else [10] @ py ''Transcript Preview (first 2000 chars):'' @ [10] @ take 2000 t)"

definition prompt_fields_of :: "video \<Rightarrow> pystr \<Rightarrow> prompt_fields" where
  "prompt_fields_of v transcript =
     \<lparr>pf_title = title v, pf_description = take 500 (description v),
      pf_tags = py_join (py '', '') (take 20 (tags v)),
      pf_channel = (case channel_title v of None \<Rightarrow> py ''None'' | Some c \<Rightarrow> c),
      pf_duration = show_int (duration_seconds v),
      pf_transcript_section = transcript_section transcript\<rparr>"

text \<open>\<open>text.split("```")[1]\<close> for a text that starts with the fence: the
  part up to the next fence, or to the end.\<close>

definition fence :: pystr where
  "fence = py ''```''"

fun cut_at :: "pystr \<Rightarrow> pystr \<Rightarrow> pystr" where
  "cut_at sep [] = []"
| "cut_at sep (c # cs) = (if starts_with sep (c # cs) then [] else c # cut_at sep cs)"

text \<open>\<open>text = response.text.strip()\<close> and the code-fence handling.\<close>

definition extract_json :: "pystr \<Rightarrow> pystr" where
  "extract_json raw =
     (let text = py_strip raw
      in if starts_with fence text then
           (let t = cut_at fence (drop 3 text);
                t = (if starts_with (py ''json'') t then drop 4 t else t)
            in py_strip t)
         else text)"

text \<open>The whole \<open>try\<close> block: the answer text, cut out and parsed, then
  normalised; any failure falls back to the heuristic.\<close>

definition classify_with_ai_text ::
  "video \<Rightarrow> pystr option \<Rightarrow> (pystr \<Rightarrow> ai_raw option) \<Rightarrow> py_error + classification" where
  "classify_with_ai_text v answer json_loads =
     classify_with_ai v (case answer of None \<Rightarrow> None | Some t \<Rightarrow> json_loads (extract_json t))"

text \<open>An answer of the model.\<close>

definition music_answer :: pystr where
  "music_answer = py ''{\"category\": \"MUSIC\", \"clickbait_score\": 0.1}''"

subsection \<open>Lemmas\<close>

lemma prompt_fields_bounds:
  "length (pf_description (prompt_fields_of v t)) \<le> 500 \<and>
   length (pf_transcript_section (prompt_fields_of v t)) \<le> 2040"
  by (simp add: prompt_fields_of_def transcript_section_def py_def)

lemma set_fence: "set fence = {96}"
  by (simp add: fence_def py_def)

lemma cut_at_fence: "cut_at fence (fence @ r) = []"
  by (simp add: fence_def py_def)

lemma cut_at_append:
  "(\<forall>k < length s. \<not> starts_with sep (drop k s @ r)) \<Longrightarrow> cut_at sep (s @ r) = s @ cut_at sep r"
proof (induction s)
  case (Cons x s)
  have "\<not> starts_with sep (x # s @ r)" using Cons.prems [rule_format, of 0] by simp
  moreover have "\<forall>k < length s. \<not> starts_with sep (drop k s @ r)"
    using Cons.prems by (metis Suc_mono drop_Suc_Cons length_Cons)
  ultimately show ?case using Cons.IH by simp
qed simp

text \<open>A text without a fence whose last character is no backtick has no
  fence starting in it, even with a fence after it.\<close>

lemma no_fence_start:
  assumes "\<not> sublist fence s" "s \<noteq> []" "last s \<noteq> 96" "k < length s"
  shows "\<not> starts_with fence (drop k s @ r)"
proof
  assume "starts_with fence (drop k s @ r)"
  then have "prefix fence (drop k s @ r)" by (simp add: starts_with_iff_prefix)
  then consider "prefix fence (drop k s)" | us where "fence = drop k s @ us"
    by (auto simp: prefix_append)
  then show False
  proof cases
    case 1
    then have "sublist fence (drop k s)" by (rule prefix_imp_sublist)
    moreover have "sublist (drop k s) s" by (rule suffix_imp_sublist) (rule suffix_drop)
    ultimately have "sublist fence s" by (rule sublist_order.order.trans)
    with assms(1) show False ..
  next
    case 2
    have ne: "drop k s \<noteq> []" using assms(4) by simp
    have "last (drop k s) = last s" using assms(4) by simp
    moreover have "last (drop k s) \<in> set (drop k s)" using ne by (rule last_in_set)
    ultimately have "last s \<in> set fence" using 2 by (metis Un_iff set_append)
    with assms(3) show False by (simp add: set_fence)
  qed
qed

lemma fence_chars: "fence = xs1 @ xs2 \<Longrightarrow> x \<in> set xs1 \<or> x \<in> set xs2 \<Longrightarrow> x = 96"
  by (metis Un_iff set_append set_fence singletonD)

lemma no_fence_free: "96 \<notin> set c \<Longrightarrow> \<not> sublist fence c"
  using set_mono_sublist [of fence c] set_fence by blast

text \<open>Text without a backtick next to a fence-free text keeps it fence-free.\<close>

lemma no_fence_append_free:
  assumes x: "\<not> sublist fence x" and y: "96 \<notin> set y"
  shows "\<not> sublist fence (x @ y) \<and> \<not> sublist fence (y @ x)"
proof (intro conjI notI)
  assume "sublist fence (x @ y)"
  then consider "sublist fence x" | "sublist fence y"
    | xs1 xs2 where "fence = xs1 @ xs2" "suffix xs1 x" "prefix xs2 y"
    by (auto simp: sublist_append)
  then show False
  proof cases
    case 1
    with x show False ..
  next
    case 2
    with no_fence_free [OF y] show False ..
  next
    case (3 xs1 xs2)
    show False
    proof (cases xs2)
      case Nil
      then have "suffix fence x" using 3(1,2) by simp
      then have "sublist fence x" by (rule suffix_imp_sublist)
      with x show False ..
    next
      case (Cons c cs)
      have "c = 96" using fence_chars [OF 3(1), of c] Cons by simp
      moreover have "c \<in> set y" using 3(3) Cons set_mono_prefix by fastforce
      ultimately show False using y by simp
    qed
  qed
next
  assume "sublist fence (y @ x)"
  then consider "sublist fence y" | "sublist fence x"
    | xs1 xs2 where "fence = xs1 @ xs2" "suffix xs1 y" "prefix xs2 x"
    by (auto simp: sublist_append)
  then show False
  proof cases
    case 1
    with no_fence_free [OF y] show False ..
  next
    case 2
    with x show False ..
  next
    case (3 xs1 xs2)
    show False
    proof (cases xs1)
      case Nil
      then have "prefix fence x" using 3(1,3) by simp
      then have "sublist fence x" by (rule prefix_imp_sublist)
      with x show False ..
    next
      case (Cons c cs)
      have "c = 96" using fence_chars [OF 3(1), of c] Cons by simp
      moreover have "c \<in> set y" using 3(2) Cons set_mono_suffix by fastforce
      ultimately show False using y by simp
    qed
  qed
qed

lemma no_fence_wrap:
  "\<not> sublist fence j \<Longrightarrow> 96 \<notin> set a \<Longrightarrow> 96 \<notin> set b \<Longrightarrow> \<not> sublist fence (a @ j @ b)"
  using no_fence_append_free [of j b] no_fence_append_free [of "j @ b" a] by simp

lemma stripped_ends:
  assumes "py_strip j = j" "j \<noteq> []"
  shows "\<not> is_space (hd j) \<and> \<not> is_space (last j)"
proof -
  have le: "length (py_strip j) \<le> length (dropWhile is_space j)"
    unfolding py_strip_def by (metis length_dropWhile_le length_rev)
  have h: "\<not> is_space (hd j)"
  proof
    assume "is_space (hd j)"
    then have "length (dropWhile is_space j) < length j"
      using assms(2) by (cases j) (simp_all add: le_imp_less_Suc length_dropWhile_le)
    with le assms(1) show False by simp
  qed
  moreover have "\<not> is_space (last j)"
  proof
    assume sp: "is_space (last j)"
    have d: "dropWhile is_space j = j" using h assms(2) by (cases j) simp_all
    obtain y ys where rj: "rev j = y # ys" using assms(2) by (cases "rev j") auto
    then have "y = last j" using assms(2) by (metis hd_rev list.sel(1))
    with sp have "dropWhile is_space (y # ys) = dropWhile is_space ys" by simp
    then have "dropWhile is_space (rev j) = dropWhile is_space ys" by (simp only: rj)
    moreover have "length ys < length j" using rj by (metis length_Cons length_rev lessI)
    ultimately have "length (dropWhile is_space (rev j)) < length j"
      using length_dropWhile_le [of is_space ys] by simp
    then have "length (py_strip j) < length j" by (simp add: py_strip_def d)
    with assms(1) show False by simp
  qed
  ultimately show ?thesis ..
qed

lemma py_strip_wrap:
  assumes "py_strip j = j" "j \<noteq> []" "\<forall>c \<in> set a. is_space c" "\<forall>c \<in> set b. is_space c"
  shows "py_strip (a @ j @ b) = j"
proof -
  obtain x xs where j: "j = x # xs" using assms(2) by (cases j) auto
  obtain y ys where rj: "rev j = y # ys" using assms(2) by (cases "rev j") auto
  have e: "\<not> is_space (hd j)" "\<not> is_space (last j)" using stripped_ends [OF assms(1,2)] by simp_all
  have "dropWhile is_space (a @ j @ b) = j @ b"
    using assms(3) e(1) j by (simp add: dropWhile_append)
  moreover have "dropWhile is_space (rev (j @ b)) = rev j"
    using assms(4) e(2) rj by (simp add: dropWhile_append last_rev [symmetric])
  ultimately show ?thesis by (simp add: py_strip_def)
qed

lemma py_strip_ends_id:
  "s \<noteq> [] \<Longrightarrow> \<not> is_space (hd s) \<Longrightarrow> \<not> is_space (last s) \<Longrightarrow> py_strip s = s"
proof -
  assume ne: "s \<noteq> []" and h: "\<not> is_space (hd s)" and l: "\<not> is_space (last s)"
  have d: "dropWhile is_space s = s" using ne h by (cases s) simp_all
  obtain y ys where rs: "rev s = y # ys" using ne by (cases "rev s") auto
  have "y = last s" using rs ne by (metis hd_rev list.sel(1))
  with l have "dropWhile is_space (y # ys) = y # ys" by simp
  then have "dropWhile is_space (rev s) = rev s" by (simp only: rs)
  then show ?thesis by (simp add: py_strip_def d)
qed

lemma no_backtick_no_fence: "96 \<notin> set s \<Longrightarrow> \<not> contains fence s"
  by (simp add: contains_iff_sublist no_fence_free)

lemma fence_not_space: "\<not> is_space 96" "is_space 10"
  by (simp_all add: is_space_def)

text \<open>A fenced answer: the fence, a body that ends in a newline and has no
  fence, the closing fence.\<close>

lemma extract_json_fence:
  assumes "\<not> sublist fence body" "body \<noteq> []" "last body = 10"
  shows "extract_json (fence @ body @ fence) =
           py_strip (if starts_with (py ''json'') body then drop 4 body else body)"
proof -
  have h1: "hd (fence @ body @ fence) = 96" and lst: "last (fence @ body @ fence) = 96"
    by (simp_all add: fence_def py_def)
  have tx: "py_strip (fence @ body @ fence) = fence @ body @ fence"
    by (rule py_strip_ends_id) (simp_all add: h1 lst fence_not_space fence_def py_def)
  have "starts_with fence (fence @ body @ fence)" by (simp add: starts_with_iff_prefix)
  moreover have "drop 3 (fence @ body @ fence) = body @ fence" by (simp add: fence_def py_def)
  moreover have "cut_at fence (body @ fence) = body"
    using cut_at_append [of body fence fence] no_fence_start [OF assms(1,2)] assms(3)
      cut_at_fence [of "[]"] by simp
  ultimately show ?thesis by (simp add: extract_json_def tx Let_def)
qed

subsection \<open>Properties\<close>

text \<open>Claim C21. The model's answer may come wrapped in a Markdown code fence, with or without
  the json tag: for a stripped, non-empty JSON text without a fence, extract_json cuts
  the same text out of "```json\n...\n```" and of "```\n...\n```", so the Gemini path
  classifies the fenced answers exactly as the bare one.\<close>
theorem extract_json_fenced:
  assumes j: "j \<noteq> []" "py_strip j = j" "\<not> contains fence j"
  shows "extract_json (fence @ py ''json'' @ [10] @ j @ [10] @ fence) = j \<and>
         extract_json (fence @ [10] @ j @ [10] @ fence) = j \<and>
         classify_with_ai_text v (Some (fence @ py ''json'' @ [10] @ j @ [10] @ fence)) loads =
           classify_with_ai_text v (Some j) loads"
proof -
  have nj: "\<not> sublist fence j" using j(3) by (simp add: contains_iff_sublist)
  have sp: "\<forall>c \<in> set [10]. is_space c" by (simp add: fence_not_space)
  have a: "extract_json (fence @ py ''json'' @ [10] @ j @ [10] @ fence) = j"
  proof -
    have "\<not> sublist fence (py ''json'' @ [10] @ j @ [10])"
      using no_fence_wrap [OF nj, of "py ''json'' @ [10]" "[10]"] by (simp add: py_def)
    from extract_json_fence [OF this] have "extract_json (fence @ py ''json'' @ [10] @ j @ [10] @ fence) =
        py_strip ([10] @ j @ [10])"
      by (simp add: py_def)
    then show ?thesis using py_strip_wrap [OF j(2,1) sp sp] by simp
  qed
  have b: "extract_json (fence @ [10] @ j @ [10] @ fence) = j"
  proof -
    have "\<not> sublist fence ([10] @ j @ [10])" using no_fence_wrap [OF nj, of "[10]" "[10]"] by simp
    from extract_json_fence [OF this] have "extract_json (fence @ [10] @ j @ [10] @ fence) =
        py_strip ([10] @ j @ [10])"
      by (simp add: py_def)
    then show ?thesis using py_strip_wrap [OF j(2,1) sp sp] by simp
  qed
  have "\<not> starts_with fence j"
    using nj by (auto simp: starts_with_iff_prefix dest: prefix_imp_sublist)
  then have "extract_json j = j" by (simp add: extract_json_def j(2))
  with a b show ?thesis by (simp add: classify_with_ai_text_def)
qed

theorem extract_json_fenced_witness:
  "music_answer \<noteq> [] \<and> py_strip music_answer = music_answer \<and> \<not> contains fence music_answer \<and>
   extract_json (fence @ py ''json'' @ [10] @ music_answer @ [10] @ fence) = music_answer"
proof -
  have n: "music_answer \<noteq> []" by (simp add: music_answer_def py_def)
  have "hd music_answer = 123" "last music_answer = 125" "96 \<notin> set music_answer"
    by (simp_all add: music_answer_def py_def)
  then have h: "music_answer \<noteq> []" "py_strip music_answer = music_answer" "\<not> contains fence music_answer"
    using n py_strip_ends_id [OF n] no_backtick_no_fence by (simp_all add: is_space_def)
  from extract_json_fenced [OF h, of undefined undefined] h show ?thesis by simp
qed

end
