(* ===== verification/Routes.thy ===== *)
theory Routes
  imports PyStr
begin

text \<open>
  The application's route table (src/backend/app/main.py and the
  \<open>@router\<close> decorators of routers/*.py) and how a request path reaches a
  handler. \<open>app.include_router(r, prefix=p)\<close> prefixes every route of
  \<open>r\<close>; the table keeps the declaration order, \<open>/health\<close> first and the
  routers in the order main.py includes them. Dispatch follows Starlette's
  router: the first route whose method and path both match handles the
  request, a route whose path matches under another method makes it a 405,
  and otherwise it is a 404. A path parameter \<open>{name}\<close> matches one
  non-empty segment; its type (a \<open>UUID\<close>) is checked only after dispatch, so
  a literal route declared after a parameter route at the same place would
  be unreachable. Handlers are named by their Python function names.
\<close>

datatype http_method = GET | POST | PUT | DELETE

datatype seg = Lit pystr | Param pystr

record route =
  r_method :: http_method
  r_path :: "seg list"
  r_endpoint :: pystr

definition mk_route :: "http_method \<Rightarrow> seg list \<Rightarrow> string \<Rightarrow> route" where
  "mk_route m p e = \<lparr>r_method = m, r_path = p, r_endpoint = py e\<rparr>"

definition lit :: "string \<Rightarrow> seg" where
  "lit s = Lit (py s)"

text \<open>\<open>app.include_router(router, prefix=...)\<close>.\<close>

definition include_router :: "seg list \<Rightarrow> route list \<Rightarrow> route list" where
  "include_router pfx rs = map (\<lambda>r. r\<lparr>r_path := pfx @ r_path r\<rparr>) rs"

text \<open>The routes of routers/auth.py, one per decorator.\<close>

definition route_google_auth_redirect :: route where
  "route_google_auth_redirect = mk_route GET [lit ''google''] ''google_auth_redirect''"

definition route_google_callback :: route where
  "route_google_callback = mk_route GET [lit ''callback''] ''google_callback''"

definition route_refresh_token :: route where
  "route_refresh_token = mk_route POST [lit ''refresh''] ''refresh_token''"

definition route_logout :: route where
  "route_logout = mk_route POST [lit ''logout''] ''logout''"

definition route_get_me :: route where
  "route_get_me = mk_route GET [lit ''me''] ''get_me''"

definition route_demo_login :: route where
  "route_demo_login = mk_route GET [lit ''demo''] ''demo_login''"

text \<open>\<open>router.routes\<close>: the routes in declaration order.\<close>

definition auth_routes :: "route list" where
  "auth_routes =
     [route_google_auth_redirect,
      route_google_callback,
      route_refresh_token,
      route_logout,
      route_get_me,
      route_demo_login]"

text \<open>The routes of routers/modes.py, one per decorator.\<close>

definition route_list_modes :: route where
  "route_list_modes = mk_route GET [] ''list_modes''"

definition route_reset_modes :: route where
  "route_reset_modes = mk_route POST [lit ''reset''] ''reset_modes''"

definition route_create_mode :: route where
  "route_create_mode = mk_route POST [] ''create_mode''"

definition route_get_active_mode :: route where
  "route_get_active_mode = mk_route GET [lit ''active''] ''get_active_mode''"

definition route_get_mode :: route where
  "route_get_mode = mk_route GET [Param (py ''mode_id'')] ''get_mode''"

definition route_update_mode :: route where
  "route_update_mode = mk_route PUT [Param (py ''mode_id'')] ''update_mode''"

definition route_delete_mode :: route where
  "route_delete_mode = mk_route DELETE [Param (py ''mode_id'')] ''delete_mode''"

definition route_activate_mode :: route where
  "route_activate_mode = mk_route POST [Param (py ''mode_id''), lit ''activate''] ''activate_mode''"

definition route_lock_session :: route where
  "route_lock_session = mk_route POST [Param (py ''mode_id''), lit ''lock''] ''lock_session''"

definition route_list_mode_rules :: route where
  "route_list_mode_rules = mk_route GET [Param (py ''mode_id''), lit ''rules''] ''list_mode_rules''"

definition route_create_rule :: route where
  "route_create_rule = mk_route POST [Param (py ''mode_id''), lit ''rules''] ''create_rule''"

text \<open>\<open>router.routes\<close>: the routes in declaration order.\<close>

definition modes_routes :: "route list" where
  "modes_routes =
     [route_list_modes,
      route_reset_modes,
      route_create_mode,
      route_get_active_mode,
      route_get_mode,
      route_update_mode,
      route_delete_mode,
      route_activate_mode,
      route_lock_session,
      route_list_mode_rules,
      route_create_rule]"

text \<open>The routes of routers/feed.py, one per decorator.\<close>

definition route_get_feed :: route where
  "route_get_feed = mk_route GET [] ''get_feed''"

definition route_search_feed :: route where
  "route_search_feed = mk_route GET [lit ''search''] ''search_feed''"

definition route_get_video :: route where
  "route_get_video = mk_route GET [lit ''video'', Param (py ''video_id'')] ''get_video''"

text \<open>\<open>router.routes\<close>: the routes in declaration order.\<close>

definition feed_routes :: "route list" where
  "feed_routes =
     [route_get_feed,
      route_search_feed,
      route_get_video]"

definition filter_routes :: "route list" where
  "filter_routes = [mk_route POST [lit ''check''] ''check_filter'']"

text \<open>The routes of routers/analytics.py, one per decorator.\<close>

definition route_track_watch :: route where
  "route_track_watch = mk_route POST [lit ''watch''] ''track_watch''"

definition route_get_history :: route where
  "route_get_history = mk_route GET [lit ''history''] ''get_history''"

definition route_submit_feedback :: route where
  "route_submit_feedback = mk_route POST [lit ''feedback''] ''submit_feedback''"

definition route_get_analytics_summary :: route where
  "route_get_analytics_summary = mk_route GET [lit ''summary''] ''get_analytics_summary''"

definition route_get_daily_stats :: route where
  "route_get_daily_stats = mk_route GET [lit ''daily''] ''get_daily_stats''"

text \<open>\<open>router.routes\<close>: the routes in declaration order.\<close>

definition analytics_routes :: "route list" where
  "analytics_routes =
     [route_track_watch,
      route_get_history,
      route_submit_feedback,
      route_get_analytics_summary,
      route_get_daily_stats]"

definition suggestions_routes :: "route list" where
  "suggestions_routes = [mk_route GET [] ''get_suggestions'']"

definition app_routes :: "route list" where
  "app_routes =
     mk_route GET [lit ''health''] ''health_check'' #
     include_router [lit ''api'', lit ''auth''] auth_routes @
     include_router [lit ''api'', lit ''modes''] modes_routes @
     include_router [lit ''api'', lit ''feed''] feed_routes @
     include_router [lit ''api'', lit ''filter''] filter_routes @
     include_router [lit ''api'', lit ''analytics''] analytics_routes @
     include_router [lit ''api'', lit ''suggestions''] suggestions_routes"

subsection \<open>Dispatch\<close>

fun seg_matches :: "seg \<Rightarrow> pystr \<Rightarrow> bool" where
  "seg_matches (Lit l) s \<longleftrightarrow> s = l"
| "seg_matches (Param _) s \<longleftrightarrow> s \<noteq> [] \<and> 47 \<notin> set s"

definition path_matches :: "seg list \<Rightarrow> pystr list \<Rightarrow> bool" where
  "path_matches p segs \<longleftrightarrow> list_all2 seg_matches p segs"

datatype dispatch_result = Handled pystr | MethodNotAllowed | RouteNotFound

definition dispatch :: "route list \<Rightarrow> http_method \<Rightarrow> pystr list \<Rightarrow> dispatch_result" where
  "dispatch rs m segs =
     (case find (\<lambda>r. r_method r = m \<and> path_matches (r_path r) segs) rs of
        Some r \<Rightarrow> Handled (r_endpoint r)
      | None \<Rightarrow> if list_ex (\<lambda>r. path_matches (r_path r) segs) rs then MethodNotAllowed
                else RouteNotFound)"

text \<open>A request path for a route: its literals, and the given values for its
  parameters in order.\<close>

fun instantiate :: "seg list \<Rightarrow> pystr list \<Rightarrow> pystr list" where
  "instantiate [] args = []"
| "instantiate (Lit l # p) args = l # instantiate p args"
| "instantiate (Param _ # p) [] = []"
| "instantiate (Param _ # p) (a # args) = a # instantiate p args"

fun param_count :: "seg list \<Rightarrow> nat" where
  "param_count [] = 0"
| "param_count (Lit _ # p) = param_count p"
| "param_count (Param _ # p) = Suc (param_count p)"

text \<open>Every literal segment of the table.\<close>

definition reserved :: "route list \<Rightarrow> pystr list" where
  "reserved rs = concat (map (\<lambda>r. concat (map (\<lambda>s. case s of Lit l \<Rightarrow> [l] | Param _ \<Rightarrow> []) (r_path r))) rs)"

text \<open>A parameter value the router can carry: one non-empty segment that is no
  literal of the table (a UUID or a video id).\<close>

definition arg_ok :: "route list \<Rightarrow> pystr \<Rightarrow> bool" where
  "arg_ok rs a \<longleftrightarrow> a \<noteq> [] \<and> 47 \<notin> set a \<and> a \<notin> set (reserved rs)"

text \<open>Route \<open>e\<close> shadows a later route \<open>r\<close> when it takes every request meant
  for \<open>r\<close>: same method, same length, and at each place a parameter or the
  same literal.\<close>

definition shadows :: "route \<Rightarrow> route \<Rightarrow> bool" where
  "shadows e r \<longleftrightarrow> r_method e = r_method r \<and>
     list_all2 (\<lambda>a b. a = b \<or> (case a of Param _ \<Rightarrow> True | Lit _ \<Rightarrow> False)) (r_path e) (r_path r)"

fun no_shadowing :: "route list \<Rightarrow> bool" where
  "no_shadowing [] \<longleftrightarrow> True"
| "no_shadowing (r # rs) \<longleftrightarrow> (\<forall>r' \<in> set rs. \<not> shadows r r') \<and> no_shadowing rs"

subsection \<open>Lemmas\<close>

lemma instantiate_matches:
  "length args = param_count p \<Longrightarrow> (\<forall>a \<in> set args. a \<noteq> [] \<and> 47 \<notin> set a) \<Longrightarrow>
   path_matches p (instantiate p args)"
  by (induction p args rule: instantiate.induct) (simp_all add: path_matches_def)

text \<open>A route that takes the request for an instance of \<open>pr\<close> whose values
  avoid its literals has, at each place, a parameter or \<open>pr\<close>'s segment.\<close>

lemma matches_instance_shadows:
  "list_all2 seg_matches pe (instantiate pr args) \<Longrightarrow> length args = param_count pr \<Longrightarrow>
   (\<forall>a \<in> set args. \<forall>l. Lit l \<in> set pe \<longrightarrow> a \<noteq> l) \<Longrightarrow>
   list_all2 (\<lambda>a b. a = b \<or> (case a of Param _ \<Rightarrow> True | Lit _ \<Rightarrow> False)) pe pr"
proof (induction pr args arbitrary: pe rule: instantiate.induct)
  case (2 l p args)
  then show ?case by (cases pe; case_tac "hd pe") (auto simp: list_all2_Cons2)
next
  case (4 x p a args)
  then show ?case by (cases pe; case_tac "hd pe") (auto simp: list_all2_Cons2)
qed simp_all

lemma reserved_Cons: "set (reserved (e # rs)) = {l. Lit l \<in> set (r_path e)} \<union> set (reserved rs)"
  by (auto simp: reserved_def split: seg.splits)

lemma find_route_instance:
  assumes "no_shadowing rs" "r \<in> set rs" "length args = param_count (r_path r)"
    and "\<forall>a \<in> set args. arg_ok rs a"
  shows "find (\<lambda>x. r_method x = r_method r \<and> path_matches (r_path x) (instantiate (r_path r) args)) rs = Some r"
  using assms
proof (induction rs)
  case (Cons e rs)
  have args: "\<forall>a \<in> set args. a \<noteq> [] \<and> 47 \<notin> set a" using Cons.prems(4) by (simp add: arg_ok_def)
  show ?case
  proof (cases "r_method e = r_method r \<and> path_matches (r_path e) (instantiate (r_path r) args)")
    case hit: True
    show ?thesis
    proof (cases "e = r")
      case False
      with Cons.prems(2) have "r \<in> set rs" by simp
      have "\<forall>a \<in> set args. \<forall>l. Lit l \<in> set (r_path e) \<longrightarrow> a \<noteq> l"
        using Cons.prems(4) by (auto simp: arg_ok_def reserved_Cons)
      with hit Cons.prems(3) have "shadows e r"
        by (auto simp: shadows_def path_matches_def intro: matches_instance_shadows)
      with Cons.prems(1) \<open>r \<in> set rs\<close> show ?thesis by simp
    qed (use hit in simp)
  next
    case False
    then have "e \<noteq> r" using instantiate_matches [OF Cons.prems(3) args] by auto
    with Cons.prems(2) have "r \<in> set rs" by simp
    moreover have "\<forall>a \<in> set args. arg_ok rs a"
      using Cons.prems(4) by (auto simp: arg_ok_def reserved_Cons)
    ultimately show ?thesis using Cons.IH Cons.prems(1,3) False by auto
  qed
qed simp

text \<open>In a table where no route shadows a later one, every route receives
  every request for it.\<close>

lemma dispatch_route_instance:
  "no_shadowing rs \<Longrightarrow> r \<in> set rs \<Longrightarrow> length args = param_count (r_path r) \<Longrightarrow>
   \<forall>a \<in> set args. arg_ok rs a \<Longrightarrow>
   dispatch rs (r_method r) (instantiate (r_path r) args) = Handled (r_endpoint r)"
  by (simp add: dispatch_def find_route_instance)

subsection \<open>Properties\<close>

text \<open>Claim C15. No route of the application shadows another: every request for a declared
  route whose parameter values are single non-empty segments other than the table's
  literals (UUIDs, video ids) reaches that route's handler. In particular
  GET /api/modes/active reaches get_active_mode and not get_mode, since modes.py
  declares /active before /{mode_id}.\<close>
theorem app_routes_dispatch:
  assumes "r \<in> set app_routes" "length args = param_count (r_path r)"
    and "\<forall>a \<in> set args. arg_ok app_routes a"
  shows "dispatch app_routes (r_method r) (instantiate (r_path r) args) = Handled (r_endpoint r)"
proof -
  have "no_shadowing app_routes" by code_simp
  from dispatch_route_instance [OF this assms] show ?thesis .
qed

theorem app_routes_dispatch_witness:
  "dispatch app_routes GET [py ''api'', py ''modes'', py ''5f0c2a8e-0d5b-4c1e-9a7b-2f4e6d8c1a3b''] =
     Handled (py ''get_mode'') \<and>
   dispatch app_routes GET [py ''api'', py ''modes'', py ''active''] = Handled (py ''get_active_mode'')"
proof -
  let ?r = "mk_route GET [lit ''api'', lit ''modes'', Param (py ''mode_id'')] ''get_mode''"
  let ?s = "mk_route GET [lit ''api'', lit ''modes'', lit ''active''] ''get_active_mode''"
  have m: "?r \<in> set app_routes" "?s \<in> set app_routes" by code_simp+
  have l: "length [py ''5f0c2a8e-0d5b-4c1e-9a7b-2f4e6d8c1a3b''] = param_count (r_path ?r)"
    "length [] = param_count (r_path ?s)"
    by (simp_all add: mk_route_def lit_def)
  have a: "\<forall>a \<in> set [py ''5f0c2a8e-0d5b-4c1e-9a7b-2f4e6d8c1a3b'']. arg_ok app_routes a" by code_simp
  have b: "\<forall>a \<in> set []. arg_ok app_routes a" by simp
  from app_routes_dispatch [OF m(1) l(1) a] app_routes_dispatch [OF m(2) l(2) b] show ?thesis
    by (simp add: mk_route_def lit_def)
qed

end
