(* ===== verification/Utils.thy ===== *)
theory Utils
  imports YouTube
begin

text \<open>
  src/backend/app/utils/__init__.py: \<open>format_duration\<close>, which writes a
  number of seconds as \<open>42s\<close>, \<open>3m 5s\<close> or \<open>2h 7m\<close>, and
  \<open>truncate_text\<close>, which cuts a text to a length with an ellipsis. No
  module of the backend imports them. Python's \<open>//\<close> and \<open>%\<close> round
  towards minus infinity, as \<open>div\<close> and \<open>mod\<close> on \<open>int\<close> do, and
  \<open>text[:k]\<close> counts a negative \<open>k\<close> from the end, as \<open>py_slice_end\<close>
  does. The lemmas read a formatted duration back with \<open>duration_group\<close>,
  the scanner of the ISO-8601 parser, and bound the truncated text.
\<close>

definition format_duration :: "int \<Rightarrow> pystr" where
  "format_duration seconds =
     (if seconds < 60 then show_int seconds @ py ''s''
      else if seconds < 3600 then
        (let minutes = seconds div 60; remaining_seconds = seconds mod 60
         in if remaining_seconds \<noteq> 0
            then show_int minutes @ py ''m '' @ show_int remaining_seconds @ py ''s''
            else show_int minutes @ py ''m'')
      else
        (let hours = seconds div 3600; minutes = seconds mod 3600 div 60
         in if minutes \<noteq> 0 then show_int hours @ py ''h '' @ show_int minutes @ py ''m''
            else show_int hours @ py ''h''))"

text \<open>\<open>s[:k]\<close>: the first \<open>k\<close> characters, or all but the last \<open>-k\<close> when
  \<open>k\<close> is negative, clamped at the empty string.\<close>

definition py_slice_end :: "pystr \<Rightarrow> int \<Rightarrow> pystr" where
  "py_slice_end s k = (if 0 \<le> k then take (nat k) s else take (nat (int (length s) + k)) s)"

definition truncate_text :: "pystr \<Rightarrow> int \<Rightarrow> pystr" where
  "truncate_text text max_length =
     (if int (length text) \<le> max_length then text
      else py_slice_end text (max_length - 3) @ py ''...'')"

text \<open>The reader of a formatted duration: the optional groups \<open>Nh\<close>,
  \<open>Nm\<close>, \<open>Ns\<close>, each followed by an optional space.\<close>

definition skip_space :: "pystr \<Rightarrow> pystr" where
  "skip_space r = (if r \<noteq> [] \<and> hd r = 32 then tl r else r)"

definition read_duration_text :: "pystr \<Rightarrow> nat" where
  "read_duration_text s =
     (let (h, r1) = duration_group 104 s;
          (m, r2) = duration_group 109 (skip_space r1);
          (sec, r3) = duration_group 115 (skip_space r2)
      in h * 3600 + m * 60 + sec)"

subsection \<open>Lemmas\<close>

lemma show_int_nat [simp]: "show_int (int k) = show_nat k"
  by (simp add: show_int_def)

lemma unit_letters: "\<not> is_digit 104" "\<not> is_digit 109" "\<not> is_digit 115"
  by (simp_all add: is_digit_def)

lemma skip_space_show_nat [simp]: "skip_space (show_nat k @ r) = show_nat k @ r"
proof -
  obtain d ds where "show_nat k = d # ds" by (cases "show_nat k") auto
  moreover have "is_digit d" using show_nat_digits [of d k] calculation by simp
  ultimately show ?thesis by (simp add: skip_space_def is_digit_def)
qed

lemma skip_space_simps [simp]: "skip_space [] = []" "skip_space (32 # r) = r"
  by (simp_all add: skip_space_def)

lemma read_show_unit:
  "c \<in> {104, 109, 115} \<Longrightarrow>
   duration_group l (show_nat k @ [c]) = (if c = l then (k, []) else (0, show_nat k @ [c]))"
  "c \<in> {104, 109, 115} \<Longrightarrow>
   duration_group l (show_nat k @ c # 32 # r) =
     (if c = l then (k, 32 # r) else (0, show_nat k @ c # 32 # r))"
  using duration_group_show [of c l k "[]"] duration_group_show [of c l k "32 # r"] unit_letters
  by auto

lemma read_duration_text_simps:
  "read_duration_text (show_nat s @ [115]) = s"
  "read_duration_text (show_nat m @ [109]) = m * 60"
  "read_duration_text (show_nat m @ 109 # 32 # show_nat s @ [115]) = m * 60 + s"
  "read_duration_text (show_nat h @ [104]) = h * 3600"
  "read_duration_text (show_nat h @ 104 # 32 # show_nat m @ [109]) = h * 3600 + m * 60"
  by (simp_all add: read_duration_text_def read_show_unit duration_group_Nil)

lemma int_div_mod_nat:
  "int n div int k = int (n div k)" "int n mod int k = int (n mod k)"
  by (simp_all add: zdiv_int zmod_int)

text \<open>Claim C39: format_duration is read back to the number of seconds below an hour,
  and to the whole minute from an hour on, where it drops the seconds: each branch writes
  its quotient and remainder in the right unit and leaves out exactly the zero parts.\<close>

theorem format_duration_roundtrip:
  "read_duration_text (format_duration (int n)) = (if n < 3600 then n else n - n mod 60)"
proof -
  have d: "int n div 60 = int (n div 60)" "int n mod 60 = int (n mod 60)"
    "int n div 3600 = int (n div 3600)" "int n mod 3600 div 60 = int (n mod 3600 div 60)"
    using int_div_mod_nat [of n 60] int_div_mod_nat [of n 3600]
      int_div_mod_nat [of "n mod 3600" 60] by simp_all
  consider "n < 60" | "60 \<le> n" "n < 3600" | "3600 \<le> n" by linarith
  then show ?thesis
  proof cases
    case 1
    then show ?thesis by (simp add: format_duration_def py_def read_duration_text_simps)
  next
    case 2
    have "n = n div 60 * 60 + n mod 60" by simp
    with 2 show ?thesis
      by (cases "n mod 60 = 0") (simp_all add: format_duration_def Let_def d py_def read_duration_text_simps)
  next
    case 3
    have "n - n mod 60 = n div 3600 * 3600 + n mod 3600 div 60 * 60"
      using hms_split [of n] by linarith
    with 3 show ?thesis
      by (cases "n mod 3600 div 60 = 0") (simp_all add: format_duration_def Let_def d py_def read_duration_text_simps)
  qed
qed

lemma length_py_slice_end:
  "length (py_slice_end s k) = (if 0 \<le> k then min (length s) (nat k) else nat (int (length s) + k))"
  by (simp add: py_slice_end_def)

text \<open>Claim C40: for a limit of at least 3, truncate_text returns a text of exactly
  min(len(text), max_length) characters that starts with the first max_length - 3
  characters of the input.\<close>

theorem truncate_text_bounded:
  assumes "3 \<le> max_length"
  shows "int (length (truncate_text t max_length)) = min (int (length t)) max_length \<and>
         take (nat max_length - 3) (truncate_text t max_length) = take (nat max_length - 3) t"
proof (cases "int (length t) \<le> max_length")
  case True
  then show ?thesis by (simp add: truncate_text_def)
next
  case False
  have k: "nat (max_length - 3) = nat max_length - 3" using assms by simp
  have "length (py_slice_end t (max_length - 3)) = nat max_length - 3"
    using False assms by (simp add: length_py_slice_end k)
  moreover have "py_slice_end t (max_length - 3) = take (nat max_length - 3) t"
    using assms by (simp add: py_slice_end_def k)
  ultimately show ?thesis using False assms by (simp add: truncate_text_def py_def)
qed

text \<open>Below a limit of 3, the negative slice makes the result longer than the limit.\<close>

theorem truncate_text_short_limit:
  assumes "max_length < 3" "max_length < int (length t)"
  shows "max_length < int (length (truncate_text t max_length))"
  using assms by (simp add: truncate_text_def py_def)

theorem truncate_text_bounded_witness:
  "3 \<le> (10::int) \<and>
   int (length (truncate_text (py ''hello world!'') 10)) = min (int (length (py ''hello world!''))) 10 \<and>
   truncate_text (py ''hello world!'') 10 = py ''hello w...''"
proof -
  have h: "3 \<le> (10::int)" by simp
  note b = truncate_text_bounded [OF h, of "py ''hello world!''"]
  have e: "truncate_text (py ''hello world!'') 10 = py ''hello w...''"
    by (simp add: truncate_text_def py_slice_end_def py_def)
  from h b e show ?thesis by blast
qed

end
