(* ===== verification/Spec2Isabelle.thy ===== *)
theory Spec2Isabelle
  imports FilterEngine Cache Supervisor FocusEngine Analytics Personalization Feed YouTube Suggestions DemoData Auth Rules YouTubeService Schemas GeminiIO Routes Utils
begin

text \<open>
  \<^bold>\<open>FocusTube: the classification-and-filtering core, verified.\<close>

  FocusTube (src/backend/app) filters YouTube videos against a user's active
  \<^emph>\<open>focus mode\<close>. A request fetches video metadata
  (services/youtube_service.py), classifies each video
  (services/ai_classifier.py: a content cache, then a heuristic keyword
  cascade), and asks the policy engine (services/filter_engine.py) for a
  verdict under the active mode (models/focus_mode.py, routers/modes.py).
  This development models those parts as executable HOL functions and proves
  what makes them correct.

  \<^bold>\<open>Theories.\<close>
  \<^item> \<open>Prelude\<close>: Python strings as lists of code points (\<open>pystr\<close>), string
    literals \<open>py ''...''\<close>, Python's substring test \<open>contains\<close> (proved equal to
    the library's \<open>sublist\<close>), the keyword scan \<open>any_in\<close>, scores as exact
    rationals, \<open>py_error\<close>, and the shared lemma collections.
  \<^item> \<open>PyStr\<close>: \<open>str.lower\<close>, \<open>str.isupper\<close>, \<open>str.upper\<close>, \<open>str(int)\<close> and its inverse,
    the float format \<open>:.2f\<close>.
  \<^item> \<open>Video\<close>: the metadata record built by \<open>_format_video\<close> and
    \<open>_is_short\<close>.
  \<^item> \<open>Classifier\<close>: \<open>_fallback_classification\<close> stage by stage
    (\<open>music_stage\<close>, \<open>music_channel_stage\<close>, \<open>category_stage\<close>,
    \<open>general_stage\<close>, composed by \<open>classify_cascade\<close>; \<open>duration_adjust\<close>,
    \<open>clickbait\<close>, \<open>fallback_classification\<close>), its keyword tables verbatim,
    and the table-driven specification \<open>cascade_spec\<close>.
  \<^item> \<open>FocusMode\<close>: the \<open>FocusMode\<close> row and the nine presets of
    \<open>PRESET_MODES\<close>.
  \<^item> \<open>FilterEngine\<close>: \<open>check_video\<close> with its reason strings, the ordered
    policy \<open>check_spec\<close> and the predicate \<open>admits\<close>.
  \<^item> \<open>Cache\<close>: the \<open>content_cache\<close> table as a map from video id to row,
    \<open>is_expired\<close>, \<open>_get_cached\<close>, \<open>_cache_result\<close>, the post-processing of
    \<open>_classify_with_ai\<close> (the model's answer is an argument, \<open>None\<close> for any
    exception the \<open>try\<close> catches) and \<open>classify_video\<close>, which threads the
    table through and returns \<open>(result, table)\<close>.
  \<^item> \<open>ModeStore\<close>: the handlers of routers/modes.py (\<open>list_modes\<close>,
    \<open>reset_modes\<close>, \<open>create_mode\<close>, \<open>get_active_mode\<close>, \<open>get_mode\<close>,
    \<open>update_mode\<close>, \<open>delete_mode\<close>, \<open>activate_mode\<close>, \<open>lock_session\<close>) on
    the \<open>focus_modes\<close> table, \<open>HTTPException\<close> as \<open>Inl\<close>; a failing
    handler leaves the table unchanged (\<open>get_db\<close> rolls back). A
    \<open>FocusModeUpdate\<close> tells unset, \<open>null\<close> and set fields apart, and a
    \<open>null\<close> on a NOT NULL column is the commit's \<open>IntegrityError\<close>.
  \<^item> \<open>Supervisor\<close>: the handlers composed into the step relation \<open>mstep\<close>,
    reachability \<open>mreach\<close> from the empty table, the invariant
    \<open>store_inv\<close> and the lock properties.
  \<^item> \<open>FocusEngine\<close>: the service class of services/focus_engine.py
    (\<open>engine_get_active_mode\<close>, \<open>get_locked_mode\<close> with the lazy expiry
    that commits before a later error, \<open>engine_activate_mode\<close>,
    \<open>engine_lock_session\<close>, \<open>engine_unlock_session\<close>,
    \<open>check_time_limit\<close>, \<open>get_session_stats\<close>), \<open>ValueError\<close> as
    \<open>engine_error\<close>.
  \<^item> \<open>History\<close>: the \<open>watch_history\<close> and \<open>user_feedback\<close> rows and the
    time windows (UTC midnight, the last \<open>n\<close> days).
  \<^item> \<open>Analytics\<close>: every endpoint of routers/analytics.py (\<open>track_watch\<close>,
    \<open>get_history\<close>, \<open>submit_feedback\<close>, \<open>get_analytics_summary\<close>,
    \<open>get_daily_stats\<close>) over those tables.
  \<^item> \<open>Personalization\<close>: services/personalization.py: the counting dicts
    (\<open>bump\<close>, \<open>count_by\<close>), the two outer-join analyses,
    \<open>get_user_preferences\<close>, \<open>adjust_scores\<close> and the stable re-ranking
    \<open>get_personalized_ranking\<close>.
  \<^item> \<open>Feed\<close>: routers/feed.py: \<open>get_feed\<close> (the classify-and-filter loop
    \<open>classify_filter\<close> threading the cache, the demo fallback
    \<open>demo_filter\<close>, the page token through \<open>int()\<close>), \<open>search_feed\<close>,
    \<open>get_video_verdict\<close>, and \<open>check_filter\<close> of routers/filter.py.
  \<^item> \<open>DemoData\<close>: services/demo_data.py: \<open>DEMO_VIDEOS\<close> verbatim,
    \<open>get_demo_videos\<close>, \<open>generate_dynamic_videos\<close> (its range loop is the
    \<open>function\<close> \<open>gen_loop\<close>, terminating by the measure \<open>count - i\<close>, and
    as written, a \<open>while_option\<close> over \<open>(generated, i)\<close>, \<open>gen_for\<close>) and
    \<open>demo_feed_input\<close>, the list the demo path filters; the random draws
    and shuffles are arguments.
  \<^item> \<open>Suggestions\<close>: routers/suggestions.py, \<open>get_suggestions\<close> and
    the reference ranking \<open>suggestions_spec\<close>.
  \<^item> \<open>YouTube\<close>: \<open>_parse_duration\<close> (\<open>re.match\<close> as a left-to-right
    scan) and \<open>_format_video\<close>.
  \<^item> \<open>YouTubeService\<close>: the request side of the service:
    \<open>_make_request\<close>'s result as an argument (\<open>api_response\<close>),
    \<open>_get_videos_details\<close>, \<open>search_videos\<close>, \<open>get_video_details\<close>,
    \<open>get_recommended_videos\<close>, \<open>get_channel_videos\<close>,
    \<open>get_transcript\<close>, and how \<open>GET /feed\<close> chooses between search and
    the chart (\<open>feed_fetch\<close>).
  \<^item> \<open>Schemas\<close>: the pydantic request bodies of schemas/mode.py and
    schemas/feedback.py as bool-valued predicates, the handlers behind them
    (a 422 is \<open>Unprocessable\<close>), the validated step relation \<open>vstep\<close> and
    its reachable tables \<open>vreach\<close>.
  \<^item> \<open>GeminiIO\<close>: the text side of \<open>_classify_with_ai\<close>: the fields
    of the prompt, and how the answer is cut out of a Markdown code fence
    (\<open>extract_json\<close>) before \<open>json.loads\<close> (an argument) and the
    post-processing of Cache (\<open>classify_with_ai_text\<close>).
  \<^item> \<open>Routes\<close>: the route table of main.py and the routers' decorators,
    one definition per decorator (\<open>route_<handler>\<close>) and each router's
    \<open>router.routes\<close> in declaration order, Starlette's first-match dispatch,
    and the check that no route shadows a later one.
  \<^item> \<open>Utils\<close>: utils/__init__.py, \<open>format_duration\<close> and
    \<open>truncate_text\<close>, which no module imports, with Python's floor
    division and negative slicing (\<open>py_slice_end\<close>).
  \<^item> \<open>Auth\<close>: routers/auth.py on the \<open>users\<close> table:
    \<open>create_access_token\<close>, \<open>get_current_user\<close>, \<open>google_callback\<close>,
    \<open>demo_login\<close>, \<open>refresh_token\<close>, \<open>logout\<close> (which only answers; the
    token stays valid until it expires), \<open>get_me\<close> and the query string
    \<open>google_auth_url\<close> builds, with tokens abstract (signed by this
    server or not) and python-jose's expiry check.
  \<^item> \<open>Rules\<close>: the filter-rule endpoints of routers/modes.py and the
    cascade that deletes a mode's rules with it; nothing reads the rules.
  \<^item> this theory: the spec's end-to-end scenarios, classifier then policy,
    and the Travel-preset finding, which spans classifier, cache, policy and
    feed.

  \<^bold>\<open>What the lemmas show.\<close>
  The classifier always yields a valid \<open>VideoClassification\<close> (scores in
  \<open>[0, 1]\<close>, category among the seven it emits) or fails with
  \<open>AttributeError\<close> exactly when the channel title is \<open>None\<close>; its cascade
  equals the first match of the declarative table, in which, against the
  docstring's priority order, a general-entertainment word never stops the
  cascade (finding); clickbait is a maximum of
  independent signals; short videos get their entertainment floor. The policy
  engine equals the ordered first-failing-check specification and allows
  exactly what passes every check; shorts are checked first; every block
  carries a reason; stricter modes block more; \<open>block_trending\<close> is never
  read. Findings proved as theorems: the emoji clickbait patterns are dead
  code (mojibake holding U+0178, which lower-cased text never holds);
  substring matching puts every title holding "graph" in MUSIC and every
  title holding "coding" in GAMING; an empty blocked keyword blocks every
  video; Scenario A of the spec, for every video it describes, is blocked as
  "is blocked", not "not allowed".
  The cache round trip holds with the 24-hour expiry; \<open>classify_video\<close>
  keeps every cached row valid, writes nothing when it raises, and is
  idempotent. Every table reachable through the mode handlers satisfies
  \<open>store_inv\<close> (distinct ids, locked modes active, one active mode per
  user), so \<open>scalar_one_or_none()\<close> never meets two rows; a lock makes
  every activation before its deadline fail (Scenario D); but reset, delete
  and a shorter re-lock each end a lock early (findings).
  The service's \<open>activate_mode\<close> refines the router's on every table with
  the invariant; its lazy expiry heals expired locks and every service
  operation keeps the invariant; \<open>check_time_limit\<close> meets the spec's
  contract (Scenario E is its witness) and agrees with
  \<open>GET /analytics/daily\<close>. The feed returns at most \<open>max_results\<close> allowed
  items in input order with a consistent count; its demo fallback applies
  exactly the first four policy checks and skips the keyword, language and
  score checks (finding). Preferences are at most
  three distinct categories, each completed at least as often as every
  category left out; the re-ranking is a stable permutation sorted by score,
  and with valid scores it puts every video of a preferred, non-avoided
  category before every video of an avoided, non-preferred one.
  History pages partition the history; the demo page token and the ISO-8601
  duration round-trip; a duration the pattern cannot read (a day or more)
  makes the video a short (finding). No router calls the FocusEngine
  service, so its unlock override and the daily limit are unreachable over
  HTTP (finding). Every lock ends: on a table with the invariant each mode
  can be activated after some time (liveness). Suggestions equal the
  reference ranking; search returns what the feed returns, with the API's
  total. Since every router classifies with the heuristic, a mode whose
  allow-list holds none of its seven categories (the Travel preset) gets an
  empty feed on the API path, and the demo fallback is empty for it too,
  whatever the random draws (findings). A token authenticates its user for
  exactly seven days; the Google callback finds a returning account without
  a new row, inserts one row for a new account, fails only when a new
  account's email is taken, and keeps ids, emails and Google ids unique; the
  demo login has no guard (finding).
  \<open>search_videos\<close> formats each item under its id with the last details
  resource for it; when the details request fails every video is a short,
  and a mode that blocks shorts gets an empty feed (finding); the
  recommended chart hides an API error, so a mode without allowed categories
  gets an empty page instead of the demo fallback (finding). The demo
  generator's loop terminates with one video per index. An update that sets
  a NOT NULL column to null fails at commit, a 500 (finding). Every table reachable
  through the validated handlers keeps \<open>store_inv\<close> and holds only values
  the schemas allow; a lock set through the API ends within eight hours; a
  valid watch event can store a percentage above 100. A fenced answer of the
  model is read as the bare one. Every request for a declared route reaches
  its handler (\<open>/active\<close> is declared before \<open>/{mode_id}\<close>).
  \<open>format_duration\<close> reads back to its seconds below an hour and to the
  minute above; \<open>truncate_text\<close> keeps \<open>min(len(text), max_length)\<close>
  characters when \<open>max_length\<close> is at least 3 and exceeds a smaller
  limit (finding).

  \<^bold>\<open>Modelling choices.\<close> Python \<open>str\<close> is a list of code points; keyword
  tables are copied verbatim, mojibake included. Floats are exact rationals:
  every score the classifier produces is a one-decimal literal or
  \<open>min (d + 0.2) 1\<close>, and the filter only compares literals with mode
  thresholds, where rounding to doubles is monotone, so verdicts agree;
  \<open>:.2f\<close> rounds the exact rational (Python rounds the double). Time is an
  integer count of seconds. \<open>str.isupper\<close> is Python 3.11's table (Unicode
  14.0) in full; \<open>str.upper\<close> is exact on ASCII, Latin-1 and every code point
  whose upper case is ASCII, which is all the category check of the Gemini
  path can see; \<open>str.lower\<close> follows Python on ASCII, Latin-1 and the
  letters whose lower case reaches them, and keeps other code points, which
  lower-case outside ASCII and match no keyword either way. The settings
  are the defaults of config.py: the token lifetime is its 10080 minutes, and
  a value set in the environment (\<open>JWT_EXPIRE_MINUTES\<close>) is not modelled.

  \<^bold>\<open>What is not modelled.\<close> The Gemini call itself (its answer is an
  argument of \<open>classify_video\<close>, and no router asks for it), the YouTube
  HTTP requests (their result is an argument, \<open>api_response\<close>; the query,
  page token and \<open>maxResults\<close> only shape the request), the thumbnails,
  statistics and publication dates of \<open>_format_video\<close>, which nothing reads,
  the transcript library (its result is an argument), the random draws and
  shuffles of the demo data (arguments;
  the title templates and word lists are not copied, since no other part of
  the backend reads a generated title), the Google OAuth
  requests (their result is an argument), JWT signatures (a token is either
  signed by this server or rejected; forging one is outside the model), the
  FastAPI and database set-up (the CORS middleware and lifespan of main.py,
  config.py apart from the token lifetime, database.py), the prompt text
  itself (only the values it is formatted with), and the database engine: every
  table is a list or map in table order, and each handler is atomic, as
  \<open>get_db\<close> commits or rolls back the whole request. The response
  schemas only shape the JSON the handlers return. The one loop that is
  not over a list, the \<open>range\<close> loop of the demo generator, is a
  \<open>function\<close> with a measure, and its \<open>while_option\<close> form is proved to
  stop; every operation is a total function and no fuel is needed.
\<close>

definition scenario_a :: video where
  "scenario_a =
     \<lparr>video_id = py ''A'', title = py ''OFFICIAL MUSIC VIDEO - Song Name'', description = [],
      channel_title = Some (py ''Artist''), tags = [], duration_seconds = 240,
      is_short = is_short_video 240 (py ''OFFICIAL MUSIC VIDEO - Song Name''), language = None\<rparr>"

definition scenario_b :: video where
  "scenario_b =
     \<lparr>video_id = py ''B'', title = py ''Python Tutorial for Beginners'', description = [],
      channel_title = Some (py ''CS Dojo''), tags = [py ''python'', py ''programming''],
      duration_seconds = 3600,
      is_short = is_short_video 3600 (py ''Python Tutorial for Beginners''), language = None\<rparr>"

lemma fallback_scenario_a:
  "fallback_classification scenario_a =
     Inr \<lparr>category = MUSIC, confidence_score = 6/10, entertainment_score = 8/10,
          depth_score = 2/10, clickbait_score = 5/10\<rparr>"
  using fallback_Inr [of scenario_a "py ''Artist''"]
  by (simp add: scenario_a_def eval_classifier classifier_tables pystr_defs)

lemma fallback_scenario_b:
  "fallback_classification scenario_b =
     Inr \<lparr>category = EDUCATION, confidence_score = 6/10, entertainment_score = 2/10,
          depth_score = 1, clickbait_score = 1/10\<rparr>"
  using fallback_Inr [of scenario_b "py ''CS Dojo''"]
  by (simp add: scenario_b_def eval_classifier classifier_tables pystr_defs)

text \<open>
  Claim C28: Scenario A of the spec, for every video it describes: a video
  that is not a short, lasts at least the study preset's three minutes and
  holds a music keyword in its title, tags, description or channel (an
  "official music video") is classified MUSIC, and the study preset blocks it
  with the blocked-category reason, since MUSIC is in its blocked list and
  that check precedes the allow-list check.
\<close>

theorem scenario_a_study_blocks_music:
  assumes ch: "channel_title v = Some ch"
    and kw: "any_in music_keywords (classifier_text v (lower ch))"
    and long: "\<not> is_short v" "180 \<le> duration_seconds v"
    and c: "fallback_classification v = Inr c"
  shows "category c = MUSIC \<and>
         check_video (preset_study m u) v c =
           Block (py ''Category 'MUSIC' is blocked in this focus mode'')"
proof -
  have cat: "category c = MUSIC" using music_keyword_priority [OF ch kw c] .
  then show ?thesis
    using long by (simp add: check_video_def preset_study_def new_mode_def
        category_blocked_reason_def pystr_defs)
qed

theorem scenario_a_study_blocks_music_witness:
  "fallback_classification scenario_a =
     Inr \<lparr>category = MUSIC, confidence_score = 6/10, entertainment_score = 8/10,
          depth_score = 2/10, clickbait_score = 5/10\<rparr> \<and>
   check_video (preset_study 1 1) scenario_a
     \<lparr>category = MUSIC, confidence_score = 6/10, entertainment_score = 8/10,
      depth_score = 2/10, clickbait_score = 5/10\<rparr> =
     Block (py ''Category 'MUSIC' is blocked in this focus mode'')"
proof -
  have ch: "channel_title scenario_a = Some (py ''Artist'')" by (simp add: scenario_a_def)
  have kw: "any_in music_keywords (classifier_text scenario_a (lower (py ''Artist'')))"
    by (simp add: scenario_a_def classifier_text_def classifier_tables pystr_defs)
  have v: "\<not> is_short scenario_a" "180 \<le> duration_seconds scenario_a"
    by (simp_all add: scenario_a_def is_short_video_def pystr_defs)
  show ?thesis
    using scenario_a_study_blocks_music [OF ch kw v fallback_scenario_a, of 1 1] fallback_scenario_a
    by simp
qed

text \<open>
  Scenario B of the spec: a one-hour Python tutorial is classified
  EDUCATION with clickbait 0.1 and the deep-work preset allows it.
\<close>

theorem scenario_b_deep_work_allows_tutorial:
  "\<exists>c. fallback_classification scenario_b = Inr c \<and> category c = EDUCATION \<and>
       clickbait_score c = 1/10 \<and> check_video (preset_deep_work m u) scenario_b c = Allow"
proof -
  have v: "is_short scenario_b = False" "duration_seconds scenario_b = 3600"
    "language scenario_b = None"
    by (simp_all add: scenario_b_def is_short_video_def pystr_defs)
  have "check_video (preset_deep_work m u) scenario_b
     \<lparr>category = EDUCATION, confidence_score = 6/10, entertainment_score = 2/10,
      depth_score = 1, clickbait_score = 1/10\<rparr> = Allow"
    by (simp add: v check_video_def preset_deep_work_def new_mode_def language_blocked_def
        pystr_defs)
  then show ?thesis by (simp add: fallback_scenario_b)
qed

text \<open>
  Scenario C of the spec: a 45 s prank video with a clickbait title
  gets clickbait 0.7 and entertainment 0.8 (and category GAMING, since
  \<open>rank\<close> in \<open>prank\<close> is a gaming keyword checked before comedy), and the
  relax preset blocks it on the shorts check, before clickbait is evaluated.
\<close>

theorem scenario_c_relax_blocks_short:
  "\<exists>c. fallback_classification prank_short = Inr c \<and> category c = GAMING \<and>
       7/10 \<le> clickbait_score c \<and> 7/10 \<le> entertainment_score c \<and>
       is_short prank_short = is_short_video (duration_seconds prank_short) (title prank_short) \<and>
       check_video (preset_relax m u) prank_short c = Block shorts_reason"
proof -
  have v: "is_short prank_short = True" "duration_seconds prank_short = 45"
    by (simp_all add: prank_short_def)
  have "is_short_video 45 (title prank_short)"
    by (simp add: is_short_video_def)
  with v show ?thesis
    by (simp add: fallback_prank_short check_video_def preset_relax_def new_mode_def)
qed

lemma travel_disjoint:
  "allowed_categories (preset_travel mid uid) \<noteq> [] \<and>
   set (allowed_categories (preset_travel mid uid)) \<inter> set heuristic_categories = {}"
  by (simp add: preset_travel_def new_mode_def heuristic_categories_def pystr_defs py_def)

text \<open>Claim C29. The feed cannot serve a mode whose allow-list holds none of the seven
  categories the heuristic emits, such as the Travel preset (TRAVEL_EVENTS, PEOPLE_BLOGS,
  FILM_ANIMATION): every router classifies with use_ai=False, so as long as the cache
  holds only heuristic categories, GET /feed returns no items and counts every fetched
  video as filtered.\<close>
theorem disjoint_allow_list_empties_feed:
  assumes m: "get_active_mode uid st = Inr m"
    and allow: "allowed_categories m \<noteq> []" "set (allowed_categories m) \<inter> set heuristic_categories = {}"
    and db: "heuristic_cache db"
    and h: "get_feed uid maxr tok (Fetched vs t) demo now st db = (Inr (Inr r), db')"
    and pos: "0 < maxr"
  shows "fr_items r = [] \<and> fr_filtered_count r = length vs"
proof -
  obtain res db1 where cf: "classify_filter m maxr now db vs [] 0 = (res, db1)" by fastforce
  with h m obtain items fc where res: "res = Inr (items, fc)"
    and r: "fr_items r = items" "fr_filtered_count r = fc"
    by (cases res) (auto simp: get_feed_def)
  have "items = []"
    using classify_filter_heuristic [OF cf [unfolded res] db] allow
    by (cases items) (auto simp: disjoint_iff)
  moreover from classify_filter_Inr [OF cf [unfolded res]] pos \<open>items = []\<close>
  have "fc = length vs" by auto
  ultimately show ?thesis by (simp add: r)
qed

theorem disjoint_allow_list_empties_feed_witness:
  "\<exists>r db'. allowed_categories ((preset_travel 0 1)\<lparr>is_active := True\<rparr>) \<noteq> [] \<and>
     set (allowed_categories ((preset_travel 0 1)\<lparr>is_active := True\<rparr>)) \<inter> set heuristic_categories = {} \<and>
     heuristic_cache Map.empty \<and>
     get_feed 1 5 None (Fetched [graph_lecture] None) [] 0 travel_store Map.empty = (Inr (Inr r), db') \<and>
     fr_items r = [] \<and> fr_filtered_count r = 1"
proof -
  have d: "allowed_categories ((preset_travel 0 1)\<lparr>is_active := True\<rparr>) \<noteq> []"
    "set (allowed_categories ((preset_travel 0 1)\<lparr>is_active := True\<rparr>)) \<inter> set heuristic_categories = {}"
    using travel_disjoint [of 0 1] by simp_all
  have e: "heuristic_cache Map.empty" by (simp add: heuristic_cache_def)
  have "\<exists>r db'. get_feed 1 5 None (Fetched [graph_lecture] None) [] 0 travel_store Map.empty = (Inr (Inr r), db')"
  proof -
    have "check_video ((preset_travel 0 1)\<lparr>is_active := True\<rparr>) graph_lecture sample_class \<noteq> Allow"
      by (simp add: check_video_def preset_travel_def new_mode_def sample_class_def graph_lecture_def
          pystr_defs)
    then show ?thesis
      by (simp add: get_feed_def travel_store_active [unfolded One_nat_def] classify_graph_lecture)
  qed
  then obtain r db' where h:
    "get_feed 1 5 None (Fetched [graph_lecture] None) [] 0 travel_store Map.empty = (Inr (Inr r), db')"
    by blast
  from disjoint_allow_list_empties_feed [OF travel_store_active d e h] d e h show ?thesis by auto
qed

end
